(* ===== verification/Rfid_Prelude.thy ===== *)
theory Rfid_Prelude
  imports Main "HOL-Library.Word" "HOL-Library.Monad_Syntax"
begin

unbundle bit_operations_syntax

text \<open>
  Shared vocabulary of the development.

  The C code is embedded as functions into \<open>'a option\<close>.  A value \<open>Some\<close> is a run that returns;
  \<open>None\<close> is a run that has no defined result in C: it reads or writes outside of an object, it uses
  a variable that was never written, it divides by zero, or one of its polling loops never ends.
  The state that a function changes (a handle, a buffer behind a pointer, the hardware) is passed
  in and returned, and the \<open>do\<close> notation of the option monad sequences the calls.  C's \<open>int\<close> return
  codes are values of type \<^typ>\<open>int\<close> with the errno numbers of Linux; bytes and unsigned integers
  are words of their width, so that arithmetic on them wraps as it does in C.
\<close>

section \<open>Types\<close>

type_synonym u8 = "8 word"
type_synonym u16 = "16 word"
type_synonym u32 = "32 word"
type_synonym u64 = "64 word"
type_synonym bytes = "u8 list"

section \<open>Error numbers\<close>

abbreviation (input) EPERM :: int where "EPERM \<equiv> 1"
abbreviation (input) EIO :: int where "EIO \<equiv> 5"
abbreviation (input) E2BIG :: int where "E2BIG \<equiv> 7"
abbreviation (input) EACCES :: int where "EACCES \<equiv> 13"
abbreviation (input) ENODEV :: int where "ENODEV \<equiv> 19"
abbreviation (input) EINVAL :: int where "EINVAL \<equiv> 22"
abbreviation (input) ENOTSUP :: int where "ENOTSUP \<equiv> 95"
abbreviation (input) ETIMEDOUT :: int where "ETIMEDOUT \<equiv> 110"

section \<open>Memory accesses\<close>

text \<open>
  An array is a list of fixed length.  Every access names the object it goes to and is \<^const>\<open>None\<close>
  outside of it.
\<close>

definition get_at :: "'a list \<Rightarrow> nat \<Rightarrow> 'a option" where
  "get_at xs i = (if i < length xs then Some (xs ! i) else None)"

definition put_at :: "'a list \<Rightarrow> nat \<Rightarrow> 'a \<Rightarrow> 'a list option" where
  "put_at xs i v = (if i < length xs then Some (xs[i := v]) else None)"

definition get_slice :: "'a list \<Rightarrow> nat \<Rightarrow> nat \<Rightarrow> 'a list option" where
  "get_slice xs off n = (if off + n \<le> length xs then Some (take n (drop off xs)) else None)"

definition put_slice :: "'a list \<Rightarrow> nat \<Rightarrow> 'a list \<Rightarrow> 'a list option" where
  "put_slice xs off ys =
     (if off + length ys \<le> length xs
      then Some (take off xs @ ys @ drop (off + length ys) xs) else None)"

definition memset0 :: "bytes \<Rightarrow> nat \<Rightarrow> bytes option" where
  "memset0 xs n = (if n \<le> length xs then Some (replicate n 0 @ drop n xs) else None)"

text \<open>An assignment through a pointer that may not happen: the variable keeps its old content.\<close>

definition keep :: "'a option \<Rightarrow> 'a option \<Rightarrow> 'a option" where
  "keep old new = (case new of None \<Rightarrow> old | Some x \<Rightarrow> Some x)"

text \<open>The bytes of a 32-bit integer in memory on the little-endian hosts the library supports.\<close>

definition u32_le_bytes :: "u32 \<Rightarrow> bytes" where
  "u32_le_bytes x = [ucast x, ucast (drop_bit 8 x), ucast (drop_bit 16 x), ucast (drop_bit 24 x)]"

definition u32_of_le :: "bytes \<Rightarrow> u32" where
  "u32_of_le bs = foldr (\<lambda>b acc. push_bit 8 acc OR ucast b) bs 0"

text \<open>
  The value of an option is a pointer to bytes, \<^const>\<open>None\<close> when it is null; reading an integer
  through it needs four bytes.
\<close>

definition load_u32 :: "bytes option \<Rightarrow> u32 option" where
  "load_u32 p = do { bs \<leftarrow> p; b \<leftarrow> get_slice bs 0 4; Some (u32_of_le b) }"

section \<open>Automation\<close>

named_theorems mem_defs "definitions of the memory accesses"
named_theorems run_simps "how a successful run of a sequence decomposes"

declare get_at_def [mem_defs] put_at_def [mem_defs] get_slice_def [mem_defs]
  put_slice_def [mem_defs] memset0_def [mem_defs]

declare bind_eq_Some_conv [run_simps] bind_eq_None_conv [run_simps]

lemma get_at_Some [simp]: "i < length xs \<Longrightarrow> get_at xs i = Some (xs ! i)"
  by (simp add: get_at_def)

lemma get_at_SomeD: "get_at xs i = Some x \<Longrightarrow> i < length xs \<and> x = xs ! i"
  by (auto simp: get_at_def split: if_splits)

lemma put_at_length: "put_at xs i v = Some ys \<Longrightarrow> length ys = length xs"
  by (auto simp: put_at_def split: if_splits)

lemma put_at_Some_iff: "put_at xs i v = Some ys \<longleftrightarrow> i < length xs \<and> ys = xs[i := v]"
  by (auto simp: put_at_def)

lemma get_slice_length: "get_slice xs off n = Some ys \<Longrightarrow> length ys = n"
  by (auto simp: get_slice_def split: if_splits)

lemma get_slice_whole [simp]: "get_slice xs 0 (length xs) = Some xs"
  by (simp add: get_slice_def)

lemma put_slice_length: "put_slice xs off ys = Some zs \<Longrightarrow> length zs = length xs"
  by (auto simp: put_slice_def split: if_splits)

lemma put_slice_fits: "put_slice xs off ys = Some zs \<Longrightarrow> off + length ys \<le> length xs"
  by (auto simp: put_slice_def split: if_splits)

lemma get_put_slice:
  "put_slice xs off ys = Some zs \<Longrightarrow> get_slice zs off (length ys) = Some ys"
  by (auto simp: put_slice_def get_slice_def split: if_splits)

lemma put_slice_prefix:
  "put_slice xs off ys = Some zs \<Longrightarrow> take off zs = take off xs"
  by (auto simp: put_slice_def split: if_splits)

lemma put_slice_take:
  "put_slice xs off ys = Some zs \<Longrightarrow> take (off + length ys) zs = take off xs @ ys"
  by (auto simp: put_slice_def split: if_splits)

lemma put_slice_nth:
  "put_slice xs 0 ys = Some zs \<Longrightarrow> i < length ys \<Longrightarrow> zs ! i = ys ! i"
  by (auto simp: put_slice_def nth_append split: if_splits)

lemma memset0_length: "memset0 xs n = Some ys \<Longrightarrow> length ys = length xs"
  by (auto simp: memset0_def split: if_splits)

lemmas mem_length = put_at_length put_slice_length memset0_length get_slice_length

lemma keep_simps [simp]: "keep old None = old" "keep old (Some x) = Some x"
  by (simp_all add: keep_def)

lemma bind_Some_pair [simp]: "Option.bind (Some (a, b)) f = f (a, b)"
  by simp

lemma length_u32_le_bytes [simp]: "length (u32_le_bytes x) = 4"
  by (simp add: u32_le_bytes_def)

lemma bit_u8_high [simp]: "8 \<le> n \<Longrightarrow> \<not> bit (x :: u8) n"
  using bit_imp_le_length [of x n] by auto

lemma u32_le_roundtrip: "u32_le_bytes (u32_of_le [a, b, c, d]) = [a, b, c, d]"
  unfolding u32_le_bytes_def u32_of_le_def
  by (auto intro!: bit_word_eqI simp: bit_simps)

lemma u32_of_le_bytes [simp]: "u32_of_le (u32_le_bytes x) = x"
proof (rule bit_word_eqI)
  fix n assume n: "n < LENGTH(32)"
  consider "n < 8" | "8 \<le> n" "n < 16" | "16 \<le> n" "n < 24" | "24 \<le> n" by linarith
  then show "bit (u32_of_le (u32_le_bytes x)) n = bit x n"
    using n by cases (simp_all add: u32_le_bytes_def u32_of_le_def bit_simps, arith+)
qed

lemma load_u32_bytes [simp]: "load_u32 (Some (u32_le_bytes x)) = Some x"
  by (simp add: load_u32_def get_slice_def)

lemma take_4_conv: "4 \<le> length xs \<Longrightarrow> take 4 xs = [xs ! 0, xs ! 1, xs ! 2, xs ! 3]"
  by (auto simp: list_eq_iff_nth_eq less_Suc_eq numeral_eq_Suc nth_Cons split: nat.splits)

section \<open>Bits of bytes\<close>

lemma and_pow2_iff: "x AND push_bit n 1 \<noteq> 0 \<longleftrightarrow> bit (x :: u8) n" if "n < 8"
proof -
  have "x AND push_bit n 1 = (if bit x n then push_bit n 1 else 0)"
    using that by (intro bit_word_eqI) (auto simp: bit_simps)
  with that show ?thesis by (auto simp: bit_eq_iff bit_simps)
qed

lemma and_pow2_consts:
  "(x AND 1 = 0) = (\<not> bit (x :: u8) 0)" "(x AND 2 = 0) = (\<not> bit x 1)"
  "(x AND 4 = 0) = (\<not> bit x 2)" "(x AND 8 = 0) = (\<not> bit x 3)"
  using and_pow2_iff [of 0 x] and_pow2_iff [of 1 x] and_pow2_iff [of 2 x] and_pow2_iff [of 3 x]
  by auto

lemma bit_nibble: "bit (15 :: int) k \<longleftrightarrow> k < 4" "bit (240 :: int) k \<longleftrightarrow> 4 \<le> k \<and> k < 8"
proof -
  show low: "bit (15 :: int) k \<longleftrightarrow> k < 4" for k
    using bit_mask_iff [of 4 k, where 'a = int] by (simp add: mask_eq_exp_minus_1)
  have "bit (240 :: int) k \<longleftrightarrow> bit (push_bit 4 (15 :: int)) k" by simp
  also have "\<dots> \<longleftrightarrow> 4 \<le> k \<and> k < 8"
    unfolding bit_push_bit_iff low by auto
  finally show "bit (240 :: int) k \<longleftrightarrow> 4 \<le> k \<and> k < 8" .
qed

lemma bit_byte: "bit (255 :: int) k \<longleftrightarrow> k < 8"
  using bit_mask_iff [of 8 k, where 'a = int] by (simp add: mask_eq_exp_minus_1)

lemma bit_four: "bit (4 :: int) k \<longleftrightarrow> k = 2"
  using bit_exp_iff [of 2 k, where 'a = int] by auto

lemma word_eq_low3:
  assumes "(x :: u8) < 8" "\<And>j. j < 3 \<Longrightarrow> bit x j = bit y j" "y < 8"
  shows "x = y"
proof (rule bit_word_eqI)
  fix n assume "n < LENGTH(8)"
  have high: "\<not> bit z n" if "z < (8 :: u8)" "3 \<le> n" for z
  proof -
    have "unat z = take_bit 3 (unat z)"
      using that(1) by (simp add: word_less_nat_alt take_bit_nat_eq_self)
    then have "z = take_bit 3 z"
      by (metis unsigned_take_bit_eq unsigned_word_eqI)
    then show ?thesis using that(2) by (metis bit_take_bit_iff not_less)
  qed
  show "bit x n = bit y n" using assms high by (cases "n < 3") auto
qed

lemma unat_of_nat_small: "n < 2 ^ LENGTH('a) \<Longrightarrow> unat (of_nat n :: 'a::len word) = n"
  by (simp add: unat_of_nat)

lemma uint_of_nat_small: "n < 2 ^ LENGTH('a) \<Longrightarrow> uint (of_nat n :: 'a::len word) = int n"
  by (simp add: unsigned_of_nat take_bit_nat_eq_self)

lemma unat_u8_less: "unat (a :: u8) < 256"
  using unsigned_less [of a, where 'a = nat] by simp

lemma uint_ucast_u8_u32: "uint (ucast (a :: u8) :: u32) = int (unat a)"
proof -
  have "unat (ucast a :: u32) = unat a"
    using unat_u8_less [of a] by (simp add: unsigned_ucast_eq take_bit_nat_eq_self)
  then show ?thesis unfolding uint_nat by simp
qed

lemma unat_ucast_u8_u32 [simp]: "unat (ucast (a :: u8) :: u32) = unat a"
  using unat_u8_less [of a] by (simp add: unsigned_ucast_eq take_bit_nat_eq_self)

lemma unat_ucast_u32_u8: "unat (ucast (x :: u32) :: u8) = unat x mod 256"
  by (simp add: unsigned_ucast_eq take_bit_eq_mod)

lemma sint_of_nat_small: "n < 2 ^ 63 \<Longrightarrow> sint (of_nat n :: u64) = int n"
  by (simp add: sint_uint unsigned_of_nat take_bit_nat_eq_self signed_take_bit_int_eq_self)

lemma or_absorb_and: "x AND b = b \<Longrightarrow> x OR b = x" for x :: u8
  by (auto simp: bit_eq_iff bit_simps)

lemma and_not_absorb: "x AND b = 0 \<Longrightarrow> x AND NOT b = x" for x :: u8
  by (auto simp: bit_eq_iff bit_simps)

lemma mask_absorb: "x AND m = b \<Longrightarrow> (x AND NOT m) OR (b AND m) = x" for x :: u8
  by (auto simp: bit_eq_iff bit_simps)

lemma and_ff [simp]: "x AND 0xff = x" for x :: u8
proof -
  have "(0xff :: u8) = - 1" by simp
  then show ?thesis by (simp only: and.right_neutral)
qed

text \<open>Facts on words in a range, by evaluation for all of them.\<close>

lemma word_range:
  fixes r :: "'a::len word"
  assumes "m \<le> unat r" "unat r < n" "list_all P (map of_nat [m..<n])"
  shows "P r"
proof -
  have "r = of_nat (unat r)" "unat r \<in> set [m..<n]" using assms(1,2) by simp_all
  then have "r \<in> set (map of_nat [m..<n])" unfolding set_map by (rule image_eqI)
  then show ?thesis using assms(3) by (auto simp only: list_all_iff)
qed

lemma u8_below:
  assumes "unat (r :: u8) < n" "list_all P (map of_nat [0..<n])"
  shows "P r"
  using assms by (rule word_range [OF le0])

lemmas u8_all = u8_below [OF unat_u8_less]

end
