(* ===== verification/Rc632_Regs.thy ===== *)
theory Rc632_Regs
  imports Rfid_Prelude
begin

text \<open>
  The registers of the RC632 and their bits, as named in \<open>src/rc632.h\<close>, and the values of
  \<open>include/librfid/rfid_reader_cm5121.h\<close> that the ISO 14443 register scripts write.
\<close>


section \<open>\<open>enum rc632_registers\<close>\<close>

abbreviation (input) RC632_REG_PAGE0 :: u8 where "RC632_REG_PAGE0 \<equiv> 0x00"
abbreviation (input) RC632_REG_COMMAND :: u8 where "RC632_REG_COMMAND \<equiv> 0x01"
abbreviation (input) RC632_REG_FIFO_DATA :: u8 where "RC632_REG_FIFO_DATA \<equiv> 0x02"
abbreviation (input) RC632_REG_PRIMARY_STATUS :: u8 where "RC632_REG_PRIMARY_STATUS \<equiv> 0x03"
abbreviation (input) RC632_REG_FIFO_LENGTH :: u8 where "RC632_REG_FIFO_LENGTH \<equiv> 0x04"
abbreviation (input) RC632_REG_SECONDARY_STATUS :: u8 where "RC632_REG_SECONDARY_STATUS \<equiv> 0x05"
abbreviation (input) RC632_REG_INTERRUPT_EN :: u8 where "RC632_REG_INTERRUPT_EN \<equiv> 0x06"
abbreviation (input) RC632_REG_INTERRUPT_RQ :: u8 where "RC632_REG_INTERRUPT_RQ \<equiv> 0x07"
abbreviation (input) RC632_REG_PAGE1 :: u8 where "RC632_REG_PAGE1 \<equiv> 0x08"
abbreviation (input) RC632_REG_CONTROL :: u8 where "RC632_REG_CONTROL \<equiv> 0x09"
abbreviation (input) RC632_REG_ERROR_FLAG :: u8 where "RC632_REG_ERROR_FLAG \<equiv> 0x0a"
abbreviation (input) RC632_REG_COLL_POS :: u8 where "RC632_REG_COLL_POS \<equiv> 0x0b"
abbreviation (input) RC632_REG_TIMER_VALUE :: u8 where "RC632_REG_TIMER_VALUE \<equiv> 0x0c"
abbreviation (input) RC632_REG_CRC_RESULT_LSB :: u8 where "RC632_REG_CRC_RESULT_LSB \<equiv> 0x0d"
abbreviation (input) RC632_REG_CRC_RESULT_MSB :: u8 where "RC632_REG_CRC_RESULT_MSB \<equiv> 0x0e"
abbreviation (input) RC632_REG_BIT_FRAMING :: u8 where "RC632_REG_BIT_FRAMING \<equiv> 0x0f"
abbreviation (input) RC632_REG_PAGE2 :: u8 where "RC632_REG_PAGE2 \<equiv> 0x10"
abbreviation (input) RC632_REG_TX_CONTROL :: u8 where "RC632_REG_TX_CONTROL \<equiv> 0x11"
abbreviation (input) RC632_REG_CW_CONDUCTANCE :: u8 where "RC632_REG_CW_CONDUCTANCE \<equiv> 0x12"
abbreviation (input) RC632_REG_MOD_CONDUCTANCE :: u8 where "RC632_REG_MOD_CONDUCTANCE \<equiv> 0x13"
abbreviation (input) RC632_REG_CODER_CONTROL :: u8 where "RC632_REG_CODER_CONTROL \<equiv> 0x14"
abbreviation (input) RC632_REG_MOD_WIDTH :: u8 where "RC632_REG_MOD_WIDTH \<equiv> 0x15"
abbreviation (input) RC632_REG_MOD_WIDTH_SOF :: u8 where "RC632_REG_MOD_WIDTH_SOF \<equiv> 0x16"
abbreviation (input) RC632_REG_TYPE_B_FRAMING :: u8 where "RC632_REG_TYPE_B_FRAMING \<equiv> 0x17"
abbreviation (input) RC632_REG_PAGE3 :: u8 where "RC632_REG_PAGE3 \<equiv> 0x18"
abbreviation (input) RC632_REG_RX_CONTROL1 :: u8 where "RC632_REG_RX_CONTROL1 \<equiv> 0x19"
abbreviation (input) RC632_REG_DECODER_CONTROL :: u8 where "RC632_REG_DECODER_CONTROL \<equiv> 0x1a"
abbreviation (input) RC632_REG_BIT_PHASE :: u8 where "RC632_REG_BIT_PHASE \<equiv> 0x1b"
abbreviation (input) RC632_REG_RX_THRESHOLD :: u8 where "RC632_REG_RX_THRESHOLD \<equiv> 0x1c"
abbreviation (input) RC632_REG_BPSK_DEM_CONTROL :: u8 where "RC632_REG_BPSK_DEM_CONTROL \<equiv> 0x1d"
abbreviation (input) RC632_REG_RX_CONTROL2 :: u8 where "RC632_REG_RX_CONTROL2 \<equiv> 0x1e"
abbreviation (input) RC632_REG_CLOCK_Q_CONTROL :: u8 where "RC632_REG_CLOCK_Q_CONTROL \<equiv> 0x1f"
abbreviation (input) RC632_REG_PAGE4 :: u8 where "RC632_REG_PAGE4 \<equiv> 0x20"
abbreviation (input) RC632_REG_RX_WAIT :: u8 where "RC632_REG_RX_WAIT \<equiv> 0x21"
abbreviation (input) RC632_REG_CHANNEL_REDUNDANCY :: u8 where "RC632_REG_CHANNEL_REDUNDANCY \<equiv> 0x22"
abbreviation (input) RC632_REG_CRC_PRESET_LSB :: u8 where "RC632_REG_CRC_PRESET_LSB \<equiv> 0x23"
abbreviation (input) RC632_REG_CRC_PRESET_MSB :: u8 where "RC632_REG_CRC_PRESET_MSB \<equiv> 0x24"
abbreviation (input) RC632_REG_TIME_SLOT_PERIOD :: u8 where "RC632_REG_TIME_SLOT_PERIOD \<equiv> 0x25"
abbreviation (input) RC632_REG_MFOUT_SELECT :: u8 where "RC632_REG_MFOUT_SELECT \<equiv> 0x26"
abbreviation (input) RC632_REG_PRESET_27 :: u8 where "RC632_REG_PRESET_27 \<equiv> 0x27"
abbreviation (input) RC632_REG_PAGE5 :: u8 where "RC632_REG_PAGE5 \<equiv> 0x28"
abbreviation (input) RC632_REG_FIFO_LEVEL :: u8 where "RC632_REG_FIFO_LEVEL \<equiv> 0x29"
abbreviation (input) RC632_REG_TIMER_CLOCK :: u8 where "RC632_REG_TIMER_CLOCK \<equiv> 0x2a"
abbreviation (input) RC632_REG_TIMER_CONTROL :: u8 where "RC632_REG_TIMER_CONTROL \<equiv> 0x2b"
abbreviation (input) RC632_REG_TIMER_RELOAD :: u8 where "RC632_REG_TIMER_RELOAD \<equiv> 0x2c"
abbreviation (input) RC632_REG_IRQ_PIN_CONFIG :: u8 where "RC632_REG_IRQ_PIN_CONFIG \<equiv> 0x2d"
abbreviation (input) RC632_REG_PRESET_2E :: u8 where "RC632_REG_PRESET_2E \<equiv> 0x2e"
abbreviation (input) RC632_REG_PRESET_2F :: u8 where "RC632_REG_PRESET_2F \<equiv> 0x2f"
abbreviation (input) RC632_REG_PAGE6 :: u8 where "RC632_REG_PAGE6 \<equiv> 0x30"
abbreviation (input) RC632_REG_PAGE7 :: u8 where "RC632_REG_PAGE7 \<equiv> 0x38"
abbreviation (input) RC632_REG_TEST_ANA_SELECT :: u8 where "RC632_REG_TEST_ANA_SELECT \<equiv> 0x3a"
abbreviation (input) RC632_REG_TEST_DIGI_SELECT :: u8 where "RC632_REG_TEST_DIGI_SELECT \<equiv> 0x3d"

section \<open>\<open>enum rc632_reg_status\<close>\<close>

abbreviation (input) RC632_STAT_LOALERT :: u8 where "RC632_STAT_LOALERT \<equiv> 0x01"
abbreviation (input) RC632_STAT_HIALERT :: u8 where "RC632_STAT_HIALERT \<equiv> 0x02"
abbreviation (input) RC632_STAT_ERR :: u8 where "RC632_STAT_ERR \<equiv> 0x04"
abbreviation (input) RC632_STAT_IRQ :: u8 where "RC632_STAT_IRQ \<equiv> 0x08"
abbreviation (input) RC632_STAT_MODEM_MASK :: u8 where "RC632_STAT_MODEM_MASK \<equiv> 0x70"
abbreviation (input) RC632_STAT_MODEM_IDLE :: u8 where "RC632_STAT_MODEM_IDLE \<equiv> 0x00"
abbreviation (input) RC632_STAT_MODEM_TXSOF :: u8 where "RC632_STAT_MODEM_TXSOF \<equiv> 0x10"
abbreviation (input) RC632_STAT_MODEM_TXDATA :: u8 where "RC632_STAT_MODEM_TXDATA \<equiv> 0x20"
abbreviation (input) RC632_STAT_MODEM_TXEOF :: u8 where "RC632_STAT_MODEM_TXEOF \<equiv> 0x30"
abbreviation (input) RC632_STAT_MODEM_GOTORX :: u8 where "RC632_STAT_MODEM_GOTORX \<equiv> 0x40"
abbreviation (input) RC632_STAT_MODEM_PREPARERX :: u8 where "RC632_STAT_MODEM_PREPARERX \<equiv> 0x50"
abbreviation (input) RC632_STAT_MODEM_AWAITINGRX :: u8 where "RC632_STAT_MODEM_AWAITINGRX \<equiv> 0x60"
abbreviation (input) RC632_STAT_MODEM_RECV :: u8 where "RC632_STAT_MODEM_RECV \<equiv> 0x70"

section \<open>\<open>enum rc632_reg_command\<close>\<close>

abbreviation (input) RC632_CMD_IDLE :: u8 where "RC632_CMD_IDLE \<equiv> 0x00"
abbreviation (input) RC632_CMD_WRITE_E2 :: u8 where "RC632_CMD_WRITE_E2 \<equiv> 0x01"
abbreviation (input) RC632_CMD_READ_E2 :: u8 where "RC632_CMD_READ_E2 \<equiv> 0x03"
abbreviation (input) RC632_CMD_LOAD_CONFIG :: u8 where "RC632_CMD_LOAD_CONFIG \<equiv> 0x07"
abbreviation (input) RC632_CMD_LOAD_KEY_E2 :: u8 where "RC632_CMD_LOAD_KEY_E2 \<equiv> 0x0b"
abbreviation (input) RC632_CMD_AUTHENT1 :: u8 where "RC632_CMD_AUTHENT1 \<equiv> 0x0c"
abbreviation (input) RC632_CMD_CALC_CRC :: u8 where "RC632_CMD_CALC_CRC \<equiv> 0x12"
abbreviation (input) RC632_CMD_AUTHENT2 :: u8 where "RC632_CMD_AUTHENT2 \<equiv> 0x14"
abbreviation (input) RC632_CMD_RECEIVE :: u8 where "RC632_CMD_RECEIVE \<equiv> 0x16"
abbreviation (input) RC632_CMD_LOAD_KEY :: u8 where "RC632_CMD_LOAD_KEY \<equiv> 0x19"
abbreviation (input) RC632_CMD_TRANSMIT :: u8 where "RC632_CMD_TRANSMIT \<equiv> 0x1a"
abbreviation (input) RC632_CMD_TRANSCEIVE :: u8 where "RC632_CMD_TRANSCEIVE \<equiv> 0x1e"
abbreviation (input) RC632_CMD_STARTUP :: u8 where "RC632_CMD_STARTUP \<equiv> 0x3f"

section \<open>\<open>enum rc632_reg_interrupt\<close>\<close>

abbreviation (input) RC632_INT_LOALERT :: u8 where "RC632_INT_LOALERT \<equiv> 0x01"
abbreviation (input) RC632_INT_HIALERT :: u8 where "RC632_INT_HIALERT \<equiv> 0x02"
abbreviation (input) RC632_INT_IDLE :: u8 where "RC632_INT_IDLE \<equiv> 0x04"
abbreviation (input) RC632_INT_RX :: u8 where "RC632_INT_RX \<equiv> 0x08"
abbreviation (input) RC632_INT_TX :: u8 where "RC632_INT_TX \<equiv> 0x10"
abbreviation (input) RC632_INT_TIMER :: u8 where "RC632_INT_TIMER \<equiv> 0x20"
abbreviation (input) RC632_INT_SET :: u8 where "RC632_INT_SET \<equiv> 0x80"

section \<open>\<open>enum rc632_reg_control\<close>\<close>

abbreviation (input) RC632_CONTROL_FIFO_FLUSH :: u8 where "RC632_CONTROL_FIFO_FLUSH \<equiv> 0x01"
abbreviation (input) RC632_CONTROL_TIMER_START :: u8 where "RC632_CONTROL_TIMER_START \<equiv> 0x02"
abbreviation (input) RC632_CONTROL_TIMER_STOP :: u8 where "RC632_CONTROL_TIMER_STOP \<equiv> 0x04"
abbreviation (input) RC632_CONTROL_CRYPTO1_ON :: u8 where "RC632_CONTROL_CRYPTO1_ON \<equiv> 0x08"
abbreviation (input) RC632_CONTROL_POWERDOWN :: u8 where "RC632_CONTROL_POWERDOWN \<equiv> 0x10"
abbreviation (input) RC632_CONTROL_STANDBY :: u8 where "RC632_CONTROL_STANDBY \<equiv> 0x20"

section \<open>\<open>enum rc632_reg_error_flag\<close>\<close>

abbreviation (input) RC632_ERR_FLAG_COL_ERR :: u8 where "RC632_ERR_FLAG_COL_ERR \<equiv> 0x01"
abbreviation (input) RC632_ERR_FLAG_PARITY_ERR :: u8 where "RC632_ERR_FLAG_PARITY_ERR \<equiv> 0x02"
abbreviation (input) RC632_ERR_FLAG_FRAMING_ERR :: u8 where "RC632_ERR_FLAG_FRAMING_ERR \<equiv> 0x04"
abbreviation (input) RC632_ERR_FLAG_CRC_ERR :: u8 where "RC632_ERR_FLAG_CRC_ERR \<equiv> 0x08"
abbreviation (input) RC632_ERR_FLAG_FIFO_OVERFLOW :: u8 where "RC632_ERR_FLAG_FIFO_OVERFLOW \<equiv> 0x10"
abbreviation (input) RC632_ERR_FLAG_ACCESS_ERR :: u8 where "RC632_ERR_FLAG_ACCESS_ERR \<equiv> 0x20"
abbreviation (input) RC632_ERR_FLAG_KEY_ERR :: u8 where "RC632_ERR_FLAG_KEY_ERR \<equiv> 0x40"

section \<open>\<open>enum rc632_reg_tx_control\<close>\<close>

abbreviation (input) RC632_TXCTRL_TX1_RF_EN :: u8 where "RC632_TXCTRL_TX1_RF_EN \<equiv> 0x01"
abbreviation (input) RC632_TXCTRL_TX2_RF_EN :: u8 where "RC632_TXCTRL_TX2_RF_EN \<equiv> 0x02"
abbreviation (input) RC632_TXCTRL_TX2_CW :: u8 where "RC632_TXCTRL_TX2_CW \<equiv> 0x04"
abbreviation (input) RC632_TXCTRL_TX2_INV :: u8 where "RC632_TXCTRL_TX2_INV \<equiv> 0x08"
abbreviation (input) RC632_TXCTRL_FORCE_100_ASK :: u8 where "RC632_TXCTRL_FORCE_100_ASK \<equiv> 0x10"
abbreviation (input) RC632_TXCTRL_MOD_SRC_LOW :: u8 where "RC632_TXCTRL_MOD_SRC_LOW \<equiv> 0x00"
abbreviation (input) RC632_TXCTRL_MOD_SRC_HIGH :: u8 where "RC632_TXCTRL_MOD_SRC_HIGH \<equiv> 0x20"
abbreviation (input) RC632_TXCTRL_MOD_SRC_INT :: u8 where "RC632_TXCTRL_MOD_SRC_INT \<equiv> 0x40"
abbreviation (input) RC632_TXCTRL_MOD_SRC_MFIN :: u8 where "RC632_TXCTRL_MOD_SRC_MFIN \<equiv> 0x60"

section \<open>\<open>enum rc632_reg_coder_control\<close>\<close>

abbreviation (input) RC632_CDRCTRL_TXCD_MASK :: u8 where "RC632_CDRCTRL_TXCD_MASK \<equiv> 0x07"
abbreviation (input) RC632_CDRCTRL_TXCD_NRZ :: u8 where "RC632_CDRCTRL_TXCD_NRZ \<equiv> 0x00"
abbreviation (input) RC632_CDRCTRL_TXCD_14443A :: u8 where "RC632_CDRCTRL_TXCD_14443A \<equiv> 0x01"
abbreviation (input) RC632_CDRCTRL_TXCD_ICODE_STD :: u8 where "RC632_CDRCTRL_TXCD_ICODE_STD \<equiv> 0x04"
abbreviation (input) RC632_CDRCTRL_TXCD_ICODE_FAST :: u8 where "RC632_CDRCTRL_TXCD_ICODE_FAST \<equiv> 0x05"
abbreviation (input) RC632_CDRCTRL_TXCD_15693_STD :: u8 where "RC632_CDRCTRL_TXCD_15693_STD \<equiv> 0x06"
abbreviation (input) RC632_CDRCTRL_TXCD_15693_FAST :: u8 where "RC632_CDRCTRL_TXCD_15693_FAST \<equiv> 0x07"
abbreviation (input) RC632_CDRCTRL_RATE_MASK :: u8 where "RC632_CDRCTRL_RATE_MASK \<equiv> 0x38"
abbreviation (input) RC632_CDRCTRL_RATE_848K :: u8 where "RC632_CDRCTRL_RATE_848K \<equiv> 0x00"
abbreviation (input) RC632_CDRCTRL_RATE_424K :: u8 where "RC632_CDRCTRL_RATE_424K \<equiv> 0x08"
abbreviation (input) RC632_CDRCTRL_RATE_212K :: u8 where "RC632_CDRCTRL_RATE_212K \<equiv> 0x10"
abbreviation (input) RC632_CDRCTRL_RATE_106K :: u8 where "RC632_CDRCTRL_RATE_106K \<equiv> 0x18"
abbreviation (input) RC632_CDRCTRL_RATE_14443B :: u8 where "RC632_CDRCTRL_RATE_14443B \<equiv> 0x20"
abbreviation (input) RC632_CDRCTRL_RATE_15693 :: u8 where "RC632_CDRCTRL_RATE_15693 \<equiv> 0x28"
abbreviation (input) RC632_CDRCTRL_RATE_ICODE_FAST :: u8 where "RC632_CDRCTRL_RATE_ICODE_FAST \<equiv> 0x30"
abbreviation (input) RC632_CDRCTRL_15693_EOF_PULSE :: u8 where "RC632_CDRCTRL_15693_EOF_PULSE \<equiv> 0x80"

section \<open>\<open>enum rc632_erg_type_b_framing\<close>\<close>

abbreviation (input) RC632_TBFRAMING_SOF_10L_2H :: u8 where "RC632_TBFRAMING_SOF_10L_2H \<equiv> 0x00"
abbreviation (input) RC632_TBFRAMING_SOF_10L_3H :: u8 where "RC632_TBFRAMING_SOF_10L_3H \<equiv> 0x01"
abbreviation (input) RC632_TBFRAMING_SOF_11L_2H :: u8 where "RC632_TBFRAMING_SOF_11L_2H \<equiv> 0x02"
abbreviation (input) RC632_TBFRAMING_SOF_11L_3H :: u8 where "RC632_TBFRAMING_SOF_11L_3H \<equiv> 0x03"
abbreviation (input) RC632_TBFRAMING_EOF_10 :: u8 where "RC632_TBFRAMING_EOF_10 \<equiv> 0x00"
abbreviation (input) RC632_TBFRAMING_EOF_11 :: u8 where "RC632_TBFRAMING_EOF_11 \<equiv> 0x20"
abbreviation (input) RC632_TBFRAMING_NO_TX_SOF :: u8 where "RC632_TBFRAMING_NO_TX_SOF \<equiv> 0x80"
abbreviation (input) RC632_TBFRAMING_NO_TX_EOF :: u8 where "RC632_TBFRAMING_NO_TX_EOF \<equiv> 0x40"
abbreviation (input) RC632_TBFRAMING_SPACE_SHIFT :: nat where "RC632_TBFRAMING_SPACE_SHIFT \<equiv> 2"
abbreviation (input) RC632_TBFRAMING_SPACE_MASK :: u8 where "RC632_TBFRAMING_SPACE_MASK \<equiv> 7"

section \<open>\<open>enum rc632_reg_rx_control1\<close>\<close>

abbreviation (input) RC632_RXCTRL1_GAIN_20DB :: u8 where "RC632_RXCTRL1_GAIN_20DB \<equiv> 0x00"
abbreviation (input) RC632_RXCTRL1_GAIN_24DB :: u8 where "RC632_RXCTRL1_GAIN_24DB \<equiv> 0x01"
abbreviation (input) RC632_RXCTRL1_GAIN_31DB :: u8 where "RC632_RXCTRL1_GAIN_31DB \<equiv> 0x02"
abbreviation (input) RC632_RXCTRL1_GAIN_35DB :: u8 where "RC632_RXCTRL1_GAIN_35DB \<equiv> 0x03"
abbreviation (input) RC632_RXCTRL1_LP_OFF :: u8 where "RC632_RXCTRL1_LP_OFF \<equiv> 0x04"
abbreviation (input) RC632_RXCTRL1_ISO15693 :: u8 where "RC632_RXCTRL1_ISO15693 \<equiv> 0x08"
abbreviation (input) RC632_RXCTRL1_ISO14443 :: u8 where "RC632_RXCTRL1_ISO14443 \<equiv> 0x10"
abbreviation (input) RC632_RXCTRL1_SUBCP_MASK :: u8 where "RC632_RXCTRL1_SUBCP_MASK \<equiv> 0xe0"
abbreviation (input) RC632_RXCTRL1_SUBCP_1 :: u8 where "RC632_RXCTRL1_SUBCP_1 \<equiv> 0x00"
abbreviation (input) RC632_RXCTRL1_SUBCP_2 :: u8 where "RC632_RXCTRL1_SUBCP_2 \<equiv> 0x20"
abbreviation (input) RC632_RXCTRL1_SUBCP_4 :: u8 where "RC632_RXCTRL1_SUBCP_4 \<equiv> 0x40"
abbreviation (input) RC632_RXCTRL1_SUBCP_8 :: u8 where "RC632_RXCTRL1_SUBCP_8 \<equiv> 0x60"
abbreviation (input) RC632_RXCTRL1_SUBCP_16 :: u8 where "RC632_RXCTRL1_SUBCP_16 \<equiv> 0x80"

section \<open>\<open>enum rc632_reg_decoder_control\<close>\<close>

abbreviation (input) RC632_DECCTRL_MANCHESTER :: u8 where "RC632_DECCTRL_MANCHESTER \<equiv> 0x00"
abbreviation (input) RC632_DECCTRL_BPSK :: u8 where "RC632_DECCTRL_BPSK \<equiv> 0x01"
abbreviation (input) RC632_DECCTRL_RX_INVERT :: u8 where "RC632_DECCTRL_RX_INVERT \<equiv> 0x04"
abbreviation (input) RC632_DECCTRL_RXFR_ICODE :: u8 where "RC632_DECCTRL_RXFR_ICODE \<equiv> 0x00"
abbreviation (input) RC632_DECCTRL_RXFR_14443A :: u8 where "RC632_DECCTRL_RXFR_14443A \<equiv> 0x08"
abbreviation (input) RC632_DECCTRL_RXFR_15693 :: u8 where "RC632_DECCTRL_RXFR_15693 \<equiv> 0x10"
abbreviation (input) RC632_DECCTRL_RXFR_14443B :: u8 where "RC632_DECCTRL_RXFR_14443B \<equiv> 0x18"
abbreviation (input) RC632_DECCTRL_ZEROAFTERCOL :: u8 where "RC632_DECCTRL_ZEROAFTERCOL \<equiv> 0x20"
abbreviation (input) RC632_DECCTRL_RX_MULTIPLE :: u8 where "RC632_DECCTRL_RX_MULTIPLE \<equiv> 0x40"

section \<open>\<open>enum rc632_reg_bpsk_dem_control\<close>\<close>

abbreviation (input) RC632_BPSKD_TAUB_SHIFT :: nat where "RC632_BPSKD_TAUB_SHIFT \<equiv> 0x00"
abbreviation (input) RC632_BPSKD_TAUB_MASK :: u8 where "RC632_BPSKD_TAUB_MASK \<equiv> 0x03"
abbreviation (input) RC632_BPSKD_TAUD_SHIFT :: nat where "RC632_BPSKD_TAUD_SHIFT \<equiv> 0x02"
abbreviation (input) RC632_BPSKD_TAUD_MASK :: u8 where "RC632_BPSKD_TAUD_MASK \<equiv> 0x03"
abbreviation (input) RC632_BPSKD_FILTER_AMP_DETECT :: u8 where "RC632_BPSKD_FILTER_AMP_DETECT \<equiv> 0x10"
abbreviation (input) RC632_BPSKD_NO_RX_EOF :: u8 where "RC632_BPSKD_NO_RX_EOF \<equiv> 0x20"
abbreviation (input) RC632_BPSKD_NO_RX_EGT :: u8 where "RC632_BPSKD_NO_RX_EGT \<equiv> 0x40"
abbreviation (input) RC632_BPSKD_NO_RX_SOF :: u8 where "RC632_BPSKD_NO_RX_SOF \<equiv> 0x80"

section \<open>\<open>enum rc632_reg_rx_control2\<close>\<close>

abbreviation (input) RC632_RXCTRL2_DECSRC_LOW :: u8 where "RC632_RXCTRL2_DECSRC_LOW \<equiv> 0x00"
abbreviation (input) RC632_RXCTRL2_DECSRC_INT :: u8 where "RC632_RXCTRL2_DECSRC_INT \<equiv> 0x01"
abbreviation (input) RC632_RXCTRL2_DECSRC_SUBC_MFIN :: u8 where "RC632_RXCTRL2_DECSRC_SUBC_MFIN \<equiv> 0x10"
abbreviation (input) RC632_RXCTRL2_DECSRC_BASE_MFIN :: u8 where "RC632_RXCTRL2_DECSRC_BASE_MFIN \<equiv> 0x11"
abbreviation (input) RC632_RXCTRL2_AUTO_PD :: u8 where "RC632_RXCTRL2_AUTO_PD \<equiv> 0x40"
abbreviation (input) RC632_RXCTRL2_CLK_I :: u8 where "RC632_RXCTRL2_CLK_I \<equiv> 0x80"
abbreviation (input) RC632_RXCTRL2_CLK_Q :: u8 where "RC632_RXCTRL2_CLK_Q \<equiv> 0x00"

section \<open>\<open>enum rc632_reg_channel_redundancy\<close>\<close>

abbreviation (input) RC632_CR_PARITY_ENABLE :: u8 where "RC632_CR_PARITY_ENABLE \<equiv> 0x01"
abbreviation (input) RC632_CR_PARITY_ODD :: u8 where "RC632_CR_PARITY_ODD \<equiv> 0x02"
abbreviation (input) RC632_CR_TX_CRC_ENABLE :: u8 where "RC632_CR_TX_CRC_ENABLE \<equiv> 0x04"
abbreviation (input) RC632_CR_RX_CRC_ENABLE :: u8 where "RC632_CR_RX_CRC_ENABLE \<equiv> 0x08"
abbreviation (input) RC632_CR_CRC8 :: u8 where "RC632_CR_CRC8 \<equiv> 0x10"
abbreviation (input) RC632_CR_CRC3309 :: u8 where "RC632_CR_CRC3309 \<equiv> 0x20"

section \<open>\<open>enum rc632_reg_timer_control\<close>\<close>

abbreviation (input) RC632_TMR_START_TX_BEGIN :: u8 where "RC632_TMR_START_TX_BEGIN \<equiv> 0x01"
abbreviation (input) RC632_TMR_START_TX_END :: u8 where "RC632_TMR_START_TX_END \<equiv> 0x02"
abbreviation (input) RC632_TMR_STOP_RX_BEGIN :: u8 where "RC632_TMR_STOP_RX_BEGIN \<equiv> 0x04"
abbreviation (input) RC632_TMR_STOP_RX_END :: u8 where "RC632_TMR_STOP_RX_END \<equiv> 0x08"

section \<open>\<open>enum rc632_reg_timer_irq\<close>\<close>

abbreviation (input) RC632_IRQ_LO_ALERT :: u8 where "RC632_IRQ_LO_ALERT \<equiv> 0x01"
abbreviation (input) RC632_IRQ_HI_ALERT :: u8 where "RC632_IRQ_HI_ALERT \<equiv> 0x02"
abbreviation (input) RC632_IRQ_IDLE :: u8 where "RC632_IRQ_IDLE \<equiv> 0x04"
abbreviation (input) RC632_IRQ_RX :: u8 where "RC632_IRQ_RX \<equiv> 0x08"
abbreviation (input) RC632_IRQ_TX :: u8 where "RC632_IRQ_TX \<equiv> 0x10"
abbreviation (input) RC632_IRQ_TIMER :: u8 where "RC632_IRQ_TIMER \<equiv> 0x20"
abbreviation (input) RC632_IRQ_SET :: u8 where "RC632_IRQ_SET \<equiv> 0x80"

section \<open>\<open>enum rc632_reg_secondary_status\<close>\<close>

abbreviation (input) RC632_SEC_ST_TMR_RUNNING :: u8 where "RC632_SEC_ST_TMR_RUNNING \<equiv> 0x80"
abbreviation (input) RC632_SEC_ST_E2_READY :: u8 where "RC632_SEC_ST_E2_READY \<equiv> 0x40"
abbreviation (input) RC632_SEC_ST_CRC_READY :: u8 where "RC632_SEC_ST_CRC_READY \<equiv> 0x20"

section \<open>CM5121 tuning values\<close>

abbreviation (input) CM5121_CW_CONDUCTANCE :: u8 where "CM5121_CW_CONDUCTANCE \<equiv> 0x3f"
abbreviation (input) CM5121_MOD_CONDUCTANCE :: u8 where "CM5121_MOD_CONDUCTANCE \<equiv> 0x3f"
abbreviation (input) CM5121_14443A_BITPHASE :: u8 where "CM5121_14443A_BITPHASE \<equiv> 0xa9"
abbreviation (input) CM5121_14443A_THRESHOLD :: u8 where "CM5121_14443A_THRESHOLD \<equiv> 0xff"
abbreviation (input) CM5121_14443B_BITPHASE :: u8 where "CM5121_14443B_BITPHASE \<equiv> 0xad"
abbreviation (input) CM5121_14443B_THRESHOLD :: u8 where "CM5121_14443B_THRESHOLD \<equiv> 0xff"

end
