(* ===== verification/Rc632_Asic.thy ===== *)
theory Rc632_Asic
  imports Rc632_Regs
begin

text \<open>
  The RC632 driver core (\<open>src/rfid_asic_rc632.c\<close>, up to \<open>rc632_close\<close>): register and FIFO access
  through the transport's function table, bit manipulation of registers, the timer, the two polling
  loops, transmission and reception of a frame, EEPROM access, and power-up and shut-down.

  The transport (\<open>struct rfid_asic_rc632_transport\<close>) is a record of functions over a type \<open>'w\<close>, the
  state of the hardware and of whatever carries the accesses to it.  A register read returns the
  value only when the transport stores one.
\<close>

section \<open>Transport and register access\<close>

record 'w rc632_transport =
  rt_reg_write :: "u8 \<Rightarrow> u8 \<Rightarrow> 'w \<Rightarrow> (int \<times> 'w) option"
  rt_reg_read :: "u8 \<Rightarrow> 'w \<Rightarrow> (int \<times> u8 option \<times> 'w) option"
  rt_fifo_write :: "u8 \<Rightarrow> bytes \<Rightarrow> u8 \<Rightarrow> 'w \<Rightarrow> (int \<times> 'w) option"
  rt_fifo_read :: "u8 \<Rightarrow> bytes \<Rightarrow> 'w \<Rightarrow> (int \<times> bytes \<times> 'w) option"

definition rc632_reg_write :: "'w rc632_transport \<Rightarrow> u8 \<Rightarrow> u8 \<Rightarrow> 'w \<Rightarrow> (int \<times> 'w) option" where
  "rc632_reg_write t reg val w = rt_reg_write t reg val w"

text \<open>The variable behind the pointer keeps its content when the transport stores nothing.\<close>

definition rc632_reg_read ::
    "'w rc632_transport \<Rightarrow> u8 \<Rightarrow> u8 option \<Rightarrow> 'w \<Rightarrow> (int \<times> u8 option \<times> 'w) option" where
  "rc632_reg_read t reg val w = do {
     (ret, v, w) \<leftarrow> rt_reg_read t reg w;
     Some (ret, keep val v, w) }"

definition rc632_fifo_write ::
    "'w rc632_transport \<Rightarrow> u8 \<Rightarrow> bytes \<Rightarrow> u8 \<Rightarrow> 'w \<Rightarrow> (int \<times> 'w) option" where
  "rc632_fifo_write t len buf flags w = rt_fifo_write t len buf flags w"

definition rc632_fifo_read ::
    "'w rc632_transport \<Rightarrow> u8 \<Rightarrow> bytes \<Rightarrow> 'w \<Rightarrow> (int \<times> bytes \<times> 'w) option" where
  "rc632_fifo_read t len buf w = rt_fifo_read t len buf w"

definition rc632_set_bits :: "'w rc632_transport \<Rightarrow> u8 \<Rightarrow> u8 \<Rightarrow> 'w \<Rightarrow> (int \<times> 'w) option" where
  "rc632_set_bits t reg val w = do {
     (ret, tmp, w) \<leftarrow> rc632_reg_read t reg None w;
     if ret < 0 then Some (-1, w)
     else do {
       tmp \<leftarrow> tmp;
       if tmp AND val = val then Some (0, w)
       else rc632_reg_write t reg ((tmp OR val) AND 0xff) w } }"

definition rc632_set_bit_mask ::
    "'w rc632_transport \<Rightarrow> u8 \<Rightarrow> u8 \<Rightarrow> u8 \<Rightarrow> 'w \<Rightarrow> (int \<times> 'w) option" where
  "rc632_set_bit_mask t reg msk val w = do {
     (ret, tmp, w) \<leftarrow> rc632_reg_read t reg None w;
     if ret < 0 then Some (ret, w)
     else do {
       tmp \<leftarrow> tmp;
       if tmp AND msk = val then Some (0, w)
       else rc632_reg_write t reg ((tmp AND NOT msk) OR (val AND msk)) w } }"

definition rc632_clear_bits :: "'w rc632_transport \<Rightarrow> u8 \<Rightarrow> u8 \<Rightarrow> 'w \<Rightarrow> (int \<times> 'w) option" where
  "rc632_clear_bits t reg val w = do {
     (ret, tmp, w) \<leftarrow> rc632_reg_read t reg None w;
     if ret < 0 then Some (-1, w)
     else do {
       tmp \<leftarrow> tmp;
       if tmp AND val = 0 then Some (0, w)
       else rc632_reg_write t reg ((tmp AND NOT val) AND 0xff) w } }"

definition rc632_clear_irqs :: "'w rc632_transport \<Rightarrow> u8 \<Rightarrow> 'w \<Rightarrow> (int \<times> 'w) option" where
  "rc632_clear_irqs t bits w =
     rc632_reg_write t RC632_REG_INTERRUPT_RQ (NOT RC632_INT_SET AND bits) w"

definition rc632_rf_power :: "'w rc632_transport \<Rightarrow> bool \<Rightarrow> 'w \<Rightarrow> (int \<times> 'w) option" where
  "rc632_rf_power t on w =
     (if on then
        rc632_set_bits t RC632_REG_TX_CONTROL (RC632_TXCTRL_TX1_RF_EN OR RC632_TXCTRL_TX2_RF_EN) w
      else
        rc632_clear_bits t RC632_REG_TX_CONTROL (RC632_TXCTRL_TX1_RF_EN OR RC632_TXCTRL_TX2_RF_EN) w)"

definition rc632_power :: "'w rc632_transport \<Rightarrow> bool \<Rightarrow> 'w \<Rightarrow> (int \<times> 'w) option" where
  "rc632_power t on w =
     (if on then rc632_clear_bits t RC632_REG_CONTROL RC632_CONTROL_POWERDOWN w
      else rc632_set_bits t RC632_REG_CONTROL RC632_CONTROL_POWERDOWN w)"

record register_file =
  rf_reg :: u8
  rf_val :: u8

fun rc632_execute_script ::
    "'w rc632_transport \<Rightarrow> register_file list \<Rightarrow> 'w \<Rightarrow> (int \<times> 'w) option" where
  "rc632_execute_script t [] w = Some (0, w)"
| "rc632_execute_script t (f # fs) w = do {
     (ret, w) \<leftarrow> rc632_reg_write t (rf_reg f) (rf_val f) w;
     if ret < 0 then Some (ret, w) else rc632_execute_script t fs w }"

section \<open>Timer\<close>

text \<open>
  One pass of the loop in \<open>best_prescaler\<close>.  The loop variables are the best prescaler, the best
  divisor (not initialised before the loop) and the smallest difference, a signed 64-bit number.
\<close>

definition best_prescaler_step :: "u64 \<Rightarrow> nat \<Rightarrow> u8 \<times> u8 option \<times> int \<Rightarrow> u8 \<times> u8 option \<times> int" where
  "best_prescaler_step timeout i = (\<lambda>(best_prescaler, best_divisor, smallest_diff).
     let clk = of_nat (13560000 div 2 ^ i) :: u64;
         tmp_div = (clk * timeout) div 1000000;
         tmp_div = tmp_div + 1
     in if tmp_div > 0xff \<or> tmp_div > clk then (best_prescaler, best_divisor, smallest_diff)
        else
          let res = 1000000 div (clk div tmp_div);
              diff = sint (res - timeout)
          in if diff < 0 then (best_prescaler, best_divisor, smallest_diff)
             else if diff < smallest_diff then (of_nat i, Some (ucast tmp_div), diff)
             else (best_prescaler, best_divisor, smallest_diff))"

definition LLONG_MAX :: int where
  "LLONG_MAX = 9223372036854775807"

definition best_prescaler :: "u64 \<Rightarrow> u8 \<times> u8 option" where
  "best_prescaler timeout =
     (case fold (best_prescaler_step timeout) [0..<21] (0, None, LLONG_MAX) of
        (best_prescaler, best_divisor, smallest_diff) \<Rightarrow> (best_prescaler, best_divisor))"

abbreviation (input) TIMER_RELAX_FACTOR :: u64 where "TIMER_RELAX_FACTOR \<equiv> 10"

definition rc632_timer_set :: "'w rc632_transport \<Rightarrow> u64 \<Rightarrow> 'w \<Rightarrow> (int \<times> 'w) option" where
  "rc632_timer_set t timeout w = do {
     let (prescaler, divisor) = best_prescaler (timeout * TIMER_RELAX_FACTOR);
     (ret, w) \<leftarrow> rc632_reg_write t RC632_REG_TIMER_CLOCK (prescaler AND 0x1f) w;
     if ret < 0 then Some (ret, w)
     else do {
       (ret, w) \<leftarrow> rc632_reg_write t RC632_REG_TIMER_CONTROL
                     (RC632_TMR_START_TX_END OR RC632_TMR_STOP_RX_BEGIN) w;
       (ret1, w) \<leftarrow> rc632_clear_irqs t RC632_IRQ_TIMER w;
       (ret2, w) \<leftarrow> rc632_reg_write t RC632_REG_INTERRUPT_EN (RC632_IRQ_SET OR RC632_IRQ_TIMER) w;
       divisor \<leftarrow> divisor;
       (ret3, w) \<leftarrow> rc632_reg_write t RC632_REG_TIMER_RELOAD divisor w;
       Some ((ret1 OR ret2) OR ret3, w) } }"

section \<open>Waiting for the end of a command\<close>

text \<open>
  The two tests in the body of \<open>rc632_wait_idle_timer\<close>'s loop.  The first component of the result is
  the return code when the function returns from there.
\<close>

definition wait_idle_timer_err ::
    "'w rc632_transport \<Rightarrow> u8 \<Rightarrow> 'w \<Rightarrow> (int option \<times> 'w) option" where
  "wait_idle_timer_err t stat w =
     (if stat AND RC632_STAT_ERR \<noteq> 0 then do {
        (ret, err, w) \<leftarrow> rc632_reg_read t RC632_REG_ERROR_FLAG None w;
        if ret < 0 then Some (Some ret, w)
        else do {
          err \<leftarrow> err;
          if err AND (RC632_ERR_FLAG_COL_ERR OR RC632_ERR_FLAG_PARITY_ERR OR
                      RC632_ERR_FLAG_FRAMING_ERR) \<noteq> 0
          then Some (Some (- EIO), w) else Some (None, w) } }
      else Some (None, w))"

definition wait_idle_timer_irq ::
    "'w rc632_transport \<Rightarrow> u8 \<Rightarrow> u8 option \<Rightarrow> 'w \<Rightarrow> (int option \<times> u8 option \<times> 'w) option" where
  "wait_idle_timer_irq t stat irq w =
     (if stat AND RC632_STAT_IRQ \<noteq> 0 then do {
        (ret, irq, w) \<leftarrow> rc632_reg_read t RC632_REG_INTERRUPT_RQ irq w;
        if ret < 0 then Some (Some ret, irq, w)
        else do {
          i \<leftarrow> irq;
          if i AND RC632_IRQ_TIMER \<noteq> 0 \<and> \<not> (i AND RC632_IRQ_RX \<noteq> 0)
          then do {
            (_, w) \<leftarrow> rc632_clear_irqs t RC632_IRQ_TIMER w;
            Some (Some (- ETIMEDOUT), irq, w) }
          else Some (None, irq, w) } }
      else Some (None, irq, w))"

partial_function (option) wait_idle_timer_loop ::
    "'w rc632_transport \<Rightarrow> u8 option \<Rightarrow> u8 option \<Rightarrow> u8 option \<Rightarrow> 'w \<Rightarrow> (int \<times> 'w) option" where
  "wait_idle_timer_loop t stat irq cmd w = do {
     (_, stat, w) \<leftarrow> rc632_reg_read t RC632_REG_PRIMARY_STATUS stat w;
     s \<leftarrow> stat;
     (done, w) \<leftarrow> wait_idle_timer_err t s w;
     case done of Some ret \<Rightarrow> Some (ret, w) | None \<Rightarrow> do {
       (done, irq, w) \<leftarrow> wait_idle_timer_irq t s irq w;
       case done of Some ret \<Rightarrow> Some (ret, w) | None \<Rightarrow> do {
         (ret, cmd, w) \<leftarrow> rc632_reg_read t RC632_REG_COMMAND cmd w;
         if ret < 0 then Some (ret, w)
         else do {
           c \<leftarrow> cmd;
           if c = 0 then do {
             (_, w) \<leftarrow> rc632_clear_irqs t RC632_IRQ_RX w;
             Some (0, w) }
           else wait_idle_timer_loop t stat irq cmd w } } } }"

definition rc632_wait_idle_timer :: "'w rc632_transport \<Rightarrow> 'w \<Rightarrow> (int \<times> 'w) option" where
  "rc632_wait_idle_timer t w = do {
     (ret, irq, w) \<leftarrow> rc632_reg_read t RC632_REG_INTERRUPT_EN None w;
     if ret < 0 then Some (ret, w)
     else do {
       (ret, w) \<leftarrow> rc632_reg_write t RC632_REG_INTERRUPT_EN
                     (RC632_IRQ_SET OR RC632_IRQ_TIMER OR RC632_IRQ_IDLE OR RC632_IRQ_RX) w;
       if ret < 0 then Some (ret, w)
       else wait_idle_timer_loop t None irq None w } }"

definition INT_MAX :: int where
  "INT_MAX = 2147483647"

text \<open>
  The status part of \<open>rc632_wait_idle\<close>'s loop.  One variable \<open>foo\<close> holds the status and then the
  error flags, and the test for an interrupt looks at whatever it holds.
\<close>

definition wait_idle_status ::
    "'w rc632_transport \<Rightarrow> 'w \<Rightarrow> (int option \<times> 'w) option" where
  "wait_idle_status t w = do {
     (_, foo, w) \<leftarrow> rc632_reg_read t RC632_REG_PRIMARY_STATUS None w;
     f \<leftarrow> foo;
     (foo, w) \<leftarrow> (if f AND RC632_STAT_ERR \<noteq> 0 then do {
                    (_, foo, w) \<leftarrow> rc632_reg_read t RC632_REG_ERROR_FLAG foo w;
                    Some (foo, w) }
                  else Some (foo, w));
     f \<leftarrow> foo;
     if f AND RC632_STAT_IRQ \<noteq> 0 then do {
       (_, foo, w) \<leftarrow> rc632_reg_read t RC632_REG_INTERRUPT_RQ foo w;
       (ret, w) \<leftarrow> rc632_clear_irqs t 0xff w;
       if ret < 0 then Some (Some ret, w) else Some (None, w) }
     else Some (None, w) }"

partial_function (option) wait_idle_loop ::
    "'w rc632_transport \<Rightarrow> u64 \<Rightarrow> u8 option \<Rightarrow> int \<Rightarrow> 'w \<Rightarrow> (int \<times> 'w) option" where
  "wait_idle_loop t timeout cmd cycles w = do {
     c \<leftarrow> cmd;
     if c \<noteq> 0 then do {
       (ret, cmd, w) \<leftarrow> rc632_reg_read t RC632_REG_COMMAND cmd w;
       if ret < 0 then Some (ret, w)
       else do {
         (done, w) \<leftarrow> wait_idle_status t w;
         case done of Some ret \<Rightarrow> Some (ret, w) | None \<Rightarrow> do {
           c \<leftarrow> cmd;
           if c = 0 then Some (0, w)
           else if cycles > uint (timeout div 128) then Some (- ETIMEDOUT, w)
           else if cycles = INT_MAX then None
           else wait_idle_loop t timeout cmd (cycles + 1) w } } }
     else Some (0, w) }"

definition rc632_wait_idle :: "'w rc632_transport \<Rightarrow> u64 \<Rightarrow> 'w \<Rightarrow> (int \<times> 'w) option" where
  "rc632_wait_idle t timeout w =
     wait_idle_loop t (timeout * TIMER_RELAX_FACTOR) (Some 0xff) 0 w"

section \<open>Transmitting and receiving\<close>

text \<open>
  The position \<open>off\<close> is \<open>cur_buf - buf\<close>.  The refill length is computed as in the source, as
  \<open>buf - cur_buf\<close>, and reaches the FIFO as an unsigned byte.
\<close>

partial_function (option) transmit_loop ::
    "'w rc632_transport \<Rightarrow> bytes \<Rightarrow> u8 \<Rightarrow> u64 \<Rightarrow> int \<Rightarrow> int \<Rightarrow> 'w \<Rightarrow> (int \<times> 'w) option" where
  "transmit_loop t buf len timeout off cur_len w = do {
     (ret, w) \<leftarrow> (if off < 0 then None
                  else rc632_fifo_write t (word_of_int cur_len) (drop (nat off) buf) 0x03 w);
     if ret < 0 then Some (ret, w)
     else do {
       (ret, w) \<leftarrow> (if off = 0 then rc632_reg_write t RC632_REG_COMMAND RC632_CMD_TRANSMIT w
                    else Some (ret, w));
       if ret < 0 then Some (ret, w)
       else
         (let off' = off + cur_len;
              cur_len' = (if off' < uint len then (if - off' > 64 then 64 else - off') else 0)
          in if cur_len' \<noteq> 0 then transmit_loop t buf len timeout off' cur_len' w
             else rc632_wait_idle t timeout w) } }"

definition rc632_transmit ::
    "'w rc632_transport \<Rightarrow> bytes \<Rightarrow> u8 \<Rightarrow> u64 \<Rightarrow> 'w \<Rightarrow> (int \<times> 'w) option" where
  "rc632_transmit t buf len timeout w =
     transmit_loop t buf len timeout 0 (if len > 64 then 64 else uint len) w"

text \<open>
  The FIFO filling loop of \<open>rc632_transceive\<close>.  It ends when everything was handed over or when the
  FIFO is full at a refill.
\<close>

partial_function (option) transceive_fill ::
    "'w rc632_transport \<Rightarrow> bytes \<Rightarrow> u8 \<Rightarrow> int \<Rightarrow> int \<Rightarrow> 'w \<Rightarrow> (int \<times> 'w) option" where
  "transceive_fill t tx_buf tx_len off cur_tx_len w = do {
     (ret, w) \<leftarrow> (if off < 0 then None
                  else rc632_fifo_write t (word_of_int cur_tx_len) (drop (nat off) tx_buf) 0x03 w);
     if ret < 0 then Some (ret, w)
     else do {
       (ret, w) \<leftarrow> (if off = 0 then rc632_reg_write t RC632_REG_COMMAND RC632_CMD_TRANSCEIVE w
                    else Some (ret, w));
       if ret < 0 then Some (ret, w)
       else if off + cur_tx_len < uint tx_len then do {
         (ret, fifo_fill, w) \<leftarrow> rc632_reg_read t RC632_REG_FIFO_LENGTH None w;
         if ret < 0 then Some (ret, w)
         else do {
           fill \<leftarrow> fifo_fill;
           if 64 - uint fill \<noteq> 0
           then transceive_fill t tx_buf tx_len (off + cur_tx_len) (64 - uint fill) w
           else Some (0, w) } }
       else Some (0, w) } }"

text \<open>The end of a reception: how much the FIFO holds, and the bytes.\<close>

definition transceive_rx ::
    "'w rc632_transport \<Rightarrow> int \<Rightarrow> bytes \<Rightarrow> u8 \<Rightarrow> 'w \<Rightarrow> (int \<times> bytes \<times> u8 \<times> 'w) option" where
  "transceive_rx t empty_ret rx_buf rx_len w = do {
     (ret, rx_avail, w) \<leftarrow> rc632_reg_read t RC632_REG_FIFO_LENGTH None w;
     if ret < 0 then Some (ret, rx_buf, rx_len, w)
     else do {
       rx_avail \<leftarrow> rx_avail;
       let rx_len = (if rx_avail > rx_len then rx_len
                     else if rx_len > rx_avail then rx_avail else rx_len);
       if rx_avail = 0 then do {
         (_, tmp, w) \<leftarrow> rc632_reg_read t RC632_REG_PRIMARY_STATUS None w;
         (_, tmp, w) \<leftarrow> rc632_reg_read t RC632_REG_ERROR_FLAG tmp w;
         (_, tmp, w) \<leftarrow> rc632_reg_read t RC632_REG_CHANNEL_REDUNDANCY tmp w;
         Some (empty_ret, rx_buf, rx_len, w) }
       else do {
         (ret, rx_buf, w) \<leftarrow> rc632_fifo_read t rx_len rx_buf w;
         Some (ret, rx_buf, rx_len, w) } } }"

declare wait_idle_timer_loop.simps [code] wait_idle_loop.simps [code] transmit_loop.simps [code]
  transceive_fill.simps [code]

text \<open>
  \<open>rc632_transceive\<close>; its last argument \<open>toggle\<close> only selects a call of \<open>tcl_toggle_pcb\<close>, which does
  nothing.
\<close>

definition rc632_transceive ::
    "'w rc632_transport \<Rightarrow> bytes \<Rightarrow> u8 \<Rightarrow> bytes \<Rightarrow> u8 \<Rightarrow> u64 \<Rightarrow> 'w
       \<Rightarrow> (int \<times> bytes \<times> u8 \<times> 'w) option" where
  "rc632_transceive t tx_buf tx_len rx_buf rx_len timer w = do {
     let cur_tx_len = (if tx_len > 64 then 64 else uint tx_len);
     (_, w) \<leftarrow> rc632_reg_write t RC632_REG_COMMAND RC632_CMD_IDLE w;
     (_, w) \<leftarrow> rc632_reg_write t RC632_REG_INTERRUPT_RQ 0x7f w;
     (_, tmp, w) \<leftarrow> rc632_reg_read t RC632_REG_PRIMARY_STATUS None w;
     (_, tmp, w) \<leftarrow> rc632_reg_read t RC632_REG_ERROR_FLAG tmp w;
     (ret, w) \<leftarrow> rc632_timer_set t timer w;
     if ret < 0 then Some (ret, rx_buf, rx_len, w)
     else do {
       (ret, w) \<leftarrow> transceive_fill t tx_buf tx_len 0 cur_tx_len w;
       if ret < 0 then Some (ret, rx_buf, rx_len, w)
       else do {
         (ret, w) \<leftarrow> rc632_wait_idle_timer t w;
         if ret < 0 then Some (ret, rx_buf, rx_len, w)
         else transceive_rx t (- EIO) rx_buf rx_len w } } }"

definition rc632_receive ::
    "'w rc632_transport \<Rightarrow> bytes \<Rightarrow> u8 \<Rightarrow> u64 \<Rightarrow> 'w \<Rightarrow> (int \<times> bytes \<times> u8 \<times> 'w) option" where
  "rc632_receive t rx_buf rx_len timer w = do {
     (_, w) \<leftarrow> rc632_reg_write t RC632_REG_COMMAND 0x00 w;
     (_, w) \<leftarrow> rc632_reg_write t RC632_REG_INTERRUPT_RQ 0x7f w;
     (ret, w) \<leftarrow> rc632_timer_set t timer w;
     if ret < 0 then Some (ret, rx_buf, rx_len, w)
     else do {
       (ret, w) \<leftarrow> rc632_reg_write t RC632_REG_COMMAND RC632_CMD_RECEIVE w;
       if ret < 0 then Some (ret, rx_buf, rx_len, w)
       else do {
         (ret, w) \<leftarrow> rc632_set_bits t RC632_REG_CONTROL RC632_CONTROL_TIMER_START w;
         if ret < 0 then Some (ret, rx_buf, rx_len, w)
         else do {
           (ret, w) \<leftarrow> rc632_wait_idle_timer t w;
           if ret < 0 then Some (ret, rx_buf, rx_len, w)
           else transceive_rx t (-1) rx_buf rx_len w } } } }"

section \<open>EEPROM, CRC and register dump\<close>

partial_function (option) write_eeprom_poll :: "'w rc632_transport \<Rightarrow> 'w \<Rightarrow> (int \<times> 'w) option" where
  "write_eeprom_poll t w = do {
     (ret, reg, w) \<leftarrow> rc632_reg_read t RC632_REG_SECONDARY_STATUS None w;
     if ret < 0 then Some (ret, w)
     else do {
       reg \<leftarrow> reg;
       if reg AND RC632_SEC_ST_E2_READY \<noteq> 0
       then rc632_reg_write t RC632_REG_COMMAND RC632_CMD_IDLE w
       else write_eeprom_poll t w } }"

declare write_eeprom_poll.simps [code]

definition rc632_write_eeprom ::
    "'w rc632_transport \<Rightarrow> u16 \<Rightarrow> bytes \<Rightarrow> u8 \<Rightarrow> 'w \<Rightarrow> (int \<times> 'w) option" where
  "rc632_write_eeprom t addr data len w =
     (if len > 16 then Some (- EINVAL, w)
      else if addr < 0x10 then Some (- EPERM, w)
      else if addr > 0x1ff then Some (- EINVAL, w)
      else do {
        d \<leftarrow> get_slice data 0 (unat len);
        let sndbuf = [ucast (addr AND 0x00ff), ucast (drop_bit 8 addr)] @ d;
        (ret, w) \<leftarrow> rc632_fifo_write t (len + 2) sndbuf 0x03 w;
        if ret < 0 then Some (ret, w)
        else do {
          (ret, w) \<leftarrow> rc632_reg_write t RC632_REG_COMMAND RC632_CMD_WRITE_E2 w;
          if ret < 0 then Some (ret, w)
          else do {
            (ret, reg, w) \<leftarrow> rc632_reg_read t RC632_REG_ERROR_FLAG None w;
            if ret < 0 then Some (ret, w)
            else do {
              reg \<leftarrow> reg;
              if reg AND RC632_ERR_FLAG_ACCESS_ERR \<noteq> 0 then Some (- EPERM, w)
              else write_eeprom_poll t w } } } })"

definition rc632_read_eeprom ::
    "'w rc632_transport \<Rightarrow> u16 \<Rightarrow> bytes \<Rightarrow> u8 \<Rightarrow> 'w \<Rightarrow> (int \<times> bytes \<times> 'w) option" where
  "rc632_read_eeprom t addr buf len w = do {
     (ret, w) \<leftarrow> rc632_fifo_write t 3 [ucast (addr AND 0xff), ucast (drop_bit 8 addr), len] 0x03 w;
     if ret < 0 then Some (ret, buf, w)
     else do {
       (ret, w) \<leftarrow> rc632_reg_write t RC632_REG_COMMAND RC632_CMD_READ_E2 w;
       if ret < 0 then Some (ret, buf, w)
       else do {
         (ret, reg, w) \<leftarrow> rc632_reg_read t RC632_REG_ERROR_FLAG None w;
         if ret < 0 then Some (ret, buf, w)
         else do {
           reg \<leftarrow> reg;
           if reg AND RC632_ERR_FLAG_ACCESS_ERR \<noteq> 0 then Some (- EPERM, buf, w)
           else rc632_fifo_read t len buf w } } } }"

text \<open>
  The comment that starts after \<open>usleep\<close> in the source is closed only before the final \<open>return\<close>, so
  the two reads of the CRC result are part of it and never happen.
\<close>

definition rc632_calc_crc16_from :: "'w rc632_transport \<Rightarrow> 'w \<Rightarrow> (int \<times> 'w) option" where
  "rc632_calc_crc16_from t w = do {
     (ret, w) \<leftarrow> rc632_reg_write t RC632_REG_CRC_PRESET_LSB 0x12 w;
     if ret < 0 then Some (ret, w)
     else do {
       (ret, w) \<leftarrow> rc632_reg_write t RC632_REG_CRC_PRESET_MSB 0xe0 w;
       if ret < 0 then Some (ret, w)
       else do {
         (ret, w) \<leftarrow> rc632_fifo_write t 2 [0x01, 0x02] 3 w;
         if ret < 0 then Some (ret, w)
         else rc632_reg_write t RC632_REG_COMMAND RC632_CMD_CALC_CRC w } } }"

fun register_dump_from ::
    "'w rc632_transport \<Rightarrow> nat list \<Rightarrow> int \<Rightarrow> bytes \<Rightarrow> 'w \<Rightarrow> (int \<times> bytes \<times> 'w) option" where
  "register_dump_from t [] ret buf w = Some (ret, buf, w)"
| "register_dump_from t (i # is) ret buf w = do {
     old \<leftarrow> get_at buf i;
     (r, v, w) \<leftarrow> rc632_reg_read t (of_nat i) (Some old) w;
     v \<leftarrow> v;
     buf \<leftarrow> put_at buf i v;
     register_dump_from t is (ret OR r) buf w }"

definition rc632_register_dump ::
    "'w rc632_transport \<Rightarrow> bytes \<Rightarrow> 'w \<Rightarrow> (int \<times> bytes \<times> 'w) option" where
  "rc632_register_dump t buf w = register_dump_from t [0..<64] 0 buf w"

section \<open>Power-up and shut-down\<close>

definition rc632_init :: "'w rc632_transport \<Rightarrow> 'w \<Rightarrow> (int \<times> 'w) option" where
  "rc632_init t w = do {
     (ret, w) \<leftarrow> rc632_power t False w;
     if ret < 0 then Some (ret, w)
     else do {
       (ret, w) \<leftarrow> rc632_power t True w;
       if ret < 0 then Some (ret, w)
       else do {
         (ret, w) \<leftarrow> rc632_reg_write t 0x00 0x00 w;
         if ret < 0 then Some (ret, w)
         else do {
           (ret, w) \<leftarrow> rc632_reg_write t 0x11 0x5b w;
           if ret < 0 then Some (ret, w)
           else do {
             (ret, w) \<leftarrow> rc632_rf_power t False w;
             if ret < 0 then Some (ret, w)
             else do {
               (ret, w) \<leftarrow> rc632_rf_power t True w;
               if ret < 0 then Some (ret, w) else Some (0, w) } } } } } }"

definition rc632_fini :: "'w rc632_transport \<Rightarrow> 'w \<Rightarrow> (int \<times> 'w) option" where
  "rc632_fini t w = do {
     (ret, w) \<leftarrow> rc632_rf_power t False w;
     if ret < 0 then Some (ret, w)
     else do {
       (ret, w) \<leftarrow> rc632_power t False w;
       if ret < 0 then Some (ret, w) else Some (0, w) } }"

record rfid_asic_handle =
  ah_fc :: u32
  ah_mtu :: u32
  ah_mru :: u32

abbreviation (input) ISO14443_FREQ_CARRIER :: u32 where "ISO14443_FREQ_CARRIER \<equiv> 13560000"

text \<open>
  \<open>rc632_open\<close>.  Whether \<open>malloc\<close> succeeds is an argument; a failed open is \<^const>\<open>None\<close> inside of the
  result.
\<close>

definition rc632_open ::
    "'w rc632_transport \<Rightarrow> bool \<Rightarrow> 'w \<Rightarrow> (rfid_asic_handle option \<times> 'w) option" where
  "rc632_open t malloc_ok w =
     (if \<not> malloc_ok then Some (None, w)
      else do {
        let h = \<lparr>ah_fc = ISO14443_FREQ_CARRIER, ah_mtu = 64, ah_mru = 64\<rparr>;
        (ret, w) \<leftarrow> rc632_init t w;
        if ret < 0 then Some (None, w) else Some (Some h, w) })"

definition rc632_close :: "'w rc632_transport \<Rightarrow> 'w \<Rightarrow> (unit \<times> 'w) option" where
  "rc632_close t w = do { (_, w) \<leftarrow> rc632_fini t w; Some ((), w) }"

section \<open>The contract of a transport\<close>

text \<open>
  What the driver relies on in the transports: reading the FIFO stays inside of the buffer that was
  passed.  Every reception through such a transport then keeps the caller's buffer in place and
  never announces more bytes than were asked for.
\<close>

locale bounded_transport =
  fixes t :: "'w rc632_transport"
  assumes fifo_read_length:
    "rt_fifo_read t n buf w = Some (ret, buf', w') \<Longrightarrow> length buf' = length buf"
begin

lemma transceive_rx_bound:
  "transceive_rx t e rx_buf rx_len w = Some (ret, rx', n', w') \<Longrightarrow>
   length rx' = length rx_buf \<and> n' \<le> rx_len"
  unfolding transceive_rx_def
  by (auto simp: run_simps rc632_fifo_read_def Let_def split: if_splits dest: fifo_read_length)

lemma rc632_transceive_bound:
  "rc632_transceive t tx tx_len rx_buf rx_len timer w = Some (ret, rx', n', w') \<Longrightarrow>
   length rx' = length rx_buf \<and> n' \<le> rx_len"
  unfolding rc632_transceive_def
  by (auto simp: run_simps Let_def split: if_splits dest: transceive_rx_bound)

lemma rc632_receive_bound:
  "rc632_receive t rx_buf rx_len timer w = Some (ret, rx', n', w') \<Longrightarrow>
   length rx' = length rx_buf \<and> n' \<le> rx_len"
  unfolding rc632_receive_def
  by (auto simp: run_simps split: if_splits dest: transceive_rx_bound)

end

section \<open>The timer setting\<close>

text \<open>
  The arithmetic of \<open>best_prescaler\<close> on natural numbers: the clock behind prescaler \<open>i\<close>, the divisor
  tried for a timeout \<open>T\<close>, whether it is admissible, and the period in microseconds it gives.
\<close>

definition timer_clk :: "nat \<Rightarrow> nat" where "timer_clk i = 13560000 div 2 ^ i"
definition timer_div :: "nat \<Rightarrow> nat \<Rightarrow> nat" where "timer_div T i = timer_clk i * T div 1000000 + 1"
definition timer_ok :: "nat \<Rightarrow> nat \<Rightarrow> bool" where
  "timer_ok T i \<longleftrightarrow> timer_div T i \<le> 255 \<and> timer_div T i \<le> timer_clk i"
definition timer_period :: "nat \<Rightarrow> nat \<Rightarrow> nat" where
  "timer_period d i = 1000000 div (timer_clk i div d)"

lemma timer_period_ge:
  assumes "timer_ok T i" shows "T \<le> timer_period (timer_div T i) i"
proof -
  let ?c = "timer_clk i" and ?d = "timer_div T i"
  have d: "0 < ?d" "?d \<le> ?c" using assms by (auto simp: timer_ok_def timer_div_def)
  then have q: "0 < ?c div ?d" by (simp add: div_greater_zero_iff)
  have "?c * T < ?d * 1000000"
    unfolding timer_div_def by (metis Suc_eq_plus1 dividend_less_div_times mult_Suc zero_less_numeral)
  moreover have "?c div ?d * ?d \<le> ?c" by (simp add: div_times_less_eq_dividend)
  ultimately have "(?c div ?d * ?d) * T < ?d * 1000000"
    by (meson le_less_trans mult_le_mono1)
  then have "?d * ((?c div ?d) * T) < ?d * 1000000" by (simp add: algebra_simps)
  then have "(?c div ?d) * T < 1000000" by simp
  then show ?thesis
    unfolding timer_period_def using q by (simp add: less_eq_div_iff_mult_less_eq mult.commute)
qed

lemma prescaler_step:
  assumes T: "T < 2 ^ 40" and i: "i < 21"
  shows "best_prescaler_step (of_nat T) i (p, d, s) =
    (if timer_ok T i \<and> int (timer_period (timer_div T i) i) - int T < s
     then (of_nat i, Some (of_nat (timer_div T i)), int (timer_period (timer_div T i) i) - int T)
     else (p, d, s))"
proof -
  let ?c = "timer_clk i" and ?d = "timer_div T i"
  have c: "?c \<le> 13560000" "0 < ?c"
  proof -
    show "?c \<le> 13560000" by (simp add: timer_clk_def)
    have "(2::nat) ^ i \<le> 2 ^ 20" using i by (intro power_increasing) auto
    then show "0 < ?c" by (simp add: timer_clk_def div_greater_zero_iff)
  qed
  have prod: "?c * T < 2 ^ 64"
  proof -
    have "?c * T \<le> 13560000 * 2 ^ 40" using c T by (intro mult_mono) auto
    then show ?thesis by simp
  qed
  have u: "unat (of_nat T :: u64) = T" "unat (of_nat ?c :: u64) = ?c"
    using T c by (simp_all add: unat_of_nat_small)
  have "unat (of_nat ?c * of_nat T :: u64) = ?c * T"
    using prod by (simp add: unat_of_nat_small flip: of_nat_mult)
  then have "(of_nat ?c * of_nat T) div 1000000 = (of_nat (?c * T div 1000000) :: u64)"
    using prod by (simp add: word_unat_eq_iff unat_div unat_of_nat_small)
  then have dw: "(of_nat ?c * of_nat T) div 1000000 + 1 = (of_nat ?d :: u64)"
    by (simp add: timer_div_def)
  have ud: "unat (of_nat ?d :: u64) = ?d"
    using prod by (intro unat_of_nat_small) (simp add: timer_div_def)
  show ?thesis
  proof (cases "timer_ok T i")
    case True
    let ?r = "timer_period ?d i"
    have dpos: "0 < ?d" "?d \<le> ?c" "?d \<le> 255" using True by (auto simp: timer_ok_def timer_div_def)
    have rle: "?r \<le> 1000000" "T \<le> ?r" using timer_period_ge [OF True] by (auto simp: timer_period_def)
    have ur: "unat (of_nat ?r :: u64) = ?r" using rle by (intro unat_of_nat_small) simp
    have "1000000 div (of_nat ?c div of_nat ?d) = (of_nat ?r :: u64)"
      using ur by (simp add: word_unat_eq_iff unat_div u ud timer_period_def)
    moreover have "sint (of_nat ?r - of_nat T :: u64) = int ?r - int T"
      using rle sint_of_nat_small [of "?r - T"] by (simp add: of_nat_diff)
    moreover have "ucast (of_nat ?d :: u64) = (of_nat ?d :: u8)"
      using dpos by (simp add: word_unat_eq_iff unsigned_ucast_eq ud unat_of_nat_small take_bit_nat_eq_self)
    ultimately show ?thesis
      using True dpos rle c
      by (auto simp: best_prescaler_step_def dw Let_def word_less_nat_alt u ud timer_ok_def simp flip: timer_clk_def)
  next
    case False
    then show ?thesis
      by (auto simp: best_prescaler_step_def dw Let_def word_less_nat_alt u ud timer_ok_def simp flip: timer_clk_def)
  qed
qed

text \<open>A fold of the loop body keeps the state or ends in the best candidate so far.\<close>

lemma prescaler_fold:
  assumes "T < 2 ^ 40" "\<forall>i \<in> set is. i < 21" "fold (best_prescaler_step (of_nat T)) is (p, d, s) = (p', d', s')"
  shows "s' \<le> s \<and>
    ((p', d', s') = (p, d, s) \<or>
     (\<exists>i \<in> set is. timer_ok T i \<and> p' = of_nat i \<and> d' = Some (of_nat (timer_div T i)) \<and>
        s' = int (timer_period (timer_div T i) i) - int T)) \<and>
    (\<forall>i \<in> set is. timer_ok T i \<longrightarrow> s' \<le> int (timer_period (timer_div T i) i) - int T)"
  using assms(2,3)
proof (induction "is" arbitrary: p d s)
  case (Cons i "is")
  let ?v = "int (timer_period (timer_div T i) i) - int T"
  obtain p1 d1 s1 where st: "best_prescaler_step (of_nat T) i (p, d, s) = (p1, d1, s1)"
    by (metis prod_cases3)
  have i: "i < 21" using Cons.prems(1) by simp
  have cases: "(p1, d1, s1) = (if timer_ok T i \<and> ?v < s
      then (of_nat i, Some (of_nat (timer_div T i)), ?v) else (p, d, s))"
    using prescaler_step [OF assms(1) i] st by simp
  have ih: "s' \<le> s1 \<and>
    ((p', d', s') = (p1, d1, s1) \<or>
     (\<exists>i \<in> set is. timer_ok T i \<and> p' = of_nat i \<and> d' = Some (of_nat (timer_div T i)) \<and>
        s' = int (timer_period (timer_div T i) i) - int T)) \<and>
    (\<forall>i \<in> set is. timer_ok T i \<longrightarrow> s' \<le> int (timer_period (timer_div T i) i) - int T)"
    using Cons.prems by (intro Cons.IH) (auto simp: st)
  show ?case
    using ih cases by (auto split: if_splits)
qed simp

lemma timer_ok_exists: "(\<exists>i < 21. timer_ok T i) \<longleftrightarrow> T < 1000000"
proof
  assume "T < 1000000"
  then have "12 * T div 1000000 < 12" by (simp only: div_less_iff_less_mult)
  then have "timer_ok T 20"
    unfolding timer_ok_def timer_div_def timer_clk_def by simp
  then show "\<exists>i < 21. timer_ok T i" by (intro exI [of _ 20]) simp
next
  assume "\<exists>i < 21. timer_ok T i"
  then obtain i where ok: "timer_ok T i" by auto
  show "T < 1000000"
  proof (rule ccontr)
    assume "\<not> T < 1000000"
    then have "timer_clk i * 1000000 \<le> timer_clk i * T" by simp
    then have "timer_clk i \<le> timer_clk i * T div 1000000"
      by (simp add: less_eq_div_iff_mult_less_eq)
    with ok show False by (simp add: timer_ok_def timer_div_def)
  qed
qed

text \<open>The clock by shifting, for evaluation.\<close>

lemma best_prescaler_step_code [code]:
  "best_prescaler_step timeout i = (\<lambda>(best_prescaler, best_divisor, smallest_diff).
     let clk = drop_bit i 13560000 :: u64;
         tmp_div = (clk * timeout) div 1000000;
         tmp_div = tmp_div + 1
     in if tmp_div > 0xff \<or> tmp_div > clk then (best_prescaler, best_divisor, smallest_diff)
        else
          let res = 1000000 div (clk div tmp_div);
              diff = sint (res - timeout)
          in if diff < 0 then (best_prescaler, best_divisor, smallest_diff)
             else if diff < smallest_diff then (of_nat i, Some (ucast tmp_div), diff)
             else (best_prescaler, best_divisor, smallest_diff))"
proof -
  have "unat (drop_bit i (13560000 :: u64)) = 13560000 div 2 ^ i"
    by (simp add: unat_drop_bit_eq drop_bit_nat_def del: drop_bit_eq_div)
  moreover have "13560000 div 2 ^ i < (2 :: nat) ^ 64"
    using div_le_dividend [of 13560000 "2 ^ i :: nat"] by (rule le_less_trans) simp
  ultimately have "(of_nat (13560000 div 2 ^ i) :: u64) = drop_bit i 13560000"
    by (simp add: word_unat_eq_iff unat_of_nat_small)
  then show ?thesis unfolding best_prescaler_step_def by simp
qed

text \<open>
  C11: the timer setting chosen for a timeout, below 2^40 microseconds, is never shorter than the timeout and is the closest of
  all admissible settings; a setting is found exactly for timeouts below one second, and for longer
  ones the divisor is left uninitialised.
\<close>

theorem best_prescaler_correct:
  assumes "unat timeout < 2 ^ 40"
  shows "(case best_prescaler timeout of
            (p, None) \<Rightarrow> 1000000 \<le> unat timeout
          | (p, Some d) \<Rightarrow> unat timeout < 1000000 \<and> unat p < 21 \<and> 0 < d \<and>
              unat timeout \<le> timer_period (unat d) (unat p) \<and>
              (\<forall>i \<in> {0..<21}. timer_ok (unat timeout) i \<longrightarrow>
                 timer_period (unat d) (unat p) \<le> timer_period (timer_div (unat timeout) i) i))"
proof -
  define T where "T = unat timeout"
  have T: "T < 2 ^ 40" "timeout = of_nat T" using assms by (simp_all add: T_def)
  obtain p d s where f: "fold (best_prescaler_step timeout) [0..<21] (0, None, LLONG_MAX) = (p, d, s)"
    by (metis prod_cases3)
  have bp: "best_prescaler timeout = (p, d)" by (simp add: best_prescaler_def f)
  note inv = prescaler_fold [OF T(1) _ f [unfolded T(2)]]
  show ?thesis
  proof (cases "\<exists>i \<in> {0..<21}. timer_ok T i \<and> p = of_nat i \<and> d = Some (of_nat (timer_div T i)) \<and>
        s = int (timer_period (timer_div T i) i) - int T")
    case True
    then obtain i where i: "i < 21" "timer_ok T i" "p = of_nat i" "d = Some (of_nat (timer_div T i))"
        "s = int (timer_period (timer_div T i) i) - int T" by auto
    have d: "0 < timer_div T i" "timer_div T i \<le> 255" using i(2) by (auto simp: timer_ok_def timer_div_def)
    then have u: "unat (of_nat (timer_div T i) :: u8) = timer_div T i" "unat (of_nat i :: u8) = i"
      using i(1) by (simp_all add: unat_of_nat_small)
    show ?thesis
      using inv i d u timer_period_ge [OF i(2)] timer_ok_exists [of T]
      by (auto simp: bp T_def word_less_nat_alt)
  next
    case False
    then have "d = None" "s = LLONG_MAX" using inv by auto
    have "\<not> timer_ok T i" if "i < 21" for i
    proof
      assume ok: "timer_ok T i"
      have "timer_period (timer_div T i) i \<le> 1000000" by (simp add: timer_period_def)
      with inv ok that \<open>s = LLONG_MAX\<close> show False by (force simp: LLONG_MAX_def)
    qed
    then have "1000000 \<le> T" using timer_ok_exists [of T] by (meson not_less)
    then show ?thesis by (simp add: bp \<open>d = None\<close> T_def)
  qed
qed


theorem best_prescaler_correct_witness:
  "case best_prescaler 48330 of
     (p, None) \<Rightarrow> 1000000 \<le> unat (48330 :: u64)
   | (p, Some d) \<Rightarrow> unat (48330 :: u64) < 1000000 \<and> unat p < 21 \<and> 0 < d \<and>
       unat (48330 :: u64) \<le> timer_period (unat d) (unat p) \<and>
       (\<forall>i \<in> {0..<21}. timer_ok (unat (48330 :: u64)) i \<longrightarrow>
          timer_period (unat d) (unat p) \<le> timer_period (timer_div (unat (48330 :: u64)) i) i)"
  by (rule best_prescaler_correct) simp

section \<open>Polling\<close>

text \<open>A transport whose register accesses all succeed.\<close>

definition responsive :: "'w rc632_transport \<Rightarrow> bool" where
  "responsive t \<longleftrightarrow>
     (\<forall>r w. \<exists>v w'. rt_reg_read t r w = Some (0, Some v, w')) \<and>
     (\<forall>r v w. \<exists>w'. rt_reg_write t r v w = Some (0, w'))"

lemma responsive_read:
  assumes "responsive t"
  shows "\<exists>v w'. rc632_reg_read t r old w = Some (0, Some v, w')"
proof -
  obtain v w' where "rt_reg_read t r w = Some (0, Some v, w')"
    using assms unfolding responsive_def by blast
  then show ?thesis by (simp add: rc632_reg_read_def)
qed

lemma responsive_write: "responsive t \<Longrightarrow> \<exists>w'. rc632_reg_write t r v w = Some (0, w')"
  by (simp add: responsive_def rc632_reg_write_def)

lemma responsive_wait_idle_status:
  assumes "responsive t" shows "\<exists>w'. wait_idle_status t w = Some (None, w')"
proof -
  obtain v w1 where 1: "rc632_reg_read t RC632_REG_PRIMARY_STATUS None w = Some (0, Some v, w1)"
    using responsive_read [OF assms] by blast
  obtain f w2 where 2: "(if v AND RC632_STAT_ERR \<noteq> 0 then do {
                    (_, foo, w) \<leftarrow> rc632_reg_read t RC632_REG_ERROR_FLAG (Some v) w1;
                    Some (foo, w) }
                  else Some (Some v, w1)) = Some (Some f, w2)"
    using responsive_read [OF assms, of RC632_REG_ERROR_FLAG "Some v" w1] by (cases "v AND RC632_STAT_ERR = 0") auto
  obtain g w3 where 3: "rc632_reg_read t RC632_REG_INTERRUPT_RQ (Some f) w2 = Some (0, Some g, w3)"
    using responsive_read [OF assms] by blast
  obtain w4 where 4: "rc632_clear_irqs t 0xff w3 = Some (0, w4)"
    using responsive_write [OF assms] unfolding rc632_clear_irqs_def by blast
  show ?thesis
    unfolding wait_idle_status_def 1 using 2 3 4 by auto
qed

lemma responsive_wait_idle_loop:
  assumes "responsive t" "uint (timeout div 128) < INT_MAX" "0 \<le> cycles" "cycles \<le> uint (timeout div 128) + 1"
  shows "\<exists>ret w'. wait_idle_loop t timeout (Some c) cycles w = Some (ret, w') \<and> ret \<in> {0, - ETIMEDOUT}"
  using assms(3,4)
proof (induction "nat (uint (timeout div 128) + 1 - cycles)" arbitrary: c cycles w rule: less_induct)
  case less
  show ?case
  proof (cases "c = 0")
    case True
    then show ?thesis by (subst wait_idle_loop.simps) simp
  next
    case False
    obtain c' w1 where 1: "rc632_reg_read t RC632_REG_COMMAND (Some c) w = Some (0, Some c', w1)"
      using responsive_read [OF assms(1)] by blast
    obtain w2 where 2: "wait_idle_status t w1 = Some (None, w2)"
      using responsive_wait_idle_status [OF assms(1)] by blast
    have eq: "wait_idle_loop t timeout (Some c) cycles w =
      (if c' = 0 then Some (0, w2) else if cycles > uint (timeout div 128) then Some (- ETIMEDOUT, w2)
       else if cycles = INT_MAX then None else wait_idle_loop t timeout (Some c') (cycles + 1) w2)"
      using False by (subst wait_idle_loop.simps) (simp add: 1 2)
    show ?thesis
      unfolding eq using less.hyps [of "cycles + 1" c' w2] less.prems assms(2) by auto
  qed
qed

text \<open>
  C27: waiting for the chip to become idle ends, whatever the chip answers, for every timeout below
  2^34 microseconds, with success or with a timeout.
\<close>

theorem wait_idle_terminates:
  assumes "responsive t" "unat timeout < 2 ^ 34"
  shows "\<exists>ret w'. rc632_wait_idle t timeout w = Some (ret, w') \<and> ret \<in> {0, - ETIMEDOUT}"
proof -
  have "unat timeout * unat (10 :: u64) < 2 ^ LENGTH(64)"
    using assms(2) by simp
  then have "unat (timeout * 10) = unat timeout * 10"
    by (simp only: unat_mult_lem) simp
  then have "unat ((timeout * 10) div 128) < 2147483647"
    using assms(2) by (simp add: unat_div div_less_iff_less_mult)
  then have "uint ((timeout * 10) div 128) < INT_MAX"
    unfolding INT_MAX_def uint_nat by linarith
  then show ?thesis
    unfolding rc632_wait_idle_def using assms(1) by (intro responsive_wait_idle_loop) auto
qed


definition busy_transport :: "unit rc632_transport" where
  "busy_transport =
     \<lparr>rt_reg_write = (\<lambda>_ _ w. Some (0, w)), rt_reg_read = (\<lambda>_ w. Some (0, Some 1, w)),
      rt_fifo_write = (\<lambda>_ _ _ w. Some (0, w)), rt_fifo_read = (\<lambda>_ buf w. Some (0, buf, w))\<rparr>"

theorem wait_idle_terminates_witness:
  "\<exists>ret w'. rc632_wait_idle busy_transport 5000 () = Some (ret, w') \<and> ret \<in> {0, - ETIMEDOUT}"
  by (rule wait_idle_terminates) (simp_all add: responsive_def busy_transport_def)

section \<open>Registers\<close>

text \<open>
  The contract of a transport to registers that hold what was written to them; \<open>plain\<close> are the
  registers for which that is so, among the 64 that the RC632 has.
\<close>

locale register_transport =
  fixes t :: "'w rc632_transport" and regs :: "'w \<Rightarrow> u8 \<Rightarrow> u8" and plain :: "u8 set"
  assumes plain_reg: "r \<in> plain \<Longrightarrow> r < 0x40"
    and reg_read_law:
      "r \<in> plain \<Longrightarrow> rt_reg_read t r w = Some (n, v, w') \<Longrightarrow> 0 \<le> n \<Longrightarrow>
       v = Some (regs w r) \<and> (\<forall>p \<in> plain. regs w' p = regs w p)"
    and reg_write_law:
      "r < 0x40 \<Longrightarrow> rt_reg_write t r x w = Some (n, w') \<Longrightarrow> 0 \<le> n \<Longrightarrow> p \<in> plain \<Longrightarrow>
       regs w' p = (if p = r then x else regs w p)"
begin

lemma read_regs:
  assumes "rc632_reg_read t r old w = Some (n, v, w')" "0 \<le> n" "r \<in> plain"
  shows "v = Some (regs w r)" "p \<in> plain \<Longrightarrow> regs w' p = regs w p"
  using assms reg_read_law [of r w] by (auto simp: rc632_reg_read_def run_simps)

lemma write_regs:
  assumes "rc632_reg_write t r x w = Some (n, w')" "0 \<le> n" "p \<in> plain" "r < 0x40"
  shows "regs w' p = (if p = r then x else regs w p)"
  using assms reg_write_law by (simp add: rc632_reg_write_def)

lemma set_bits_regs:
  assumes "rc632_set_bits t r b w = Some (n, w')" "0 \<le> n" "r \<in> plain" "p \<in> plain"
  shows "regs w' p = (if p = r then regs w r OR b else regs w p)"
proof -
  obtain m v w1 where rd: "rc632_reg_read t r None w = Some (m, v, w1)" "0 \<le> m"
    using assms(1,2) by (auto simp: rc632_set_bits_def run_simps split: if_splits)
  note v = read_regs [OF rd assms(3)]
  show ?thesis
    using assms(1,2,4) rd(2) v(2) [OF assms(4)] plain_reg [OF assms(3)]
    by (auto simp: rc632_set_bits_def rd(1) v(1) or_absorb_and and_ff split: if_splits dest: write_regs)
qed

lemma clear_bits_regs:
  assumes "rc632_clear_bits t r b w = Some (n, w')" "0 \<le> n" "r \<in> plain" "p \<in> plain"
  shows "regs w' p = (if p = r then regs w r AND NOT b else regs w p)"
proof -
  obtain m v w1 where rd: "rc632_reg_read t r None w = Some (m, v, w1)" "0 \<le> m"
    using assms(1,2) by (auto simp: rc632_clear_bits_def run_simps split: if_splits)
  note v = read_regs [OF rd assms(3)]
  show ?thesis
    using assms(1,2,4) rd(2) v(2) [OF assms(4)] plain_reg [OF assms(3)]
    by (auto simp: rc632_clear_bits_def rd(1) v(1) and_not_absorb and_ff split: if_splits
        dest: write_regs)
qed

lemma set_bit_mask_regs:
  assumes "rc632_set_bit_mask t r m b w = Some (n, w')" "0 \<le> n" "r \<in> plain" "p \<in> plain"
  shows "regs w' p = (if p = r then (regs w r AND NOT m) OR (b AND m) else regs w p)"
proof -
  obtain k v w1 where rd: "rc632_reg_read t r None w = Some (k, v, w1)" "0 \<le> k"
    using assms(1,2) by (auto simp: rc632_set_bit_mask_def run_simps split: if_splits)
  note v = read_regs [OF rd assms(3)]
  show ?thesis
    using assms(1,2,4) rd(2) v(2) [OF assms(4)] plain_reg [OF assms(3)]
    by (auto simp: rc632_set_bit_mask_def rd(1) v(1) mask_absorb split: if_splits
        dest: write_regs)
qed

text \<open>A script leaves in every register the last value it writes there.\<close>

lemma execute_script_regs:
  assumes "rc632_execute_script t fs w = Some (n, w')" "0 \<le> n" "p \<in> plain"
    and "\<forall>f \<in> set fs. rf_reg f < 0x40"
  shows "regs w' p = (case map_of (rev (map (\<lambda>f. (rf_reg f, rf_val f)) fs)) p of
                        None \<Rightarrow> regs w p | Some v \<Rightarrow> v)"
  using assms(1,4)
proof (induction fs arbitrary: w)
  case (Cons f fs)
  then obtain m w1 where "rc632_reg_write t (rf_reg f) (rf_val f) w = Some (m, w1)" "0 \<le> m"
      "rc632_execute_script t fs w1 = Some (n, w')"
    using assms(2) by (auto simp: run_simps split: if_splits)
  with Cons.IH [OF this(3)] write_regs [OF this(1,2) assms(3)] Cons.prems(2) show ?case
    by (auto simp: map_add_def split: option.splits)
qed simp

lemma rf_power_regs:
  assumes "rc632_rf_power t on w = Some (n, w')" "0 \<le> n" "RC632_REG_TX_CONTROL \<in> plain"
  shows "regs w' RC632_REG_TX_CONTROL =
           (if on then regs w RC632_REG_TX_CONTROL OR 0x03
            else regs w RC632_REG_TX_CONTROL AND NOT 0x03)"
  using assms set_bits_regs [OF _ assms(2,3,3)] clear_bits_regs [OF _ assms(2,3,3)]
  by (auto simp: rc632_rf_power_def split: if_splits)

end

end
