(* ===== verification/Rc632_Proto.thy ===== *)
theory Rc632_Proto
  imports Rc632_Asic
begin

text \<open>
  The protocol half of the RC632 driver (\<open>src/rfid_asic_rc632.c\<close> from the ISO 14443 A section to the
  end): the register scripts of the air interfaces, short frames, bit-oriented anticollision frames
  and regular frames, bit rates, ISO 15693 inventory frames, and the Crypto1 key and authentication
  commands.
\<close>

section \<open>ISO 14443 A\<close>

text \<open>\<open>enum rfid_frametype\<close>, \<open>enum rfid_layer2_id\<close>: their values stay numbers, since the C code takes
  any integer there.\<close>

abbreviation (input) RFID_14443A_FRAME_REGULAR :: u32 where "RFID_14443A_FRAME_REGULAR \<equiv> 0"
abbreviation (input) RFID_14443B_FRAME_REGULAR :: u32 where "RFID_14443B_FRAME_REGULAR \<equiv> 1"
abbreviation (input) RFID_MIFARE_FRAME :: u32 where "RFID_MIFARE_FRAME \<equiv> 2"
abbreviation (input) RFID_15693_FRAME :: u32 where "RFID_15693_FRAME \<equiv> 3"
abbreviation (input) RFID_15693_FRAME_ICODE1 :: u32 where "RFID_15693_FRAME_ICODE1 \<equiv> 4"

abbreviation (input) RFID_LAYER2_ISO14443A :: u32 where "RFID_LAYER2_ISO14443A \<equiv> 1"
abbreviation (input) RFID_LAYER2_ISO14443B :: u32 where "RFID_LAYER2_ISO14443B \<equiv> 2"
abbreviation (input) RFID_LAYER2_ISO15693 :: u32 where "RFID_LAYER2_ISO15693 \<equiv> 3"
abbreviation (input) RFID_LAYER2_ICODE1 :: u32 where "RFID_LAYER2_ICODE1 \<equiv> 4"

definition reg_file :: "(u8 \<times> u8) list \<Rightarrow> register_file list" where
  "reg_file xs = map (\<lambda>(r, v). \<lparr>rf_reg = r, rf_val = v\<rparr>) xs"

definition iso14443a_script :: "register_file list" where
  "iso14443a_script = reg_file
     [(RC632_REG_TX_CONTROL, RC632_TXCTRL_MOD_SRC_INT OR RC632_TXCTRL_TX2_INV OR
         RC632_TXCTRL_FORCE_100_ASK OR RC632_TXCTRL_TX2_RF_EN OR RC632_TXCTRL_TX1_RF_EN),
      (RC632_REG_CW_CONDUCTANCE, CM5121_CW_CONDUCTANCE),
      (RC632_REG_MOD_CONDUCTANCE, CM5121_MOD_CONDUCTANCE),
      (RC632_REG_CODER_CONTROL, RC632_CDRCTRL_TXCD_14443A OR RC632_CDRCTRL_RATE_106K),
      (RC632_REG_MOD_WIDTH, 0x13),
      (RC632_REG_MOD_WIDTH_SOF, 0x3f),
      (RC632_REG_TYPE_B_FRAMING, 0x00),
      (RC632_REG_RX_CONTROL1, RC632_RXCTRL1_GAIN_35DB OR RC632_RXCTRL1_ISO14443 OR
         RC632_RXCTRL1_SUBCP_8),
      (RC632_REG_DECODER_CONTROL, RC632_DECCTRL_MANCHESTER OR RC632_DECCTRL_RXFR_14443A),
      (RC632_REG_BIT_PHASE, CM5121_14443A_BITPHASE),
      (RC632_REG_RX_THRESHOLD, CM5121_14443A_THRESHOLD),
      (RC632_REG_BPSK_DEM_CONTROL, 0x00),
      (RC632_REG_RX_CONTROL2, RC632_RXCTRL2_DECSRC_INT OR RC632_RXCTRL2_CLK_Q),
      (RC632_REG_RX_WAIT, 0x06),
      (RC632_REG_CHANNEL_REDUNDANCY, RC632_CR_PARITY_ENABLE OR RC632_CR_PARITY_ODD),
      (RC632_REG_CRC_PRESET_LSB, 0x63),
      (RC632_REG_CRC_PRESET_MSB, 0x63)]"

text \<open>The result of the FIFO flush is overwritten, not tested.\<close>

definition rc632_iso14443a_init :: "'w rc632_transport \<Rightarrow> 'w \<Rightarrow> (int \<times> 'w) option" where
  "rc632_iso14443a_init t w = do {
     (_, w) \<leftarrow> rc632_reg_write t RC632_REG_CONTROL RC632_CONTROL_FIFO_FLUSH w;
     (ret, w) \<leftarrow> rc632_execute_script t iso14443a_script w;
     if ret < 0 then Some (ret, w) else Some (0, w) }"

text \<open>
  A short frame.  The answer goes to the two bytes of \<open>struct iso14443a_atqa\<close>, which are zeroed
  first.
\<close>

definition rc632_iso14443a_transceive_sf ::
    "'w rc632_transport \<Rightarrow> u8 \<Rightarrow> 'w \<Rightarrow> (int \<times> bytes \<times> 'w) option" where
  "rc632_iso14443a_transceive_sf t cmd w = do {
     let atqa = [0, 0];
     (ret, w) \<leftarrow> rc632_reg_write t RC632_REG_BIT_FRAMING 0x07 w;
     if ret < 0 then Some (ret, atqa, w)
     else do {
       (ret, w) \<leftarrow> rc632_clear_bits t RC632_REG_CONTROL RC632_CONTROL_CRYPTO1_ON w;
       if ret < 0 then Some (ret, atqa, w)
       else do {
         (ret, w) \<leftarrow> rc632_clear_bits t RC632_REG_CHANNEL_REDUNDANCY
                       (RC632_CR_RX_CRC_ENABLE OR RC632_CR_TX_CRC_ENABLE) w;
         if ret < 0 then Some (ret, atqa, w)
         else do {
           (ret, atqa, rx_len, w) \<leftarrow> rc632_transceive t [cmd] 1 atqa 2 92 w;
           if ret < 0 then Some (ret, atqa, w)
           else do {
             (ret, w) \<leftarrow> rc632_reg_write t RC632_REG_BIT_FRAMING 0x00 w;
             if ret < 0 then Some (ret, atqa, w)
             else do {
               (ret, error_flag, w) \<leftarrow> rc632_reg_read t RC632_REG_ERROR_FLAG None w;
               if ret < 0 then Some (ret, atqa, w)
               else do {
                 error_flag \<leftarrow> error_flag;
                 (ret, w) \<leftarrow> (if error_flag AND RC632_ERR_FLAG_COL_ERR \<noteq> 0 then do {
                                (ret, boc, w) \<leftarrow> rc632_reg_read t RC632_REG_COLL_POS None w;
                                Some (ret, w) }
                              else Some (ret, w));
                 if ret < 0 then Some (ret, atqa, w)
                 else if rx_len \<noteq> 2 then Some (-1, atqa, w)
                 else Some (0, atqa, w) } } } } } } }"

text \<open>
  A regular frame.  The receive buffer is zeroed for its announced length before anything else, and
  the byte-sized length of \<open>rc632_transceive\<close> is written back even when it fails.
\<close>

definition iso14443ab_channel_red :: "u32 \<Rightarrow> u8 option" where
  "iso14443ab_channel_red frametype =
     (if frametype = RFID_14443A_FRAME_REGULAR \<or> frametype = RFID_MIFARE_FRAME then
        Some (RC632_CR_RX_CRC_ENABLE OR RC632_CR_TX_CRC_ENABLE OR RC632_CR_PARITY_ENABLE OR
              RC632_CR_PARITY_ODD)
      else if frametype = RFID_14443B_FRAME_REGULAR then
        Some (RC632_CR_RX_CRC_ENABLE OR RC632_CR_TX_CRC_ENABLE OR RC632_CR_CRC3309)
      else if frametype = RFID_15693_FRAME then
        Some (RC632_CR_CRC3309 OR RC632_CR_RX_CRC_ENABLE OR RC632_CR_TX_CRC_ENABLE)
      else None)"

definition rc632_iso14443ab_transceive ::
    "'w rc632_transport \<Rightarrow> u32 \<Rightarrow> bytes \<Rightarrow> u32 \<Rightarrow> bytes \<Rightarrow> u32 \<Rightarrow> u64 \<Rightarrow> u32 \<Rightarrow> 'w
       \<Rightarrow> (int \<times> bytes \<times> u32 \<times> 'w) option" where
  "rc632_iso14443ab_transceive t frametype tx_buf tx_len rx_buf rx_len timeout flags w = do {
     let rxl = (if rx_len > 0xff then 0xff else ucast rx_len :: u8);
     rx_buf \<leftarrow> memset0 rx_buf (unat rx_len);
     case iso14443ab_channel_red frametype of
       None \<Rightarrow> Some (- EINVAL, rx_buf, rx_len, w)
     | Some channel_red \<Rightarrow> do {
         (ret, w) \<leftarrow> rc632_reg_write t RC632_REG_CHANNEL_REDUNDANCY channel_red w;
         if ret < 0 then Some (ret, rx_buf, rx_len, w)
         else do {
           (ret, rx_buf, rxl, w) \<leftarrow> rc632_transceive t tx_buf (ucast tx_len) rx_buf rxl timeout w;
           if ret < 0 then Some (ret, rx_buf, ucast rxl, w)
           else Some (0, rx_buf, ucast rxl, w) } } }"

record iso14443a_anticol_cmd =
  acf_sel_code :: u8
  acf_nvb :: u8
  acf_uid_bits :: bytes

definition acf_bytes :: "iso14443a_anticol_cmd \<Rightarrow> bytes" where
  "acf_bytes acf = acf_sel_code acf # acf_nvb acf # acf_uid_bits acf"

abbreviation (input) ISO14443A_BITOFCOL_NONE :: u32 where "ISO14443A_BITOFCOL_NONE \<equiv> 0xffffffff"

text \<open>
  How an answer is merged into the command: the split byte is joined from both halves and the rest
  is copied behind it.
\<close>

definition acf_merge :: "bytes \<Rightarrow> nat \<Rightarrow> u8 \<Rightarrow> bytes \<Rightarrow> u8 \<Rightarrow> bytes option" where
  "acf_merge uid_bits tx_bytes tx_last_bits rx_buf rx_len =
     (if tx_bytes < 2 then None
      else do {
        old \<leftarrow> get_at uid_bits (tx_bytes - 2);
        r0 \<leftarrow> get_at rx_buf 0;
        uid_bits \<leftarrow> put_at uid_bits (tx_bytes - 2)
                     ((old AND drop_bit (8 - unat tx_last_bits) 0xff) OR r0);
        if rx_len \<noteq> 0 then do {
          rest \<leftarrow> get_slice rx_buf 1 (unat rx_len - 1);
          put_slice uid_bits (tx_bytes - 1) rest }
        else Some uid_bits })"

definition rc632_iso14443a_transceive_acf ::
    "'w rc632_transport \<Rightarrow> iso14443a_anticol_cmd \<Rightarrow> 'w
       \<Rightarrow> (int \<times> iso14443a_anticol_cmd \<times> u32 \<times> 'w) option" where
  "rc632_iso14443a_transceive_acf t acf w = do {
     let bit_of_col = ISO14443A_BITOFCOL_NONE;
     let rx_buf = replicate 64 0;
     (ret, w) \<leftarrow> rc632_clear_bits t RC632_REG_CONTROL RC632_CONTROL_CRYPTO1_ON w;
     if ret < 0 then Some (ret, acf, bit_of_col, w)
     else do {
       (ret, w) \<leftarrow> rc632_clear_bits t RC632_REG_CHANNEL_REDUNDANCY
                     (RC632_CR_TX_CRC_ENABLE OR RC632_CR_TX_CRC_ENABLE) w;
       if ret < 0 then Some (ret, acf, bit_of_col, w)
       else do {
         let tx_last_bits = acf_nvb acf AND 0x07;
         let tx_bytes = drop_bit 4 (acf_nvb acf) AND 0x07;
         let tx_bytes_total = (if tx_last_bits \<noteq> 0 then tx_bytes + 1 else tx_bytes);
         let rx_align = (if tx_last_bits \<noteq> 0 then tx_last_bits AND 0x07 else 0);
         (ret, w) \<leftarrow> rc632_reg_write t RC632_REG_BIT_FRAMING
                       (push_bit 4 rx_align OR tx_last_bits) w;
         if ret < 0 then Some (ret, acf, bit_of_col, w)
         else do {
           (ret, rx_buf, rx_len, w) \<leftarrow>
             rc632_transceive t (acf_bytes acf) tx_bytes_total rx_buf 64 0x32 w;
           if ret < 0 then Some (ret, acf, bit_of_col, w)
           else do {
             uid_bits \<leftarrow> acf_merge (acf_uid_bits acf) (unat tx_bytes) tx_last_bits rx_buf rx_len;
             let acf = acf\<lparr>acf_uid_bits := uid_bits\<rparr>;
             (ret, error_flag, w) \<leftarrow> rc632_reg_read t RC632_REG_ERROR_FLAG None w;
             if ret < 0 then Some (ret, acf, bit_of_col, w)
             else do {
               error_flag \<leftarrow> error_flag;
               if error_flag AND RC632_ERR_FLAG_COL_ERR \<noteq> 0 then do {
                 (ret, boc, w) \<leftarrow> rc632_reg_read t RC632_REG_COLL_POS None w;
                 if ret < 0 then Some (ret, acf, bit_of_col, w)
                 else do {
                   boc \<leftarrow> boc;
                   Some (0, acf, 2 * 8 + ucast boc, w) } }
               else Some (0, acf, bit_of_col, w) } } } } } }"

section \<open>Bit rates\<close>

record rx_config =
  subc_pulses :: u8
  rx_coding :: u8
  rx_threshold :: u8
  bpsk_dem_ctrl :: u8

record tx_config =
  tx_rate :: u8
  mod_width :: u8

definition rx_configs :: "rx_config list" where
  "rx_configs =
     [\<lparr>subc_pulses = RC632_RXCTRL1_SUBCP_8, rx_coding = RC632_DECCTRL_MANCHESTER,
       rx_threshold = 0x88, bpsk_dem_ctrl = 0x00\<rparr>,
      \<lparr>subc_pulses = RC632_RXCTRL1_SUBCP_4, rx_coding = RC632_DECCTRL_BPSK,
       rx_threshold = 0x50, bpsk_dem_ctrl = 0x0c\<rparr>,
      \<lparr>subc_pulses = RC632_RXCTRL1_SUBCP_2, rx_coding = RC632_DECCTRL_BPSK,
       rx_threshold = 0x50, bpsk_dem_ctrl = 0x0c\<rparr>,
      \<lparr>subc_pulses = RC632_RXCTRL1_SUBCP_1, rx_coding = RC632_DECCTRL_BPSK,
       rx_threshold = 0x50, bpsk_dem_ctrl = 0x0c\<rparr>]"

definition tx_configs :: "tx_config list" where
  "tx_configs =
     [\<lparr>tx_rate = RC632_CDRCTRL_RATE_106K, mod_width = 0x13\<rparr>,
      \<lparr>tx_rate = RC632_CDRCTRL_RATE_212K, mod_width = 0x07\<rparr>,
      \<lparr>tx_rate = RC632_CDRCTRL_RATE_424K, mod_width = 0x03\<rparr>,
      \<lparr>tx_rate = RC632_CDRCTRL_RATE_848K, mod_width = 0x01\<rparr>]"

text \<open>The guard is the source's \<open>rate > ARRAY_SIZE\<close>: rate 4 passes it and indexes past the table.\<close>

definition rc632_iso14443a_set_speed ::
    "'w rc632_transport \<Rightarrow> u32 \<Rightarrow> u32 \<Rightarrow> 'w \<Rightarrow> (int \<times> 'w) option" where
  "rc632_iso14443a_set_speed t tx rate w =
     (if tx = 0 then
        if unat rate > length rx_configs then Some (- EINVAL, w)
        else do {
          c \<leftarrow> get_at rx_configs (unat rate);
          (rc, w) \<leftarrow> rc632_set_bit_mask t RC632_REG_RX_CONTROL1 RC632_RXCTRL1_SUBCP_MASK
                       (subc_pulses c) w;
          if rc < 0 then Some (rc, w)
          else do {
            (rc, w) \<leftarrow> rc632_set_bit_mask t RC632_REG_DECODER_CONTROL RC632_DECCTRL_BPSK
                         (rx_coding c) w;
            if rc < 0 then Some (rc, w)
            else do {
              (rc, w) \<leftarrow> rc632_reg_write t RC632_REG_RX_THRESHOLD (rx_threshold c) w;
              if rc < 0 then Some (rc, w)
              else if rx_coding c = RC632_DECCTRL_BPSK then do {
                (rc, w) \<leftarrow> rc632_reg_write t RC632_REG_BPSK_DEM_CONTROL (bpsk_dem_ctrl c) w;
                if rc < 0 then Some (rc, w) else Some (0, w) }
              else Some (0, w) } } }
      else
        if unat rate > length tx_configs then Some (- EINVAL, w)
        else do {
          c \<leftarrow> get_at tx_configs (unat rate);
          (rc, w) \<leftarrow> rc632_set_bit_mask t RC632_REG_CODER_CONTROL RC632_CDRCTRL_RATE_MASK
                       (tx_rate c) w;
          if rc < 0 then Some (rc, w)
          else do {
            (rc, w) \<leftarrow> rc632_reg_write t RC632_REG_MOD_WIDTH (mod_width c) w;
            if rc < 0 then Some (rc, w) else Some (0, w) } })"

section \<open>ISO 14443 B\<close>

text \<open>
  \<open>rc632_iso14443b_init\<close> is a sequence of register writes, each followed by a return on failure, as
  \<^const>\<open>rc632_execute_script\<close> runs one.
\<close>

definition iso14443b_regs :: "register_file list" where
  "iso14443b_regs = reg_file
     [(RC632_REG_CONTROL, RC632_CONTROL_FIFO_FLUSH),
      (RC632_REG_TX_CONTROL, RC632_TXCTRL_TX1_RF_EN OR RC632_TXCTRL_TX2_RF_EN OR
         RC632_TXCTRL_TX2_INV OR RC632_TXCTRL_MOD_SRC_INT),
      (RC632_REG_CW_CONDUCTANCE, 0x3f),
      (RC632_REG_MOD_CONDUCTANCE, 0x04),
      (RC632_REG_CODER_CONTROL, RC632_CDRCTRL_TXCD_NRZ OR RC632_CDRCTRL_RATE_14443B),
      (RC632_REG_MOD_WIDTH, 0x13),
      (RC632_REG_MOD_WIDTH_SOF, 0x3f),
      (RC632_REG_TYPE_B_FRAMING, RC632_TBFRAMING_SOF_11L_3H OR
         push_bit RC632_TBFRAMING_SPACE_SHIFT 6 OR RC632_TBFRAMING_EOF_11),
      (RC632_REG_RX_CONTROL1, RC632_RXCTRL1_GAIN_35DB OR RC632_RXCTRL1_ISO14443 OR
         RC632_RXCTRL1_SUBCP_8),
      (RC632_REG_DECODER_CONTROL, RC632_DECCTRL_BPSK OR RC632_DECCTRL_RXFR_14443B),
      (RC632_REG_BIT_PHASE, CM5121_14443B_BITPHASE),
      (RC632_REG_RX_THRESHOLD, CM5121_14443B_THRESHOLD),
      (RC632_REG_BPSK_DEM_CONTROL,
         push_bit RC632_BPSKD_TAUB_SHIFT (0x2 AND RC632_BPSKD_TAUB_MASK) OR
         push_bit RC632_BPSKD_TAUD_SHIFT (0x3 AND RC632_BPSKD_TAUD_MASK) OR
         RC632_BPSKD_FILTER_AMP_DETECT OR RC632_BPSKD_NO_RX_EOF OR RC632_BPSKD_NO_RX_EGT),
      (RC632_REG_RX_CONTROL2, RC632_RXCTRL2_AUTO_PD OR RC632_RXCTRL2_DECSRC_INT),
      (RC632_REG_RX_WAIT, 0x03),
      (RC632_REG_CHANNEL_REDUNDANCY, RC632_CR_TX_CRC_ENABLE OR RC632_CR_RX_CRC_ENABLE OR
         RC632_CR_CRC3309),
      (RC632_REG_CRC_PRESET_LSB, 0xff),
      (RC632_REG_CRC_PRESET_MSB, 0xff)]"

definition rc632_iso14443b_init :: "'w rc632_transport \<Rightarrow> 'w \<Rightarrow> (int \<times> 'w) option" where
  "rc632_iso14443b_init t w = rc632_execute_script t iso14443b_regs w"

section \<open>ISO 15693 and I*Code\<close>

definition iso15693_fast_script :: "register_file list" where
  "iso15693_fast_script = reg_file
     [(RC632_REG_TX_CONTROL, RC632_TXCTRL_MOD_SRC_INT OR RC632_TXCTRL_TX2_INV OR
         RC632_TXCTRL_TX2_RF_EN OR RC632_TXCTRL_TX1_RF_EN),
      (RC632_REG_CW_CONDUCTANCE, 0x3f),
      (RC632_REG_MOD_CONDUCTANCE, 0x21),
      (RC632_REG_CODER_CONTROL, RC632_CDRCTRL_TXCD_15693_FAST OR RC632_CDRCTRL_RATE_15693),
      (RC632_REG_MOD_WIDTH, 0x3f),
      (RC632_REG_MOD_WIDTH_SOF, 0x3f),
      (RC632_REG_TYPE_B_FRAMING, 0x00),
      (RC632_REG_RX_CONTROL1, RC632_RXCTRL1_ISO15693 OR RC632_RXCTRL1_SUBCP_16 OR
         RC632_RXCTRL1_GAIN_35DB),
      (RC632_REG_RX_CONTROL2, RC632_RXCTRL2_DECSRC_INT),
      (RC632_REG_DECODER_CONTROL, RC632_DECCTRL_MANCHESTER OR RC632_DECCTRL_RX_INVERT OR
         RC632_DECCTRL_ZEROAFTERCOL OR RC632_DECCTRL_RXFR_15693),
      (RC632_REG_BIT_PHASE, 0xd0),
      (RC632_REG_RX_THRESHOLD, 0xed),
      (RC632_REG_BPSK_DEM_CONTROL, 0x00),
      (RC632_REG_CHANNEL_REDUNDANCY, RC632_CR_RX_CRC_ENABLE OR RC632_CR_TX_CRC_ENABLE OR
         RC632_CR_CRC3309),
      (RC632_REG_CRC_PRESET_LSB, 0xff),
      (RC632_REG_CRC_PRESET_MSB, 0xff)]"

definition icode1_std_script :: "register_file list" where
  "icode1_std_script = reg_file
     [(RC632_REG_TX_CONTROL, RC632_TXCTRL_MOD_SRC_INT OR RC632_TXCTRL_TX2_INV OR
         RC632_TXCTRL_TX2_RF_EN OR RC632_TXCTRL_TX1_RF_EN),
      (RC632_REG_CW_CONDUCTANCE, 0x3f),
      (RC632_REG_MOD_CONDUCTANCE, 0x02),
      (RC632_REG_CODER_CONTROL, RC632_CDRCTRL_TXCD_ICODE_STD OR RC632_CDRCTRL_RATE_15693),
      (RC632_REG_MOD_WIDTH, 0x3f),
      (RC632_REG_MOD_WIDTH_SOF, 0x3f),
      (RC632_REG_TYPE_B_FRAMING, 0x00),
      (RC632_REG_RX_CONTROL1, RC632_RXCTRL1_ISO15693 OR RC632_RXCTRL1_SUBCP_16 OR
         RC632_RXCTRL1_GAIN_35DB),
      (RC632_REG_RX_CONTROL2, RC632_RXCTRL2_DECSRC_INT),
      (RC632_REG_DECODER_CONTROL, RC632_DECCTRL_MANCHESTER OR RC632_DECCTRL_RXFR_ICODE),
      (RC632_REG_BIT_PHASE, 0x52),
      (RC632_REG_RX_THRESHOLD, 0x66),
      (RC632_REG_BPSK_DEM_CONTROL, 0x00),
      (RC632_REG_CHANNEL_REDUNDANCY, RC632_CR_RX_CRC_ENABLE OR RC632_CR_TX_CRC_ENABLE),
      (RC632_REG_CRC_PRESET_LSB, 0xfe),
      (RC632_REG_CRC_PRESET_MSB, 0xff)]"

definition rc632_iso15693_init :: "'w rc632_transport \<Rightarrow> 'w \<Rightarrow> (int \<times> 'w) option" where
  "rc632_iso15693_init t w = do {
     (ret, w) \<leftarrow> rc632_reg_write t RC632_REG_CONTROL RC632_CONTROL_FIFO_FLUSH w;
     if ret < 0 then Some (ret, w)
     else do {
       (ret, w) \<leftarrow> rc632_execute_script t iso15693_fast_script w;
       if ret < 0 then Some (ret, w) else Some (0, w) } }"

definition rc632_iso15693_icode1_init :: "'w rc632_transport \<Rightarrow> 'w \<Rightarrow> (int \<times> 'w) option" where
  "rc632_iso15693_icode1_init t w = do {
     (ret, w) \<leftarrow> rc632_execute_script t icode1_std_script w;
     if ret < 0 then Some (ret, w) else Some (0, w) }"

definition iso15693_icl_regs :: "register_file list" where
  "iso15693_icl_regs = reg_file
     [(RC632_REG_TX_CONTROL, RC632_TXCTRL_MOD_SRC_INT OR RC632_TXCTRL_TX2_INV OR
         RC632_TXCTRL_TX2_RF_EN OR RC632_TXCTRL_TX1_RF_EN),
      (RC632_REG_CW_CONDUCTANCE, 0x3f),
      (RC632_REG_MOD_CONDUCTANCE, 0x11),
      (RC632_REG_CODER_CONTROL, RC632_CDRCTRL_RATE_15693 OR RC632_CDRCTRL_TXCD_ICODE_STD OR 0x03),
      (RC632_REG_MOD_WIDTH, 0x3f),
      (RC632_REG_MOD_WIDTH_SOF, 0x3f),
      (RC632_REG_RX_CONTROL1, RC632_RXCTRL1_SUBCP_16 OR RC632_RXCTRL1_ISO15693 OR
         RC632_RXCTRL1_GAIN_35DB),
      (RC632_REG_DECODER_CONTROL, RC632_DECCTRL_RX_INVERT OR RC632_DECCTRL_RXFR_15693),
      (RC632_REG_BIT_PHASE, 0xbd),
      (RC632_REG_RX_THRESHOLD, 0xff),
      (RC632_REG_BPSK_DEM_CONTROL, 0x00),
      (RC632_REG_RX_CONTROL2, RC632_RXCTRL2_DECSRC_INT),
      (RC632_REG_CHANNEL_REDUNDANCY, 0x00),
      (RC632_REG_CRC_PRESET_LSB, 0x12),
      (RC632_REG_CRC_PRESET_MSB, 0xe0)]"

definition rc632_iso15693_icl_init :: "'w rc632_transport \<Rightarrow> 'w \<Rightarrow> (int \<times> 'w) option" where
  "rc632_iso15693_icl_init t w = rc632_execute_script t iso15693_icl_regs w"

text \<open>
  A copy in reverse order, which nothing calls any more: it reads the byte behind the source and never its first one.
\<close>

fun uuid_reversecpy_from :: "nat \<Rightarrow> nat \<Rightarrow> bytes \<Rightarrow> bytes \<Rightarrow> bytes option" where
  "uuid_reversecpy_from 0 i out inp = Some out"
| "uuid_reversecpy_from (Suc len) i out inp = do {
     b \<leftarrow> get_at inp (Suc len);
     out \<leftarrow> put_at out i b;
     uuid_reversecpy_from len (i + 1) out inp }"

definition uuid_reversecpy :: "bytes \<Rightarrow> bytes \<Rightarrow> nat \<Rightarrow> bytes option" where
  "uuid_reversecpy out inp len = uuid_reversecpy_from len 0 out inp"

lemma uuid_reversecpy_overrun: "0 < length inp \<Longrightarrow> uuid_reversecpy out inp (length inp) = None"
  by (cases "length inp") (simp_all add: uuid_reversecpy_def get_at_def)

text \<open>\<open>iso15693_timing\<close> of \<open>src/rfid_layer2_iso15693.c\<close>: rows slow and fast, columns T1 to T4 and T4
  for writes.\<close>

definition iso15693_timing :: "u32 list list" where
  "iso15693_timing = [[1216, 1200, 1502, 1216, 20000], [304, 300, 602, 304, 20000]]"

abbreviation (input) RFID_15693_F_RATE_HIGH :: u8 where "RFID_15693_F_RATE_HIGH \<equiv> 0x02"

text \<open>
  An inventory frame; \<open>acf\<close> are the bytes of the request, the first of which holds the flags.  The
  caller's \<open>unsigned int\<close> length is passed where a byte is expected, so that its low byte is used and
  replaced.  Only a timeout or an I/O error of the transfer is passed on.
\<close>

definition rc632_iso15693_transceive_ac ::
    "'w rc632_transport \<Rightarrow> bytes \<Rightarrow> u32 \<Rightarrow> bytes \<Rightarrow> u32 \<Rightarrow> u8 option \<Rightarrow> 'w
       \<Rightarrow> (int \<times> bytes \<times> u32 \<times> u8 option \<times> 'w) option" where
  "rc632_iso15693_transceive_ac t acf acf_len resp rx_len bit_of_col w = do {
     flags \<leftarrow> get_at acf 0;
     let rate = (if flags AND RFID_15693_F_RATE_HIGH \<noteq> 0 then 1 else 0);
     (ret, resp, rxl, w) \<leftarrow> rc632_transceive t acf (ucast acf_len) resp (ucast rx_len)
                              (ucast (iso15693_timing ! rate ! 0)) w;
     let rx_len = (rx_len AND 0xffffff00) OR ucast rxl;
     if ret = - ETIMEDOUT \<or> ret = - EIO then Some (ret, resp, rx_len, bit_of_col, w)
     else do {
       (ret, error_flag, w) \<leftarrow> rc632_reg_read t RC632_REG_ERROR_FLAG None w;
       if ret < 0 then Some (ret, resp, rx_len, bit_of_col, w)
       else do {
         error_flag \<leftarrow> error_flag;
         if error_flag AND RC632_ERR_FLAG_COL_ERR \<noteq> 0 then do {
           (ret, boc, w) \<leftarrow> rc632_reg_read t RC632_REG_COLL_POS None w;
           if ret < 0 then Some (ret, resp, rx_len, bit_of_col, w)
           else do {
             boc \<leftarrow> boc;
             Some (0, resp, rx_len, Some boc, w) } }
         else if error_flag AND RC632_ERR_FLAG_CRC_ERR \<noteq> 0
         then Some (- EIO, resp, rx_len, Some 0, w)
         else Some (0, resp, rx_len, Some 0, w) } } }"

section \<open>Crypto1\<close>

fun transform_key_from :: "bytes \<Rightarrow> bytes" where
  "transform_key_from [] = []"
| "transform_key_from (k # ks) =
     (let ln = k AND 0x0f; hn = drop_bit 4 k
      in (push_bit 4 (NOT hn) OR hn) # (push_bit 4 (NOT ln) OR ln) # transform_key_from ks)"

definition rc632_mifare_transform_key :: "bytes \<Rightarrow> bytes option" where
  "rc632_mifare_transform_key key6 = do {
     key \<leftarrow> get_slice key6 0 6;
     Some (transform_key_from key) }"

abbreviation (input) RC632_TMO_AUTH1 :: u64 where "RC632_TMO_AUTH1 \<equiv> 140"

text \<open>The common end of the two key loading commands: wait, then look at the key error flag.\<close>

definition mifare_key_finish :: "'w rc632_transport \<Rightarrow> 'w \<Rightarrow> (int \<times> 'w) option" where
  "mifare_key_finish t w = do {
     (ret, w) \<leftarrow> rc632_timer_set t RC632_TMO_AUTH1 w;
     if ret < 0 then Some (ret, w)
     else do {
       (ret, w) \<leftarrow> rc632_wait_idle_timer t w;
       if ret < 0 then Some (ret, w)
       else do {
         (ret, reg, w) \<leftarrow> rc632_reg_read t RC632_REG_ERROR_FLAG None w;
         if ret < 0 then Some (ret, w)
         else do {
           reg \<leftarrow> reg;
           if reg AND RC632_ERR_FLAG_KEY_ERR \<noteq> 0 then Some (- EINVAL, w) else Some (0, w) } } } }"

definition rc632_mifare_set_key :: "'w rc632_transport \<Rightarrow> bytes \<Rightarrow> 'w \<Rightarrow> (int \<times> 'w) option" where
  "rc632_mifare_set_key t key w = do {
     coded_key \<leftarrow> rc632_mifare_transform_key key;
     (ret, w) \<leftarrow> rc632_reg_write t RC632_REG_COMMAND RC632_CMD_IDLE w;
     if ret < 0 then Some (ret, w)
     else do {
       (ret, w) \<leftarrow> rc632_fifo_write t 12 coded_key 0x03 w;
       if ret < 0 then Some (ret, w)
       else do {
         (ret, w) \<leftarrow> rc632_reg_write t RC632_REG_COMMAND RC632_CMD_LOAD_KEY w;
         if ret < 0 then Some (ret, w) else mifare_key_finish t w } } }"

definition rc632_mifare_set_key_ee :: "'w rc632_transport \<Rightarrow> u32 \<Rightarrow> 'w \<Rightarrow> (int \<times> 'w) option" where
  "rc632_mifare_set_key_ee t addr w =
     (if addr > 0xffff - 12 then Some (- EINVAL, w)
      else do {
        let cmd_addr = [ucast (addr AND 0xff), ucast (drop_bit 8 addr AND 0xff)];
        (ret, w) \<leftarrow> rc632_reg_write t RC632_REG_COMMAND RC632_CMD_IDLE w;
        if ret < 0 then Some (ret, w)
        else do {
          (ret, w) \<leftarrow> rc632_fifo_write t 2 cmd_addr 0x03 w;
          if ret < 0 then Some (ret, w)
          else do {
            (ret, w) \<leftarrow> rc632_reg_write t RC632_REG_COMMAND RC632_CMD_LOAD_KEY_E2 w;
            if ret < 0 then Some (ret, w) else mifare_key_finish t w } } })"

abbreviation (input) RFID_CMD_MIFARE_AUTH1A :: u8 where "RFID_CMD_MIFARE_AUTH1A \<equiv> 0x60"
abbreviation (input) RFID_CMD_MIFARE_AUTH1B :: u8 where "RFID_CMD_MIFARE_AUTH1B \<equiv> 0x61"

text \<open>\<open>struct mifare_authcmd\<close> as the FIFO sees it.\<close>

definition mifare_authcmd :: "u8 \<Rightarrow> u8 \<Rightarrow> u32 \<Rightarrow> bytes" where
  "mifare_authcmd cmd block serno = [cmd, block AND 0xff] @ u32_le_bytes serno"

definition mifare_auth2 :: "'w rc632_transport \<Rightarrow> 'w \<Rightarrow> (int \<times> 'w) option" where
  "mifare_auth2 t w = do {
     (ret, w) \<leftarrow> rc632_clear_bits t RC632_REG_CHANNEL_REDUNDANCY RC632_CR_TX_CRC_ENABLE w;
     if ret < 0 then Some (ret, w)
     else do {
       (ret, w) \<leftarrow> rc632_timer_set t RC632_TMO_AUTH1 w;
       if ret < 0 then Some (ret, w)
       else do {
         (ret, w) \<leftarrow> rc632_reg_write t RC632_REG_COMMAND RC632_CMD_AUTHENT2 w;
         if ret < 0 then Some (ret, w)
         else do {
           (ret, w) \<leftarrow> rc632_wait_idle_timer t w;
           if ret < 0 then Some (ret, w)
           else do {
             (ret, reg, w) \<leftarrow> rc632_reg_read t RC632_REG_CONTROL None w;
             if ret < 0 then Some (ret, w)
             else do {
               reg \<leftarrow> reg;
               if \<not> (reg AND RC632_CONTROL_CRYPTO1_ON \<noteq> 0) then Some (- EACCES, w)
               else Some (0, w) } } } } } }"

definition rc632_mifare_auth ::
    "'w rc632_transport \<Rightarrow> u8 \<Rightarrow> u32 \<Rightarrow> u8 \<Rightarrow> 'w \<Rightarrow> (int \<times> 'w) option" where
  "rc632_mifare_auth t cmd serno block w =
     (if cmd \<noteq> RFID_CMD_MIFARE_AUTH1A \<and> cmd \<noteq> RFID_CMD_MIFARE_AUTH1B then Some (- EINVAL, w)
      else do {
        (ret, w) \<leftarrow> rc632_clear_bits t RC632_REG_CHANNEL_REDUNDANCY RC632_CR_RX_CRC_ENABLE w;
        if ret < 0 then Some (ret, w)
        else do {
          (ret, w) \<leftarrow> rc632_fifo_write t 6 (mifare_authcmd cmd block serno) 0x03 w;
          if ret < 0 then Some (ret, w)
          else do {
            (ret, w) \<leftarrow> rc632_reg_write t RC632_REG_COMMAND RC632_CMD_AUTHENT1 w;
            if ret < 0 then Some (ret, w)
            else do {
              (ret, w) \<leftarrow> rc632_timer_set t RC632_TMO_AUTH1 w;
              if ret < 0 then Some (ret, w)
              else do {
                (ret, w) \<leftarrow> rc632_wait_idle_timer t w;
                if ret < 0 then Some (ret, w)
                else do {
                  (ret, reg, w) \<leftarrow> rc632_reg_read t RC632_REG_SECONDARY_STATUS None w;
                  if ret < 0 then Some (ret, w)
                  else do {
                    reg \<leftarrow> reg;
                    if reg AND 0x07 \<noteq> 0 then Some (- EIO, w)
                    else mifare_auth2 t w } } } } } } })"

definition rc632_mifare_transceive ::
    "'w rc632_transport \<Rightarrow> bytes \<Rightarrow> u32 \<Rightarrow> bytes \<Rightarrow> u32 \<Rightarrow> 'w \<Rightarrow> (int \<times> bytes \<times> u32 \<times> 'w) option" where
  "rc632_mifare_transceive t tx_buf tx_len rx_buf rx_len w = do {
     let rxl = ucast (rx_len AND 0xff);
     rx_buf \<leftarrow> memset0 rx_buf (unat rx_len);
     (ret, w) \<leftarrow> rc632_reg_write t RC632_REG_CHANNEL_REDUNDANCY
                   (RC632_CR_PARITY_ENABLE OR RC632_CR_PARITY_ODD OR RC632_CR_TX_CRC_ENABLE OR
                    RC632_CR_RX_CRC_ENABLE) w;
     if ret < 0 then Some (ret, rx_buf, rx_len, w)
     else do {
       (ret, rx_buf, rxl, w) \<leftarrow> rc632_transceive t tx_buf (ucast tx_len) rx_buf rxl 0x32 w;
       if ret < 0 then Some (ret, rx_buf, ucast rxl, w)
       else Some (0, rx_buf, ucast rxl, w) } }"

section \<open>Selecting an air interface\<close>

definition rc632_layer2_init :: "'w rc632_transport \<Rightarrow> u32 \<Rightarrow> 'w \<Rightarrow> (int \<times> 'w) option" where
  "rc632_layer2_init t l2 w =
     (if l2 = RFID_LAYER2_ISO14443A then rc632_iso14443a_init t w
      else if l2 = RFID_LAYER2_ISO14443B then rc632_iso14443b_init t w
      else if l2 = RFID_LAYER2_ISO15693 then rc632_iso15693_init t w
      else if l2 = RFID_LAYER2_ICODE1 then rc632_iso15693_icode1_init t w
      else Some (- EINVAL, w))"

section \<open>Receive bounds\<close>

context bounded_transport
begin
lemma iso14443ab_transceive_bound:
  assumes "rc632_iso14443ab_transceive t ft tx tx_len rx rx_len timeout flags w = Some (ret, rx', n', w')"
  shows "length rx' = length rx \<and> n' \<le> rx_len \<and> unat rx_len \<le> length rx"
proof -
  let ?rxl = "if rx_len > 0xff then 0xff else ucast rx_len :: u8"
  have le: "ucast n \<le> rx_len" if "n \<le> ?rxl" for n
    using that by (auto simp: word_le_nat_alt word_less_nat_alt unat_ucast_u32_u8 split: if_splits)
  show ?thesis
    using assms
    by (auto simp: rc632_iso14443ab_transceive_def run_simps Let_def memset0_def le
        split: if_splits option.splits dest!: rc632_transceive_bound)
qed

end

section \<open>What the registers hold\<close>

text \<open>The script that \<^const>\<open>rc632_layer2_init\<close> runs for an air interface.\<close>

definition layer2_script :: "u32 \<Rightarrow> register_file list" where
  "layer2_script l2 =
     (if l2 = RFID_LAYER2_ISO14443A then iso14443a_script
      else if l2 = RFID_LAYER2_ISO14443B then iso14443b_regs
      else if l2 = RFID_LAYER2_ISO15693 then iso15693_fast_script
      else if l2 = RFID_LAYER2_ICODE1 then icode1_std_script else [])"

lemmas script_defs = iso14443a_script_def iso14443b_regs_def iso15693_fast_script_def
  icode1_std_script_def

lemma layer2_script_distinct: "distinct (map rf_reg (layer2_script l2))"
  by (simp add: layer2_script_def script_defs reg_file_def)

lemma layer2_script_regs: "\<forall>f \<in> set (layer2_script l2). rf_reg f < 0x40"
  by (auto simp: layer2_script_def script_defs reg_file_def)

lemma layer2_init_runs_script:
  assumes "rc632_layer2_init t l2 w = Some (0, w')"
  shows "\<exists>w1 n. rc632_execute_script t (layer2_script l2) w1 = Some (n, w') \<and> 0 \<le> n"
  using assms
  by (auto simp: rc632_layer2_init_def layer2_script_def rc632_iso14443a_init_def
      rc632_iso14443b_init_def rc632_iso15693_init_def rc632_iso15693_icode1_init_def run_simps
      not_less split: if_splits)

context register_transport
begin

lemma script_holds:
  assumes "rc632_execute_script t fs w = Some (n, w')" "0 \<le> n" "distinct (map rf_reg fs)"
    and "\<forall>f \<in> set fs. rf_reg f < 0x40" "f \<in> set fs" "rf_reg f \<in> plain"
  shows "regs w' (rf_reg f) = rf_val f"
proof -
  let ?tab = "map (\<lambda>f. (rf_reg f, rf_val f)) fs"
  have "map_of (rev ?tab) (rf_reg f) = Some (rf_val f)"
    using assms(3,5) by (intro map_of_is_SomeI) (simp_all add: rev_map [symmetric] o_def)
  then show ?thesis
    using execute_script_regs [OF assms(1,2,6,4)] by simp
qed

lemma set_tx_speed_regs:
  assumes "rc632_iso14443a_set_speed t tx rate w = Some (0, w')" "tx \<noteq> 0"
    and plain: "RC632_REG_CODER_CONTROL \<in> plain" "RC632_REG_MOD_WIDTH \<in> plain"
  shows "unat rate < length tx_configs \<and>
         regs w' RC632_REG_CODER_CONTROL =
           (regs w RC632_REG_CODER_CONTROL AND NOT RC632_CDRCTRL_RATE_MASK) OR
           (tx_rate (tx_configs ! unat rate) AND RC632_CDRCTRL_RATE_MASK) \<and>
         regs w' RC632_REG_MOD_WIDTH = mod_width (tx_configs ! unat rate)"
proof -
  let ?c = "tx_configs ! unat rate"
  obtain m n w1 where rate: "unat rate < length tx_configs"
    and msk: "rc632_set_bit_mask t RC632_REG_CODER_CONTROL RC632_CDRCTRL_RATE_MASK (tx_rate ?c) w
                = Some (m, w1)" "0 \<le> m"
    and wid: "rc632_reg_write t RC632_REG_MOD_WIDTH (mod_width ?c) w1 = Some (n, w')" "0 \<le> n"
    using assms(1,2)
    by (auto simp: rc632_iso14443a_set_speed_def run_simps not_less split: if_splits
        dest!: get_at_SomeD)
  show ?thesis
    using rate set_bit_mask_regs [OF msk plain(1,1)] write_regs [OF wid plain(1)]
      write_regs [OF wid plain(2)] by simp
qed

end

end
