(* ===== verification/Rfid_Reader.thy ===== *)
theory Rfid_Reader
  imports Rc632_Proto
begin

text \<open>
  The reader layer: \<open>struct rfid_reader\<close> as a record of functions
  (\<open>include/librfid/rfid_reader.h\<close>), the functions all RC632 readers share
  (\<open>src/rfid_reader_rc632_common.c\<close>), and the calls of \<open>src/rfid_reader.c\<close>.
  A reader handle is the reader's function table with the ASIC handle.
\<close>

section \<open>The reader interface\<close>

record 'w rfid_reader =
  rdr_l2_supported :: u32
  rdr_proto_supported :: u32
  rdr_init :: "u32 \<Rightarrow> 'w \<Rightarrow> (int \<times> 'w) option"
  rdr_transceive :: "u32 \<Rightarrow> bytes \<Rightarrow> u32 \<Rightarrow> bytes \<Rightarrow> u32 \<Rightarrow> u64 \<Rightarrow> u32 \<Rightarrow> 'w
                       \<Rightarrow> (int \<times> bytes \<times> u32 \<times> 'w) option"
  rdr_transceive_sf :: "u8 \<Rightarrow> 'w \<Rightarrow> (int \<times> bytes \<times> 'w) option"
  rdr_transceive_acf :: "iso14443a_anticol_cmd \<Rightarrow> 'w
                           \<Rightarrow> (int \<times> iso14443a_anticol_cmd \<times> u32 \<times> 'w) option"
  rdr_set_speed :: "(u32 \<Rightarrow> u32 \<Rightarrow> 'w \<Rightarrow> (int \<times> 'w) option) option"
  rdr_speed :: u32
  rdr_transceive_ac :: "(bytes \<Rightarrow> u32 \<Rightarrow> bytes \<Rightarrow> u32 \<Rightarrow> u8 option \<Rightarrow> 'w
                           \<Rightarrow> (int \<times> bytes \<times> u32 \<times> u8 option \<times> 'w) option) option"
  rdr_setkey :: "(bytes \<Rightarrow> 'w \<Rightarrow> (int \<times> 'w) option) option"
  rdr_setkey_ee :: "(u32 \<Rightarrow> 'w \<Rightarrow> (int \<times> 'w) option) option"
  rdr_auth :: "(u8 \<Rightarrow> u32 \<Rightarrow> u8 \<Rightarrow> 'w \<Rightarrow> (int \<times> 'w) option) option"
  rdr_setopt :: "u32 \<Rightarrow> u32 option \<Rightarrow> u32 \<Rightarrow> 'w \<Rightarrow> (int \<times> 'w) option"

record 'w rfid_reader_handle =
  rh_reader :: "'w rfid_reader"
  rh_ah :: rfid_asic_handle

definition rfid_reader_transceive ::
    "'w rfid_reader_handle \<Rightarrow> u32 \<Rightarrow> bytes \<Rightarrow> u32 \<Rightarrow> bytes \<Rightarrow> u32 \<Rightarrow> u64 \<Rightarrow> u32 \<Rightarrow> 'w
       \<Rightarrow> (int \<times> bytes \<times> u32 \<times> 'w) option" where
  "rfid_reader_transceive rh frametype tx_buf len rx_buf rx_len timeout flags w =
     rdr_transceive (rh_reader rh) frametype tx_buf len rx_buf rx_len timeout flags w"

definition rfid_reader_setopt ::
    "'w rfid_reader_handle \<Rightarrow> u32 \<Rightarrow> u32 option \<Rightarrow> u32 \<Rightarrow> 'w \<Rightarrow> (int \<times> 'w) option" where
  "rfid_reader_setopt rh optname optval optlen w =
     rdr_setopt (rh_reader rh) optname optval optlen w"

section \<open>The functions shared by the RC632 readers\<close>

definition rdr_rc632_transceive ::
    "'w rc632_transport \<Rightarrow> u32 \<Rightarrow> bytes \<Rightarrow> u32 \<Rightarrow> bytes \<Rightarrow> u32 \<Rightarrow> u64 \<Rightarrow> u32 \<Rightarrow> 'w
       \<Rightarrow> (int \<times> bytes \<times> u32 \<times> 'w) option" where
  "rdr_rc632_transceive t frametype tx_data tx_len rx_data rx_len timeout flags w =
     rc632_iso14443ab_transceive t frametype tx_data tx_len rx_data rx_len timeout flags w"

definition rdr_rc632_transceive_sf ::
    "'w rc632_transport \<Rightarrow> u8 \<Rightarrow> 'w \<Rightarrow> (int \<times> bytes \<times> 'w) option" where
  "rdr_rc632_transceive_sf t cmd w = rc632_iso14443a_transceive_sf t cmd w"

definition rdr_rc632_transceive_acf ::
    "'w rc632_transport \<Rightarrow> iso14443a_anticol_cmd \<Rightarrow> 'w
       \<Rightarrow> (int \<times> iso14443a_anticol_cmd \<times> u32 \<times> 'w) option" where
  "rdr_rc632_transceive_acf t cmd w = rc632_iso14443a_transceive_acf t cmd w"

definition rdr_rc632_iso15693_transceive_ac ::
    "'w rc632_transport \<Rightarrow> bytes \<Rightarrow> u32 \<Rightarrow> bytes \<Rightarrow> u32 \<Rightarrow> u8 option \<Rightarrow> 'w
       \<Rightarrow> (int \<times> bytes \<times> u32 \<times> u8 option \<times> 'w) option" where
  "rdr_rc632_iso15693_transceive_ac t acf acf_len resp resp_len bit_of_col w =
     rc632_iso15693_transceive_ac t acf acf_len resp resp_len bit_of_col w"

abbreviation (input) RFID_14443A_SPEED_106K :: u32 where "RFID_14443A_SPEED_106K \<equiv> 0x01"
abbreviation (input) RFID_14443A_SPEED_212K :: u32 where "RFID_14443A_SPEED_212K \<equiv> 0x02"
abbreviation (input) RFID_14443A_SPEED_424K :: u32 where "RFID_14443A_SPEED_424K \<equiv> 0x04"
abbreviation (input) RFID_14443A_SPEED_848K :: u32 where "RFID_14443A_SPEED_848K \<equiv> 0x08"

definition speed_to_rate :: "u32 \<Rightarrow> u8 option" where
  "speed_to_rate speed =
     (if speed = RFID_14443A_SPEED_106K then Some 0x00
      else if speed = RFID_14443A_SPEED_212K then Some 0x01
      else if speed = RFID_14443A_SPEED_424K then Some 0x02
      else if speed = RFID_14443A_SPEED_848K then Some 0x03
      else None)"

definition rdr_rc632_14443a_set_speed ::
    "'w rc632_transport \<Rightarrow> u32 \<Rightarrow> u32 \<Rightarrow> 'w \<Rightarrow> (int \<times> 'w) option" where
  "rdr_rc632_14443a_set_speed t tx speed w =
     (case speed_to_rate speed of
        None \<Rightarrow> Some (- EINVAL, w)
      | Some rate \<Rightarrow> rc632_iso14443a_set_speed t tx (ucast rate) w)"

definition rdr_rc632_l2_init :: "'w rc632_transport \<Rightarrow> u32 \<Rightarrow> 'w \<Rightarrow> (int \<times> 'w) option" where
  "rdr_rc632_l2_init t l2 w = rc632_layer2_init t l2 w"

definition rdr_rc632_mifare_setkey :: "'w rc632_transport \<Rightarrow> bytes \<Rightarrow> 'w \<Rightarrow> (int \<times> 'w) option" where
  "rdr_rc632_mifare_setkey t key w = rc632_mifare_set_key t key w"

definition rdr_rc632_mifare_setkey_ee :: "'w rc632_transport \<Rightarrow> u32 \<Rightarrow> 'w \<Rightarrow> (int \<times> 'w) option" where
  "rdr_rc632_mifare_setkey_ee t addr w = rc632_mifare_set_key_ee t addr w"

definition rdr_rc632_mifare_auth ::
    "'w rc632_transport \<Rightarrow> u8 \<Rightarrow> u32 \<Rightarrow> u8 \<Rightarrow> 'w \<Rightarrow> (int \<times> 'w) option" where
  "rdr_rc632_mifare_auth t cmd serno block w = rc632_mifare_auth t cmd serno block w"

abbreviation (input) RFID_OPT_RDR_FW_VERSION :: u32 where "RFID_OPT_RDR_FW_VERSION \<equiv> 0x0001"
abbreviation (input) RFID_OPT_RDR_RF_KILL :: u32 where "RFID_OPT_RDR_RF_KILL \<equiv> 0x0002"

definition rdr_rc632_getopt :: "'w \<Rightarrow> (int \<times> 'w) option" where
  "rdr_rc632_getopt w = Some (- EINVAL, w)"

text \<open>The option value is a pointer: \<^const>\<open>None\<close> stands for a null pointer.\<close>

definition rdr_rc632_setopt ::
    "'w rc632_transport \<Rightarrow> u32 \<Rightarrow> u32 option \<Rightarrow> u32 \<Rightarrow> 'w \<Rightarrow> (int \<times> 'w) option" where
  "rdr_rc632_setopt t optname optval optlen w =
     (case optval of
        None \<Rightarrow> Some (- EINVAL, w)
      | Some val \<Rightarrow>
          if optlen < 4 then Some (- EINVAL, w)
          else if optname = RFID_OPT_RDR_RF_KILL then
            (if val \<noteq> 0 then rc632_rf_power t False w else rc632_rf_power t True w)
          else Some (- EINVAL, w))"

text \<open>The function table that the RC632 readers fill in alike, over their transport.\<close>

definition rc632_reader :: "'w rc632_transport \<Rightarrow> 'w rfid_reader" where
  "rc632_reader t =
     \<lparr>rdr_l2_supported = push_bit 1 1 OR push_bit 2 1 OR push_bit 3 1,
      rdr_proto_supported = push_bit 1 1 OR push_bit 2 1 OR push_bit 3 1,
      rdr_init = rdr_rc632_l2_init t,
      rdr_transceive = rdr_rc632_transceive t,
      rdr_transceive_sf = rdr_rc632_transceive_sf t,
      rdr_transceive_acf = rdr_rc632_transceive_acf t,
      rdr_set_speed = Some (rdr_rc632_14443a_set_speed t),
      rdr_speed = RFID_14443A_SPEED_106K OR RFID_14443A_SPEED_212K OR RFID_14443A_SPEED_424K,
      rdr_transceive_ac = Some (rdr_rc632_iso15693_transceive_ac t),
      rdr_setkey = Some (rdr_rc632_mifare_setkey t),
      rdr_setkey_ee = Some (rdr_rc632_mifare_setkey_ee t),
      rdr_auth = Some (rdr_rc632_mifare_auth t),
      rdr_setopt = rdr_rc632_setopt t\<rparr>"

section \<open>The contract of a reader\<close>

text \<open>
  What the layers above rely on in a reader: a transfer that returns had a receive buffer of the
  announced length, keeps it in place, and announces at most that many bytes.
\<close>

locale bounded_reader =
  fixes rd :: "'w rfid_reader"
  assumes transceive_bound:
    "rdr_transceive rd frametype tx tx_len rx rx_len timeout flags w = Some (ret, rx', n', w') \<Longrightarrow>
     length rx' = length rx \<and> n' \<le> rx_len \<and> unat rx_len \<le> length rx"

sublocale bounded_transport \<subseteq> rdr: bounded_reader "rc632_reader t"
proof
  fix frametype tx tx_len rx rx_len timeout flags w ret rx' n' w'
  assume "rdr_transceive (rc632_reader t) frametype tx tx_len rx rx_len timeout flags w
            = Some (ret, rx', n', w')"
  then have "rc632_iso14443ab_transceive t frametype tx tx_len rx rx_len timeout flags w
               = Some (ret, rx', n', w')"
    by (simp add: rc632_reader_def rdr_rc632_transceive_def)
  then show "length rx' = length rx \<and> n' \<le> rx_len \<and> unat rx_len \<le> length rx"
    by (rule iso14443ab_transceive_bound)
qed

end
