(* ===== verification/Iso14443_Common.thy ===== *)
theory Iso14443_Common
  imports Rfid_Prelude
begin

text \<open>
  The frame size codes of ISO 14443 (\<open>src/rfid_iso14443_common.c\<close>): the table that T=CL and
  ISO 14443-3 B use to translate between a frame size in bytes and its four-bit code.
\<close>

section \<open>Model\<close>

definition fsdi_table :: "u32 list" where
  "fsdi_table = [16, 24, 32, 40, 48, 64, 96, 128, 256]"

text \<open>
  The guard is written as in the source, \<open>fsdi > 9\<close> for a table of nine entries: code 9 passes it
  and is read outside of the table.  The result is the return code and, when the function stores
  one, the frame size.
\<close>

definition iso14443_fsdi_to_fsd :: "u8 \<Rightarrow> (int \<times> u32 option) option" where
  "iso14443_fsdi_to_fsd fsdi =
     (if unat fsdi > length fsdi_table then Some (-1, None)
      else do { fsd \<leftarrow> get_at fsdi_table (unat fsdi); Some (0, Some fsd) })"

fun fsd_to_fsdi_from :: "nat \<Rightarrow> u32 list \<Rightarrow> u32 \<Rightarrow> int \<times> u8 option" where
  "fsd_to_fsdi_from i [] fsd = (-1, None)"
| "fsd_to_fsdi_from i (x # xs) fsd =
     (if x = fsd then (0, Some (of_nat i)) else fsd_to_fsdi_from (Suc i) xs fsd)"

definition iso14443_fsd_to_fsdi :: "u32 \<Rightarrow> int \<times> u8 option" where
  "iso14443_fsd_to_fsdi fsd = fsd_to_fsdi_from 0 fsdi_table fsd"

fun fsd_approx_down :: "u32 list \<Rightarrow> u32 \<Rightarrow> u32" where
  "fsd_approx_down [] fsd = hd fsdi_table"
| "fsd_approx_down (x # xs) fsd = (if x \<le> fsd then x else fsd_approx_down xs fsd)"

definition iso14443_fsd_approx :: "u32 \<Rightarrow> u32" where
  "iso14443_fsd_approx fsd = fsd_approx_down (rev fsdi_table) fsd"

section \<open>Lemmas\<close>

lemma fsdi_table_eqs [simp]: "length fsdi_table = 9"
  by (simp add: fsdi_table_def)

lemma fsd_approx_down_le: "\<exists>x \<in> set xs. x \<le> fsd \<Longrightarrow> fsd_approx_down xs fsd \<le> fsd"
  by (induction xs fsd rule: fsd_approx_down.induct) auto

lemma fsd_approx_down_greatest:
  assumes "sorted (rev xs)" "y \<in> set xs" "y \<le> fsd"
  shows "y \<le> fsd_approx_down xs fsd"
  using assms by (induction xs fsd rule: fsd_approx_down.induct) (auto simp: sorted_append)

lemma fsd_approx_down_mem: "fsd_approx_down xs fsd \<in> set xs \<union> {hd fsdi_table}"
  by (induction xs fsd rule: fsd_approx_down.induct) auto

lemma fsd_approx_mem: "iso14443_fsd_approx fsd \<in> set fsdi_table"
  using fsd_approx_down_mem [of "rev fsdi_table" fsd]
  by (auto simp: iso14443_fsd_approx_def fsdi_table_def)

lemma sorted_fsdi_table: "sorted fsdi_table"
  by (simp add: fsdi_table_def)

lemma fsd_to_fsdi_from_entry:
  "x \<in> set xs \<Longrightarrow>
   \<exists>i < length xs. fsd_to_fsdi_from k xs x = (0, Some (of_nat (k + i))) \<and> xs ! i = x"
proof (induction xs arbitrary: k)
  case (Cons y ys)
  show ?case
  proof (cases "y = x")
    case False
    with Cons obtain i where
      "i < length ys" "fsd_to_fsdi_from (Suc k) ys x = (0, Some (of_nat (Suc k + i)))" "ys ! i = x"
      by fastforce
    with False show ?thesis by (intro exI [of _ "Suc i"]) simp
  qed auto
qed simp

lemma fsd_to_fsdi_from_missing: "x \<notin> set xs \<Longrightarrow> fsd_to_fsdi_from k xs x = (-1, None)"
  by (induction xs arbitrary: k) auto

lemma fsd_to_fsdi_of_entry:
  "x \<in> set fsdi_table \<Longrightarrow>
   \<exists>i < 9. iso14443_fsd_to_fsdi x = (0, Some (of_nat i)) \<and> fsdi_table ! i = x"
  using fsd_to_fsdi_from_entry [of x fsdi_table 0] by (simp add: iso14443_fsd_to_fsdi_def)

section \<open>Properties\<close>

text \<open>
  The approximation of a frame size is encodable, and for every size from 16 on it is the
  greatest encodable size that does not exceed it.
\<close>

theorem fsd_approx_greatest:
  "iso14443_fsd_approx fsd \<in> set fsdi_table \<and>
   (if 16 \<le> fsd
    then iso14443_fsd_approx fsd = Max {x \<in> set fsdi_table. x \<le> fsd}
    else iso14443_fsd_approx fsd = 16)"
proof (cases "16 \<le> fsd")
  case True
  then have le: "iso14443_fsd_approx fsd \<le> fsd"
    unfolding iso14443_fsd_approx_def
    by (intro fsd_approx_down_le) (auto simp: fsdi_table_def intro: bexI [of _ 16])
  have "y \<le> iso14443_fsd_approx fsd" if "y \<in> set fsdi_table" "y \<le> fsd" for y
    unfolding iso14443_fsd_approx_def
    using that sorted_fsdi_table by (intro fsd_approx_down_greatest) auto
  then have "Max {x \<in> set fsdi_table. x \<le> fsd} = iso14443_fsd_approx fsd"
    using le fsd_approx_mem by (intro Max_eqI) auto
  with True fsd_approx_mem show ?thesis by simp
next
  case False
  then have "iso14443_fsd_approx fsd = 16"
    by (auto simp: iso14443_fsd_approx_def fsdi_table_def word_le_nat_alt)
  with False show ?thesis by (simp add: fsdi_table_def)
qed

text \<open>
  Encoding the approximated frame size always succeeds, and decoding the code gives the size
  back; a size that is not in the table is refused.
\<close>

theorem fsdi_roundtrip:
  "(\<exists>c. iso14443_fsd_to_fsdi (iso14443_fsd_approx fsd) = (0, Some c) \<and> c < 9 \<and>
        iso14443_fsdi_to_fsd c = Some (0, Some (iso14443_fsd_approx fsd))) \<and>
   (if x \<in> set fsdi_table then fst (iso14443_fsd_to_fsdi x) = 0
    else iso14443_fsd_to_fsdi x = (-1, None))"
proof -
  obtain i where i: "i < 9" "iso14443_fsd_to_fsdi (iso14443_fsd_approx fsd) = (0, Some (of_nat i))"
      "fsdi_table ! i = iso14443_fsd_approx fsd"
    using fsd_to_fsdi_of_entry [OF fsd_approx_mem [of fsd]] by auto
  have "unat (of_nat i :: u8) = i" using i(1) by (simp add: unat_of_nat_small)
  with i have "iso14443_fsdi_to_fsd (of_nat i) = Some (0, Some (iso14443_fsd_approx fsd))"
      "(of_nat i :: u8) < 9"
    by (simp_all add: iso14443_fsdi_to_fsd_def word_less_nat_alt)
  with i(2) fsd_to_fsdi_of_entry [of x] show ?thesis
    by (auto simp: iso14443_fsd_to_fsdi_def fsd_to_fsdi_from_missing)
qed

text \<open>
  Decoding is right for the codes of the table and refuses codes above nine; code nine itself
  passes the range test and reads behind the end of the table.
\<close>

lemma fsdi_to_fsd_cases:
  "iso14443_fsdi_to_fsd c =
     (if c < 9 then Some (0, Some (fsdi_table ! unat c))
      else if c = 9 then None else Some (-1, None))"
  by (auto simp: iso14443_fsdi_to_fsd_def get_at_def word_less_nat_alt word_unat_eq_iff)

text \<open>No size is in the table twice, so encoding is the inverse of decoding.\<close>

lemma fsd_to_fsdi_iff:
  "iso14443_fsd_to_fsdi x = (0, Some c) \<longleftrightarrow> c < 9 \<and> fsdi_table ! unat c = x"
proof (cases "x \<in> set fsdi_table")
  case True
  then obtain i where i: "i < 9" "iso14443_fsd_to_fsdi x = (0, Some (of_nat i))" "fsdi_table ! i = x"
    using fsd_to_fsdi_of_entry by blast
  have u: "unat (of_nat i :: u8) = i" using i(1) by (simp add: unat_of_nat_small)
  have "distinct fsdi_table" by (simp add: fsdi_table_def)
  then have "unat c = i" if "c < 9" "fsdi_table ! unat c = x"
    using that i(1,3) nth_eq_iff_index_eq [of fsdi_table "unat c" i] by (simp add: word_less_nat_alt)
  then show ?thesis
    using i u by (auto simp: word_less_nat_alt word_unat_eq_iff)
next
  case False
  have "fsdi_table ! unat c \<in> set fsdi_table" if "c < 9"
    using that by (intro nth_mem) (simp add: word_less_nat_alt)
  with False show ?thesis by (auto simp: iso14443_fsd_to_fsdi_def fsd_to_fsdi_from_missing)
qed

text \<open>
  C30: the frame size codes are those of ISO 14443-4: codes 0 to 8 stand for 16, 24, 32, 40, 48, 64, 96, 128 and
  256 bytes.  Encoding is the inverse of decoding and refuses every other size; the approximation of a size is
  the greatest of these that does not exceed it, or 16 below that, and so can be encoded and decoded again.
  Codes above nine are refused; code nine passes the range test and reads behind the end of the table.
\<close>

theorem frame_size_codes:
  "let sizes = [16, 24, 32, 40, 48, 64, 96, 128, 256] in
   iso14443_fsdi_to_fsd c =
     (if c < 9 then Some (0, Some (sizes ! unat c)) else if c = 9 then None else Some (-1, None)) \<and>
   (iso14443_fsd_to_fsdi x = (0, Some c) \<longleftrightarrow> c < 9 \<and> sizes ! unat c = x) \<and>
   (iso14443_fsd_to_fsdi x = (-1, None) \<longleftrightarrow> x \<notin> set sizes) \<and>
   iso14443_fsd_approx x = (if 16 \<le> x then Max {y \<in> set sizes. y \<le> x} else 16) \<and>
   (\<exists>k. iso14443_fsd_to_fsdi (iso14443_fsd_approx x) = (0, Some k) \<and>
        iso14443_fsdi_to_fsd k = Some (0, Some (iso14443_fsd_approx x)))"
proof -
  have sizes: "[16, 24, 32, 40, 48, 64, 96, 128, 256] = fsdi_table" by (simp add: fsdi_table_def)
  have "iso14443_fsd_to_fsdi x = (-1, None) \<longleftrightarrow> x \<notin> set fsdi_table"
    using fsd_to_fsdi_of_entry [of x] by (auto simp: iso14443_fsd_to_fsdi_def fsd_to_fsdi_from_missing)
  then show ?thesis
    unfolding Let_def sizes
    using fsd_approx_greatest [of x] fsdi_roundtrip [of x x] by (auto simp: fsdi_to_fsd_cases fsd_to_fsdi_iff)
qed

end
