(* ===== verification/Layer2_Iso14443a.thy ===== *)
theory Layer2_Iso14443a
  imports Rfid_Reader Iso14443_Common
begin

text \<open>
  The layer 2 handle (\<open>include/librfid/rfid_layer2.h\<close>) and ISO 14443-3 type A
  (\<open>src/rfid_layer2_iso14443a.c\<close>): request, bit-frame anticollision with cascade levels, halt and
  options.

  The members of the handle's union \<open>priv\<close> are separate fields, since each layer 2 touches only its
  own member.  The reader handle is an argument of its own instead of a field, and the file's
  static random state is passed along.
\<close>

section \<open>Handles\<close>

datatype iso14443a_state =
  ISO14443A_STATE_ERROR | ISO14443A_STATE_NONE | ISO14443A_STATE_REQA_SENT
| ISO14443A_STATE_ATQA_RCVD | ISO14443A_STATE_NO_BITFRAME_ANTICOL
| ISO14443A_STATE_ANTICOL_RUNNING | ISO14443A_STATE_SELECTED

datatype iso14443a_level =
  ISO14443A_LEVEL_NONE | ISO14443A_LEVEL_CL1 | ISO14443A_LEVEL_CL2 | ISO14443A_LEVEL_CL3

record iso14443a_handle =
  a_state :: iso14443a_state
  a_level :: iso14443a_level
  a_tcl_capable :: u32
  a_atqa :: bytes
  a_sak :: u8

datatype iso14443b_state =
  ISO14443B_STATE_ERROR | ISO14443B_STATE_NONE | ISO14443B_STATE_REQB_SENT
| ISO14443B_STATE_ATQB_RCVD | ISO14443B_STATE_ATTRIB_SENT | ISO14443B_STATE_SELECTED
| ISO14443B_STATE_HLTB_SENT | ISO14443B_STATE_HALTED

record iso14443b_handle =
  b_tcl_capable :: u32
  b_cid :: u32
  b_fsc :: u32
  b_fsd :: u32
  b_fwt :: u32
  b_mbl :: u32
  b_tr0 :: u32
  b_tr1 :: u32
  b_flags :: u32
  b_state :: iso14443b_state

record iso15693_handle =
  i_state :: u32
  i_vcd_ask100 :: bool
  i_vicc_two_subc :: bool
  i_vicc_fast :: bool
  i_single_slot :: bool
  i_use_afi :: bool
  i_vcd_out256 :: bool
  i_afi :: u8
  i_dsfid :: u8

record rfid_layer2_handle =
  l2_id :: u32
  l2_uid :: bytes
  l2_uid_len :: u32
  l2_proto_supported :: u32
  l2_flags :: u32
  l2_a :: iso14443a_handle
  l2_b :: iso14443b_handle
  l2_i :: iso15693_handle

definition set_a_state :: "iso14443a_state \<Rightarrow> rfid_layer2_handle \<Rightarrow> rfid_layer2_handle" where
  "set_a_state st h = h\<lparr>l2_a := (l2_a h)\<lparr>a_state := st\<rparr>\<rparr>"

definition set_a_level :: "iso14443a_level \<Rightarrow> rfid_layer2_handle \<Rightarrow> rfid_layer2_handle" where
  "set_a_level lv h = h\<lparr>l2_a := (l2_a h)\<lparr>a_level := lv\<rparr>\<rparr>"

section \<open>Frames\<close>

definition iso14443a_transceive_sf ::
    "'w rfid_reader_handle \<Rightarrow> u8 \<Rightarrow> 'w \<Rightarrow> (int \<times> bytes \<times> 'w) option" where
  "iso14443a_transceive_sf rh cmd w = rdr_transceive_sf (rh_reader rh) cmd w"

definition iso14443a_transceive_acf ::
    "'w rfid_reader_handle \<Rightarrow> iso14443a_anticol_cmd \<Rightarrow> 'w
       \<Rightarrow> (int \<times> iso14443a_anticol_cmd \<times> u32 \<times> 'w) option" where
  "iso14443a_transceive_acf rh acf w = rdr_transceive_acf (rh_reader rh) acf w"

definition iso14443a_transceive ::
    "'w rfid_reader_handle \<Rightarrow> u32 \<Rightarrow> bytes \<Rightarrow> u32 \<Rightarrow> bytes \<Rightarrow> u32 \<Rightarrow> u64 \<Rightarrow> u32 \<Rightarrow> 'w
       \<Rightarrow> (int \<times> bytes \<times> u32 \<times> 'w) option" where
  "iso14443a_transceive rh frametype tx_buf tx_len rx_buf rx_len timeout flags w =
     rdr_transceive (rh_reader rh) frametype tx_buf tx_len rx_buf rx_len timeout flags w"

definition iso14443a_code_nvb_bits :: "u8 \<Rightarrow> u32 \<Rightarrow> int \<times> u8" where
  "iso14443a_code_nvb_bits nvb bits =
     (let byte_count = bits div 8; bit_count = bits mod 8
      in if byte_count < 2 \<or> byte_count > 7 then (-1, nvb)
         else (0, ucast (push_bit 4 (byte_count AND 0xf) OR bit_count)))"

definition acf_code_nvb :: "u32 \<Rightarrow> iso14443a_anticol_cmd \<Rightarrow> iso14443a_anticol_cmd" where
  "acf_code_nvb bits acf = acf\<lparr>acf_nvb := snd (iso14443a_code_nvb_bits (acf_nvb acf) bits)\<rparr>"

text \<open>\<open>randctx\<close>: four \<open>unsigned long\<close>s, 64 bits wide on the hosts considered.\<close>

record randctx =
  rnd0 :: u64
  rnd1 :: u64
  rnd2 :: u64
  rnd3 :: u64

definition randctx_init :: randctx where
  "randctx_init = \<lparr>rnd0 = 0x22d4a017, rnd1 = 0x773a1f44, rnd2 = 0xc39e1460, rnd3 = 0x9cde8801\<rparr>"

definition random_bit :: "randctx \<Rightarrow> u64 \<times> randctx" where
  "random_bit r =
     (let e = rnd0 r;
          r0 = rnd1 r;
          r1 = push_bit 19 (rnd2 r) + drop_bit 13 (rnd2 r) + rnd3 r;
          r2 = rnd3 r XOR r0;
          r3 = e + r1
      in (r1 AND 1, \<lparr>rnd0 = r0, rnd1 = r1, rnd2 = r2, rnd3 = r3\<rparr>))"

definition rnd_toggle_bit_in_field :: "bytes \<Rightarrow> u32 \<Rightarrow> u32 \<Rightarrow> randctx \<Rightarrow> (bytes \<times> randctx) option" where
  "rnd_toggle_bit_in_field bitfield sz pos r =
     (if pos \<noteq> 0 \<and> pos \<le> sz * 8 then do {
        let (rnd, r) = random_bit r;
        let pos = pos - 1;
        old \<leftarrow> get_at bitfield (unat (pos div 8));
        bitfield \<leftarrow> put_at bitfield (unat (pos div 8))
                     (old XOR ucast (push_bit (unat (pos mod 8)) rnd));
        Some (bitfield, r) }
      else Some (bitfield, r))"

section \<open>Anticollision\<close>

text \<open>The \<open>while\<close> loop over collisions; a device that always reports one keeps it running.\<close>

partial_function (option) anticol_collisions ::
    "'w rfid_reader_handle \<Rightarrow> iso14443a_anticol_cmd \<Rightarrow> u32 \<Rightarrow> randctx \<Rightarrow> 'w
       \<Rightarrow> (int \<times> iso14443a_anticol_cmd \<times> randctx \<times> 'w) option" where
  "anticol_collisions rh acf bit_of_col r w =
     (if bit_of_col \<noteq> ISO14443A_BITOFCOL_NONE then do {
        let acf = acf_code_nvb bit_of_col acf;
        (uid_bits, r) \<leftarrow> rnd_toggle_bit_in_field (acf_uid_bits acf) 5 bit_of_col r;
        (ret, acf, bit_of_col, w) \<leftarrow>
          iso14443a_transceive_acf rh (acf\<lparr>acf_uid_bits := uid_bits\<rparr>) w;
        if ret < 0 then Some (ret, acf, r, w)
        else anticol_collisions rh acf bit_of_col r w }
      else Some (0, acf, r, w))"

abbreviation (input) ISO14443A_AC_SEL_CODE_CL1 :: u8 where "ISO14443A_AC_SEL_CODE_CL1 \<equiv> 0x93"
abbreviation (input) ISO14443A_AC_SEL_CODE_CL2 :: u8 where "ISO14443A_AC_SEL_CODE_CL2 \<equiv> 0x95"
abbreviation (input) ISO14443A_AC_SEL_CODE_CL3 :: u8 where "ISO14443A_AC_SEL_CODE_CL3 \<equiv> 0x97"
abbreviation (input) RFID_OPT_LAYER2_WUP :: u32 where "RFID_OPT_LAYER2_WUP \<equiv> 0x0003"
abbreviation (input) ISO14443A_SF_CMD_REQA :: u8 where "ISO14443A_SF_CMD_REQA \<equiv> 0x26"
abbreviation (input) ISO14443A_SF_CMD_WUPA :: u8 where "ISO14443A_SF_CMD_WUPA \<equiv> 0x52"

abbreviation (input) RFID_PROTOCOL_TCL :: nat where "RFID_PROTOCOL_TCL \<equiv> 1"
abbreviation (input) RFID_PROTOCOL_MIFARE_UL :: nat where "RFID_PROTOCOL_MIFARE_UL \<equiv> 2"
abbreviation (input) RFID_PROTOCOL_MIFARE_CLASSIC :: nat where "RFID_PROTOCOL_MIFARE_CLASSIC \<equiv> 3"

text \<open>Where the bytes of one cascade level go.  The first case of the result is an early return.\<close>

definition anticol_cascade_copy ::
    "bytes \<Rightarrow> iso14443a_anticol_cmd \<Rightarrow> rfid_layer2_handle
       \<Rightarrow> (int \<times> iso14443a_anticol_cmd \<times> rfid_layer2_handle) option" where
  "anticol_cascade_copy uid_bits acf h =
     (if acf_sel_code acf = ISO14443A_AC_SEL_CODE_CL1 then do {
        u0 \<leftarrow> get_at uid_bits 0;
        if u0 \<noteq> 0x88 then Some (-1, acf, h)
        else do {
          part \<leftarrow> get_slice uid_bits 1 3;
          uid \<leftarrow> put_slice (l2_uid h) 0 part;
          Some (0, acf\<lparr>acf_sel_code := ISO14443A_AC_SEL_CODE_CL2\<rparr>,
                set_a_level ISO14443A_LEVEL_CL2 (h\<lparr>l2_uid := uid\<rparr>)) } }
      else if acf_sel_code acf = ISO14443A_AC_SEL_CODE_CL2 then do {
        part \<leftarrow> get_slice uid_bits 1 3;
        uid \<leftarrow> put_slice (l2_uid h) 3 part;
        Some (0, acf\<lparr>acf_sel_code := ISO14443A_AC_SEL_CODE_CL3\<rparr>,
              set_a_level ISO14443A_LEVEL_CL3 (h\<lparr>l2_uid := uid\<rparr>)) }
      else Some (-1, acf, set_a_state ISO14443A_STATE_ERROR h))"

text \<open>The end of \<open>iso14443a_anticol\<close>, once the select answer shows a complete identifier.\<close>

definition anticol_finish ::
    "iso14443a_anticol_cmd \<Rightarrow> u8 \<Rightarrow> rfid_layer2_handle \<Rightarrow> rfid_layer2_handle option" where
  "anticol_finish acf sak h = do {
     part \<leftarrow> get_slice (acf_uid_bits acf) 0 4;
     uid \<leftarrow> (if acf_sel_code acf = ISO14443A_AC_SEL_CODE_CL1 then put_slice (l2_uid h) 0 part
             else if acf_sel_code acf = ISO14443A_AC_SEL_CODE_CL2 then put_slice (l2_uid h) 3 part
             else if acf_sel_code acf = ISO14443A_AC_SEL_CODE_CL3 then put_slice (l2_uid h) 6 part
             else Some (l2_uid h));
     let uid_len = (if a_level (l2_a h) = ISO14443A_LEVEL_CL1 then 4
                    else if a_level (l2_a h) = ISO14443A_LEVEL_CL2 then 7 else 10);
     let tcl = (sak AND 0x20 \<noteq> 0);
     Some (h\<lparr>l2_uid := uid, l2_uid_len := uid_len,
             l2_proto_supported := (if tcl then push_bit RFID_PROTOCOL_TCL 1
                                    else push_bit RFID_PROTOCOL_MIFARE_UL 1 OR
                                         push_bit RFID_PROTOCOL_MIFARE_CLASSIC 1),
             l2_a := (l2_a h)\<lparr>a_level := ISO14443A_LEVEL_NONE,
                             a_state := ISO14443A_STATE_SELECTED,
                             a_sak := sak,
                             a_tcl_capable := (if tcl then 1 else 0)\<rparr>\<rparr>) }"

text \<open>One cascade level: anticollision up to the answer to the select command.\<close>

definition anticol_level ::
    "'w rfid_reader_handle \<Rightarrow> iso14443a_anticol_cmd \<Rightarrow> bytes \<Rightarrow> randctx \<Rightarrow> 'w
       \<Rightarrow> (int \<times> iso14443a_anticol_cmd \<times> bytes \<times> randctx \<times> 'w) option" where
  "anticol_level rh acf sak r w = do {
     (ret, acf, bit_of_col, w) \<leftarrow> iso14443a_transceive_acf rh (acf_code_nvb 16 acf) w;
     if ret < 0 then Some (ret, acf, sak, r, w)
     else do {
       (ret, acf, r, w) \<leftarrow> anticol_collisions rh acf bit_of_col r w;
       if ret < 0 then Some (ret, acf, sak, r, w)
       else do {
         let acf = acf_code_nvb (7 * 8) acf;
         (ret, sak, rx_len, w) \<leftarrow> iso14443a_transceive rh RFID_14443A_FRAME_REGULAR
                                    (acf_bytes acf) 7 sak 3 1236 0 w;
         Some (ret, acf, sak, r, w) } } }"

partial_function (option) anticol_cascade ::
    "'w rfid_reader_handle \<Rightarrow> iso14443a_anticol_cmd \<Rightarrow> bytes \<Rightarrow> rfid_layer2_handle \<Rightarrow> randctx \<Rightarrow> 'w
       \<Rightarrow> (int \<times> rfid_layer2_handle \<times> randctx \<times> 'w) option" where
  "anticol_cascade rh acf sak h r w = do {
     (ret, acf, sak, r, w) \<leftarrow> anticol_level rh acf sak r w;
     if ret < 0 then Some (ret, h, r, w)
     else do {
       s0 \<leftarrow> get_at sak 0;
       if s0 AND 0x04 \<noteq> 0 then do {
         (ret, acf, h) \<leftarrow> anticol_cascade_copy (acf_uid_bits acf) acf h;
         if ret < 0 then Some (ret, h, r, w)
         else anticol_cascade rh acf sak h r w }
       else do {
         h \<leftarrow> anticol_finish acf s0 h;
         Some (0, h, r, w) } } }"

declare anticol_collisions.simps [code] anticol_cascade.simps [code]

text \<open>
  The bit-field \<open>bf_anticol\<close> are the low five bits of the first ATQA byte.  Clearing \<open>sizeof(&atqa)\<close>
  bytes from the ATQA on also clears the SAK behind it.
\<close>

definition iso14443a_anticol ::
    "'w rfid_reader_handle \<Rightarrow> rfid_layer2_handle \<Rightarrow> randctx \<Rightarrow> 'w
       \<Rightarrow> (int \<times> rfid_layer2_handle \<times> randctx \<times> 'w) option" where
  "iso14443a_anticol rh h r w = do {
     let h = h\<lparr>l2_uid := replicate 10 0, l2_a := (l2_a h)\<lparr>a_atqa := [0, 0], a_sak := 0\<rparr>\<rparr>;
     (ret, atqa, w) \<leftarrow> iso14443a_transceive_sf rh
        (if l2_flags h AND RFID_OPT_LAYER2_WUP \<noteq> 0 then ISO14443A_SF_CMD_WUPA
         else ISO14443A_SF_CMD_REQA) w;
     let h = h\<lparr>l2_a := (l2_a h)\<lparr>a_atqa := atqa\<rparr>\<rparr>;
     if ret < 0 then Some (ret, set_a_state ISO14443A_STATE_REQA_SENT h, r, w)
     else do {
       let h = set_a_state ISO14443A_STATE_ATQA_RCVD h;
       a0 \<leftarrow> get_at atqa 0;
       if a0 AND 0x1f = 0
       then Some (-1, set_a_state ISO14443A_STATE_NO_BITFRAME_ANTICOL h, r, w)
       else do {
         let acf = \<lparr>acf_sel_code = ISO14443A_AC_SEL_CODE_CL1, acf_nvb = 0,
                    acf_uid_bits = replicate 5 0\<rparr>;
         let h = set_a_level ISO14443A_LEVEL_CL1 (set_a_state ISO14443A_STATE_ANTICOL_RUNNING h);
         anticol_cascade rh acf (replicate 3 0) h r w } } }"

definition iso14443a_hlta :: "'w rfid_reader_handle \<Rightarrow> bytes \<Rightarrow> 'w \<Rightarrow> (int \<times> 'w) option" where
  "iso14443a_hlta rh rx_buf w = do {
     (ret, rx_buf, rx_len, w) \<leftarrow> iso14443a_transceive rh RFID_14443A_FRAME_REGULAR [0x50, 0x00] 2
                                   rx_buf 10 1000 0 w;
     if ret < 0 then Some (0, w) else Some (-1, w) }"

section \<open>Options\<close>

abbreviation (input) RFID_OPT_14443A_SPEED_RX :: u32 where "RFID_OPT_14443A_SPEED_RX \<equiv> 0x00010001"
abbreviation (input) RFID_OPT_14443A_SPEED_TX :: u32 where "RFID_OPT_14443A_SPEED_TX \<equiv> 0x00010002"
abbreviation (input) RFID_OPT_14443A_ATQA :: u32 where "RFID_OPT_14443A_ATQA \<equiv> 0x00010003"
abbreviation (input) RFID_OPT_14443A_WUPA :: u32 where "RFID_OPT_14443A_WUPA \<equiv> 0x00010004"
abbreviation (input) RFID_OPT_14443A_SAK :: u32 where "RFID_OPT_14443A_SAK \<equiv> 0x00010005"

text \<open>The wake-up option looks at the pointer, not at the value behind it.\<close>

definition iso14443a_setopt ::
    "'w rfid_reader_handle \<Rightarrow> rfid_layer2_handle \<Rightarrow> u32 \<Rightarrow> bytes option \<Rightarrow> 'w
       \<Rightarrow> (int \<times> rfid_layer2_handle \<times> 'w) option" where
  "iso14443a_setopt rh h optname optval w =
     (if optname = RFID_OPT_14443A_SPEED_RX \<or> optname = RFID_OPT_14443A_SPEED_TX then
        (case rdr_set_speed (rh_reader rh) of
           None \<Rightarrow> Some (- ENOTSUP, h, w)
         | Some set_speed \<Rightarrow> do {
             speed \<leftarrow> load_u32 optval;
             (ret, w) \<leftarrow> set_speed (if optname = RFID_OPT_14443A_SPEED_RX then 0 else 1) speed w;
             Some (ret, h, w) })
      else if optname = RFID_OPT_14443A_WUPA then
        Some (0, h\<lparr>l2_flags := (if optval \<noteq> None then l2_flags h OR RFID_OPT_LAYER2_WUP
                               else l2_flags h AND NOT RFID_OPT_LAYER2_WUP)\<rparr>, w)
      else Some (- EINVAL, h, w))"

text \<open>The bytes stored behind \<open>optval\<close>; their number is also the new \<open>*optlen\<close>.\<close>

definition iso14443a_getopt :: "rfid_layer2_handle \<Rightarrow> u32 \<Rightarrow> int \<times> bytes option" where
  "iso14443a_getopt h optname =
     (if optname = RFID_OPT_14443A_SAK then (- EINVAL, Some [a_sak (l2_a h)])
      else if optname = RFID_OPT_14443A_ATQA then (0, Some (a_atqa (l2_a h)))
      else if optname = RFID_OPT_14443A_WUPA then
        (0, Some (u32_le_bytes (if l2_flags h AND RFID_OPT_LAYER2_WUP \<noteq> 0 then 1 else 0)))
      else (- EINVAL, None))"

text \<open>The handle is cleared; \<open>h0\<close> is only there to name the fields of the other layers.\<close>

definition iso14443a_init ::
    "'w rfid_reader_handle \<Rightarrow> bool \<Rightarrow> rfid_layer2_handle \<Rightarrow> randctx \<Rightarrow> 'w
       \<Rightarrow> (rfid_layer2_handle option \<times> randctx \<times> 'w) option" where
  "iso14443a_init rh malloc_ok h0 r w =
     (if \<not> malloc_ok then Some (None, r, w)
      else do {
        let r = ((\<lambda>r. snd (random_bit r)) ^^ 23) r;
        let h = \<lparr>l2_id = RFID_LAYER2_ISO14443A, l2_uid = replicate 10 0, l2_uid_len = 0,
                 l2_proto_supported = 0, l2_flags = 0,
                 l2_a = \<lparr>a_state = ISO14443A_STATE_NONE, a_level = ISO14443A_LEVEL_NONE,
                        a_tcl_capable = 0, a_atqa = [0, 0], a_sak = 0\<rparr>,
                 l2_b = l2_b h0, l2_i = l2_i h0\<rparr>;
        (ret, w) \<leftarrow> rdr_init (rh_reader rh) RFID_LAYER2_ISO14443A w;
        if ret < 0 then Some (None, r, w) else Some (Some h, r, w) })"

text \<open>A handle as it is after a card was selected, for the examples.\<close>

definition sample_l2h :: rfid_layer2_handle where
  "sample_l2h =
     \<lparr>l2_id = RFID_LAYER2_ISO14443A, l2_uid = replicate 10 0, l2_uid_len = 4,
      l2_proto_supported = 2, l2_flags = 0,
      l2_a = \<lparr>a_state = ISO14443A_STATE_SELECTED, a_level = ISO14443A_LEVEL_NONE, a_tcl_capable = 1,
             a_atqa = [4, 0], a_sak = 0x20\<rparr>,
      l2_b = \<lparr>b_tcl_capable = 0, b_cid = 0, b_fsc = 0, b_fsd = 0, b_fwt = 0, b_mbl = 0, b_tr0 = 0,
             b_tr1 = 0, b_flags = 0, b_state = ISO14443B_STATE_NONE\<rparr>,
      l2_i = \<lparr>i_state = 0, i_vcd_ask100 = False, i_vicc_two_subc = False, i_vicc_fast = False,
             i_single_slot = False, i_use_afi = False, i_vcd_out256 = False, i_afi = 0,
             i_dsfid = 0\<rparr>\<rparr>"

end
