(* ===== verification/Layer2_Iso14443b.thy ===== *)
theory Layer2_Iso14443b
  imports Layer2_Iso14443a
begin

text \<open>
  ISO 14443-3 type B (\<open>src/rfid_layer2_iso14443b.c\<close>): request, ATTRIB, halt and options.
  Uninitialised locals and the uncleared handle are arguments.
\<close>

section \<open>Model\<close>

abbreviation (input) ISO14443B_CID_SUPPORTED :: u32 where "ISO14443B_CID_SUPPORTED \<equiv> 0x01"
abbreviation (input) ISO14443B_NAD_SUPPORTED :: u32 where "ISO14443B_NAD_SUPPORTED \<equiv> 0x02"

definition set_b_state :: "iso14443b_state \<Rightarrow> rfid_layer2_handle \<Rightarrow> rfid_layer2_handle" where
  "set_b_state st h = h\<lparr>l2_b := (l2_b h)\<lparr>b_state := st\<rparr>\<rparr>"

text \<open>
  The frame waiting time, as the return value: the function has a pointer for it that it never
  writes.  The product is at most 302 * 16384 for a 13.56 MHz carrier.
\<close>

definition fwi_to_fwt_b :: "u32 \<Rightarrow> u32 \<Rightarrow> int option" where
  "fwi_to_fwt_b fc fwi =
     (if fwi > 14 then Some (-1)
      else if fc = 0 then None
      else Some (sint ((4096000000 div fc) * push_bit (unat fwi) 1)))"

text \<open>What \<open>parse_atqb\<close> takes from the frame options and from the protocol type.\<close>

definition atqb_frame_options :: "u8 \<Rightarrow> rfid_layer2_handle \<Rightarrow> rfid_layer2_handle" where
  "atqb_frame_options fo h =
     (let flags = b_flags (l2_b h);
          flags = (if fo AND 0x01 \<noteq> 0 then flags OR ISO14443B_CID_SUPPORTED else flags);
          flags = (if fo AND 0x02 \<noteq> 0 then flags OR ISO14443B_NAD_SUPPORTED else flags)
      in h\<lparr>l2_b := (l2_b h)\<lparr>b_flags := flags\<rparr>\<rparr>)"

definition atqb_protocol_type :: "u8 \<Rightarrow> rfid_layer2_handle \<Rightarrow> rfid_layer2_handle" where
  "atqb_protocol_type pt h =
     (if pt = 0x1 then h\<lparr>l2_b := (l2_b h)\<lparr>b_tcl_capable := 1\<rparr>,
                         l2_proto_supported := push_bit RFID_PROTOCOL_TCL 1\<rparr>
      else h\<lparr>l2_b := (l2_b h)\<lparr>b_tcl_capable := 0\<rparr>\<rparr>)"

definition set_b_fsc :: "u32 option \<Rightarrow> rfid_layer2_handle \<Rightarrow> rfid_layer2_handle" where
  "set_b_fsc fsc h =
     (case fsc of None \<Rightarrow> h | Some x \<Rightarrow> h\<lparr>l2_b := (l2_b h)\<lparr>b_fsc := x\<rparr>\<rparr>)"

text \<open>The twelve bytes of \<open>struct iso14443b_atqb\<close>.\<close>

definition parse_atqb ::
    "'w rfid_reader_handle \<Rightarrow> bytes \<Rightarrow> rfid_layer2_handle \<Rightarrow> (int \<times> rfid_layer2_handle) option" where
  "parse_atqb rh atqb h =
     (if length atqb \<noteq> 12 then None
      else if atqb ! 0 \<noteq> 0x50 then Some (-1, h)
      else do {
        let h = atqb_frame_options (atqb ! 11 AND 0x03) h;
        ret \<leftarrow> fwi_to_fwt_b (ah_fc (rh_ah rh)) (ucast (drop_bit 4 (atqb ! 11)));
        if ret < 0 then Some (ret, h)
        else do {
          let h = atqb_protocol_type (atqb ! 10 AND 0x0f) h;
          (_, fsc) \<leftarrow> iso14443_fsdi_to_fsd (drop_bit 4 (atqb ! 10));
          let h = set_b_fsc fsc h;
          pupi \<leftarrow> get_slice atqb 1 4;
          uid \<leftarrow> put_slice (l2_uid h) 0 pupi;
          Some (0, h\<lparr>l2_uid := uid, l2_uid_len := 4\<rparr>) } })"

text \<open>The loop over the slot numbers.  \<open>atqb_len\<close> is not reset between two requests.\<close>

fun send_reqb_from ::
    "'w rfid_reader_handle \<Rightarrow> u8 \<Rightarrow> bool \<Rightarrow> nat list \<Rightarrow> bytes \<Rightarrow> u32 \<Rightarrow> rfid_layer2_handle \<Rightarrow> 'w
       \<Rightarrow> (int \<times> rfid_layer2_handle \<times> 'w) option" where
  "send_reqb_from rh afi is_wup [] atqb atqb_len h w = Some (-1, h, w)"
| "send_reqb_from rh afi is_wup (i # is) atqb atqb_len h w = do {
     let n = of_nat i AND 0x07;
     (ret, atqb, atqb_len, w) \<leftarrow>
       rdr_transceive (rh_reader rh) RFID_14443B_FRAME_REGULAR
         [0x05, afi, (if is_wup then n OR 0x08 else n)] 3 atqb atqb_len 1 0 w;
     let h = set_b_state ISO14443B_STATE_REQB_SENT h;
     if ret < 0 then send_reqb_from rh afi is_wup is atqb atqb_len h w
     else if atqb_len \<noteq> 12 then send_reqb_from rh afi is_wup is atqb atqb_len h w
     else do {
       (ret, h) \<leftarrow> parse_atqb rh atqb h;
       if ret \<ge> 0 then Some (0, set_b_state ISO14443B_STATE_ATQB_RCVD h, w)
       else send_reqb_from rh afi is_wup is atqb atqb_len h w } }"

definition send_reqb ::
    "'w rfid_reader_handle \<Rightarrow> u8 \<Rightarrow> bool \<Rightarrow> nat \<Rightarrow> bytes \<Rightarrow> rfid_layer2_handle \<Rightarrow> 'w
       \<Rightarrow> (int \<times> rfid_layer2_handle \<times> 'w) option" where
  "send_reqb rh afi is_wup num_initial_slots atqb h w =
     send_reqb_from rh afi is_wup [num_initial_slots..<5] atqb 12 h w"

text \<open>The caret of the source is an exclusive or.\<close>

definition mbli_to_mbl :: "u32 \<Rightarrow> u32 \<Rightarrow> u32" where
  "mbli_to_mbl fsc mbli = (fsc * 2) XOR (mbli - 1)"

definition iso14443b_attrib :: "bytes \<Rightarrow> u8 \<Rightarrow> u32 \<Rightarrow> u32 \<Rightarrow> bytes" where
  "iso14443b_attrib uid4 fsdi tcl_capable cid =
     [0x1d] @ uid4 @ [0x00, fsdi AND 0x0f, (if tcl_capable = 1 then 0x01 else 0x00),
                      ucast (cid AND 0xf)]"

text \<open>
  The first test compares the pointer \<open>rx_len\<close> with \<open>rx_len - 1\<close>, so the address of the variable it
  points to is an argument.
\<close>

definition transceive_attrib ::
    "'w rfid_reader_handle \<Rightarrow> bytes \<Rightarrow> bytes \<Rightarrow> bytes \<Rightarrow> u32 \<Rightarrow> u64 \<Rightarrow> rfid_layer2_handle \<Rightarrow> 'w
       \<Rightarrow> (int \<times> bytes \<times> u32 \<times> rfid_layer2_handle \<times> 'w) option" where
  "transceive_attrib rh info rx_buf rx_data rx_len rx_len_addr h w =
     (if rx_len_addr \<ge> rx_len_addr - 4 then Some (- EINVAL, rx_data, rx_len, h, w)
      else if length info > 253 then None
      else do {
        uid4 \<leftarrow> get_slice (l2_uid h) 0 4;
        let (ret, fsdi) = iso14443_fsd_to_fsdi (b_fsd (l2_b h));
        if ret < 0 then Some (ret, rx_data, rx_len, h, w)
        else do {
          fsdi \<leftarrow> fsdi;
          let attrib = iso14443b_attrib uid4 fsdi (b_tcl_capable (l2_b h)) (b_cid (l2_b h));
          let rx_len = rx_len + 1;
          (ret, rx_buf, rx_len, w) \<leftarrow>
            rdr_transceive (rh_reader rh) RFID_14443B_FRAME_REGULAR (attrib @ info)
              (9 + of_nat (length info)) rx_buf rx_len (ucast (b_fwt (l2_b h))) 0 w;
          let h = set_b_state ISO14443B_STATE_ATTRIB_SENT h;
          if ret < 0 then Some (ret, rx_data, rx_len, h, w)
          else do {
            r0 \<leftarrow> get_at rx_buf 0;
            if ucast (r0 AND 0x0f) \<noteq> b_cid (l2_b h) then Some (-1, rx_data, rx_len, h, w)
            else do {
              let h = set_b_state ISO14443B_STATE_SELECTED h;
              d0 \<leftarrow> get_at rx_data 0;
              let h = h\<lparr>l2_b := (l2_b h)\<lparr>b_mbl :=
                         mbli_to_mbl (b_fsc (l2_b h)) (ucast (drop_bit 4 (d0 AND 0xf0)))\<rparr>\<rparr>;
              let rx_len = rx_len - 1;
              d \<leftarrow> get_slice rx_buf 1 (unat rx_len);
              rx_data \<leftarrow> put_slice rx_data 0 d;
              Some (ret, rx_data, rx_len, h, w) } } } })"

definition iso14443b_hltb ::
    "'w rfid_reader_handle \<Rightarrow> bytes \<Rightarrow> rfid_layer2_handle \<Rightarrow> 'w
       \<Rightarrow> (int \<times> rfid_layer2_handle \<times> 'w) option" where
  "iso14443b_hltb rh hltb_resp h w = do {
     uid4 \<leftarrow> get_slice (l2_uid h) 0 4;
     (ret, hltb_resp, hltb_len, w) \<leftarrow>
       rdr_transceive (rh_reader rh) RFID_14443B_FRAME_REGULAR (0x50 # uid4) 5 hltb_resp 1
         (ucast (b_fwt (l2_b h))) 0 w;
     let h = set_b_state ISO14443B_STATE_HLTB_SENT h;
     if ret < 0 then Some (ret, h, w)
     else do {
       r0 \<leftarrow> get_at hltb_resp 0;
       if hltb_len \<noteq> 1 \<or> r0 \<noteq> 0x00 then Some (-1, h, w)
       else Some (0, set_b_state ISO14443B_STATE_HALTED h, w) } }"

text \<open>Its uninitialised locals: the ATQB, the receive buffer of ATTRIB, \<open>buf\<close>, and where \<open>buf_len\<close>
  lies in memory.\<close>

record iso14443b_locals =
  lb_atqb :: bytes
  lb_rx_buf :: bytes
  lb_buf :: bytes
  lb_buf_len_addr :: u64

definition iso14443b_anticol ::
    "'w rfid_reader_handle \<Rightarrow> iso14443b_locals \<Rightarrow> rfid_layer2_handle \<Rightarrow> 'w
       \<Rightarrow> (int \<times> rfid_layer2_handle \<times> 'w) option" where
  "iso14443b_anticol rh l h w = do {
     (ret, h, w) \<leftarrow> send_reqb rh 0 False 0 (lb_atqb l) h w;
     if ret < 0 then Some (ret, h, w)
     else do {
       (ret, buf, buf_len, h, w) \<leftarrow>
         transceive_attrib rh [] (lb_rx_buf l) (lb_buf l) 255 (lb_buf_len_addr l) h w;
       if ret < 0 then Some (ret, h, w) else Some (0, h, w) } }"

text \<open>Only the named fields are set; the memory is not cleared.\<close>

definition iso14443b_init ::
    "'w rfid_reader_handle \<Rightarrow> bool \<Rightarrow> rfid_layer2_handle \<Rightarrow> 'w
       \<Rightarrow> (rfid_layer2_handle option \<times> 'w) option" where
  "iso14443b_init rh malloc_ok h0 w =
     (if \<not> malloc_ok then Some (None, w)
      else do {
        let h = h0\<lparr>l2_id := RFID_LAYER2_ISO14443B,
                   l2_b := (l2_b h0)\<lparr>b_state := ISO14443B_STATE_NONE, b_cid := 0,
                             b_fsd := iso14443_fsd_approx (ah_mru (rh_ah rh)),
                             b_tr0 := 0, b_tr1 := 0\<rparr>\<rparr>;
        (ret, w) \<leftarrow> rdr_init (rh_reader rh) RFID_LAYER2_ISO14443B w;
        if ret < 0 then Some (None, w) else Some (Some h, w) })"

definition iso14443b_transceive ::
    "'w rfid_reader_handle \<Rightarrow> u32 \<Rightarrow> bytes \<Rightarrow> u32 \<Rightarrow> bytes \<Rightarrow> u32 \<Rightarrow> u64 \<Rightarrow> u32 \<Rightarrow> 'w
       \<Rightarrow> (int \<times> bytes \<times> u32 \<times> 'w) option" where
  "iso14443b_transceive rh frametype tx_buf tx_len rx_buf rx_len timeout flags w =
     rdr_transceive (rh_reader rh) frametype tx_buf tx_len rx_buf rx_len timeout flags w"

abbreviation (input) RFID_OPT_14443B_CID :: u32 where "RFID_OPT_14443B_CID \<equiv> 0x00010001"
abbreviation (input) RFID_OPT_14443B_FSC :: u32 where "RFID_OPT_14443B_FSC \<equiv> 0x00010002"
abbreviation (input) RFID_OPT_14443B_FSD :: u32 where "RFID_OPT_14443B_FSD \<equiv> 0x00010003"
abbreviation (input) RFID_OPT_14443B_FWT :: u32 where "RFID_OPT_14443B_FWT \<equiv> 0x00010004"
abbreviation (input) RFID_OPT_14443B_TR0 :: u32 where "RFID_OPT_14443B_TR0 \<equiv> 0x00010005"
abbreviation (input) RFID_OPT_14443B_TR1 :: u32 where "RFID_OPT_14443B_TR1 \<equiv> 0x00010006"

definition iso14443b_getopt :: "rfid_layer2_handle \<Rightarrow> u32 \<Rightarrow> int \<times> u32 option" where
  "iso14443b_getopt h optname =
     (if optname = RFID_OPT_14443B_CID then (0, Some (b_cid (l2_b h)))
      else if optname = RFID_OPT_14443B_FSC then (0, Some (b_fsc (l2_b h)))
      else if optname = RFID_OPT_14443B_FSD then (0, Some (b_fsd (l2_b h)))
      else if optname = RFID_OPT_14443B_FWT then (0, Some (b_fwt (l2_b h)))
      else if optname = RFID_OPT_14443B_TR0 then (0, Some (b_tr0 (l2_b h)))
      else if optname = RFID_OPT_14443B_TR1 then (0, Some (b_tr1 (l2_b h)))
      else (- EINVAL, None))"

text \<open>The misspelt \<open>default\<close> is an unused label: any other option is accepted and ignored.\<close>

definition iso14443b_setopt ::
    "rfid_layer2_handle \<Rightarrow> u32 \<Rightarrow> bytes option \<Rightarrow> (int \<times> rfid_layer2_handle) option" where
  "iso14443b_setopt h optname optval =
     (if optname = RFID_OPT_14443B_CID then do {
        v \<leftarrow> load_u32 optval;
        Some (0, h\<lparr>l2_b := (l2_b h)\<lparr>b_cid := v AND 0xf\<rparr>\<rparr>) }
      else Some (0, h))"

end
