(* ===== verification/Layer2_Iso15693.thy ===== *)
theory Layer2_Iso15693
  imports Layer2_Iso14443a
begin

text \<open>
  ISO 15693 (\<open>src/rfid_layer2_iso15693.c\<close>): block reads and writes, inventory, select, stay quiet and
  options.  Requests are the bytes of the packed structures of the source; uninitialised buffers
  are arguments.
\<close>

section \<open>Requests\<close>

abbreviation (input) RFID_15693_F_SUBC_TWO :: u8 where "RFID_15693_F_SUBC_TWO \<equiv> 0x01"
abbreviation (input) RFID_15693_F_INV_TABLE_5 :: u8 where "RFID_15693_F_INV_TABLE_5 \<equiv> 0x04"
abbreviation (input) RFID_15693_F4_SELECTED :: u8 where "RFID_15693_F4_SELECTED \<equiv> 0x10"
abbreviation (input) RFID_15693_F4_ADDRESS :: u8 where "RFID_15693_F4_ADDRESS \<equiv> 0x20"
abbreviation (input) RFID_15693_F4_CUSTOM :: u8 where "RFID_15693_F4_CUSTOM \<equiv> 0x40"
abbreviation (input) RFID_15693_F5_AFI_PRES :: u8 where "RFID_15693_F5_AFI_PRES \<equiv> 0x10"
abbreviation (input) RFID_15693_F5_NSLOTS_1 :: u8 where "RFID_15693_F5_NSLOTS_1 \<equiv> 0x20"
abbreviation (input) RFID_15693_RF_ERROR :: u8 where "RFID_15693_RF_ERROR \<equiv> 0x01"
abbreviation (input) ISO15693_CMD_INVENTORY :: u8 where "ISO15693_CMD_INVENTORY \<equiv> 0x01"
abbreviation (input) ISO15693_CMD_STAY_QUIET :: u8 where "ISO15693_CMD_STAY_QUIET \<equiv> 0x02"
abbreviation (input) ISO15693_CMD_READ_BLOCK_SINGLE :: u8 where "ISO15693_CMD_READ_BLOCK_SINGLE \<equiv> 0x20"
abbreviation (input) ISO15693_CMD_WRITE_BLOCK_SINGLE :: u8 where "ISO15693_CMD_WRITE_BLOCK_SINGLE \<equiv> 0x21"
abbreviation (input) ISO15693_CMD_SELECT :: u8 where "ISO15693_CMD_SELECT \<equiv> 0x25"
abbreviation (input) RFID_15693_STATE_QUIET :: u32 where "RFID_15693_STATE_QUIET \<equiv> 2"
abbreviation (input) RFID_15693_STATE_SELECTED :: u32 where "RFID_15693_STATE_SELECTED \<equiv> 3"
abbreviation (input) ISO15693_STATE_NONE :: u32 where "ISO15693_STATE_NONE \<equiv> 1"

abbreviation (input) iso15693_T4 :: "iso15693_handle \<Rightarrow> u32" where
  "iso15693_T4 i \<equiv> iso15693_timing ! (if i_vicc_fast i then 1 else 0) ! 3"

abbreviation (input) iso15693_T4_write :: "iso15693_handle \<Rightarrow> u32" where
  "iso15693_T4_write i \<equiv> iso15693_timing ! (if i_vicc_fast i then 1 else 0) ! 4"

text \<open>The rate and subcarrier flags that every request carries.\<close>

definition iso15693_rate_flags :: "iso15693_handle \<Rightarrow> u8" where
  "iso15693_rate_flags i =
     (if i_vicc_fast i then RFID_15693_F_RATE_HIGH else 0) OR
     (if i_vicc_two_subc i then RFID_15693_F_SUBC_TWO else 0)"

definition iso15693_block_request :: "rfid_layer2_handle \<Rightarrow> u8 \<Rightarrow> u8 \<Rightarrow> u8 \<Rightarrow> bytes option" where
  "iso15693_block_request h command extra_flags blocknr =
     (let flags = iso15693_rate_flags (l2_i h) OR extra_flags
      in if i_state (l2_i h) = RFID_15693_STATE_SELECTED
         then Some [flags OR RFID_15693_F4_SELECTED, command, blocknr]
         else do {
           uid \<leftarrow> get_slice (l2_uid h) 0 8;
           Some ([flags OR RFID_15693_F4_ADDRESS, command] @ uid @ [blocknr]) })"

definition iso15693_transceive ::
    "'w rfid_reader_handle \<Rightarrow> u32 \<Rightarrow> bytes \<Rightarrow> u32 \<Rightarrow> bytes \<Rightarrow> u32 \<Rightarrow> u64 \<Rightarrow> u32 \<Rightarrow> 'w
       \<Rightarrow> (int \<times> bytes \<times> u32 \<times> 'w) option" where
  "iso15693_transceive rh frametype tx_buf tx_len rx_buf rx_len timeout flags w =
     rdr_transceive (rh_reader rh) frametype tx_buf tx_len rx_buf rx_len timeout flags w"

definition iso15693_transceive_acf ::
    "'w rfid_reader_handle \<Rightarrow> bytes \<Rightarrow> u32 \<Rightarrow> bytes \<Rightarrow> u32 \<Rightarrow> u8 option \<Rightarrow> 'w
       \<Rightarrow> (int \<times> bytes \<times> u32 \<times> u8 option \<times> 'w) option" where
  "iso15693_transceive_acf rh acf acf_len resp rx_len bit_of_col w =
     (case rdr_transceive_ac (rh_reader rh) of
        None \<Rightarrow> Some (-1, resp, rx_len, bit_of_col, w)
      | Some transceive_ac \<Rightarrow> transceive_ac acf acf_len resp rx_len bit_of_col w)"

definition iso15693_get_response_error_name :: "u8 \<Rightarrow> string" where
  "iso15693_get_response_error_name error =
     (if error = 0x01 then ''ERR_NOTSUPP''
      else if error = 0x02 then ''ERR_INVALID''
      else if error = 0x0f then ''ERR_UNKNOWN''
      else if error = 0x03 then ''ERR_NotSuppOpt''
      else if error = 0x10 then ''ERR_BLOCK_N''
      else if error = 0x11 then ''ERR_BLOCK_LOCKE''
      else if error = 0x12 then ''ERR_BLOCK_LOCKED_CH''
      else if error = 0x13 then ''ERR_BLOCK_NOTPROG''
      else if error = 0x14 then ''ERR_BLOCK_NOTLOCK''
      else if error = 0xA0 then ''Custom Command error Code''
      else ''Undef.'')"

section \<open>Blocks\<close>

text \<open>
  \<open>resp\<close> is the uninitialised response buffer of 36 bytes, \<open>data\<close> the caller's buffer and \<open>len\<close> the
  length passed with it; \<open>want_sec\<close> says whether \<open>block_sec_out\<close> is given.
\<close>

definition iso15693_read_block ::
    "'w rfid_reader_handle \<Rightarrow> rfid_layer2_handle \<Rightarrow> bytes \<Rightarrow> u8 \<Rightarrow> bytes \<Rightarrow> u32 \<Rightarrow> bool \<Rightarrow> 'w
       \<Rightarrow> (int \<times> bytes \<times> 'w) option" where
  "iso15693_read_block rh h resp blocknr data len want_sec w = do {
     tx \<leftarrow> iso15693_block_request h ISO15693_CMD_READ_BLOCK_SINGLE
            (if want_sec then RFID_15693_F4_CUSTOM else 0) blocknr;
     (ret, resp, rx_len, w) \<leftarrow>
       iso15693_transceive rh RFID_15693_FRAME tx (of_nat (length tx)) resp 36
         (ucast (iso15693_T4 (l2_i h))) 0 w;
     if ret < 0 then Some (ret, data, w)
     else if rx_len > len + 1 then Some (-1, data, w)
     else do {
       rflags \<leftarrow> get_at resp 0;
       if rflags AND RFID_15693_RF_ERROR \<noteq> 0 then Some (-1, data, w)
       else do {
         let hdr = (if want_sec then 2 else 1);
         d \<leftarrow> get_slice resp hdr (unat (rx_len - of_nat hdr));
         data \<leftarrow> put_slice data 0 d;
         Some (sint (rx_len - of_nat hdr), data, w) } } }"

definition iso15693_write_block ::
    "'w rfid_reader_handle \<Rightarrow> rfid_layer2_handle \<Rightarrow> bytes \<Rightarrow> u8 \<Rightarrow> bytes \<Rightarrow> u32 \<Rightarrow> 'w
       \<Rightarrow> (int \<times> 'w) option" where
  "iso15693_write_block rh h resp blocknr data len w =
     (if len > 32 then Some (-1, w)
      else do {
        hdr \<leftarrow> iso15693_block_request h ISO15693_CMD_WRITE_BLOCK_SINGLE 0 blocknr;
        d \<leftarrow> get_slice data 0 (unat len);
        let tx = hdr @ d;
        (ret, resp, rx_len, w) \<leftarrow>
          iso15693_transceive rh RFID_15693_FRAME tx (of_nat (length tx)) resp 36
            (ucast (iso15693_T4_write (l2_i h))) 0 w;
        if ret < 0 then Some (ret, w)
        else if rx_len > len + 1 then Some (-1, w)
        else do {
          rflags \<leftarrow> get_at resp 0;
          if rflags AND RFID_15693_RF_ERROR \<noteq> 0 then Some (-1, w) else Some (0, w) } })"

section \<open>Inventory\<close>

text \<open>
  The mask of an inventory request.  The number of mask bytes is the source's
  \<open>mask_len/8 + (mask_len%8) ? 1 : 0\<close>, which is one for every non-empty mask; the byte that is then
  masked is the last one written, be it the mask length itself.  The result is the request and the
  length returned for it.
\<close>

definition iso15693_build_acf ::
    "bytes \<Rightarrow> u8 \<Rightarrow> u8 \<Rightarrow> u8 \<Rightarrow> bytes \<Rightarrow> (bytes \<times> nat) option" where
  "iso15693_build_acf target flags afi mask_len msk = do {
     let mask_bytes = (if mask_len div 8 + mask_len mod 8 \<noteq> 0 then 1 else 0);
     m \<leftarrow> get_slice msk 0 mask_bytes;
     let data = (if flags AND RFID_15693_F5_AFI_PRES \<noteq> 0 then [afi] else []) @ [mask_len] @ m;
     let byte = drop_bit (8 - unat (mask_len mod 8)) 0xff;
     let data = data[length data - 1 := last data AND byte];
     target \<leftarrow> put_slice target 0 ([flags, ISO15693_CMD_INVENTORY] @ data);
     Some (target, length data + 2) }"

definition inventory_flags :: "iso15693_handle \<Rightarrow> u8" where
  "inventory_flags i =
     RFID_15693_F_INV_TABLE_5 OR iso15693_rate_flags i OR
     (if i_single_slot i then RFID_15693_F5_NSLOTS_1 else 0) OR
     (if i_use_afi i then RFID_15693_F5_AFI_PRES else 0)"

text \<open>
  The loop over the slots: it returns as soon as a slot has an answer without collision
  (\<open>Inl uid\<close>), and otherwise gives, per slot, the negated bit of collision or zero with the
  identifier received, and the last response (\<open>Inr\<close>).
\<close>

fun inventory_slots ::
    "'w rfid_reader_handle \<Rightarrow> bytes \<Rightarrow> nat \<Rightarrow> nat \<Rightarrow> u8 option \<Rightarrow> (int \<times> bytes) list \<Rightarrow> bytes \<Rightarrow> 'w
       \<Rightarrow> ((bytes + (int \<times> bytes) list \<times> bytes \<times> u8 option) \<times> 'w) option" where
  "inventory_slots rh acf tx_len 0 boc acc resp w = Some (Inr (acc, resp, boc), w)"
| "inventory_slots rh acf tx_len (Suc n) boc acc resp w = do {
     (ret, resp, rx_len, boc, w) \<leftarrow>
       iso15693_transceive_acf rh acf (of_nat tx_len) (replicate 10 0) 10 boc w;
     if ret < 0 then inventory_slots rh acf tx_len n boc (acc @ [(0, replicate 8 0)]) resp w
     else do {
       b \<leftarrow> boc;
       uuid \<leftarrow> get_slice resp 2 8;
       if b \<noteq> 0 then inventory_slots rh acf tx_len n boc (acc @ [(- uint b, uuid)]) resp w
       else Some (Inl uuid, w) } }"

definition set_uid8 :: "bytes \<Rightarrow> rfid_layer2_handle \<Rightarrow> rfid_layer2_handle option" where
  "set_uid8 uuid h = do {
     uid \<leftarrow> put_slice (l2_uid h) 0 uuid;
     Some (h\<lparr>l2_uid := uid, l2_uid_len := 8\<rparr>) }"

partial_function (option) inventory_loop ::
    "'w rfid_reader_handle \<Rightarrow> bytes \<Rightarrow> nat \<Rightarrow> u8 option \<Rightarrow> rfid_layer2_handle \<Rightarrow> 'w
       \<Rightarrow> (int \<times> rfid_layer2_handle \<times> 'w) option" where
  "inventory_loop rh acf tx_len boc h w = do {
     (res, w) \<leftarrow> inventory_slots rh acf tx_len (if i_single_slot (l2_i h) then 1 else 16) boc []
                   (replicate 10 0) w;
     case res of
       Inl uuid \<Rightarrow> do { h \<leftarrow> set_uid8 uuid h; Some (1, h, w) }
     | Inr (slots, resp, boc) \<Rightarrow>
         (case find (\<lambda>s. fst s < 0) slots of
            None \<Rightarrow> Some (-1, h, w)
          | Some (v, uuid) \<Rightarrow>
              let b = word_of_int (- v) :: u8; b = (if b > 16 then b - 16 else b)
              in if b < 65 then do {
                   m \<leftarrow> get_slice resp 2 8;
                   (acf, tx_len) \<leftarrow> iso15693_build_acf acf (inventory_flags (l2_i h)) (i_afi (l2_i h))
                                      (b + 1) m;
                   inventory_loop rh acf tx_len (Some 0) h w }
                 else do { h \<leftarrow> set_uid8 uuid h; Some (1, h, w) }) }"

declare inventory_loop.simps [code]

text \<open>\<open>acf\<close> is the uninitialised request, twelve bytes long.\<close>

definition iso15693_anticol ::
    "'w rfid_reader_handle \<Rightarrow> bytes \<Rightarrow> rfid_layer2_handle \<Rightarrow> 'w
       \<Rightarrow> (int \<times> rfid_layer2_handle \<times> 'w) option" where
  "iso15693_anticol rh acf h w = do {
     (acf, tx_len) \<leftarrow> iso15693_build_acf acf (inventory_flags (l2_i h)) (i_afi (l2_i h)) 0 [];
     inventory_loop rh acf tx_len None h w }"

section \<open>Select and stay quiet\<close>

definition iso15693_addressed_request :: "rfid_layer2_handle \<Rightarrow> u8 \<Rightarrow> bytes option" where
  "iso15693_addressed_request h command = do {
     uid \<leftarrow> get_slice (l2_uid h) 0 8;
     Some ([RFID_15693_F4_ADDRESS OR iso15693_rate_flags (l2_i h), command] @ uid) }"

text \<open>The return code of the transfer is not tested.\<close>

definition iso15693_select ::
    "'w rfid_reader_handle \<Rightarrow> bytes \<Rightarrow> rfid_layer2_handle \<Rightarrow> 'w
       \<Rightarrow> (int \<times> rfid_layer2_handle \<times> 'w) option" where
  "iso15693_select rh rx_buf h w = do {
     tx \<leftarrow> iso15693_addressed_request h ISO15693_CMD_SELECT;
     (ret, rx_buf, rx_len, w) \<leftarrow> iso15693_transceive rh RFID_15693_FRAME tx 10 rx_buf 4
                                   (ucast (iso15693_T4 (l2_i h))) 0 w;
     rflags \<leftarrow> get_at rx_buf 0;
     if rflags AND RFID_15693_RF_ERROR \<noteq> 0 then Some (-1, h, w)
     else Some (0, h\<lparr>l2_i := (l2_i h)\<lparr>i_state := RFID_15693_STATE_SELECTED\<rparr>\<rparr>, w) }"

definition iso15693_stay_quiet ::
    "'w rfid_reader_handle \<Rightarrow> bytes \<Rightarrow> rfid_layer2_handle \<Rightarrow> 'w
       \<Rightarrow> (int \<times> rfid_layer2_handle \<times> 'w) option" where
  "iso15693_stay_quiet rh rx_buf h w = do {
     tx \<leftarrow> iso15693_addressed_request h ISO15693_CMD_STAY_QUIET;
     (ret, rx_buf, rx_len, w) \<leftarrow> iso15693_transceive rh RFID_15693_FRAME tx 10 rx_buf 4 30 0 w;
     Some (0, h\<lparr>l2_i := (l2_i h)\<lparr>i_state := RFID_15693_STATE_QUIET\<rparr>\<rparr>, w) }"

section \<open>Options\<close>

abbreviation (input) RFID_OPT_15693_MOD_DEPTH :: u32 where "RFID_OPT_15693_MOD_DEPTH \<equiv> 0x00010001"
abbreviation (input) RFID_OPT_15693_VCD_CODING :: u32 where "RFID_OPT_15693_VCD_CODING \<equiv> 0x00010002"
abbreviation (input) RFID_OPT_15693_VICC_SUBC :: u32 where "RFID_OPT_15693_VICC_SUBC \<equiv> 0x00010003"
abbreviation (input) RFID_OPT_15693_VICC_SPEED :: u32 where "RFID_OPT_15693_VICC_SPEED \<equiv> 0x00010004"
abbreviation (input) RFID_OPT_15693_VCD_SLOTS :: u32 where "RFID_OPT_15693_VCD_SLOTS \<equiv> 0x00010005"
abbreviation (input) RFID_OPT_15693_USE_AFI :: u32 where "RFID_OPT_15693_USE_AFI \<equiv> 0x00010006"
abbreviation (input) RFID_OPT_15693_AFI :: u32 where "RFID_OPT_15693_AFI \<equiv> 0x00010007"

text \<open>The value and the new \<open>*optlen\<close>; the pointers are taken to be valid.\<close>

definition iso15693_getopt :: "rfid_layer2_handle \<Rightarrow> u32 \<Rightarrow> u32 \<Rightarrow> int \<times> u32 option \<times> u32" where
  "iso15693_getopt h optname optlen =
     (let i = l2_i h in
      if optlen < 4 then (- EINVAL, None, optlen)
      else if optname = RFID_OPT_15693_MOD_DEPTH then
        (0, Some (if i_vcd_ask100 i then 0x02 else 0x01), 4)
      else if optname = RFID_OPT_15693_VCD_CODING then
        (0, Some (if i_vcd_out256 i then 0x01 else 0x02), 4)
      else if optname = RFID_OPT_15693_VICC_SUBC then
        (0, Some (if i_vicc_two_subc i then 0x02 else 0x01), 4)
      else if optname = RFID_OPT_15693_VICC_SPEED then
        (0, Some (if i_vicc_fast i then 0x02 else 0x01), 4)
      else if optname = RFID_OPT_15693_VCD_SLOTS then
        (0, Some (if i_single_slot i then 1 else 16), 4)
      else if optname = RFID_OPT_15693_USE_AFI then
        (0, Some (if i_use_afi i then 1 else 0), 4)
      else if optname = RFID_OPT_15693_AFI then (0, Some (ucast (i_afi i)), 1)
      else (- EINVAL, None, 4))"

definition setopt_slots :: "u32 \<Rightarrow> iso15693_handle \<Rightarrow> int \<times> iso15693_handle" where
  "setopt_slots val i =
     (if val = 16 then (0, i\<lparr>i_single_slot := False\<rparr>)
      else if val = 1 then (0, i\<lparr>i_single_slot := True\<rparr>)
      else (- EINVAL, i))"

text \<open>
  The bytes behind \<open>optval\<close>; their number is \<open>optlen\<close>.  For a length other than 1, 2 and 4 the local
  \<open>val\<close> is never written.  The case for the speed has no \<open>break\<close> and runs on into the one for the
  slots.
\<close>

definition setopt_val :: "bytes \<Rightarrow> u32 option" where
  "setopt_val optval =
     (if length optval = 1 \<or> length optval = 2 \<or> length optval = 4
      then Some (u32_of_le optval) else None)"

definition iso15693_setopt ::
    "rfid_layer2_handle \<Rightarrow> u32 \<Rightarrow> bytes option \<Rightarrow> (int \<times> rfid_layer2_handle) option" where
  "iso15693_setopt h optname optval =
     (if optval = None \<or> optval = Some [] then Some (- EINVAL, h)
      else do {
        optval \<leftarrow> optval;
        let i = l2_i h;
        if optname < RFID_OPT_15693_MOD_DEPTH \<or> optname > RFID_OPT_15693_AFI
        then Some (- EINVAL, h)
        else do {
          val \<leftarrow> setopt_val optval;
          let (ret, i) =
            (if optname = RFID_OPT_15693_MOD_DEPTH then
               (if val = 0x01 then (0, i\<lparr>i_vcd_ask100 := False\<rparr>)
                else if val = 0x02 then (0, i\<lparr>i_vcd_ask100 := True\<rparr>) else (- EINVAL, i))
             else if optname = RFID_OPT_15693_VCD_CODING then
               (if val = 0x01 then (0, i\<lparr>i_vcd_out256 := True\<rparr>)
                else if val = 0x02 then (0, i\<lparr>i_vcd_out256 := False\<rparr>) else (- EINVAL, i))
             else if optname = RFID_OPT_15693_VICC_SUBC then
               (if val = 0x01 then (0, i\<lparr>i_vicc_two_subc := False\<rparr>)
                else if val = 0x02 then (0, i\<lparr>i_vicc_two_subc := True\<rparr>) else (- EINVAL, i))
             else if optname = RFID_OPT_15693_VICC_SPEED then
               (if val = 0x01 then setopt_slots val (i\<lparr>i_vicc_fast := False\<rparr>)
                else if val = 0x02 then setopt_slots val (i\<lparr>i_vicc_fast := True\<rparr>)
                else (- EINVAL, i))
             else if optname = RFID_OPT_15693_VCD_SLOTS then setopt_slots val i
             else if optname = RFID_OPT_15693_USE_AFI then (0, i\<lparr>i_use_afi := (val \<noteq> 0)\<rparr>)
             else if val > 0xff then (- EINVAL, i)
             else (0, i\<lparr>i_afi := ucast val\<rparr>));
          Some (ret, h\<lparr>l2_i := i\<rparr>) } })"

definition iso15693_init ::
    "'w rfid_reader_handle \<Rightarrow> bool \<Rightarrow> rfid_layer2_handle \<Rightarrow> 'w
       \<Rightarrow> (rfid_layer2_handle option \<times> 'w) option" where
  "iso15693_init rh malloc_ok h0 w =
     (if \<not> malloc_ok then Some (None, w)
      else do {
        let h = h0\<lparr>l2_id := RFID_LAYER2_ISO15693,
                   l2_i := (l2_i h0)\<lparr>i_state := ISO15693_STATE_NONE, i_vcd_ask100 := True,
                             i_vicc_two_subc := False, i_vicc_fast := True,
                             i_single_slot := True, i_vcd_out256 := False,
                             i_use_afi := False, i_afi := 0\<rparr>\<rparr>;
        (ret, w) \<leftarrow> rdr_init (rh_reader rh) RFID_LAYER2_ISO15693 w;
        if ret < 0 then Some (None, w) else Some (Some h, w) })"

end
