(* ===== verification/Layer2.thy ===== *)
theory Layer2
  imports Layer2_Iso14443a Layer2_Iso14443b Layer2_Iso15693
begin

text \<open>
  The layer 2 calls (\<open>src/rfid_layer2.c\<close>): the dispatch on the handle's layer 2 and the common
  options.  \<open>rfid_layer2s\<close> has a null pointer at index 0.  The uninitialised buffers of the
  functions called are gathered in one record, and the random state of ISO 14443 A is passed along
  although the other two do not use it.
\<close>

record l2_locals =
  lo_b :: iso14443b_locals
  lo_acf :: bytes
  lo_rx :: bytes

definition rfid_layer2_init ::
    "'w rfid_reader_handle \<Rightarrow> u32 \<Rightarrow> bool \<Rightarrow> rfid_layer2_handle \<Rightarrow> randctx \<Rightarrow> 'w
       \<Rightarrow> (rfid_layer2_handle option \<times> randctx \<times> 'w) option" where
  "rfid_layer2_init rh lid malloc_ok h0 r w =
     (if lid \<ge> 4 then Some (None, r, w)
      else if lid = RFID_LAYER2_ISO14443A then iso14443a_init rh malloc_ok h0 r w
      else if lid = RFID_LAYER2_ISO14443B then do {
        (h, w) \<leftarrow> iso14443b_init rh malloc_ok h0 w; Some (h, r, w) }
      else if lid = RFID_LAYER2_ISO15693 then do {
        (h, w) \<leftarrow> iso15693_init rh malloc_ok h0 w; Some (h, r, w) }
      else None)"

definition rfid_layer2_open ::
    "'w rfid_reader_handle \<Rightarrow> l2_locals \<Rightarrow> rfid_layer2_handle \<Rightarrow> randctx \<Rightarrow> 'w
       \<Rightarrow> (int \<times> rfid_layer2_handle \<times> randctx \<times> 'w) option" where
  "rfid_layer2_open rh l h r w =
     (if l2_id h = RFID_LAYER2_ISO14443A then iso14443a_anticol rh h r w
      else if l2_id h = RFID_LAYER2_ISO14443B then do {
        (ret, h, w) \<leftarrow> iso14443b_anticol rh (lo_b l) h w; Some (ret, h, r, w) }
      else if l2_id h = RFID_LAYER2_ISO15693 then do {
        (ret, h, w) \<leftarrow> iso15693_anticol rh (lo_acf l) h w; Some (ret, h, r, w) }
      else None)"

text \<open>The function table of ISO 15693 has no \<open>transceive\<close>.\<close>

definition rfid_layer2_transceive ::
    "'w rfid_reader_handle \<Rightarrow> rfid_layer2_handle \<Rightarrow> u32 \<Rightarrow> bytes \<Rightarrow> u32 \<Rightarrow> bytes \<Rightarrow> u32 \<Rightarrow> u64 \<Rightarrow> u32
       \<Rightarrow> 'w \<Rightarrow> (int \<times> bytes \<times> u32 \<times> 'w) option" where
  "rfid_layer2_transceive rh h frametype tx_buf len rx_buf rx_len timeout flags w =
     (if l2_id h = RFID_LAYER2_ISO14443A then
        iso14443a_transceive rh frametype tx_buf len rx_buf rx_len timeout flags w
      else if l2_id h = RFID_LAYER2_ISO14443B then
        iso14443b_transceive rh frametype tx_buf len rx_buf rx_len timeout flags w
      else if l2_id h = RFID_LAYER2_ISO15693 then Some (- EIO, rx_buf, rx_len, w)
      else None)"

definition rfid_layer2_close ::
    "'w rfid_reader_handle \<Rightarrow> l2_locals \<Rightarrow> rfid_layer2_handle \<Rightarrow> 'w
       \<Rightarrow> (int \<times> rfid_layer2_handle \<times> 'w) option" where
  "rfid_layer2_close rh l h w =
     (if l2_id h = RFID_LAYER2_ISO14443A then do {
        (ret, w) \<leftarrow> iso14443a_hlta rh (lo_rx l) w; Some (ret, h, w) }
      else if l2_id h = RFID_LAYER2_ISO14443B then iso14443b_hltb rh (lo_rx l) h w
      else if l2_id h = RFID_LAYER2_ISO15693 then iso15693_stay_quiet rh (lo_rx l) h w
      else None)"

text \<open>All three free the handle and return zero; what is left of the handle is \<^const>\<open>None\<close>.\<close>

definition rfid_layer2_fini :: "rfid_layer2_handle \<Rightarrow> int \<times> rfid_layer2_handle option" where
  "rfid_layer2_fini h = (0, None)"

abbreviation (input) RFID_OPT_LAYER2_UID :: u32 where "RFID_OPT_LAYER2_UID \<equiv> 0x0001"

text \<open>The return code, the bytes stored behind \<open>optval\<close> if any, and \<open>*optlen\<close>.\<close>

definition rfid_layer2_getopt ::
    "rfid_layer2_handle \<Rightarrow> u32 \<Rightarrow> u32 \<Rightarrow> (int \<times> bytes option \<times> u32) option" where
  "rfid_layer2_getopt h optname optlen =
     (if drop_bit 16 optname = 0 then
        (if optname = RFID_OPT_LAYER2_UID then do {
           let optlen = (if l2_uid_len h < optlen then l2_uid_len h else optlen);
           bs \<leftarrow> get_slice (l2_uid h) 0 (unat optlen);
           Some (0, Some bs, optlen) }
         else Some (- EINVAL, None, optlen))
      else if l2_id h = RFID_LAYER2_ISO14443A then
        (let (ret, bs) = iso14443a_getopt h optname
         in Some (ret, bs, (case bs of None \<Rightarrow> optlen | Some bs \<Rightarrow> of_nat (length bs))))
      else if l2_id h = RFID_LAYER2_ISO14443B then
        (let (ret, v) = iso14443b_getopt h optname in Some (ret, map_option u32_le_bytes v, optlen))
      else if l2_id h = RFID_LAYER2_ISO15693 then
        (let (ret, v, n) = iso15693_getopt h optname optlen
         in Some (ret, map_option (\<lambda>v. take (unat n) (u32_le_bytes v)) v, n))
      else None)"

text \<open>\<open>optlen\<close> is the number of bytes behind \<open>optval\<close>.\<close>

definition rfid_layer2_setopt ::
    "'w rfid_reader_handle \<Rightarrow> rfid_layer2_handle \<Rightarrow> u32 \<Rightarrow> bytes option \<Rightarrow> 'w
       \<Rightarrow> (int \<times> rfid_layer2_handle \<times> 'w) option" where
  "rfid_layer2_setopt rh h optname optval w =
     (if drop_bit 16 optname = 0 then
        (if optname = RFID_OPT_LAYER2_UID then do {
           bs \<leftarrow> optval;
           if l2_uid_len h < 10 \<and> length bs \<le> 10 then do {
             uid \<leftarrow> put_slice (l2_uid h) 0 bs;
             Some (0, h\<lparr>l2_uid := uid, l2_uid_len := of_nat (length bs)\<rparr>, w) }
           else Some (- EINVAL, h, w) }
         else Some (- EINVAL, h, w))
      else if l2_id h = RFID_LAYER2_ISO14443A then iso14443a_setopt rh h optname optval w
      else if l2_id h = RFID_LAYER2_ISO14443B then do {
        (ret, h) \<leftarrow> iso14443b_setopt h optname optval; Some (ret, h, w) }
      else if l2_id h = RFID_LAYER2_ISO15693 then do {
        (ret, h) \<leftarrow> iso15693_setopt h optname optval; Some (ret, h, w) }
      else None)"

definition rfid_layer2_name :: "rfid_layer2_handle \<Rightarrow> string option" where
  "rfid_layer2_name h =
     (if l2_id h = RFID_LAYER2_ISO14443A then Some ''ISO 14443-3 A''
      else if l2_id h = RFID_LAYER2_ISO14443B then Some ''ISO 14443-3 B''
      else if l2_id h = RFID_LAYER2_ISO15693 then Some ''ISO 15693'' else None)"

section \<open>Transfers through a bounded reader\<close>

lemmas l2_transceive_defs = rfid_layer2_transceive_def iso14443a_transceive_def
  iso14443b_transceive_def

context bounded_reader
begin

lemma layer2_transceive_bound:
  assumes "rh_reader rh = rd" "unat rx_len \<le> length rx"
    "rfid_layer2_transceive rh h frametype tx tx_len rx rx_len timeout flags w
       = Some (ret, rx', n', w')"
  shows "length rx' = length rx \<and> n' \<le> rx_len"
  using assms(2,3) unfolding l2_transceive_defs assms(1)
  by (auto split: if_splits dest: transceive_bound)

end

end
