(* ===== verification/Proto_Tcl.thy ===== *)
theory Proto_Tcl
  imports Layer2
begin

text \<open>
  The half-duplex block protocol T=CL of ISO 14443-4 (\<open>src/rfid_proto_tcl.c\<close>): activation with RATS
  and PPS, block prologues, chaining in both directions, waiting time extension and deselect.

  \<open>struct tcl_handle\<close> is the record below; its pointer \<open>historical_bytes\<close> is an offset into the ATS.
  The layer 2 and reader handles are arguments of their own.  Pointer differences are 64 bits wide.
\<close>

section \<open>Handle\<close>

datatype tcl_pcd_state =
  TCL_STATE_NONE | TCL_STATE_INITIAL | TCL_STATE_RATS_SENT | TCL_STATE_ATS_RCVD
| TCL_STATE_PPS_SENT | TCL_STATE_ESTABLISHED | TCL_STATE_DESELECT_SENT | TCL_STATE_DESELECTED

record tcl_handle =
  t_historical_bytes :: "nat option"
  t_historical_len :: u32
  t_fsc :: u32
  t_fsd :: u32
  t_fwt :: u32
  t_ta :: u8
  t_sfgt :: u8
  t_cid :: u32
  t_nad :: u32
  t_flags :: u32
  t_state :: tcl_pcd_state
  t_toggle :: u32
  t_ats_len :: u32
  t_ats :: bytes

abbreviation (input) TCL_HANDLE_F_NAD_SUPPORTED :: u32 where "TCL_HANDLE_F_NAD_SUPPORTED \<equiv> 0x0001"
abbreviation (input) TCL_HANDLE_F_CID_SUPPORTED :: u32 where "TCL_HANDLE_F_CID_SUPPORTED \<equiv> 0x0002"
abbreviation (input) TCL_HANDLE_F_NAD_USED :: u32 where "TCL_HANDLE_F_NAD_USED \<equiv> 0x0010"
abbreviation (input) TCL_HANDLE_F_CID_USED :: u32 where "TCL_HANDLE_F_CID_USED \<equiv> 0x0020"
abbreviation (input) TCL_PCB_CID_FOLLOWING :: u8 where "TCL_PCB_CID_FOLLOWING \<equiv> 0x08"
abbreviation (input) TCL_PCB_NAD_FOLLOWING :: u8 where "TCL_PCB_NAD_FOLLOWING \<equiv> 0x04"
abbreviation (input) TCL_TRANSP_F_TX_CRC :: u32 where "TCL_TRANSP_F_TX_CRC \<equiv> 0x01"

definition is_s_block :: "u8 \<Rightarrow> bool" where "is_s_block x = (x AND 0xc0 = 0xc0)"
definition is_r_block :: "u8 \<Rightarrow> bool" where "is_r_block x = (x AND 0xc0 = 0x80)"
definition is_i_block :: "u8 \<Rightarrow> bool" where "is_i_block x = (x AND 0xc0 = 0x00)"

definition l2_to_frame :: "u32 \<Rightarrow> u32" where
  "l2_to_frame layer2 =
     (if layer2 = RFID_LAYER2_ISO14443A then RFID_14443A_FRAME_REGULAR
      else if layer2 = RFID_LAYER2_ISO14443B then RFID_14443B_FRAME_REGULAR
      else 0)"

section \<open>Activation\<close>

definition sfgi_to_sfgt :: "u32 \<Rightarrow> u8 \<Rightarrow> u32 option" where
  "sfgi_to_sfgt fc sfgi =
     (let sfgi = (if sfgi > 14 then 14 else sfgi)
      in if fc = 0 then None else Some ((4096000000 div fc) * push_bit (unat sfgi) 1))"

definition fwi_to_fwt :: "u32 \<Rightarrow> u8 \<Rightarrow> u32 option" where
  "fwi_to_fwt fc fwi =
     (let fwi = (if fwi > 14 then 14 else fwi)
      in if fc = 0 then None else Some ((4096000000 div fc) * push_bit (unat fwi) 1))"

definition activation_fwt :: "u32 \<Rightarrow> u64 option" where
  "activation_fwt fc = (if fc = 0 then None else Some (65536000000 div ucast fc))"

text \<open>
  The three optional bytes of an ATS: the bit rates, the timing (the start-up frame guard time is cut
  to eight bits) and the supported addressing.  Each is present when its bit is set in the format
  byte, and \<open>cur\<close> is the position where the next one is expected.
\<close>

definition ats_ta_byte :: "u8 \<Rightarrow> bytes \<Rightarrow> nat \<Rightarrow> tcl_handle \<Rightarrow> (tcl_handle \<times> nat) option" where
  "ats_ta_byte t0 ats cur th =
     (if t0 AND 0x10 \<noteq> 0 then do {
        c \<leftarrow> get_at ats cur;
        Some (th\<lparr>t_ta := c\<rparr>, cur + 1) }
      else Some (th, cur))"

definition ats_tb_byte :: "u32 \<Rightarrow> u8 \<Rightarrow> bytes \<Rightarrow> nat \<Rightarrow> tcl_handle \<Rightarrow> (tcl_handle \<times> nat) option" where
  "ats_tb_byte fc t0 ats cur th =
     (if t0 AND 0x20 \<noteq> 0 then do {
        c \<leftarrow> get_at ats cur;
        sfgt \<leftarrow> sfgi_to_sfgt fc (c AND 0x0f);
        fwt \<leftarrow> fwi_to_fwt fc (drop_bit 4 (c AND 0xf0));
        Some (th\<lparr>t_sfgt := ucast sfgt, t_fwt := fwt\<rparr>, cur + 1) }
      else Some (th, cur))"

definition ats_tc_flags :: "u8 \<Rightarrow> u32 \<Rightarrow> u32" where
  "ats_tc_flags c flags =
     (let flags = (if c AND 0x01 \<noteq> 0 then flags OR TCL_HANDLE_F_NAD_SUPPORTED else flags)
      in if c AND 0x02 \<noteq> 0 then flags OR TCL_HANDLE_F_CID_SUPPORTED else flags)"

definition ats_tc_byte :: "u8 \<Rightarrow> bytes \<Rightarrow> nat \<Rightarrow> tcl_handle \<Rightarrow> (tcl_handle \<times> nat) option" where
  "ats_tc_byte t0 ats cur th =
     (if t0 AND 0x40 \<noteq> 0 then do {
        c \<leftarrow> get_at ats cur;
        Some (th\<lparr>t_flags := ats_tc_flags c (t_flags th)\<rparr>, cur + 1) }
      else Some (th, cur))"

text \<open>The interface bytes and what is left as historical bytes.\<close>

definition ats_interface ::
    "u32 \<Rightarrow> u8 \<Rightarrow> bytes \<Rightarrow> u8 \<Rightarrow> tcl_handle \<Rightarrow> (int \<times> tcl_handle) option" where
  "ats_interface fc t0 ats len th = do {
     (th, cur) \<leftarrow> ats_ta_byte t0 ats 2 th;
     (th, cur) \<leftarrow> ats_tb_byte fc t0 ats cur th;
     (th, cur) \<leftarrow> ats_tc_byte t0 ats cur th;
     Some (0, th\<lparr>t_historical_len := ucast len - of_nat cur, t_historical_bytes := Some cur\<rparr>) }"

text \<open>An ATS of one byte: the defaults.\<close>

definition ats_default :: "rfid_asic_handle \<Rightarrow> u32 \<Rightarrow> tcl_handle \<Rightarrow> (int \<times> tcl_handle) option" where
  "ats_default ah lid th = do {
     sfgt \<leftarrow> sfgi_to_sfgt (ah_fc ah) 0;
     let th = th\<lparr>t_fsc := 32, t_ta := 0x80, t_sfgt := ucast sfgt\<rparr>;
     if lid = RFID_LAYER2_ISO14443A then do {
       fwt \<leftarrow> fwi_to_fwt (ah_fc ah) 4;
       Some (0, th\<lparr>t_fwt := fwt\<rparr>) }
     else Some (0, th) }"

text \<open>\<open>sz\<close> is the received length.\<close>

definition tcl_parse_ats ::
    "rfid_asic_handle \<Rightarrow> u32 \<Rightarrow> tcl_handle \<Rightarrow> bytes \<Rightarrow> u32 \<Rightarrow> (int \<times> tcl_handle) option" where
  "tcl_parse_ats ah lid th ats sz = do {
     len \<leftarrow> get_at ats 0;
     if len = 0 \<or> sz = 0 then Some (-1, th)
     else do {
       let len = (if sz < ucast len then ucast sz else len);
       let th = th\<lparr>t_ta := 0\<rparr>;
       if len = 1 then ats_default ah lid th
       else do {
         t0 \<leftarrow> get_at ats 1;
         (_, fsc) \<leftarrow> iso14443_fsdi_to_fsd (t0 AND 0x0f);
         let fsc = (case fsc of None \<Rightarrow> t_fsc th | Some x \<Rightarrow> x);
         ats_interface (ah_fc ah) t0 ats len
           (th\<lparr>t_fsc := (if fsc > ah_mtu ah then ah_mtu ah else fsc)\<rparr>) } } }"

definition tcl_request_ats ::
    "'w rfid_reader_handle \<Rightarrow> rfid_layer2_handle \<Rightarrow> tcl_handle \<Rightarrow> 'w
       \<Rightarrow> (int \<times> tcl_handle \<times> 'w) option" where
  "tcl_request_ats rh l2h th w =
     (if t_state th \<noteq> TCL_STATE_INITIAL then Some (-1, th, w)
      else do {
        let (ret, fsdi) = iso14443_fsd_to_fsdi (t_fsd th);
        if ret < 0 then Some (ret, th, w)
        else do {
          fsdi \<leftarrow> fsdi;
          let rats = [0xe0, ucast (t_cid th AND 0x0f) OR (push_bit 4 fsdi AND 0xf0)];
          timeout \<leftarrow> activation_fwt (ah_fc (rh_ah rh));
          (ret, ats, ats_len, w) \<leftarrow>
            rfid_layer2_transceive rh l2h RFID_14443A_FRAME_REGULAR rats 2 (t_ats th) (t_ats_len th)
              timeout TCL_TRANSP_F_TX_CRC w;
          let th = th\<lparr>t_ats := ats, t_ats_len := ats_len\<rparr>;
          if ret < 0 then Some (ret, th\<lparr>t_state := TCL_STATE_RATS_SENT\<rparr>, w)
          else do {
            let th = th\<lparr>t_state := TCL_STATE_ATS_RCVD\<rparr>;
            (ret, th) \<leftarrow> tcl_parse_ats (rh_ah rh) (l2_id l2h) th (t_ats th) (t_ats_len th);
            if ret < 0 then Some (ret, th, w) else Some (0, th, w) } } })"

abbreviation (input) ATS_TA_DIV_2 :: u8 where "ATS_TA_DIV_2 \<equiv> 1"
abbreviation (input) ATS_TA_DIV_4 :: u8 where "ATS_TA_DIV_4 \<equiv> 2"
abbreviation (input) ATS_TA_DIV_8 :: u8 where "ATS_TA_DIV_8 \<equiv> 4"
abbreviation (input) PPS_DIV_8 :: u8 where "PPS_DIV_8 \<equiv> 3"
abbreviation (input) PPS_DIV_4 :: u8 where "PPS_DIV_4 \<equiv> 2"
abbreviation (input) PPS_DIV_2 :: u8 where "PPS_DIV_2 \<equiv> 1"
abbreviation (input) PPS_DIV_1 :: u8 where "PPS_DIV_1 \<equiv> 0"

definition d_to_di :: "u32 \<Rightarrow> u8 \<Rightarrow> u8" where
  "d_to_di speed D =
     (if D AND ATS_TA_DIV_8 \<noteq> 0 \<and> speed AND RFID_14443A_SPEED_848K \<noteq> 0 then PPS_DIV_8
      else if D AND ATS_TA_DIV_4 \<noteq> 0 \<and> speed AND RFID_14443A_SPEED_424K \<noteq> 0 then PPS_DIV_4
      else if D AND ATS_TA_DIV_2 \<noteq> 0 \<and> speed AND RFID_14443A_SPEED_212K \<noteq> 0 then PPS_DIV_2
      else PPS_DIV_1)"

definition di_to_speed :: "u8 \<Rightarrow> u32 option" where
  "di_to_speed DI =
     (if DI = PPS_DIV_8 then Some RFID_14443A_SPEED_848K
      else if DI = PPS_DIV_4 then Some RFID_14443A_SPEED_424K
      else if DI = PPS_DIV_2 then Some RFID_14443A_SPEED_212K
      else if DI = PPS_DIV_1 then Some RFID_14443A_SPEED_106K
      else None)"

text \<open>
  \<open>Ds\<close> is \<open>ta & 0x70 >> 4\<close>, where the shift binds tighter than the mask.  \<open>pps_response\<close> is the
  uninitialised local of ten bytes.
\<close>

definition tcl_do_pps ::
    "'w rfid_reader_handle \<Rightarrow> bytes \<Rightarrow> rfid_layer2_handle \<Rightarrow> tcl_handle \<Rightarrow> 'w
       \<Rightarrow> (int \<times> rfid_layer2_handle \<times> tcl_handle \<times> 'w) option" where
  "tcl_do_pps rh pps_response l2h th w =
     (if t_state th \<noteq> TCL_STATE_ATS_RCVD then Some (-1, l2h, th, w)
      else do {
        let Dr = t_ta th AND 0x07;
        let Ds = t_ta th AND drop_bit 4 0x70;
        if Dr \<noteq> Ds \<and> t_ta th AND 0x80 = 0 then Some (-1, l2h, th, w)
        else do {
          let ppss0 = 0xd0 OR ucast (t_cid th AND 0x0f);
          let DrI = d_to_di (rdr_speed (rh_reader rh)) Dr;
          let DsI = d_to_di (rdr_speed (rh_reader rh)) Ds;
          let ppss2 = (0x00 AND 0xf0) OR (DrI OR push_bit 2 DsI);
          (ret, pps_response, rx_len, w) \<leftarrow>
            rfid_layer2_transceive rh l2h RFID_14443A_FRAME_REGULAR [ppss0, 0x11, ppss2] 3
              pps_response 1 (ucast (t_fwt th)) TCL_TRANSP_F_TX_CRC w;
          if ret < 0 then Some (ret, l2h, th, w)
          else do {
            r0 \<leftarrow> get_at pps_response 0;
            if r0 \<noteq> ppss0 then Some (-1, l2h, th, w)
            else do {
              speed \<leftarrow> di_to_speed DrI;
              (ret, l2h, w) \<leftarrow>
                rfid_layer2_setopt rh l2h RFID_OPT_14443A_SPEED_RX (Some (u32_le_bytes speed)) w;
              if ret < 0 then Some (ret, l2h, th, w)
              else do {
                (ret, l2h, w) \<leftarrow>
                  rfid_layer2_setopt rh l2h RFID_OPT_14443A_SPEED_TX (Some (u32_le_bytes speed)) w;
                if ret < 0 then Some (ret, l2h, th, w)
                else Some (0, l2h, th, w) } } } } })"

section \<open>Prologues\<close>

text \<open>
  The prologue is written to the start of a buffer; the result has its length.  The CID goes to the
  index after the length has been advanced.
\<close>

definition tcl_build_prologue2 ::
    "tcl_handle \<Rightarrow> bytes \<Rightarrow> u8 \<Rightarrow> (tcl_handle \<times> bytes \<times> u32) option" where
  "tcl_build_prologue2 th prlg pcb = do {
     let (th, b0) =
       (if is_s_block pcb then (th, pcb)
        else if t_toggle th \<noteq> 0 then (th\<lparr>t_toggle := 0\<rparr>, pcb)
        else (th\<lparr>t_toggle := 1\<rparr>, pcb OR 0x01));
     prlg \<leftarrow> put_at prlg 0 b0;
     (prlg, prlg_len) \<leftarrow>
       (if t_flags th AND TCL_HANDLE_F_CID_USED \<noteq> 0 then do {
          prlg \<leftarrow> put_at prlg 0 (b0 OR TCL_PCB_CID_FOLLOWING);
          prlg \<leftarrow> put_at prlg 2 (ucast (t_cid th AND 0x0f));
          Some (prlg, 2) }
        else Some (prlg, 1));
     (prlg, prlg_len) \<leftarrow>
       (if t_flags th AND TCL_HANDLE_F_NAD_USED \<noteq> 0 \<and> is_i_block pcb then do {
          b0 \<leftarrow> get_at prlg 0;
          prlg \<leftarrow> put_at prlg 0 (b0 OR TCL_PCB_NAD_FOLLOWING);
          prlg \<leftarrow> put_at prlg (unat prlg_len) (ucast (t_nad th));
          Some (prlg, prlg_len + 1) }
        else Some (prlg, prlg_len));
     Some (th, prlg, prlg_len) }"

definition tcl_build_prologue_i ::
    "tcl_handle \<Rightarrow> bytes \<Rightarrow> (tcl_handle \<times> bytes \<times> u32) option" where
  "tcl_build_prologue_i th prlg = tcl_build_prologue2 th prlg 0x02"

definition tcl_build_prologue_r ::
    "tcl_handle \<Rightarrow> bytes \<Rightarrow> u32 \<Rightarrow> (tcl_handle \<times> bytes \<times> u32) option" where
  "tcl_build_prologue_r th prlg nak =
     tcl_build_prologue2 th prlg (if nak \<noteq> 0 then 0xa2 OR 0x10 else 0xa2)"

definition tcl_build_prologue_s ::
    "tcl_handle \<Rightarrow> bytes \<Rightarrow> (tcl_handle \<times> bytes \<times> u32) option" where
  "tcl_build_prologue_s th prlg = tcl_build_prologue2 th prlg 0xc2"

definition tcl_prlg_len :: "tcl_handle \<Rightarrow> u32" where
  "tcl_prlg_len th =
     1 + (if t_flags th AND TCL_HANDLE_F_CID_USED \<noteq> 0 then 1 else 0)
       + (if t_flags th AND TCL_HANDLE_F_NAD_USED \<noteq> 0 then 1 else 0)"

definition max_net_tx_framesize :: "tcl_handle \<Rightarrow> u32" where
  "max_net_tx_framesize th = t_fsc th - tcl_prlg_len th"

section \<open>Connect and deselect\<close>

text \<open>
  The activation of type B: the handle takes over what ATTRIB negotiated, and the PUPI is presented
  as the ATS.
\<close>

definition connect_flags_b :: "u32 \<Rightarrow> u32 \<Rightarrow> u32" where
  "connect_flags_b bflags flags =
     (let flags = (if bflags AND ISO14443B_CID_SUPPORTED \<noteq> 0
                   then flags OR TCL_HANDLE_F_CID_SUPPORTED else flags)
      in if bflags AND ISO14443B_NAD_SUPPORTED \<noteq> 0
         then flags OR TCL_HANDLE_F_NAD_SUPPORTED else flags)"

definition connect_state_b :: "iso14443b_state \<Rightarrow> tcl_pcd_state \<Rightarrow> tcl_pcd_state" where
  "connect_state_b bs st =
     (if bs = ISO14443B_STATE_SELECTED then TCL_STATE_ATS_RCVD
      else if bs = ISO14443B_STATE_ATTRIB_SENT then TCL_STATE_RATS_SENT else st)"

definition tcl_connect_b :: "rfid_layer2_handle \<Rightarrow> tcl_handle \<Rightarrow> tcl_handle option" where
  "tcl_connect_b l2h th = do {
     let b = l2_b l2h;
     let th = th\<lparr>t_cid := b_cid b, t_fsc := b_fsc b, t_fsd := b_fsd b, t_fwt := b_fwt b,
                 t_flags := connect_flags_b (b_flags b) (t_flags th),
                 t_state := connect_state_b (b_state b) (t_state th)\<rparr>;
     pupi \<leftarrow> get_slice (l2_uid l2h) 0 4;
     ats \<leftarrow> put_slice (t_ats th) 0 pupi;
     Some (th\<lparr>t_ats := ats, t_ats_len := 4, t_historical_bytes := Some 0\<rparr>) }"

definition tcl_connect ::
    "'w rfid_reader_handle \<Rightarrow> bytes \<Rightarrow> rfid_layer2_handle \<Rightarrow> tcl_handle \<Rightarrow> 'w
       \<Rightarrow> (int \<times> rfid_layer2_handle \<times> tcl_handle \<times> 'w) option" where
  "tcl_connect rh pps_response l2h th w =
     (if t_state th \<noteq> TCL_STATE_DESELECTED \<and> t_state th \<noteq> TCL_STATE_INITIAL
      then Some (-1, l2h, th, w)
      else if l2_id l2h = RFID_LAYER2_ISO14443A then do {
        (ret, th, w) \<leftarrow> tcl_request_ats rh l2h th w;
        if ret < 0 then Some (ret, l2h, th, w)
        else if t_ta th AND 0x77 \<noteq> 0 then do {
          (ret, l2h, th, w) \<leftarrow> tcl_do_pps rh pps_response l2h th w;
          if ret < 0 then Some (ret, l2h, th, w)
          else Some (0, l2h, th\<lparr>t_state := TCL_STATE_ESTABLISHED\<rparr>, w) }
        else Some (0, l2h, th\<lparr>t_state := TCL_STATE_ESTABLISHED\<rparr>, w) }
      else if l2_id l2h = RFID_LAYER2_ISO14443B then do {
        th \<leftarrow> tcl_connect_b l2h th;
        Some (0, l2h, th\<lparr>t_state := TCL_STATE_ESTABLISHED\<rparr>, w) }
      else Some (-1, l2h, th, w))"

text \<open>\<open>frame\<close> and \<open>rx\<close> are the uninitialised locals of three bytes each.\<close>

definition tcl_deselect ::
    "'w rfid_reader_handle \<Rightarrow> bytes \<Rightarrow> bytes \<Rightarrow> rfid_layer2_handle \<Rightarrow> tcl_handle \<Rightarrow> 'w
       \<Rightarrow> (int \<times> tcl_handle \<times> 'w) option" where
  "tcl_deselect rh frame rx l2h th w = do {
     (th, frame, prlg_len) \<leftarrow> tcl_build_prologue_s th frame;
     timeout \<leftarrow> activation_fwt (ah_fc (rh_ah rh));
     (ret, rx, rx_len, w) \<leftarrow>
       rfid_layer2_transceive rh l2h RFID_14443A_FRAME_REGULAR frame prlg_len rx 3 timeout
         TCL_TRANSP_F_TX_CRC w;
     if ret < 0 then Some (ret, th, w)
     else Some (0, th\<lparr>t_state := TCL_STATE_DESELECTED\<rparr>, w) }"

section \<open>Exchange\<close>

abbreviation (input) RFID_MAX_FRAMELEN :: nat where "RFID_MAX_FRAMELEN \<equiv> 256"

record fr_buff =
  fb_frame_len :: u32
  fb_hdr_len :: u32
  fb_data :: bytes

record rfid_xcvb =
  x_timeout :: u64
  x_tx :: fr_buff
  x_rx :: fr_buff

text \<open>The two cursors are offsets into \<open>tx\<close> and \<open>rx\<close>.  \<open>c_rx_len\<close> is stored and never read.\<close>

record tcl_tx_context =
  c_tx :: bytes
  c_rx :: bytes
  c_next_tx_byte :: nat
  c_next_rx_byte :: nat
  c_rx_len :: u32
  c_tx_len :: u32

definition tcl_ctx_todo :: "tcl_tx_context \<Rightarrow> int" where
  "tcl_ctx_todo ctx = uint (c_tx_len ctx) - int (c_next_tx_byte ctx)"

definition tcl_refill_xcvb ::
    "tcl_handle \<Rightarrow> rfid_xcvb \<Rightarrow> tcl_tx_context
       \<Rightarrow> (int \<times> tcl_handle \<times> rfid_xcvb \<times> tcl_tx_context) option" where
  "tcl_refill_xcvb th xcvb ctx =
     (if c_next_tx_byte ctx \<ge> unat (c_tx_len ctx) then Some (-1, th, xcvb, ctx)
      else do {
        (th, data, hdr_len) \<leftarrow> tcl_build_prologue_i th (fb_data (x_tx xcvb));
        let frame_len = (if tcl_ctx_todo ctx > uint (t_fsc th - hdr_len)
                         then max_net_tx_framesize th
                         else word_of_int (tcl_ctx_todo ctx));
        payload \<leftarrow> get_slice (c_tx ctx) (c_next_tx_byte ctx) (unat frame_len);
        data \<leftarrow> put_slice data (unat hdr_len) payload;
        let ctx = ctx\<lparr>c_next_tx_byte := c_next_tx_byte ctx + unat frame_len\<rparr>;
        data \<leftarrow> (if c_next_tx_byte ctx < unat (c_tx_len ctx)
                then do { b0 \<leftarrow> get_at data 0; put_at data 0 (b0 OR 0x10) }
                else Some data);
        Some (0, th,
              xcvb\<lparr>x_timeout := ucast (t_fwt th),
                   x_tx := \<lparr>fb_frame_len = frame_len + hdr_len, fb_hdr_len = hdr_len,
                            fb_data = data\<rparr>\<rparr>,
              ctx) })"

definition fill_xcvb_wtxm ::
    "tcl_handle \<Rightarrow> rfid_xcvb \<Rightarrow> u8 \<Rightarrow> (tcl_handle \<times> rfid_xcvb) option" where
  "fill_xcvb_wtxm th xcvb info = do {
     (th, data, hdr_len) \<leftarrow> tcl_build_prologue_s th (fb_data (x_tx xcvb));
     b0 \<leftarrow> get_at data 0;
     data \<leftarrow> put_at data 0 (b0 OR 0x30);
     data \<leftarrow> put_at data (unat hdr_len) info;
     Some (th, xcvb\<lparr>x_timeout := ucast (t_fwt th * ucast info),
                    x_tx := \<lparr>fb_frame_len = hdr_len + 1, fb_hdr_len = hdr_len,
                             fb_data = data\<rparr>\<rparr>) }"

definition check_cid :: "tcl_handle \<Rightarrow> rfid_xcvb \<Rightarrow> bool option" where
  "check_cid th xcvb = do {
     r0 \<leftarrow> get_at (fb_data (x_rx xcvb)) 0;
     if r0 AND TCL_PCB_CID_FOLLOWING \<noteq> 0 then do {
       r1 \<leftarrow> get_at (fb_data (x_rx xcvb)) 1;
       Some (ucast r1 = t_cid th) }
     else Some True }"

text \<open>
  What follows the reception of a block: where \<open>tcl_transceive\<close> jumps next.  \<open>ret\<close> is the result of
  the transfer, which the exits for a wrong block number or a wrong CID return unchanged.
\<close>

datatype tcl_goto = Goto_out int | Goto_tx_refill | Goto_do_tx

definition tcl_rx_r_block ::
    "int \<Rightarrow> u8 \<Rightarrow> tcl_handle \<Rightarrow> rfid_xcvb \<Rightarrow> tcl_goto option" where
  "tcl_rx_r_block ret r0 th xcvb =
     (if ucast (r0 AND 0x01) \<noteq> t_toggle th then Some (Goto_out ret)
      else do {
        cid_ok \<leftarrow> check_cid th xcvb;
        Some (if \<not> cid_ok then Goto_out ret else Goto_tx_refill) })"

definition tcl_rx_s_block ::
    "int \<Rightarrow> u8 \<Rightarrow> tcl_handle \<Rightarrow> rfid_xcvb \<Rightarrow> (tcl_goto \<times> tcl_handle \<times> rfid_xcvb) option" where
  "tcl_rx_s_block ret r0 th xcvb = do {
     cid_ok \<leftarrow> check_cid th xcvb;
     if \<not> cid_ok then Some (Goto_out ret, th, xcvb)
     else if r0 AND TCL_PCB_CID_FOLLOWING \<noteq> 0 \<and> fb_frame_len (x_rx xcvb) < 3
     then Some (Goto_out (-1), th, xcvb)
     else do {
       info \<leftarrow> get_at (fb_data (x_rx xcvb)) (if r0 AND TCL_PCB_CID_FOLLOWING \<noteq> 0 then 2 else 1);
       if r0 AND 0x30 \<noteq> 0x30 then Some (Goto_out (-1), th, xcvb)
       else do {
         let info = info AND 0x3f;
         if info = 0 \<or> (info \<ge> 60 \<and> info \<le> 63) then Some (Goto_out (-1), th, xcvb)
         else do {
           (th, xcvb) \<leftarrow> fill_xcvb_wtxm th xcvb info;
           Some (Goto_do_tx, th, xcvb) } } } }"

definition tcl_rx_i_block ::
    "int \<Rightarrow> u8 \<Rightarrow> tcl_handle \<Rightarrow> rfid_xcvb \<Rightarrow> tcl_tx_context
       \<Rightarrow> (tcl_goto \<times> tcl_handle \<times> rfid_xcvb \<times> tcl_tx_context) option" where
  "tcl_rx_i_block ret r0 th xcvb ctx =
     (if ucast (r0 AND 0x01) \<noteq> t_toggle th then Some (Goto_out ret, th, xcvb, ctx)
      else do {
        cid_ok \<leftarrow> check_cid th xcvb;
        let xcvb = xcvb\<lparr>x_rx := (x_rx xcvb)\<lparr>fb_hdr_len := 1\<rparr>\<rparr>;
        if \<not> cid_ok then Some (Goto_out ret, th, xcvb, ctx)
        else do {
          let hdr_len = 1 + (if r0 AND TCL_PCB_CID_FOLLOWING \<noteq> 0 then 1 else 0)
                          + (if r0 AND TCL_PCB_NAD_FOLLOWING \<noteq> 0 then 1 else 0);
          let xcvb = xcvb\<lparr>x_rx := (x_rx xcvb)\<lparr>fb_hdr_len := hdr_len\<rparr>\<rparr>;
          let net_payload_len = fb_frame_len (x_rx xcvb) - hdr_len;
          payload \<leftarrow> get_slice (fb_data (x_rx xcvb)) (unat hdr_len) (unat net_payload_len);
          rx \<leftarrow> put_slice (c_rx ctx) (c_next_rx_byte ctx) payload;
          let ctx = ctx\<lparr>c_rx := rx, c_next_rx_byte := c_next_rx_byte ctx + unat net_payload_len\<rparr>;
          if r0 AND 0x10 \<noteq> 0 then do {
            (th, data, frame_len) \<leftarrow> tcl_build_prologue_r th (fb_data (x_tx xcvb)) 0;
            Some (Goto_do_tx, th,
                  xcvb\<lparr>x_timeout := ucast (t_fwt th),
                       x_tx := (x_tx xcvb)\<lparr>fb_frame_len := frame_len, fb_data := data\<rparr>\<rparr>, ctx) }
          else Some (Goto_out ret, th, xcvb, ctx) } })"

definition tcl_rx_block ::
    "int \<Rightarrow> tcl_handle \<Rightarrow> rfid_xcvb \<Rightarrow> tcl_tx_context
       \<Rightarrow> (tcl_goto \<times> tcl_handle \<times> rfid_xcvb \<times> tcl_tx_context) option" where
  "tcl_rx_block ret th xcvb ctx = do {
     r0 \<leftarrow> get_at (fb_data (x_rx xcvb)) 0;
     if is_r_block r0 then do {
       next \<leftarrow> tcl_rx_r_block ret r0 th xcvb;
       Some (next, th, xcvb, ctx) }
     else if is_s_block r0 then do {
       (next, th, xcvb) \<leftarrow> tcl_rx_s_block ret r0 th xcvb;
       Some (next, th, xcvb, ctx) }
     else if is_i_block r0 then tcl_rx_i_block ret r0 th xcvb ctx
     else Some (Goto_out ret, th, xcvb, ctx) }"

text \<open>
  The loop from the label \<open>do_tx\<close> on.  It has no bound of its own: a card that keeps asking for
  more time, or keeps chaining, keeps it running.
\<close>

partial_function (option) tcl_do_tx ::
    "'w rfid_reader_handle \<Rightarrow> rfid_layer2_handle \<Rightarrow> tcl_handle \<Rightarrow> rfid_xcvb \<Rightarrow> tcl_tx_context \<Rightarrow> 'w
       \<Rightarrow> (int \<times> tcl_handle \<times> tcl_tx_context \<times> 'w) option" where
  "tcl_do_tx rh l2h th xcvb ctx w = do {
     (ret, data, frame_len, w) \<leftarrow>
       rfid_layer2_transceive rh l2h (l2_to_frame (l2_id l2h)) (fb_data (x_tx xcvb))
         (fb_frame_len (x_tx xcvb)) (fb_data (x_rx xcvb)) (of_nat RFID_MAX_FRAMELEN)
         (x_timeout xcvb) 0 w;
     let xcvb = xcvb\<lparr>x_rx := (x_rx xcvb)\<lparr>fb_data := data, fb_frame_len := frame_len\<rparr>\<rparr>;
     if ret < 0 then Some (ret, th, ctx, w)
     else do {
       (next, th, xcvb, ctx) \<leftarrow> tcl_rx_block ret th xcvb ctx;
       case next of
         Goto_out ret \<Rightarrow> Some (ret, th, ctx, w)
       | Goto_do_tx \<Rightarrow> tcl_do_tx rh l2h th xcvb ctx w
       | Goto_tx_refill \<Rightarrow> do {
           (r, th, xcvb, ctx) \<leftarrow> tcl_refill_xcvb th xcvb ctx;
           if r < 0 then Some (-1, th, ctx, w)
           else tcl_do_tx rh l2h th xcvb ctx w } } }"

declare tcl_do_tx.simps [code]

text \<open>\<open>xcvb\<close> is the uninitialised local; \<open>tx_data\<close> and \<open>rx_data\<close> are the caller's buffers.\<close>

definition tcl_transceive ::
    "'w rfid_reader_handle \<Rightarrow> rfid_xcvb \<Rightarrow> rfid_layer2_handle \<Rightarrow> tcl_handle \<Rightarrow> bytes \<Rightarrow> u32
       \<Rightarrow> bytes \<Rightarrow> u32 \<Rightarrow> 'w \<Rightarrow> (int \<times> bytes \<times> u32 \<times> tcl_handle \<times> 'w) option" where
  "tcl_transceive rh xcvb l2h th tx_data tx_len rx_data rx_len w = do {
     let ctx = \<lparr>c_tx = tx_data, c_rx = rx_data, c_next_tx_byte = 0, c_next_rx_byte = 0,
                c_rx_len = rx_len, c_tx_len = tx_len\<rparr>;
     let xcvb = xcvb\<lparr>x_timeout := ucast (t_fwt th)\<rparr>;
     (r, th, xcvb, ctx) \<leftarrow> tcl_refill_xcvb th xcvb ctx;
     (ret, th, ctx, w) \<leftarrow>
       (if r < 0 then Some (-1, th, ctx, w) else tcl_do_tx rh l2h th xcvb ctx w);
     Some (ret, c_rx ctx, of_nat (c_next_rx_byte ctx), th, w) }"

section \<open>Handle and options\<close>

definition tcl_init :: "rfid_asic_handle \<Rightarrow> bool \<Rightarrow> tcl_handle option" where
  "tcl_init ah malloc_ok =
     (if \<not> malloc_ok then None
      else Some \<lparr>t_historical_bytes = None, t_historical_len = 0, t_fsc = 0,
                 t_fsd = iso14443_fsd_approx (ah_mru ah), t_fwt = 0, t_ta = 0, t_sfgt = 0,
                 t_cid = 0, t_nad = 0, t_flags = 0, t_state = TCL_STATE_INITIAL, t_toggle = 1,
                 t_ats_len = ah_mru ah, t_ats = replicate 256 0\<rparr>)"

abbreviation (input) RFID_OPT_P_TCL_ATS :: u32 where "RFID_OPT_P_TCL_ATS \<equiv> 0x00010001"
abbreviation (input) RFID_OPT_P_TCL_ATS_LEN :: u32 where "RFID_OPT_P_TCL_ATS_LEN \<equiv> 0x00010002"

definition tcl_getopt :: "tcl_handle \<Rightarrow> u32 \<Rightarrow> u32 \<Rightarrow> (int \<times> bytes option \<times> u32) option" where
  "tcl_getopt th optname optlen =
     (if optname = RFID_OPT_P_TCL_ATS then do {
        let optlen = (if t_ats_len th < optlen then t_ats_len th else optlen);
        bs \<leftarrow> get_slice (t_ats th) 0 (unat optlen);
        Some (0, Some bs, optlen) }
      else if optname = RFID_OPT_P_TCL_ATS_LEN then
        (if optlen < 1 then Some (- E2BIG, None, optlen)
         else Some (0, Some [ucast (t_ats_len th AND 0xff)], 1))
      else Some (- EINVAL, None, optlen))"

definition tcl_setopt :: "tcl_handle \<Rightarrow> u32 \<Rightarrow> int \<times> tcl_handle" where
  "tcl_setopt th optname = (- EINVAL, th)"

end
