(* ===== verification/Access_Mifare_Classic.thy ===== *)
theory Access_Mifare_Classic
  imports Rfid_Prelude
begin

text \<open>
  The access conditions of a Mifare Classic sector (\<open>src/rfid_access_mifare_classic.c\<close>): the packed
  bits of the sector trailer, their unpacked form with one number per block, and the tables that
  say which key may do what.
\<close>

section \<open>Model\<close>

record mfcl_access_sect =
  sect_block :: bytes

text \<open>One turn of the loop of \<open>mfcl_compile_access\<close>, over the three accumulators.\<close>

definition compile_access_step :: "bytes \<Rightarrow> nat \<Rightarrow> u8 \<times> u8 \<times> u8 \<Rightarrow> u8 \<times> u8 \<times> u8" where
  "compile_access_step block b = (\<lambda>(c1, c2, c3).
     ((if block ! b AND 0x01 \<noteq> 0 then c1 OR push_bit b 1 else c1),
      (if block ! b AND 0x02 \<noteq> 0 then c2 OR push_bit b 1 else c2),
      (if block ! b AND 0x04 \<noteq> 0 then c3 OR push_bit b 1 else c3)))"

definition mfcl_compile_access :: "bytes \<Rightarrow> mfcl_access_sect \<Rightarrow> (int \<times> bytes) option" where
  "mfcl_compile_access encoded ac =
     (if length (sect_block ac) < 4 then None
      else do {
        let (c1, c2, c3) = fold (compile_access_step (sect_block ac)) [0..<4] (0, 0, 0);
        encoded \<leftarrow> put_at encoded 3 0x00;
        encoded \<leftarrow> put_at encoded 2 (c2 OR push_bit 4 c3);
        encoded \<leftarrow> put_at encoded 1 ((NOT c3 AND 0xf) OR push_bit 4 c1);
        encoded \<leftarrow> put_at encoded 0 ((NOT c1 AND 0xf) OR push_bit 4 (NOT c2 AND 0xf));
        Some (0, encoded) })"

definition parse_access_block :: "u8 \<Rightarrow> u8 \<Rightarrow> u8 \<Rightarrow> nat \<Rightarrow> u8" where
  "parse_access_block c1 c2 c3 b =
     (let v = (if c1 AND push_bit b 1 \<noteq> 0 then 0x1 else 0);
          v = (if c2 AND push_bit b 1 \<noteq> 0 then v OR 0x2 else v)
      in (if c3 AND push_bit b 1 \<noteq> 0 then v OR 0x4 else v))"

definition mfcl_parse_access :: "bytes \<Rightarrow> (int \<times> mfcl_access_sect) option" where
  "mfcl_parse_access encoded = do {
     e1 \<leftarrow> get_at encoded 1;
     e2 \<leftarrow> get_at encoded 2;
     let c1 = drop_bit 4 e1;
     let c2 = e2 AND 0xf;
     let c3 = drop_bit 4 e2;
     Some (0, \<lparr>sect_block = map (parse_access_block c1 c2 c3) [0..<4]\<rparr>) }"

abbreviation (input) MFCL_ACCESS_NEVER :: nat where "MFCL_ACCESS_NEVER \<equiv> 0"
abbreviation (input) MFCL_ACCESS_KEY_A :: nat where "MFCL_ACCESS_KEY_A \<equiv> 1"
abbreviation (input) MFCL_ACCESS_KEY_B :: nat where "MFCL_ACCESS_KEY_B \<equiv> 2"
abbreviation (input) MFCL_ACCESS_KEY_AB :: nat where "MFCL_ACCESS_KEY_AB \<equiv> 3"

record mfcl_access_exp_block =
  eb_read :: nat
  eb_write :: nat
  eb_inc :: nat
  eb_dec :: nat

record mfcl_access_exp_acc =
  ea_key_a_rd :: nat
  ea_key_a_wr :: nat
  ea_acc_rd :: nat
  ea_acc_wr :: nat
  ea_key_b_rd :: nat
  ea_key_b_wr :: nat

record mfcl_access_exp_sect =
  es_block :: "mfcl_access_exp_block list"
  es_acc :: mfcl_access_exp_acc

definition exp_block :: "nat \<Rightarrow> nat \<Rightarrow> nat \<Rightarrow> nat \<Rightarrow> mfcl_access_exp_block" where
  "exp_block r w i d = \<lparr>eb_read = r, eb_write = w, eb_inc = i, eb_dec = d\<rparr>"

definition exp_acc :: "nat \<Rightarrow> nat \<Rightarrow> nat \<Rightarrow> nat \<Rightarrow> nat \<Rightarrow> nat \<Rightarrow> mfcl_access_exp_acc" where
  "exp_acc ar aw cr cw br bw = \<lparr>ea_key_a_rd = ar, ea_key_a_wr = aw, ea_acc_rd = cr, ea_acc_wr = cw,
                                ea_key_b_rd = br, ea_key_b_wr = bw\<rparr>"

definition mfcl_exp_data :: "mfcl_access_exp_block list" where
  "mfcl_exp_data =
     [exp_block MFCL_ACCESS_KEY_AB MFCL_ACCESS_KEY_AB MFCL_ACCESS_KEY_AB MFCL_ACCESS_KEY_AB,
      exp_block MFCL_ACCESS_KEY_AB MFCL_ACCESS_KEY_B MFCL_ACCESS_NEVER MFCL_ACCESS_NEVER,
      exp_block MFCL_ACCESS_KEY_AB MFCL_ACCESS_NEVER MFCL_ACCESS_NEVER MFCL_ACCESS_NEVER,
      exp_block MFCL_ACCESS_KEY_AB MFCL_ACCESS_KEY_B MFCL_ACCESS_KEY_B MFCL_ACCESS_KEY_AB,
      exp_block MFCL_ACCESS_KEY_AB MFCL_ACCESS_NEVER MFCL_ACCESS_NEVER MFCL_ACCESS_KEY_AB,
      exp_block MFCL_ACCESS_KEY_B MFCL_ACCESS_NEVER MFCL_ACCESS_NEVER MFCL_ACCESS_NEVER,
      exp_block MFCL_ACCESS_KEY_B MFCL_ACCESS_KEY_B MFCL_ACCESS_NEVER MFCL_ACCESS_NEVER,
      exp_block MFCL_ACCESS_NEVER MFCL_ACCESS_NEVER MFCL_ACCESS_NEVER MFCL_ACCESS_NEVER]"

definition mfcl_exp_trailer :: "mfcl_access_exp_acc list" where
  "mfcl_exp_trailer =
     [exp_acc MFCL_ACCESS_NEVER MFCL_ACCESS_KEY_A MFCL_ACCESS_KEY_A MFCL_ACCESS_NEVER
        MFCL_ACCESS_KEY_A MFCL_ACCESS_KEY_A,
      exp_acc MFCL_ACCESS_NEVER MFCL_ACCESS_KEY_B MFCL_ACCESS_KEY_AB MFCL_ACCESS_NEVER
        MFCL_ACCESS_NEVER MFCL_ACCESS_KEY_B,
      exp_acc MFCL_ACCESS_NEVER MFCL_ACCESS_NEVER MFCL_ACCESS_KEY_A MFCL_ACCESS_NEVER
        MFCL_ACCESS_KEY_A MFCL_ACCESS_NEVER,
      exp_acc MFCL_ACCESS_NEVER MFCL_ACCESS_NEVER MFCL_ACCESS_KEY_AB MFCL_ACCESS_NEVER
        MFCL_ACCESS_NEVER MFCL_ACCESS_NEVER,
      exp_acc MFCL_ACCESS_NEVER MFCL_ACCESS_KEY_A MFCL_ACCESS_KEY_A MFCL_ACCESS_KEY_A
        MFCL_ACCESS_KEY_A MFCL_ACCESS_KEY_A,
      exp_acc MFCL_ACCESS_NEVER MFCL_ACCESS_NEVER MFCL_ACCESS_KEY_AB MFCL_ACCESS_KEY_B
        MFCL_ACCESS_NEVER MFCL_ACCESS_NEVER,
      exp_acc MFCL_ACCESS_NEVER MFCL_ACCESS_KEY_B MFCL_ACCESS_KEY_AB MFCL_ACCESS_KEY_B
        MFCL_ACCESS_NEVER MFCL_ACCESS_KEY_B,
      exp_acc MFCL_ACCESS_NEVER MFCL_ACCESS_NEVER MFCL_ACCESS_KEY_AB MFCL_ACCESS_NEVER
        MFCL_ACCESS_NEVER MFCL_ACCESS_NEVER]"

definition mfcl_access_str :: "string list" where
  "mfcl_access_str = [''NEVER'', ''A'', ''B'', ''A|B'']"

definition mfcl_access_to_exp :: "mfcl_access_sect \<Rightarrow> mfcl_access_exp_sect option" where
  "mfcl_access_to_exp sect = do {
     s0 \<leftarrow> get_at (sect_block sect) 0; d0 \<leftarrow> get_at mfcl_exp_data (unat s0);
     s1 \<leftarrow> get_at (sect_block sect) 1; d1 \<leftarrow> get_at mfcl_exp_data (unat s1);
     s2 \<leftarrow> get_at (sect_block sect) 2; d2 \<leftarrow> get_at mfcl_exp_data (unat s2);
     s3 \<leftarrow> get_at (sect_block sect) 3; d3 \<leftarrow> get_at mfcl_exp_trailer (unat s3);
     Some \<lparr>es_block = [d0, d1, d2], es_acc = d3\<rparr> }"

text \<open>\<open>sprintf\<close> into a static buffer of 80 characters, the terminating zero included.\<close>

definition sprintf80 :: "string \<Rightarrow> string option" where
  "sprintf80 s = (if length s + 1 \<le> 80 then Some s else None)"

definition mfcl_access_exp_stringify :: "mfcl_access_exp_block \<Rightarrow> string option" where
  "mfcl_access_exp_stringify e = do {
     r \<leftarrow> get_at mfcl_access_str (eb_read e);
     w \<leftarrow> get_at mfcl_access_str (eb_write e);
     i \<leftarrow> get_at mfcl_access_str (eb_inc e);
     d \<leftarrow> get_at mfcl_access_str (eb_dec e);
     sprintf80 (''READ: '' @ r @ '', WRITE: '' @ w @ '', INC: '' @ i @ '', DEC: '' @ d) }"

definition mfcl_access_exp_acc_stringify :: "mfcl_access_exp_acc \<Rightarrow> string option" where
  "mfcl_access_exp_acc_stringify e = do {
     ar \<leftarrow> get_at mfcl_access_str (ea_key_a_rd e);
     aw \<leftarrow> get_at mfcl_access_str (ea_key_a_wr e);
     cr \<leftarrow> get_at mfcl_access_str (ea_acc_rd e);
     cw \<leftarrow> get_at mfcl_access_str (ea_acc_wr e);
     br \<leftarrow> get_at mfcl_access_str (ea_key_b_rd e);
     bw \<leftarrow> get_at mfcl_access_str (ea_key_b_wr e);
     sprintf80 (''KEY_A_RD: '' @ ar @ '', KEY_A_WR: '' @ aw @ '', ACC_RD: '' @ cr @
                '', ACC_WR: '' @ cw @ '', KEY_B_RD: '' @ br @ '', KEY_B_WR: '' @ bw) }"

section \<open>Correctness\<close>

text \<open>
  What the trailer stores for a block number \<open>k\<close>: the three condition bits and, elsewhere, their
  complements.
\<close>

definition encodes_access :: "bytes \<Rightarrow> bytes \<Rightarrow> bool" where
  "encodes_access blk e \<longleftrightarrow>
     (\<forall>k \<in> {0..<4}. (bit (e ! 1) (k + 4) = bit (blk ! k) 0) \<and> (bit (e ! 0) k = (\<not> bit (blk ! k) 0)) \<and>
        (bit (e ! 2) k = bit (blk ! k) 1) \<and> (bit (e ! 0) (k + 4) = (\<not> bit (blk ! k) 1)) \<and>
        (bit (e ! 2) (k + 4) = bit (blk ! k) 2) \<and> (bit (e ! 1) k = (\<not> bit (blk ! k) 2)))"

definition complement_ok :: "bytes \<Rightarrow> bool" where
  "complement_ok e \<longleftrightarrow>
     (\<forall>k \<in> {0..<4}. (bit (e ! 0) k = (\<not> bit (e ! 1) (k + 4))) \<and>
        (bit (e ! 0) (k + 4) = (\<not> bit (e ! 2) k)) \<and> (bit (e ! 1) k = (\<not> bit (e ! 2) (k + 4))))"

lemma compile_access_bits:
  assumes "n \<le> 8" "fold (compile_access_step blk) [0..<n] (0, 0, 0) = (c1, c2, c3)"
  shows "(bit c1 k \<longleftrightarrow> k < n \<and> bit (blk ! k) 0) \<and>
         (bit c2 k \<longleftrightarrow> k < n \<and> bit (blk ! k) 1) \<and>
         (bit c3 k \<longleftrightarrow> k < n \<and> bit (blk ! k) 2)"
  using assms
proof (induction n arbitrary: c1 c2 c3)
  case (Suc n)
  obtain d1 d2 d3 where d: "fold (compile_access_step blk) [0..<n] (0, 0, 0) = (d1, d2, d3)"
    by (metis prod_cases3)
  with Suc.prems have "compile_access_step blk n (d1, d2, d3) = (c1, c2, c3)" by simp
  with Suc.IH [OF _ d] Suc.prems(1) show ?case
    by (auto simp: compile_access_step_def bit_simps and_pow2_consts less_Suc_eq
        split: if_splits)
qed simp

lemma compile_access_ex:
  assumes "length blk = 4" "length e \<ge> 4"
  shows "\<exists>e'. mfcl_compile_access e \<lparr>sect_block = blk\<rparr> = Some (0, e') \<and> length e' = length e \<and>
           drop 4 e' = drop 4 e \<and> e' ! 3 = 0 \<and> encodes_access blk e'"
proof -
  obtain c1 c2 c3 where c: "fold (compile_access_step blk) [0..<4] (0, 0, 0) = (c1, c2, c3)"
    by (metis prod_cases3)
  note b = compile_access_bits [OF _ c, simplified]
  show ?thesis
    using assms c
    by (auto simp: mfcl_compile_access_def encodes_access_def put_at_def nth_list_update bit_simps
        b bit_nibble)
qed

lemma parse_access_block_bits:
  "b < 8 \<Longrightarrow> bit (parse_access_block c1 c2 c3 b) j \<longleftrightarrow>
     j = 0 \<and> bit c1 b \<or> j = 1 \<and> bit c2 b \<or> j = 2 \<and> bit c3 b"
  using and_pow2_iff [of b c1] and_pow2_iff [of b c2] and_pow2_iff [of b c3]
  by (auto simp: parse_access_block_def Let_def bit_simps bit_1_iff bit_2_iff bit_four)

lemma parse_access_some:
  assumes "length e \<ge> 3"
  shows "\<exists>blk. mfcl_parse_access e = Some (0, \<lparr>sect_block = blk\<rparr>) \<and> length blk = 4 \<and>
     (\<forall>k \<in> {0..<4}. blk ! k < 8 \<and> (bit (blk ! k) 0 = bit (e ! 1) (k + 4)) \<and>
        (bit (blk ! k) 1 = bit (e ! 2) k) \<and> (bit (blk ! k) 2 = bit (e ! 2) (k + 4)))"
proof -
  have lt8: "parse_access_block c1 c2 c3 b < 8" for c1 c2 c3 b
    by (simp add: parse_access_block_def Let_def)
  show ?thesis
    using assms
    by (auto simp: mfcl_parse_access_def lt8 parse_access_block_bits bit_simps bit_nibble add.commute)
qed

text \<open>
  C15: for any four block conditions, compiling them writes the first four bytes of the buffer and no
  other: every condition bit is stored together with its complement, as the card demands, and the
  last byte is zero.
\<close>

theorem compile_access_encodes:
  assumes "length blk = 4" "length e \<ge> 4"
  shows "\<exists>e'. mfcl_compile_access e \<lparr>sect_block = blk\<rparr> = Some (0, e') \<and> length e' = length e \<and>
           drop 4 e' = drop 4 e \<and> e' ! 3 = 0 \<and> encodes_access blk e' \<and> complement_ok e'"
  using compile_access_ex [OF assms] by (auto simp: encodes_access_def complement_ok_def)

theorem compile_access_encodes_witness:
  "\<exists>e'. mfcl_compile_access [0, 0, 0, 9, 7] \<lparr>sect_block = [0, 0, 0, 1]\<rparr> = Some (0, e') \<and>
        length e' = 5 \<and> drop 4 e' = [7] \<and> e' ! 3 = 0 \<and> encodes_access [0, 0, 0, 1] e' \<and>
        complement_ok e'"
  using compile_access_encodes [of "[0, 0, 0, 1]" "[0, 0, 0, 9, 7]"] by (simp add: eval_nat_numeral)

text \<open>
  C24: parsing what was compiled gives back the same conditions, for all conditions that fit in three
  bits.
\<close>

theorem parse_compile_access:
  assumes "length blk = 4" "\<forall>b \<in> set blk. b < 8" "length e \<ge> 4"
    "mfcl_compile_access e \<lparr>sect_block = blk\<rparr> = Some (r, e')"
  shows "mfcl_parse_access e' = Some (0, \<lparr>sect_block = blk\<rparr>)"
proof -
  have enc: "encodes_access blk e'" "length e' = length e"
    using compile_access_ex [OF assms(1,3)] assms(4) by auto
  obtain blk' where p: "mfcl_parse_access e' = Some (0, \<lparr>sect_block = blk'\<rparr>)" "length blk' = 4"
     "\<forall>k \<in> {0..<4}. blk' ! k < 8 \<and> (bit (blk' ! k) 0 = bit (e' ! 1) (k + 4)) \<and>
        (bit (blk' ! k) 1 = bit (e' ! 2) k) \<and> (bit (blk' ! k) 2 = bit (e' ! 2) (k + 4))"
    using parse_access_some [of e'] enc assms(3) by auto
  have "blk' = blk"
  proof (rule nth_equalityI)
    fix k assume k: "k < length blk'"
    show "blk' ! k = blk ! k"
    proof (rule word_eq_low3)
      fix j :: nat assume "j < 3"
      then consider "j = 0" | "j = 1" | "j = 2" by linarith
      then show "bit (blk' ! k) j = bit (blk ! k) j"
        using p(2,3) k enc(1) by cases (auto simp: encodes_access_def)
    qed (use p k assms(1,2) in auto)
  qed (simp add: p(2) assms(1))
  with p(1) show ?thesis by simp
qed

theorem parse_compile_access_witness:
  "mfcl_parse_access [0x7f, 0x07, 0x88, 0] = Some (0, \<lparr>sect_block = [0, 0, 0, 6]\<rparr>)"
  by (rule parse_compile_access [where e = "[0, 0, 0, 0]" and r = 0])
    (simp_all add: mfcl_compile_access_def compile_access_step_def put_at_def upt_conv_Cons)

lemma u8_eq_by_nibbles:
  assumes "\<And>k. k < 4 \<Longrightarrow> bit x k = bit y k" "\<And>k. k < 4 \<Longrightarrow> bit x (k + 4) = bit y (k + 4)"
  shows "(x :: u8) = y"
proof (rule bit_word_eqI)
  fix n assume "n < LENGTH(8)"
  then show "bit x n = bit y n"
    using assms(1) [of n] assms(2) [of "n - 4"] by (cases "n < 4") auto
qed

text \<open>
  C25: conversely, compiling what was parsed reproduces the three access bytes of a trailer whose
  complements are consistent.
\<close>

theorem compile_parse_access:
  assumes "length e = 4" "complement_ok e" "e ! 3 = 0" "mfcl_parse_access e = Some (r, ac)"
    "length buf = 4"
  shows "mfcl_compile_access buf ac = Some (0, e)"
proof -
  obtain blk where p: "ac = \<lparr>sect_block = blk\<rparr>" "length blk = 4"
     "\<forall>k \<in> {0..<4}. blk ! k < 8 \<and> (bit (blk ! k) 0 = bit (e ! 1) (k + 4)) \<and>
        (bit (blk ! k) 1 = bit (e ! 2) k) \<and> (bit (blk ! k) 2 = bit (e ! 2) (k + 4))"
    using parse_access_some [of e] assms(1,4) by auto
  obtain e' where e': "mfcl_compile_access buf ac = Some (0, e')" "length e' = 4" "e' ! 3 = 0"
      "encodes_access blk e'"
    using compile_access_ex [of blk buf] p(1,2) assms(5) by auto
  have "e' ! i = e ! i" if "i \<in> {0, 1, 2}" for i
    using that e'(4) p(3) assms(2)
    by (intro u8_eq_by_nibbles) (auto simp: encodes_access_def complement_ok_def)
  then have "e' = e"
    using e'(2,3) assms(1,3) by (auto simp: list_eq_iff_nth_eq less_Suc_eq numeral_eq_Suc)
  with e'(1) show ?thesis by simp
qed

theorem compile_parse_access_witness:
  "mfcl_compile_access [1, 2, 3, 4] \<lparr>sect_block = [0, 0, 0, 6]\<rparr> = Some (0, [0x7f, 0x07, 0x88, 0])"
proof (rule compile_parse_access [where r = 0])
  show "complement_ok [0x7f, 0x07, 0x88, 0]" by code_simp
  show "mfcl_parse_access [0x7f, 0x07, 0x88, 0] = Some (0, \<lparr>sect_block = [0, 0, 0, 6]\<rparr>)"
    by code_simp
qed simp_all

text \<open>
  C28: every parsed trailer can be expanded: the indices into the two tables stay in range, the three
  data blocks and the trailer get the entries their conditions select, and key A is never readable.
\<close>

theorem parse_access_to_exp:
  assumes "length e \<ge> 3"
  shows "\<exists>ac ex. mfcl_parse_access e = Some (0, ac) \<and> mfcl_access_to_exp ac = Some ex \<and>
           length (es_block ex) = 3 \<and>
           (\<forall>k \<in> {0..<3}. es_block ex ! k = mfcl_exp_data ! unat (sect_block ac ! k)) \<and>
           es_acc ex = mfcl_exp_trailer ! unat (sect_block ac ! 3) \<and>
           ea_key_a_rd (es_acc ex) = MFCL_ACCESS_NEVER"
proof -
  obtain blk where p: "mfcl_parse_access e = Some (0, \<lparr>sect_block = blk\<rparr>)" "length blk = 4"
     "\<And>k. k < 4 \<Longrightarrow> blk ! k < 8"
    using parse_access_some [OF assms] by auto
  have lt: "unat (blk ! k) < 8" if "k < 4" for k
    using p(3) [OF that] by (simp add: word_less_nat_alt)
  have never: "ea_key_a_rd (mfcl_exp_trailer ! i) = 0" if "i < 8" for i
    using that by (auto simp: mfcl_exp_trailer_def exp_acc_def less_Suc_eq numeral_eq_Suc)
  have len: "length mfcl_exp_data = 8" "length mfcl_exp_trailer = 8"
    by (simp_all add: mfcl_exp_data_def mfcl_exp_trailer_def)
  define ex where "ex = \<lparr>es_block = map (\<lambda>k. mfcl_exp_data ! unat (blk ! k)) [0..<3],
                          es_acc = mfcl_exp_trailer ! unat (blk ! 3)\<rparr>"
  have "mfcl_access_to_exp \<lparr>sect_block = blk\<rparr> = Some ex"
    using lt by (simp add: mfcl_access_to_exp_def p(2) len ex_def upt_conv_Cons numeral_2_eq_2)
  then show ?thesis
    using p(1) never [OF lt [of 3]] by (auto simp: ex_def)
qed

theorem parse_access_to_exp_witness:
  "\<exists>ac ex. mfcl_parse_access [0xff, 0x07, 0x80] = Some (0, ac) \<and> mfcl_access_to_exp ac = Some ex \<and>
     length (es_block ex) = 3 \<and>
     (\<forall>k \<in> {0..<3}. es_block ex ! k = mfcl_exp_data ! unat (sect_block ac ! k)) \<and>
     es_acc ex = mfcl_exp_trailer ! unat (sect_block ac ! 3) \<and>
     ea_key_a_rd (es_acc ex) = MFCL_ACCESS_NEVER"
  using parse_access_to_exp [of "[0xff, 0x07, 0x80]"] by simp

text \<open>
  The text for the conditions of a sector trailer does not fit into its static buffer of 80
  characters, except for entry 4 of the table; the text for a data block always fits.
\<close>

theorem exp_stringify_fits:
  "list_all (\<lambda>e. mfcl_access_exp_stringify e \<noteq> None) mfcl_exp_data \<and>
   map (\<lambda>e. mfcl_access_exp_acc_stringify e \<noteq> None) mfcl_exp_trailer =
     [False, False, False, False, True, False, False, False]"
  by code_simp

end
