(* ===== verification/Proto_Mifare_Classic.thy ===== *)
theory Proto_Mifare_Classic
  imports Layer2 Access_Mifare_Classic
begin

text \<open>
  Mifare Classic (\<open>src/rfid_proto_mifare_classic.c\<close>): block reads and writes, keys and
  authentication through the reader, and the numbering of sectors and blocks.
\<close>

section \<open>Model\<close>

abbreviation (input) MIFARE_CL_CMD_READ :: u8 where "MIFARE_CL_CMD_READ \<equiv> 0x30"
abbreviation (input) MIFARE_CL_CMD_WRITE16 :: u8 where "MIFARE_CL_CMD_WRITE16 \<equiv> 0xA0"
abbreviation (input) MIFARE_UL_RESP_ACK :: u8 where "MIFARE_UL_RESP_ACK \<equiv> 0x0a"
abbreviation (input) RFID_OPT_PROTO_SIZE :: u32 where "RFID_OPT_PROTO_SIZE \<equiv> 0x10000001"

text \<open>\<open>rx_buf\<close> is the uninitialised local of 16 bytes.\<close>

definition mfcl_read ::
    "'w rfid_reader_handle \<Rightarrow> bytes \<Rightarrow> rfid_layer2_handle \<Rightarrow> u32 \<Rightarrow> bytes \<Rightarrow> u32 \<Rightarrow> 'w
       \<Rightarrow> (int \<times> bytes \<times> u32 \<times> 'w) option" where
  "mfcl_read rh rx_buf l2h page rx_data rx_len w =
     (if page > 0xff then Some (- EINVAL, rx_data, rx_len, w)
      else do {
        (ret, rx_buf, real_rx_len, w) \<leftarrow>
          rfid_layer2_transceive rh l2h RFID_MIFARE_FRAME [MIFARE_CL_CMD_READ, ucast (page AND 0xff)]
            2 rx_buf 16 250 0 w;
        if ret < 0 then Some (ret, rx_data, rx_len, w)
        else do {
          b0 \<leftarrow> get_at rx_buf 0;
          if real_rx_len = 1 \<and> b0 = 0x04 then Some (- EPERM, rx_data, rx_len, w)
          else do {
            let rx_len = (if real_rx_len < rx_len then real_rx_len else rx_len);
            d \<leftarrow> get_slice rx_buf 0 (unat rx_len);
            rx_data \<leftarrow> put_slice rx_data 0 d;
            Some (ret, rx_data, rx_len, w) } } })"

text \<open>\<open>rx\<close> is the uninitialised local of one byte.\<close>

definition mfcl_write ::
    "'w rfid_reader_handle \<Rightarrow> bytes \<Rightarrow> rfid_layer2_handle \<Rightarrow> u32 \<Rightarrow> bytes \<Rightarrow> u32 \<Rightarrow> 'w
       \<Rightarrow> (int \<times> 'w) option" where
  "mfcl_write rh rx l2h page tx_data tx_len w =
     (if page > 0xff then Some (- EINVAL, w)
      else if tx_len \<noteq> 16 then Some (- EINVAL, w)
      else do {
        (ret, rx, rx_len, w) \<leftarrow>
          rfid_layer2_transceive rh l2h RFID_MIFARE_FRAME
            [MIFARE_CL_CMD_WRITE16, ucast (page AND 0xff)] 2 rx 1 600 0 w;
        if ret < 0 then Some (ret, w)
        else do {
          (ret, rx, rx_len, w) \<leftarrow>
            rfid_layer2_transceive rh l2h RFID_MIFARE_FRAME tx_data tx_len rx rx_len 600 0 w;
          if ret < 0 then Some (ret, w)
          else do {
            r0 \<leftarrow> get_at rx 0;
            if r0 \<noteq> MIFARE_UL_RESP_ACK then Some (- EIO, w) else Some (ret, w) } } })"

text \<open>A call of \<open>rfid_layer2_getopt\<close> into a local buffer whose result code is dropped.\<close>

definition getopt_into :: "rfid_layer2_handle \<Rightarrow> u32 \<Rightarrow> bytes \<Rightarrow> bytes option" where
  "getopt_into l2h optname buf = do {
     (_, bs, _) \<leftarrow> rfid_layer2_getopt l2h optname (of_nat (length buf));
     (case bs of None \<Rightarrow> Some buf | Some bs \<Rightarrow> put_slice buf 0 bs) }"

text \<open>\<open>atqa\<close> and \<open>sak\<close> are uninitialised locals of two bytes and one byte.\<close>

definition mfcl_getopt ::
    "bytes \<Rightarrow> bytes \<Rightarrow> rfid_layer2_handle \<Rightarrow> u32 \<Rightarrow> u32 \<Rightarrow> (int \<times> bytes option \<times> u32) option" where
  "mfcl_getopt atqa sak l2h optname optlen =
     (if optname \<noteq> RFID_OPT_PROTO_SIZE then Some (- EINVAL, None, optlen)
      else if optlen < 4 then Some (- EINVAL, None, optlen)
      else do {
        atqa \<leftarrow> getopt_into l2h RFID_OPT_14443A_ATQA atqa;
        sak \<leftarrow> getopt_into l2h RFID_OPT_14443A_SAK sak;
        a0 \<leftarrow> get_at atqa 0;
        a1 \<leftarrow> get_at atqa 1;
        if a0 = 0x04 \<and> a1 = 0x00 then do {
          s \<leftarrow> get_at sak 0;
          Some (0, Some (u32_le_bytes (if s = 0x09 then 320 else 1024)), 4) }
        else if a0 = 0x02 \<and> a1 = 0x00 then Some (0, Some (u32_le_bytes 4096), 4)
        else Some (- EIO, None, 4) })"

text \<open>Whether a handle is returned.\<close>

definition mfcl_init :: "rfid_layer2_handle \<Rightarrow> bool \<Rightarrow> bool" where
  "mfcl_init l2h malloc_ok =
     (l2_id l2h = RFID_LAYER2_ISO14443A \<and> l2_uid_len l2h = 4 \<and> malloc_ok)"

definition mfcl_set_key ::
    "'w rfid_reader_handle \<Rightarrow> bytes \<Rightarrow> 'w \<Rightarrow> (int \<times> 'w) option" where
  "mfcl_set_key rh key w =
     (case rdr_setkey (rh_reader rh) of None \<Rightarrow> Some (- ENODEV, w) | Some setkey \<Rightarrow> setkey key w)"

definition mfcl_set_key_ee ::
    "'w rfid_reader_handle \<Rightarrow> u32 \<Rightarrow> 'w \<Rightarrow> (int \<times> 'w) option" where
  "mfcl_set_key_ee rh addr w =
     (case rdr_setkey_ee (rh_reader rh) of
        None \<Rightarrow> Some (- ENODEV, w) | Some setkey_ee \<Rightarrow> setkey_ee addr w)"

definition mfcl_auth ::
    "'w rfid_reader_handle \<Rightarrow> rfid_layer2_handle \<Rightarrow> u8 \<Rightarrow> u8 \<Rightarrow> 'w \<Rightarrow> (int \<times> 'w) option" where
  "mfcl_auth rh l2h cmd block w = do {
     serno \<leftarrow> load_u32 (Some (l2_uid l2h));
     (case rdr_auth (rh_reader rh) of
        None \<Rightarrow> Some (- ENODEV, w)
      | Some auth \<Rightarrow> auth cmd serno block w) }"

abbreviation (input) MIFARE_CL_BLOCKS_P_SECTOR_1k :: int where "MIFARE_CL_BLOCKS_P_SECTOR_1k \<equiv> 4"
abbreviation (input) MIFARE_CL_BLOCKS_P_SECTOR_4k :: int where "MIFARE_CL_BLOCKS_P_SECTOR_4k \<equiv> 16"
abbreviation (input) MIFARE_CL_SMALL_SECTORS :: int where "MIFARE_CL_SMALL_SECTORS \<equiv> 32"
abbreviation (input) MIFARE_CL_LARGE_SECTORS :: int where "MIFARE_CL_LARGE_SECTORS \<equiv> 4"

definition mfcl_block2sector :: "u8 \<Rightarrow> int" where
  "mfcl_block2sector block =
     (if uint block < MIFARE_CL_SMALL_SECTORS * MIFARE_CL_BLOCKS_P_SECTOR_1k
      then uint block div MIFARE_CL_BLOCKS_P_SECTOR_1k
      else (uint block - MIFARE_CL_SMALL_SECTORS * MIFARE_CL_BLOCKS_P_SECTOR_1k)
             div MIFARE_CL_BLOCKS_P_SECTOR_4k)"

definition mfcl_sector2block :: "u8 \<Rightarrow> int" where
  "mfcl_sector2block sector =
     (if uint sector < MIFARE_CL_SMALL_SECTORS then uint sector * MIFARE_CL_BLOCKS_P_SECTOR_1k
      else if uint sector < MIFARE_CL_SMALL_SECTORS + MIFARE_CL_LARGE_SECTORS
      then MIFARE_CL_SMALL_SECTORS * MIFARE_CL_BLOCKS_P_SECTOR_1k +
             (uint sector - MIFARE_CL_SMALL_SECTORS) * MIFARE_CL_BLOCKS_P_SECTOR_4k
      else - EINVAL)"

definition mfcl_sector_blocks :: "u8 \<Rightarrow> int" where
  "mfcl_sector_blocks sector =
     (if uint sector < MIFARE_CL_SMALL_SECTORS then MIFARE_CL_BLOCKS_P_SECTOR_1k
      else if uint sector < MIFARE_CL_SMALL_SECTORS + MIFARE_CL_LARGE_SECTORS
      then MIFARE_CL_BLOCKS_P_SECTOR_4k
      else - EINVAL)"

section \<open>Sectors and blocks\<close>

lemmas sector_defs = mfcl_sector2block_def mfcl_sector_blocks_def mfcl_block2sector_def

definition in_sector :: "u8 \<Rightarrow> u8 \<Rightarrow> bool" where
  "in_sector s b \<longleftrightarrow> 0 \<le> mfcl_sector2block s \<and> mfcl_sector2block s \<le> uint b \<and>
                   uint b < mfcl_sector2block s + mfcl_sector_blocks s"

lemma uint_of_u8_int: "0 \<le> i \<Longrightarrow> i < 256 \<Longrightarrow> uint (word_of_int i :: u8) = i"
  by (simp add: unsigned_of_int take_bit_int_eq_self)

text \<open>
  The 36 sectors that the library knows tile the blocks from 0 to 191: each block in that range
  lies in exactly one sector, no block above it lies in any, and a sector number of 36 or more is an
  error for both functions.
\<close>

theorem sectors_partition_blocks:
  "(if uint b < 192 then \<exists>!s. in_sector s b else \<not> (\<exists>s. in_sector s b)) \<and>
   (if 36 \<le> uint s then mfcl_sector2block s = - EINVAL \<and> mfcl_sector_blocks s = - EINVAL
    else mfcl_sector_blocks s \<in> {4, 16})"
proof -
  define n where "n = (if uint b < 128 then uint b div 4 else 32 + (uint b - 128) div 16)"
  have ex: "in_sector (word_of_int n) b" if "uint b < 192"
  proof -
    have n: "0 \<le> n" "n < 256" using that by (auto simp: n_def pos_imp_zdiv_nonneg_iff)
    show ?thesis
      using that by (simp add: in_sector_def sector_defs uint_of_u8_int [OF n]) (auto simp: n_def pos_imp_zdiv_nonneg_iff)
  qed
  have bound: "uint b < 192" if "in_sector s b" for s
    using that by (auto simp: in_sector_def sector_defs split: if_splits)
  have inj: "s = s'" if "in_sector s b" "in_sector s' b" for s s'
  proof -
    have "uint s = uint s'"
      using that by (auto simp: in_sector_def sector_defs split: if_splits)
    then show ?thesis by (simp add: word_uint_eq_iff)
  qed
  show ?thesis
    using ex bound inj by (auto simp: sector_defs intro: ex1I [of _ "word_of_int n"])
qed

text \<open>
  C29: the sector computed from a block number is right for the blocks of the 32 small sectors; for
  the blocks of the large ones it is 32 too low.
\<close>

theorem block2sector_of_sector:
  assumes "in_sector s b"
  shows "mfcl_block2sector b = (if uint s < 32 then uint s else uint s - 32)"
  using assms by (auto simp: in_sector_def sector_defs split: if_splits)

theorem block2sector_of_sector_witness:
  "in_sector 33 150 \<and> mfcl_block2sector 150 = (if uint (33 :: u8) < 32 then uint (33 :: u8)
                                               else uint (33 :: u8) - 32)"
proof
  show "in_sector 33 150" by (simp add: in_sector_def sector_defs)
  then show "mfcl_block2sector 150 = (if uint (33 :: u8) < 32 then uint (33 :: u8)
                                      else uint (33 :: u8) - 32)"
    by (rule block2sector_of_sector)
qed

section \<open>Reads through a bounded reader\<close>

text \<open>The final copy of a read, shared by both Mifare protocols.\<close>

lemma copy_reply:
  fixes n :: u32
  assumes "unat n \<le> length f" "unat rx_len \<le> length rx_data"
  shows "do { d \<leftarrow> get_slice f 0 (unat (if n < rx_len then n else rx_len));
              put_slice rx_data 0 d }
         = Some (let m = min (unat n) (unat rx_len) in take m f @ drop m rx_data)"
  using assms by (auto simp: get_slice_def put_slice_def Let_def min_def word_less_nat_alt)

context bounded_reader
begin

lemma mfcl_read_run:
  assumes rd: "rh_reader rh = rd" and len: "length rx_buf = 16" "unat rx_len \<le> length rx_data"
    and page: "page \<le> 0xff"
    and xfer: "rfid_layer2_transceive rh l2h RFID_MIFARE_FRAME [0x30, ucast (page AND 0xff)] 2
                 rx_buf 16 250 0 w = Some (r, f, n, w')"
  shows "mfcl_read rh rx_buf l2h page rx_data rx_len w =
           Some (if r < 0 then (r, rx_data, rx_len, w')
                 else if n = 1 \<and> f ! 0 = 0x04 then (- EPERM, rx_data, rx_len, w')
                 else let m = min (unat n) (unat rx_len)
                      in (r, take m f @ drop m rx_data, if n < rx_len then n else rx_len, w'))"
proof -
  have b: "length f = 16" "n \<le> 16"
    using layer2_transceive_bound [OF rd _ xfer] len(1) by auto
  then have "unat n \<le> length f" by (simp add: word_le_nat_alt)
  from copy_reply [OF this len(2)] page b(1) show ?thesis
    unfolding mfcl_read_def xfer
    by (cases "n < rx_len") (auto simp: not_less run_simps Let_def)
qed

end

end
