(* ===== verification/Proto_Mifare_Ul.thy ===== *)
theory Proto_Mifare_Ul
  imports Proto_Mifare_Classic
begin

text \<open>
  Mifare Ultralight (\<open>src/rfid_proto_mifare_ul.c\<close>) and the TI Tag-it stub
  (\<open>src/rfid_proto_tagit.c\<close>).
\<close>

section \<open>Mifare Ultralight\<close>

abbreviation (input) MIFARE_UL_CMD_WRITE :: u8 where "MIFARE_UL_CMD_WRITE \<equiv> 0xA2"
abbreviation (input) MIFARE_UL_CMD_READ :: u8 where "MIFARE_UL_CMD_READ \<equiv> 0x30"

definition mful_read ::
    "'w rfid_reader_handle \<Rightarrow> bytes \<Rightarrow> rfid_layer2_handle \<Rightarrow> u32 \<Rightarrow> bytes \<Rightarrow> u32 \<Rightarrow> 'w
       \<Rightarrow> (int \<times> bytes \<times> u32 \<times> 'w) option" where
  "mful_read rh rx_buf l2h page rx_data rx_len w =
     (if page > 15 then Some (- EINVAL, rx_data, rx_len, w)
      else do {
        (ret, rx_buf, real_rx_len, w) \<leftarrow>
          rfid_layer2_transceive rh l2h RFID_14443A_FRAME_REGULAR
            [MIFARE_UL_CMD_READ, ucast (page AND 0xff)] 2 rx_buf 16 100 0 w;
        if ret < 0 then Some (ret, rx_data, rx_len, w)
        else do {
          let rx_len = (if real_rx_len < rx_len then real_rx_len else rx_len);
          d \<leftarrow> get_slice rx_buf 0 (unat rx_len);
          rx_data \<leftarrow> put_slice rx_data 0 d;
          Some (ret, rx_data, rx_len, w) } })"

definition mful_write ::
    "'w rfid_reader_handle \<Rightarrow> bytes \<Rightarrow> rfid_layer2_handle \<Rightarrow> u32 \<Rightarrow> bytes \<Rightarrow> u32 \<Rightarrow> 'w
       \<Rightarrow> (int \<times> 'w) option" where
  "mful_write rh rx l2h page tx_data tx_len w =
     (if tx_len \<noteq> 4 \<or> page > 15 then Some (- EINVAL, w)
      else do {
        d \<leftarrow> get_slice tx_data 0 4;
        (ret, rx, rx_len, w) \<leftarrow>
          rfid_layer2_transceive rh l2h RFID_14443A_FRAME_REGULAR
            ([MIFARE_UL_CMD_WRITE, ucast (page AND 0xff)] @ d) 6 rx 10 100 0 w;
        if ret < 0 then Some (ret, w)
        else do {
          r0 \<leftarrow> get_at rx 0;
          if r0 \<noteq> MIFARE_UL_RESP_ACK then Some (- EIO, w) else Some (ret, w) } })"

text \<open>\<open>*optlen\<close> is not touched.\<close>

definition mful_getopt :: "u32 \<Rightarrow> u32 \<Rightarrow> int \<times> bytes option \<times> u32" where
  "mful_getopt optname optlen =
     (if optname = RFID_OPT_PROTO_SIZE then (0, Some (u32_le_bytes (512 div 8)), optlen)
      else (- EINVAL, None, optlen))"

definition mful_init :: "bytes \<Rightarrow> rfid_layer2_handle \<Rightarrow> bool \<Rightarrow> bool option" where
  "mful_init atqa l2h malloc_ok =
     (if l2_id l2h \<noteq> RFID_LAYER2_ISO14443A then Some False
      else do {
        atqa \<leftarrow> getopt_into l2h RFID_OPT_14443A_ATQA atqa;
        a0 \<leftarrow> get_at atqa 0;
        a1 \<leftarrow> get_at atqa 1;
        if a0 \<noteq> 0x44 \<or> a1 \<noteq> 0x00 then Some False
        else if l2_uid_len l2h \<noteq> 7 then Some False
        else Some malloc_ok })"

text \<open>
  A shift of the 32-bit constant one by 32 or more has no defined result; the page number is
  unsigned, so \<open>page - 8\<close> is such a distance for every page below 8.  \<open>is_mful\<close> says that the handle
  belongs to this protocol.
\<close>

definition shl1 :: "u32 \<Rightarrow> u8 option" where
  "shl1 n = (if n < 32 then Some (ucast (push_bit (unat n) (1 :: u32))) else None)"

definition rfid_mful_lock_page ::
    "'w rfid_reader_handle \<Rightarrow> bytes \<Rightarrow> rfid_layer2_handle \<Rightarrow> bool \<Rightarrow> u32 \<Rightarrow> 'w
       \<Rightarrow> (int \<times> 'w) option" where
  "rfid_mful_lock_page rh rx l2h is_mful page w =
     (if \<not> is_mful then Some (- EINVAL, w)
      else if page < 3 \<or> page > 15 then Some (- EINVAL, w)
      else if page > 8 then do {
        b \<leftarrow> shl1 page;
        mful_write rh rx l2h 2 [0x00, 0x00, b, 0x00] 4 w }
      else do {
        b \<leftarrow> shl1 (page - 8);
        mful_write rh rx l2h 2 [0x00, 0x00, 0x00, b] 4 w })"

definition rfid_mful_lock_otp ::
    "'w rfid_reader_handle \<Rightarrow> bytes \<Rightarrow> rfid_layer2_handle \<Rightarrow> bool \<Rightarrow> 'w \<Rightarrow> (int \<times> 'w) option" where
  "rfid_mful_lock_otp rh rx l2h is_mful w = rfid_mful_lock_page rh rx l2h is_mful 3 w"

section \<open>Tag-it\<close>

definition tagit_getopt :: "u32 \<Rightarrow> u32 \<Rightarrow> int \<times> bytes option \<times> u32" where
  "tagit_getopt optname optlen =
     (if optname = RFID_OPT_PROTO_SIZE then (0, Some (u32_le_bytes 12345), optlen)
      else (- EINVAL, None, optlen))"

definition tagit_init :: "bytes \<Rightarrow> rfid_layer2_handle \<Rightarrow> bool \<Rightarrow> bool option" where
  "tagit_init uid l2h malloc_ok =
     (if l2_id l2h \<noteq> RFID_LAYER2_ISO15693 then Some False
      else do {
        uid \<leftarrow> getopt_into l2h RFID_OPT_LAYER2_UID uid;
        u5 \<leftarrow> get_at uid 5;
        u4 \<leftarrow> get_at uid 4;
        if u5 \<noteq> 0xe0 \<or> u4 \<noteq> 0x07 then Some False
        else if l2_uid_len l2h \<noteq> 6 then Some False
        else Some malloc_ok })"

section \<open>Properties\<close>

context bounded_reader
begin

lemma mful_read_run:
  assumes rd: "rh_reader rh = rd" and len: "length rx_buf = 16" "unat rx_len \<le> length rx_data"
    and page: "page \<le> 15"
    and xfer: "rfid_layer2_transceive rh l2h RFID_14443A_FRAME_REGULAR [0x30, ucast (page AND 0xff)]
                 2 rx_buf 16 100 0 w = Some (r, f, n, w')"
  shows "mful_read rh rx_buf l2h page rx_data rx_len w =
           Some (if r < 0 then (r, rx_data, rx_len, w')
                 else let m = min (unat n) (unat rx_len)
                      in (r, take m f @ drop m rx_data, if n < rx_len then n else rx_len, w'))"
proof -
  have b: "length f = 16" "n \<le> 16"
    using layer2_transceive_bound [OF rd _ xfer] len(1) by auto
  then have "unat n \<le> length f" by (simp add: word_le_nat_alt)
  from copy_reply [OF this len(2)] page b(1) show ?thesis
    unfolding mful_read_def xfer
    by (cases "n < rx_len") (auto simp: not_less run_simps Let_def)
qed

end

lemma shl1_cases:
  "shl1 n = (if 32 \<le> n then None else if 8 \<le> n then Some 0 else Some (push_bit (unat n) 1))"
proof -
  have "ucast (push_bit k (1 :: u32)) = (if 8 \<le> k then 0 else push_bit k (1 :: u8))" for k
    by (auto intro!: bit_word_eqI simp: bit_simps)
  then show ?thesis
    by (auto simp: shl1_def word_le_nat_alt word_less_nat_alt)
qed

text \<open>
  C31: what locking a page sends to the card.  For page 8 it is that page's own lock bit, the lowest bit of
  the last byte.  For the pages 9 to 15 the lock bytes are all zero, so nothing is locked, and for the pages 3
  to 7, the one-time-programmable page among them, the shift distance is out of range.
\<close>

theorem mful_lock_page_cases:
  "rfid_mful_lock_page rh rx l2h True page w =
     (if page < 3 \<or> page > 15 then Some (- EINVAL, w)
      else if page > 8 then mful_write rh rx l2h 2 [0, 0, 0, 0] 4 w
      else if page = 8 then mful_write rh rx l2h 2 [0, 0, 0, 1] 4 w
      else None) \<and>
   rfid_mful_lock_otp rh rx l2h True w = None"
proof -
  have high: "shl1 page = Some 0" if "page > 8" "\<not> page > 15"
    using that by (auto simp: shl1_cases word_le_nat_alt word_less_nat_alt)
  have low: "shl1 (page - 8) = None" if "\<not> page < 3" "\<not> page > 8" "page \<noteq> 8"
  proof -
    have "3 \<le> unat page" "unat page < 8"
      using that by (auto simp: word_less_nat_alt word_unat_eq_iff)
    then have "unat (page - 8) = 2 ^ 32 + unat page - 8"
      by (simp add: unat_sub_if' word_le_nat_alt)
    with \<open>3 \<le> unat page\<close> have "32 \<le> page - 8" by (simp add: word_le_nat_alt)
    then show ?thesis by (simp add: shl1_cases)
  qed
  show ?thesis
    using high low by (auto simp: rfid_mful_lock_page_def rfid_mful_lock_otp_def shl1_cases)
qed

end
