(* ===== verification/Protocol.thy ===== *)
theory Protocol
  imports Proto_Tcl Proto_Mifare_Ul
begin

text \<open>
  The protocol calls (\<open>src/rfid_protocol.c\<close>): the dispatch on the protocol of a handle.  The table
  \<open>rfid_protocols\<close> has null pointers at the indices 0 and 4, and only T=CL has \<open>open\<close>, \<open>transceive\<close>,
  \<open>close\<close> and \<open>setopt\<close>.
\<close>

record rfid_protocol_handle =
  ph_proto :: u32
  ph_tcl :: tcl_handle

abbreviation (input) PROTO_TCL :: u32 where "PROTO_TCL \<equiv> 1"
abbreviation (input) PROTO_MIFARE_UL :: u32 where "PROTO_MIFARE_UL \<equiv> 2"
abbreviation (input) PROTO_MIFARE_CLASSIC :: u32 where "PROTO_MIFARE_CLASSIC \<equiv> 3"
abbreviation (input) PROTO_TAGIT :: u32 where "PROTO_TAGIT \<equiv> 5"

text \<open>The uninitialised locals of the functions behind the table, and the uncleared handle.\<close>

record proto_locals =
  lp_atqa :: bytes
  lp_sak :: bytes
  lp_uid6 :: bytes
  lp_buf :: bytes
  lp_frame :: bytes
  lp_xcvb :: rfid_xcvb
  lp_tcl :: tcl_handle

definition rfid_protocol_init ::
    "'w rfid_reader_handle \<Rightarrow> proto_locals \<Rightarrow> rfid_layer2_handle \<Rightarrow> bool \<Rightarrow> u32
       \<Rightarrow> rfid_protocol_handle option option" where
  "rfid_protocol_init rh l l2h malloc_ok pid =
     (if pid \<ge> 6 then Some None
      else if pid = PROTO_TCL then
        Some (map_option (\<lambda>th. \<lparr>ph_proto = pid, ph_tcl = th\<rparr>) (tcl_init (rh_ah rh) malloc_ok))
      else do {
        ok \<leftarrow> (if pid = PROTO_MIFARE_UL then mful_init (lp_atqa l) l2h malloc_ok
               else if pid = PROTO_MIFARE_CLASSIC then Some (mfcl_init l2h malloc_ok)
               else if pid = PROTO_TAGIT then tagit_init (lp_uid6 l) l2h malloc_ok
               else None);
        Some (if ok then Some \<lparr>ph_proto = pid, ph_tcl = lp_tcl l\<rparr> else None) })"

definition rfid_protocol_open ::
    "'w rfid_reader_handle \<Rightarrow> proto_locals \<Rightarrow> rfid_layer2_handle \<Rightarrow> rfid_protocol_handle \<Rightarrow> 'w
       \<Rightarrow> (int \<times> rfid_layer2_handle \<times> rfid_protocol_handle \<times> 'w) option" where
  "rfid_protocol_open rh l l2h ph w =
     (if ph_proto ph = PROTO_TCL then do {
        (ret, l2h, th, w) \<leftarrow> tcl_connect rh (lp_buf l) l2h (ph_tcl ph) w;
        Some (ret, l2h, ph\<lparr>ph_tcl := th\<rparr>, w) }
      else Some (0, l2h, ph, w))"

text \<open>Without a \<open>transceive\<close> in the table the call goes through a null pointer.\<close>

definition rfid_protocol_transceive ::
    "'w rfid_reader_handle \<Rightarrow> proto_locals \<Rightarrow> rfid_layer2_handle \<Rightarrow> rfid_protocol_handle \<Rightarrow> bytes
       \<Rightarrow> u32 \<Rightarrow> bytes \<Rightarrow> u32 \<Rightarrow> 'w \<Rightarrow> (int \<times> bytes \<times> u32 \<times> rfid_protocol_handle \<times> 'w) option" where
  "rfid_protocol_transceive rh l l2h ph tx_buf len rx_buf rx_len w =
     (if ph_proto ph = PROTO_TCL then do {
        (ret, rx_buf, rx_len, th, w) \<leftarrow>
          tcl_transceive rh (lp_xcvb l) l2h (ph_tcl ph) tx_buf len rx_buf rx_len w;
        Some (ret, rx_buf, rx_len, ph\<lparr>ph_tcl := th\<rparr>, w) }
      else None)"

definition rfid_protocol_read ::
    "'w rfid_reader_handle \<Rightarrow> proto_locals \<Rightarrow> rfid_layer2_handle \<Rightarrow> rfid_protocol_handle \<Rightarrow> u32
       \<Rightarrow> bytes \<Rightarrow> u32 \<Rightarrow> 'w \<Rightarrow> (int \<times> bytes \<times> u32 \<times> 'w) option" where
  "rfid_protocol_read rh l l2h ph page rx_data rx_len w =
     (if ph_proto ph = PROTO_MIFARE_UL then mful_read rh (lp_buf l) l2h page rx_data rx_len w
      else if ph_proto ph = PROTO_MIFARE_CLASSIC
      then mfcl_read rh (lp_buf l) l2h page rx_data rx_len w
      else Some (- EINVAL, rx_data, rx_len, w))"

definition rfid_protocol_write ::
    "'w rfid_reader_handle \<Rightarrow> proto_locals \<Rightarrow> rfid_layer2_handle \<Rightarrow> rfid_protocol_handle \<Rightarrow> u32
       \<Rightarrow> bytes \<Rightarrow> u32 \<Rightarrow> 'w \<Rightarrow> (int \<times> 'w) option" where
  "rfid_protocol_write rh l l2h ph page tx_data tx_len w =
     (if ph_proto ph = PROTO_MIFARE_UL then mful_write rh (lp_buf l) l2h page tx_data tx_len w
      else if ph_proto ph = PROTO_MIFARE_CLASSIC
      then mfcl_write rh (lp_buf l) l2h page tx_data tx_len w
      else Some (- EINVAL, w))"

definition rfid_protocol_fini :: "rfid_protocol_handle \<Rightarrow> int \<times> rfid_protocol_handle option" where
  "rfid_protocol_fini ph = (0, None)"

definition rfid_protocol_close ::
    "'w rfid_reader_handle \<Rightarrow> proto_locals \<Rightarrow> rfid_layer2_handle \<Rightarrow> rfid_protocol_handle \<Rightarrow> 'w
       \<Rightarrow> (int \<times> rfid_protocol_handle \<times> 'w) option" where
  "rfid_protocol_close rh l l2h ph w =
     (if ph_proto ph = PROTO_TCL then do {
        (ret, th, w) \<leftarrow> tcl_deselect rh (lp_frame l) (lp_buf l) l2h (ph_tcl ph) w;
        Some (ret, ph\<lparr>ph_tcl := th\<rparr>, w) }
      else Some (0, ph, w))"

definition rfid_protocol_getopt ::
    "proto_locals \<Rightarrow> rfid_layer2_handle \<Rightarrow> rfid_protocol_handle \<Rightarrow> u32 \<Rightarrow> u32
       \<Rightarrow> (int \<times> bytes option \<times> u32) option" where
  "rfid_protocol_getopt l l2h ph optname optlen =
     (if drop_bit 16 optname = 0 then Some (- EINVAL, None, optlen)
      else if ph_proto ph = PROTO_TCL then tcl_getopt (ph_tcl ph) optname optlen
      else if ph_proto ph = PROTO_MIFARE_UL then Some (mful_getopt optname optlen)
      else if ph_proto ph = PROTO_MIFARE_CLASSIC
      then mfcl_getopt (lp_atqa l) (lp_sak l) l2h optname optlen
      else if ph_proto ph = PROTO_TAGIT then Some (tagit_getopt optname optlen)
      else None)"

definition rfid_protocol_setopt ::
    "rfid_protocol_handle \<Rightarrow> u32 \<Rightarrow> int \<times> rfid_protocol_handle" where
  "rfid_protocol_setopt ph optname =
     (if drop_bit 16 optname = 0 then (- EINVAL, ph)
      else if ph_proto ph = PROTO_TCL
      then (let (ret, th) = tcl_setopt (ph_tcl ph) optname in (ret, ph\<lparr>ph_tcl := th\<rparr>))
      else (- EINVAL, ph))"

definition rfid_protocol_name :: "rfid_protocol_handle \<Rightarrow> string option" where
  "rfid_protocol_name ph =
     (if ph_proto ph = PROTO_TCL then Some ''ISO 14443-4 / T=CL''
      else if ph_proto ph = PROTO_MIFARE_UL then Some ''Mifare Ultralight''
      else if ph_proto ph = PROTO_MIFARE_CLASSIC then Some ''Mifare Classic''
      else if ph_proto ph = PROTO_TAGIT then Some ''TI Tag-it HF'' else None)"

end
