(* ===== verification/Rfid_Scan.thy ===== *)
theory Rfid_Scan
  imports Protocol
begin

text \<open>
  Scanning for the first transponder in the field (\<open>src/rfid_scan.c\<close>).  The record of uninitialised
  locals stands for every call of the scan; \<open>sl_malloc\<close> says whether the allocations succeed.
\<close>

record scan_locals =
  sl_malloc :: bool
  sl_h0 :: rfid_layer2_handle
  sl_l2 :: l2_locals
  sl_proto :: proto_locals

definition rfid_layer2_scan1 ::
    "'w rfid_reader_handle \<Rightarrow> scan_locals \<Rightarrow> nat \<Rightarrow> randctx \<Rightarrow> 'w
       \<Rightarrow> (rfid_layer2_handle option \<times> randctx \<times> 'w) option" where
  "rfid_layer2_scan1 rh l l2 r w =
     (if rdr_l2_supported (rh_reader rh) AND push_bit l2 1 \<noteq> 0 then do {
        (l2h, r, w) \<leftarrow> rfid_layer2_init rh (of_nat l2) (sl_malloc l) (sl_h0 l) r w;
        (case l2h of
           None \<Rightarrow> Some (None, r, w)
         | Some l2h \<Rightarrow> do {
             (ret, l2h, r, w) \<leftarrow> rfid_layer2_open rh (sl_l2 l) l2h r w;
             if ret < 0 then Some (snd (rfid_layer2_fini l2h), r, w)
             else Some (Some l2h, r, w) }) }
      else Some (None, r, w))"

fun rfid_layer2_scan_from ::
    "'w rfid_reader_handle \<Rightarrow> scan_locals \<Rightarrow> nat list \<Rightarrow> randctx \<Rightarrow> 'w
       \<Rightarrow> (rfid_layer2_handle option \<times> randctx \<times> 'w) option" where
  "rfid_layer2_scan_from rh l [] r w = Some (None, r, w)"
| "rfid_layer2_scan_from rh l (i # is) r w = do {
     (l2h, r, w) \<leftarrow> rfid_layer2_scan1 rh l i r w;
     if l2h \<noteq> None then Some (l2h, r, w) else rfid_layer2_scan_from rh l is r w }"

definition rfid_layer2_scan ::
    "'w rfid_reader_handle \<Rightarrow> scan_locals \<Rightarrow> randctx \<Rightarrow> 'w
       \<Rightarrow> (rfid_layer2_handle option \<times> randctx \<times> 'w) option" where
  "rfid_layer2_scan rh l r w = rfid_layer2_scan_from rh l [0..<16] r w"

definition rfid_protocol_scan1 ::
    "'w rfid_reader_handle \<Rightarrow> scan_locals \<Rightarrow> nat \<Rightarrow> rfid_layer2_handle \<Rightarrow> 'w
       \<Rightarrow> (rfid_protocol_handle option \<times> rfid_layer2_handle \<times> 'w) option" where
  "rfid_protocol_scan1 rh l proto l2h w =
     (if rdr_proto_supported (rh_reader rh) AND push_bit proto 1 \<noteq> 0 \<and>
         l2_proto_supported l2h AND push_bit proto 1 \<noteq> 0 then do {
        ph \<leftarrow> rfid_protocol_init rh (sl_proto l) l2h (sl_malloc l) (of_nat proto);
        (case ph of
           None \<Rightarrow> Some (None, l2h, w)
         | Some ph \<Rightarrow> do {
             (ret, l2h, ph, w) \<leftarrow> rfid_protocol_open rh (sl_proto l) l2h ph w;
             if ret < 0 then Some (snd (rfid_protocol_fini ph), l2h, w)
             else Some (Some ph, l2h, w) }) }
      else Some (None, l2h, w))"

fun rfid_protocol_scan_from ::
    "'w rfid_reader_handle \<Rightarrow> scan_locals \<Rightarrow> nat list \<Rightarrow> rfid_layer2_handle \<Rightarrow> 'w
       \<Rightarrow> (rfid_protocol_handle option \<times> rfid_layer2_handle \<times> 'w) option" where
  "rfid_protocol_scan_from rh l [] l2h w = Some (None, l2h, w)"
| "rfid_protocol_scan_from rh l (i # is) l2h w = do {
     (ph, l2h, w) \<leftarrow> rfid_protocol_scan1 rh l i l2h w;
     if ph \<noteq> None then Some (ph, l2h, w) else rfid_protocol_scan_from rh l is l2h w }"

definition rfid_protocol_scan ::
    "'w rfid_reader_handle \<Rightarrow> scan_locals \<Rightarrow> rfid_layer2_handle \<Rightarrow> 'w
       \<Rightarrow> (rfid_protocol_handle option \<times> rfid_layer2_handle \<times> 'w) option" where
  "rfid_protocol_scan rh l l2h w = rfid_protocol_scan_from rh l [0..<16] l2h w"

definition rfid_scan ::
    "'w rfid_reader_handle \<Rightarrow> scan_locals \<Rightarrow> randctx \<Rightarrow> 'w
       \<Rightarrow> (int \<times> rfid_layer2_handle option \<times> rfid_protocol_handle option \<times> randctx \<times> 'w) option"
  where
  "rfid_scan rh l r w = do {
     (l2h, r, w) \<leftarrow> rfid_layer2_scan rh l r w;
     (case l2h of
        None \<Rightarrow> Some (0, None, None, r, w)
      | Some l2h \<Rightarrow> do {
          (ph, l2h, w) \<leftarrow> rfid_protocol_scan rh l l2h w;
          (case ph of
             None \<Rightarrow> Some (2, Some l2h, None, r, w)
           | Some ph \<Rightarrow> Some (3, Some l2h, Some ph, r, w)) }) }"

end
