(* ===== verification/Tcl_Session.thy ===== *)
theory Tcl_Session
  imports Proto_Tcl
begin

text \<open>
  The T=CL handle of \<open>src/rfid_proto_tcl.c\<close> over a whole session: a step relation for the calls an
  application can make, an invariant of the handle that every call keeps over a bounded reader, what
  a connect does to the state, and what parsing an ATS stores.
\<close>

section \<open>Sessions\<close>

text \<open>
  The calls of an application on one T=CL handle, in any order and with any buffers.  The state is the
  layer 2 handle, the T=CL handle and the hardware; the results of the calls, errors included, are
  left to the application.
\<close>

type_synonym 'w tcl_session = "rfid_layer2_handle \<times> tcl_handle \<times> 'w"

inductive tcl_step :: "'w rfid_reader_handle \<Rightarrow> 'w tcl_session \<Rightarrow> 'w tcl_session \<Rightarrow> bool"
  for rh where
  connect: "tcl_connect rh pps l2h th w = Some (ret, l2h', th', w') \<Longrightarrow>
            tcl_step rh (l2h, th, w) (l2h', th', w')"
| exchange: "tcl_transceive rh xcvb l2h th tx tx_len rx rx_len w = Some (ret, rx', n, th', w') \<Longrightarrow>
             tcl_step rh (l2h, th, w) (l2h, th', w')"
| deselect: "tcl_deselect rh frame rx l2h th w = Some (ret, th', w') \<Longrightarrow>
             tcl_step rh (l2h, th, w) (l2h, th', w')"
| other: "tcl_step rh (l2h, th, w) (l2h', th, w')"

inductive tcl_reachable :: "'w rfid_reader_handle \<Rightarrow> tcl_handle \<Rightarrow> bool" for rh where
  start: "tcl_init (rh_ah rh) True = Some th \<Longrightarrow> tcl_reachable rh th"
| step: "tcl_reachable rh th \<Longrightarrow> tcl_step rh (l2h, th, w) (l2h', th', w') \<Longrightarrow> tcl_reachable rh th'"

inductive_cases tcl_stepE: "tcl_step rh (l2h, th, w) (l2h', th', w')"

text \<open>
  What holds of the handle between calls: the block number is a bit, neither CID nor NAD is ever in
  use, the ATS buffer keeps its size and its length stays in range, and the state is one of five.
\<close>

definition tcl_inv :: "tcl_handle \<Rightarrow> bool" where
  "tcl_inv th \<longleftrightarrow>
     t_toggle th \<in> {0, 1} \<and> t_flags th AND 0x30 = 0 \<and> length (t_ats th) = 256 \<and>
     t_ats_len th \<le> 256 \<and>
     t_state th \<in> {TCL_STATE_INITIAL, TCL_STATE_RATS_SENT, TCL_STATE_ATS_RCVD,
                   TCL_STATE_ESTABLISHED, TCL_STATE_DESELECTED}"

lemma flags_supported:
  "x AND 0x30 = 0 \<Longrightarrow> (x OR 0x01) AND 0x30 = 0" "x AND 0x30 = 0 \<Longrightarrow> (x OR 0x02) AND 0x30 = 0"
  for x :: u32
  by (simp_all add: bit.conj_disj_distrib2)

lemma flags_unused:
  assumes "(x :: u32) AND 0x30 = 0"
  shows "x AND 0x10 = 0" "x AND 0x20 = 0"
proof -
  have "x AND 0x10 = (x AND 0x30) AND 0x10" "x AND 0x20 = (x AND 0x30) AND 0x20"
    by (simp_all add: and.assoc)
  with assms show "x AND 0x10 = 0" "x AND 0x20 = 0" by simp_all
qed

lemma prologue_inv:
  assumes "tcl_build_prologue2 th prlg pcb = Some (th', prlg', n)" "tcl_inv th"
  shows "tcl_inv th' \<and> n = 1 \<and> t_ats th' = t_ats th"
  using assms flags_unused [of "t_flags th"]
  by (auto simp: tcl_build_prologue2_def tcl_inv_def run_simps split: if_splits)

lemmas prologue_defs = tcl_build_prologue_i_def tcl_build_prologue_r_def tcl_build_prologue_s_def

lemma refill_inv:
  "tcl_refill_xcvb th xcvb ctx = Some (r, th', xcvb', ctx') \<Longrightarrow> tcl_inv th \<Longrightarrow> tcl_inv th'"
  by (auto simp: tcl_refill_xcvb_def prologue_defs run_simps Let_def split: if_splits
      dest: prologue_inv)

lemma rx_block_inv:
  "tcl_rx_block ret th xcvb ctx = Some (next, th', xcvb', ctx') \<Longrightarrow> tcl_inv th \<Longrightarrow> tcl_inv th'"
  by (auto simp: tcl_rx_block_def tcl_rx_s_block_def tcl_rx_i_block_def fill_xcvb_wtxm_def
      prologue_defs run_simps Let_def split: if_splits dest: prologue_inv)

lemma do_tx_inv:
  assumes "tcl_do_tx rh l2h th xcvb ctx w = Some out"
  shows "tcl_inv th \<longrightarrow> tcl_inv (fst (snd out))"
  using assms
proof (induction rh l2h th xcvb ctx w out rule: tcl_do_tx.raw_induct [rotated, consumes 1])
  case (1 f rh l2h th xcvb ctx w out)
  show ?case
  proof
    assume inv: "tcl_inv th"
    let ?rx = "\<lambda>data n. xcvb\<lparr>x_rx := (x_rx xcvb)\<lparr>fb_data := data, fb_frame_len := n\<rparr>\<rparr>"
    obtain ret data n w1 where xfer: "rfid_layer2_transceive rh l2h (l2_to_frame (l2_id l2h))
        (fb_data (x_tx xcvb)) (fb_frame_len (x_tx xcvb)) (fb_data (x_rx xcvb)) 256 (x_timeout xcvb) 0 w
        = Some (ret, data, n, w1)"
      using 1(2) by (auto simp: run_simps)
    show "tcl_inv (fst (snd out))"
    proof (cases "ret < 0")
      case True
      then show ?thesis using 1(2) xfer inv by (auto simp: Let_def)
    next
      case False
      then obtain nxt th1 x1 c1 where rx: "tcl_rx_block ret th (?rx data n) ctx = Some (nxt, th1, x1, c1)"
        using 1(2) xfer by (auto simp: run_simps Let_def)
      note inv1 = rx_block_inv [OF rx inv]
      show ?thesis
        using 1(2) xfer rx False inv1
        by (cases nxt) (auto simp: run_simps Let_def split: if_splits dest: refill_inv dest!: 1(1))
    qed
  qed
qed

lemma transceive_inv:
  "tcl_transceive rh xcvb l2h th tx tx_len rx rx_len w = Some (ret, rx', n, th', w') \<Longrightarrow>
   tcl_inv th \<Longrightarrow> tcl_inv th'"
  by (auto simp: tcl_transceive_def run_simps Let_def split: if_splits
      dest: refill_inv dest!: do_tx_inv)

lemma tcl_inv_update [simp]:
  "tcl_inv (th\<lparr>t_ta := x\<rparr>) = tcl_inv th" "tcl_inv (th\<lparr>t_fsc := y\<rparr>) = tcl_inv th"
  "tcl_inv (th\<lparr>t_sfgt := x\<rparr>) = tcl_inv th" "tcl_inv (th\<lparr>t_fwt := y\<rparr>) = tcl_inv th"
  "tcl_inv (th\<lparr>t_historical_len := y\<rparr>) = tcl_inv th"
  "tcl_inv (th\<lparr>t_historical_bytes := z\<rparr>) = tcl_inv th"
  by (simp_all add: tcl_inv_def)

lemma tcl_inv_flags:
  "tcl_inv th \<Longrightarrow> t_flags th AND 0x30 = 0"
  "tcl_inv th \<Longrightarrow> f AND 0x30 = 0 \<Longrightarrow> tcl_inv (th\<lparr>t_flags := f\<rparr>)"
  by (simp_all add: tcl_inv_def)

lemma tcl_inv_state:
  "tcl_inv th \<Longrightarrow> s \<in> {TCL_STATE_INITIAL, TCL_STATE_RATS_SENT, TCL_STATE_ATS_RCVD,
                     TCL_STATE_ESTABLISHED, TCL_STATE_DESELECTED} \<Longrightarrow> tcl_inv (th\<lparr>t_state := s\<rparr>)"
  by (simp add: tcl_inv_def)

lemma tcl_inv_ats:
  "tcl_inv th \<Longrightarrow> length (t_ats th) = 256 \<and> t_ats_len th \<le> 256"
  "tcl_inv th \<Longrightarrow> length a = 256 \<Longrightarrow> n \<le> 256 \<Longrightarrow> tcl_inv (th\<lparr>t_ats := a, t_ats_len := n\<rparr>)"
  by (simp_all add: tcl_inv_def)

lemma tc_flags_unused: "f AND 0x30 = 0 \<Longrightarrow> ats_tc_flags c f AND 0x30 = 0"
  by (simp add: ats_tc_flags_def flags_supported)

lemma ats_bytes_inv:
  "ats_ta_byte t0 ats cur th = Some (th', cur') \<Longrightarrow> tcl_inv th \<Longrightarrow> tcl_inv th' \<and> t_state th' = t_state th"
  "ats_tb_byte fc t0 ats cur th = Some (th', cur') \<Longrightarrow> tcl_inv th \<Longrightarrow> tcl_inv th' \<and> t_state th' = t_state th"
  "ats_tc_byte t0 ats cur th = Some (th', cur') \<Longrightarrow> tcl_inv th \<Longrightarrow> tcl_inv th' \<and> t_state th' = t_state th"
  by (auto simp: ats_ta_byte_def ats_tb_byte_def ats_tc_byte_def run_simps
      intro!: tcl_inv_flags(2) tc_flags_unused dest: tcl_inv_flags(1) split: if_splits)

lemma ats_interface_inv:
  assumes "ats_interface fc t0 ats len th = Some (ret, th')" "tcl_inv th"
  shows "tcl_inv th' \<and> t_state th' = t_state th"
  using assms by (fastforce simp: ats_interface_def run_simps dest: ats_bytes_inv)

lemma parse_ats_inv:
  assumes "tcl_parse_ats ah lid th ats sz = Some (ret, th')" "tcl_inv th"
  shows "tcl_inv th' \<and> t_state th' = t_state th"
  using assms
  by (auto simp: tcl_parse_ats_def ats_default_def run_simps Let_def split: if_splits
      dest!: ats_interface_inv)

lemma do_pps_handle:
  "tcl_do_pps rh pps l2h th w = Some (ret, l2h', th', w') \<Longrightarrow> th' = th"
  by (auto simp: tcl_do_pps_def run_simps Let_def split: if_splits)

lemma deselect_inv:
  "tcl_deselect rh frame rx l2h th w = Some (ret, th', w') \<Longrightarrow> tcl_inv th \<Longrightarrow> tcl_inv th'"
  by (auto simp: tcl_deselect_def prologue_defs run_simps split: if_splits dest!: prologue_inv)
    (auto intro: tcl_inv_state)

lemma connect_b_inv:
  assumes "tcl_connect_b l2h th = Some th'" "tcl_inv th"
  shows "tcl_inv (th'\<lparr>t_state := TCL_STATE_ESTABLISHED\<rparr>)"
proof -
  have "connect_flags_b x f AND 0x30 = 0" if "f AND 0x30 = 0" for x f
    using that by (simp add: connect_flags_b_def flags_supported)
  then show ?thesis
    using assms by (auto simp: tcl_connect_b_def tcl_inv_def run_simps Let_def dest: mem_length)
qed

context bounded_reader
begin

lemma request_ats_inv:
  assumes rd: "rh_reader rh = rd" and run: "tcl_request_ats rh l2h th w = Some (ret, th', w')"
    and inv: "tcl_inv th"
  shows "tcl_inv th'"
proof -
  have len: "unat (t_ats_len th) \<le> length (t_ats th)"
    using tcl_inv_ats(1) [OF inv] by (simp add: word_le_nat_alt)
  have got: "tcl_inv (th\<lparr>t_ats := ats, t_ats_len := n\<rparr>)"
    if "rfid_layer2_transceive rh l2h ft tx k (t_ats th) (t_ats_len th) tmo fl w = Some (r, ats, n, w1)"
    for ft tx k tmo fl r ats n w1
    using layer2_transceive_bound [OF rd len that] tcl_inv_ats(1) [OF inv]
    by (intro tcl_inv_ats(2) [OF inv]) (auto elim: order_trans)
  show ?thesis
    using run inv
    by (auto simp: tcl_request_ats_def run_simps Let_def split: if_splits prod.splits
        dest!: got parse_ats_inv intro!: tcl_inv_state)
qed

lemma connect_inv:
  assumes rd: "rh_reader rh = rd" and run: "tcl_connect rh pps l2h th w = Some (ret, l2h', th', w')"
    and inv: "tcl_inv th"
  shows "tcl_inv th'"
  using run inv
  by (auto simp: tcl_connect_def run_simps split: if_splits
      dest!: request_ats_inv [OF rd] do_pps_handle intro: connect_b_inv tcl_inv_state)

lemma reachable_inv:
  assumes rd: "rh_reader rh = rd" and mru: "ah_mru (rh_ah rh) \<le> 256" and "tcl_reachable rh th"
  shows "tcl_inv th"
  using assms(3)
proof (induction rule: tcl_reachable.induct)
  case (start th)
  with mru show ?case by (auto simp: tcl_init_def tcl_inv_def)
next
  case (step th l2h w l2h' th' w')
  from step.hyps(2) step.IH show ?case
    by (cases rule: tcl_stepE) (auto dest: connect_inv [OF rd] transceive_inv deselect_inv)
qed

end

lemma tcl_inv_getopt:
  assumes "tcl_inv th"
  shows "tcl_getopt th RFID_OPT_P_TCL_ATS n =
           Some (0, Some (take (min (unat (t_ats_len th)) (unat n)) (t_ats th)), min (t_ats_len th) n)"
  using tcl_inv_ats(1) [OF assms]
  by (auto simp: tcl_getopt_def get_slice_def Let_def min_def word_less_nat_alt word_le_nat_alt
      word_unat_eq_iff)


section \<open>Connecting\<close>

text \<open>A handle as \<^const>\<open>tcl_init\<close> makes it, for the examples.\<close>

definition sample_ah :: rfid_asic_handle where
  "sample_ah = \<lparr>ah_fc = 13560000, ah_mtu = 64, ah_mru = 64\<rparr>"

definition fresh_tcl :: tcl_handle where
  "fresh_tcl = the (tcl_init sample_ah True)"

lemma request_ats_state:
  assumes "tcl_request_ats rh l2h th w = Some (ret, th', w')"
  shows "ret \<le> 0 \<and> (t_state th \<noteq> TCL_STATE_INITIAL \<longrightarrow> ret = -1)"
proof (cases "t_state th = TCL_STATE_INITIAL")
  case True
  then show ?thesis
    using assms by (auto simp: tcl_request_ats_def run_simps Let_def split: if_splits prod.splits)
next
  case False
  then show ?thesis using assms by (simp add: tcl_request_ats_def)
qed

lemma connect_state:
  assumes "tcl_connect rh pps l2h th w = Some (0, l2h', th', w')"
  shows "t_state th' = TCL_STATE_ESTABLISHED \<and>
         (t_state th = TCL_STATE_INITIAL \<or>
          t_state th = TCL_STATE_DESELECTED \<and> l2_id l2h = RFID_LAYER2_ISO14443B)"
proof -
  have "t_state th = TCL_STATE_INITIAL \<or> t_state th = TCL_STATE_DESELECTED"
    using assms by (auto simp: tcl_connect_def split: if_splits)
  then show ?thesis
    using assms by (auto simp: tcl_connect_def run_simps split: if_splits dest: request_ats_state)
qed

lemma connect_ret:
  assumes "tcl_connect rh pps l2h th w = Some (ret, l2h', th', w')"
  shows "ret \<le> 0"
  using assms by (auto simp: tcl_connect_def run_simps split: if_splits dest: request_ats_state)

text \<open>
  C32: a connect that succeeds leaves an established session and was made on a fresh handle, or
  on a deselected one of type B; a deselected type A session cannot be connected again.  A connect
  in any other state fails and touches neither the handle nor the hardware.
\<close>

theorem tcl_connect_states:
  assumes "tcl_connect rh pps l2h th w = Some (ret, l2h', th', w')"
  shows "if ret = 0
         then t_state th' = TCL_STATE_ESTABLISHED \<and>
              (t_state th = TCL_STATE_INITIAL \<or>
               t_state th = TCL_STATE_DESELECTED \<and> l2_id l2h = RFID_LAYER2_ISO14443B)
         else ret < 0 \<and>
              (t_state th \<notin> {TCL_STATE_INITIAL, TCL_STATE_DESELECTED} \<longrightarrow> th' = th \<and> w' = w)"
proof (cases "ret = 0")
  case True
  with connect_state assms show ?thesis by metis
next
  case False
  have "th' = th \<and> w' = w" if "t_state th \<notin> {TCL_STATE_INITIAL, TCL_STATE_DESELECTED}"
    using assms that by (simp add: tcl_connect_def)
  with False connect_ret [OF assms] show ?thesis by simp
qed

theorem tcl_connect_states_witness:
  "\<exists>th'. tcl_connect \<lparr>rh_reader = rc632_reader busy_transport, rh_ah = sample_ah\<rparr> [] (sample_l2h\<lparr>l2_id := 2\<rparr>)
           fresh_tcl () = Some (0, sample_l2h\<lparr>l2_id := 2\<rparr>, th', ()) \<and>
         t_state th' = TCL_STATE_ESTABLISHED"
proof -
  have run: "\<exists>th'. tcl_connect \<lparr>rh_reader = rc632_reader busy_transport, rh_ah = sample_ah\<rparr> []
      (sample_l2h\<lparr>l2_id := 2\<rparr>) fresh_tcl () = Some (0, sample_l2h\<lparr>l2_id := 2\<rparr>, th', ())"
    by (simp add: tcl_connect_def tcl_connect_b_def fresh_tcl_def tcl_init_def sample_l2h_def
        get_slice_def put_slice_def)
  then show ?thesis using tcl_connect_states by fastforce
qed

section \<open>Parsing an ATS\<close>

definition interface_bytes :: "u8 \<Rightarrow> nat" where
  "interface_bytes t0 = of_bool (bit t0 4) + of_bool (bit t0 5) + of_bool (bit t0 6)"

lemma and_bits_4_6:
  "(x AND 0x10 \<noteq> 0) = bit (x :: u8) 4" "(x AND 0x20 \<noteq> 0) = bit x 5" "(x AND 0x40 \<noteq> 0) = bit x 6"
  using and_pow2_iff [of 4 x] and_pow2_iff [of 5 x] and_pow2_iff [of 6 x] by simp_all

text \<open>The waiting times of ISO 14443-4, 256 * 16 / fc * 2^i in microseconds, with i not above 14.\<close>

definition iso_wait_time :: "nat \<Rightarrow> nat \<Rightarrow> nat" where
  "iso_wait_time fc i = 4096000000 div fc * 2 ^ min i 14"

lemma wait_time_word:
  fixes fc :: u32 and i :: u8
  shows "(4096000000 div fc) * push_bit (unat (if i > 14 then 14 else i)) 1 =
    of_nat (iso_wait_time (unat fc) (unat i))"
proof -
  have "unat (if i > 14 then 14 else i) = min (unat i) 14" by (simp add: word_less_nat_alt)
  then show ?thesis
    by (simp add: iso_wait_time_def word_arith_nat_div push_bit_eq_mult)
qed

lemma nibble_values: "unat (c AND 0x0f) = unat c mod 16" "unat (drop_bit 4 (c AND 0xf0)) = unat c div 16" for c :: u8
proof -
  have "c AND 0x0f = c mod 16" using take_bit_eq_mask [of 4 c]
    by (simp add: take_bit_eq_mod mask_eq_exp_minus_1)
  then show "unat (c AND 0x0f) = unat c mod 16" by (simp add: unat_mod)
  have "drop_bit 4 (c AND 0xf0) = drop_bit 4 c"
    by (rule bit_word_eqI) (auto simp: bit_simps bit_nibble dest: bit_imp_le_length)
  then show "unat (drop_bit 4 (c AND 0xf0)) = unat c div 16"
    by (simp add: drop_bit_eq_div unat_div)
qed

lemma ucast_of_nat_u8: "ucast (of_nat n :: u32) = (of_nat n :: u8)"
  by (rule bit_word_eqI) (auto simp: bit_simps)

lemma wait_times:
  assumes "fc \<noteq> 0"
  shows "sfgi_to_sfgt fc i = Some (of_nat (iso_wait_time (unat fc) (unat i)))"
    "fwi_to_fwt fc i = Some (of_nat (iso_wait_time (unat fc) (unat i)))"
  using assms wait_time_word [of fc i] by (simp_all add: sfgi_to_sfgt_def fwi_to_fwt_def Let_def)

lemma tc_flags_bits: "ats_tc_flags c f = f OR ucast (c AND 3)"
proof -
  have b: "(c AND 1 \<noteq> 0) = bit c 0" "(c AND 2 \<noteq> 0) = bit c 1"
    using and_pow2_iff [of 0 c] and_pow2_iff [of 1 c] by simp_all
  have "c AND 3 = (if bit c 0 then 1 else 0) OR (if bit c 1 then 2 else 0)"
  proof (rule bit_word_eqI)
    fix n :: nat
    assume "n < LENGTH(8)"
    have three: "bit (3 :: int) n \<longleftrightarrow> n = 0 \<or> n = 1" by (cases n; cases "n - 1") (auto simp: bit_numeral_rec)
    show "bit (c AND 3) n = bit ((if bit c 0 then 1 else 0) OR (if bit c 1 then 2 else (0 :: u8))) n"
      by (cases "n = 0"; cases "n = 1") (auto simp: bit_and_iff bit_or_iff three bit_1_iff bit_2_iff split: if_splits)
  qed
  then have "ucast (c AND 3) = (if bit c 0 then 1 else 0) OR (if bit c 1 then 2 else (0 :: u32))"
    by (simp add: unsigned_or_eq)
  then show ?thesis by (simp only: ats_tc_flags_def Let_def b) (auto simp: or.assoc)
qed

lemma ats_ta_run:
  "cur < length ats \<Longrightarrow> ats_ta_byte t0 ats cur th =
     Some (if bit t0 4 then th\<lparr>t_ta := ats ! cur\<rparr> else th, cur + of_bool (bit t0 4))"
  by (simp add: ats_ta_byte_def and_bits_4_6(1))

lemma ats_tb_run:
  assumes "cur < length ats" "fc \<noteq> 0"
  shows "ats_tb_byte fc t0 ats cur th =
     Some (if bit t0 5
           then th\<lparr>t_sfgt := of_nat (iso_wait_time (unat fc) (unat (ats ! cur) mod 16)),
                   t_fwt := of_nat (iso_wait_time (unat fc) (unat (ats ! cur) div 16))\<rparr>
           else th, cur + of_bool (bit t0 5))"
  unfolding ats_tb_byte_def and_bits_4_6(2) wait_times [OF assms(2)] nibble_values
  using assms(1) by (simp add: ucast_of_nat_u8)

lemma ats_tc_run:
  "cur < length ats \<Longrightarrow> ats_tc_byte t0 ats cur th =
     Some (if bit t0 6 then th\<lparr>t_flags := t_flags th OR ucast (ats ! cur AND 3)\<rparr> else th,
           cur + of_bool (bit t0 6))"
  unfolding ats_tc_byte_def and_bits_4_6(3) tc_flags_bits by simp

lemma ats_interface_run:
  assumes "length ats = 256" "fc \<noteq> 0"
  shows "ats_interface fc t0 ats len th =
    (let tb = 2 + of_bool (bit t0 4); tc = tb + of_bool (bit t0 5) in
     Some (0, th\<lparr>
       t_ta := if bit t0 4 then ats ! 2 else t_ta th,
       t_sfgt := if bit t0 5 then of_nat (iso_wait_time (unat fc) (unat (ats ! tb) mod 16)) else t_sfgt th,
       t_fwt := if bit t0 5 then of_nat (iso_wait_time (unat fc) (unat (ats ! tb) div 16)) else t_fwt th,
       t_flags := if bit t0 6 then t_flags th OR ucast (ats ! tc AND 3) else t_flags th,
       t_historical_len := word_of_int (int (unat len) - int (2 + interface_bytes t0)),
       t_historical_bytes := Some (2 + interface_bytes t0)\<rparr>))"
proof -
  have "2 < length ats" "3 < length ats" "4 < length ats" using assms(1) by simp_all
  moreover have "ucast len = (of_nat (unat len) :: u32)" by (rule of_nat_unat [symmetric])
  then have "ucast len - of_nat k = (word_of_int (int (unat len) - int k) :: u32)" for k
    by (simp only: of_int_diff of_int_of_nat_eq)
  from this [of "2 + interface_bytes t0"] have len: "ucast len - of_nat (2 + interface_bytes t0) =
      (word_of_int (int (unat len) - int (2 + interface_bytes t0)) :: u32)" .
  ultimately show ?thesis
    unfolding ats_interface_def len [symmetric]
    by (cases "bit t0 4"; cases "bit t0 5"; cases "bit t0 6")
      (simp_all add: ats_ta_run ats_tb_run ats_tc_run assms(2) interface_bytes_def)
qed

lemma min_ats_len:
  "unat (if sz < ucast a then ucast sz else a) = min (unat a) (unat sz)" for a :: u8 and sz :: u32
proof (cases "sz < ucast a")
  case True
  then have "unat sz < unat a" by (simp add: word_less_nat_alt unsigned_ucast_eq)
  then show ?thesis using True unat_u8_less [of a] by (simp add: unat_ucast_u32_u8)
next
  case False
  then show ?thesis by (simp add: word_less_nat_alt unsigned_ucast_eq)
qed

text \<open>
  C33: what an ATS is parsed into, for every content of the buffer and every received length.  An empty one is
  refused and one of a single byte gives the defaults.  Otherwise the format byte decides: code nine reads behind
  the table of frame sizes; every other ATS is accepted, the frame size being the coded one cut to the reader's
  (codes above nine leave the old one).  The interface bytes TA, TB and TC follow as far as the format byte
  announces them: TA is kept, the low digit of TB gives the start-up guard time (cut to eight bits) and its high
  digit the frame waiting time, and the low two bits of TC add to the flags.  The historical bytes start behind
  them, and their number is what is left, modulo 32 bits when the announced bytes are more than were received.
  Nothing else in the handle changes.
\<close>

theorem parse_ats_result:
  assumes "length ats = 256" "ah_fc ah \<noteq> 0"
  shows "tcl_parse_ats ah lid th ats sz =
    (let t0 = ats ! 1; size_code = unat t0 mod 16; fc = unat (ah_fc ah); len = min (unat (ats ! 0)) (unat sz);
         tb = 2 + of_bool (bit t0 4); tc = tb + of_bool (bit t0 5); hist = 2 + interface_bytes t0 in
     if len = 0 then Some (-1, th)
     else if len = 1 then
       Some (0, th\<lparr>t_ta := 0x80, t_fsc := 32, t_sfgt := of_nat (iso_wait_time fc 0),
         t_fwt := if lid = RFID_LAYER2_ISO14443A then of_nat (iso_wait_time fc 4) else t_fwt th\<rparr>)
     else if size_code = 9 then None
     else Some (0, th\<lparr>
       t_fsc := min (ah_mtu ah) (if size_code < 9 then [16, 24, 32, 40, 48, 64, 96, 128, 256] ! size_code else t_fsc th),
       t_ta := if bit t0 4 then ats ! 2 else 0,
       t_sfgt := if bit t0 5 then of_nat (iso_wait_time fc (unat (ats ! tb) mod 16)) else t_sfgt th,
       t_fwt := if bit t0 5 then of_nat (iso_wait_time fc (unat (ats ! tb) div 16)) else t_fwt th,
       t_flags := if bit t0 6 then t_flags th OR ucast (ats ! tc AND 3) else t_flags th,
       t_historical_len := word_of_int (int len - int hist), t_historical_bytes := Some hist\<rparr>))"
proof -
  let ?t0 = "ats ! 1"
  let ?len = "if sz < ucast (ats ! 0) then ucast sz else ats ! 0"
  have zero: "ats ! 0 = 0 \<or> sz = 0 \<longleftrightarrow> min (unat (ats ! 0)) (unat sz) = 0"
    by (auto simp: unat_eq_zero min_def)
  have one: "?len = 1 \<longleftrightarrow> min (unat (ats ! 0)) (unat sz) = 1"
    by (simp only: word_unat_eq_iff [of ?len 1] min_ats_len unsigned_1)
  have cut: "(if x > y then y else x) = min y x" for x y :: u32
    by (auto simp: min_def)
  have code: "?t0 AND 0x0f < 9 \<longleftrightarrow> unat ?t0 mod 16 < 9" "?t0 AND 0x0f = 9 \<longleftrightarrow> unat ?t0 mod 16 = 9"
    by (simp_all add: word_less_nat_alt word_unat_eq_iff flip: nibble_values(1))
  consider "min (unat (ats ! 0)) (unat sz) = 0" | "min (unat (ats ! 0)) (unat sz) = 1"
    | "2 \<le> min (unat (ats ! 0)) (unat sz)" by linarith
  then show ?thesis
  proof cases
    case 1
    then show ?thesis using zero assms(1) by (simp add: tcl_parse_ats_def)
  next
    case 2
    have "tcl_parse_ats ah lid th ats sz = ats_default ah lid (th\<lparr>t_ta := 0\<rparr>)"
      using 2 zero one assms(1) by (auto simp: tcl_parse_ats_def Let_def)
    with 2 show ?thesis
      by (simp add: ats_default_def wait_times [OF assms(2)] ucast_of_nat_u8 Let_def)
  next
    case 3
    let ?fsc = "if ?t0 AND 0x0f < 9 then fsdi_table ! unat (?t0 AND 0x0f) else t_fsc th"
    have "tcl_parse_ats ah lid th ats sz =
        (if ?t0 AND 0x0f = 9 then None
         else ats_interface (ah_fc ah) ?t0 ats ?len (th\<lparr>t_ta := 0, t_fsc := min (ah_mtu ah) ?fsc\<rparr>))"
      using 3 zero one assms(1) by (auto simp: tcl_parse_ats_def fsdi_to_fsd_cases Let_def cut)
    also have "\<dots> = (if unat ?t0 mod 16 = 9 then None
         else ats_interface (ah_fc ah) ?t0 ats ?len (th\<lparr>t_ta := 0, t_fsc := min (ah_mtu ah)
           (if unat ?t0 mod 16 < 9 then fsdi_table ! (unat ?t0 mod 16) else t_fsc th)\<rparr>))"
      by (simp only: code nibble_values(1))
    finally have run: "tcl_parse_ats ah lid th ats sz = \<dots>" .
    have "min (unat (ats ! 0)) (unat sz) \<noteq> 0" "min (unat (ats ! 0)) (unat sz) \<noteq> 1" using 3 by linarith+
    then show ?thesis
      unfolding run ats_interface_run [OF assms] min_ats_len Let_def fsdi_table_def
      by (cases th) (simp cong: if_cong)
  qed
qed

theorem parse_ats_result_witness:
  "\<exists>th'. tcl_parse_ats sample_ah 1 fresh_tcl ([6, 0x75, 0x80, 0x72, 0x02, 0xaa] @ replicate 250 0) 6
           = Some (0, th') \<and>
         t_fsc th' = 64 \<and> t_ta th' = 0x80 \<and> unat (t_fwt th') = 302 * 2 ^ 7 \<and> unat (t_sfgt th') = 302 * 4 mod 256 \<and>
         t_flags th' = t_flags fresh_tcl OR TCL_HANDLE_F_CID_SUPPORTED \<and>
         t_historical_bytes th' = Some 5 \<and> t_historical_len th' = 1"
  using parse_ats_result [of "[6, 0x75, 0x80, 0x72, 0x02, 0xaa] @ replicate 250 0" sample_ah 1 fresh_tcl 6]
  by (simp add: sample_ah_def interface_bytes_def bit_numeral_rec iso_wait_time_def Let_def)

end
