(* ===== verification/Scan_Results.thy ===== *)
theory Scan_Results
  imports Rfid_Scan Tcl_Session
begin

text \<open>
  What a scan returns.  The handles it gives to the caller name a layer 2 and a protocol that both
  sides support.
\<close>

section \<open>The layer 2 of a handle never changes\<close>

lemma set_a_id [simp]: "l2_id (set_a_state s h) = l2_id h" "l2_id (set_a_level lv h) = l2_id h"
  by (simp_all add: set_a_state_def set_a_level_def)

lemma cascade_copy_id: "anticol_cascade_copy u acf h = Some (ret, acf', h') \<Longrightarrow> l2_id h' = l2_id h"
  by (auto simp: anticol_cascade_copy_def run_simps split: if_splits)

lemma anticol_finish_id: "anticol_finish acf sak h = Some h' \<Longrightarrow> l2_id h' = l2_id h"
  unfolding anticol_finish_def Let_def by (auto simp: run_simps)

lemma anticol_cascade_id:
  "anticol_cascade rh acf sak h r w = Some (ret, h', r', w') \<Longrightarrow> l2_id h' = l2_id h"
proof (induction rh acf sak h r w "(ret, h', r', w')" rule: anticol_cascade.raw_induct [rotated, consumes 1])
  case (1 f rh acf sak h r w)
  from 1(2) show ?case
    by (auto simp: run_simps split: if_splits
        dest!: cascade_copy_id anticol_finish_id 1(1))
qed

lemma anticol_a_id:
  "iso14443a_anticol rh h r w = Some (ret, h', r', w') \<Longrightarrow> l2_id h' = l2_id h"
  by (auto simp: iso14443a_anticol_def run_simps Let_def split: if_splits dest!: anticol_cascade_id)

lemma atqb_id [simp]:
  "l2_id (atqb_frame_options fo h) = l2_id h" "l2_id (atqb_protocol_type pt h) = l2_id h"
  "l2_id (set_b_fsc x h) = l2_id h" "l2_id (set_b_state st h) = l2_id h"
  by (simp_all add: atqb_frame_options_def atqb_protocol_type_def set_b_fsc_def set_b_state_def Let_def
      split: option.splits)

lemma parse_atqb_id: "parse_atqb rh atqb h = Some (ret, h') \<Longrightarrow> l2_id h' = l2_id h"
  by (auto simp: parse_atqb_def run_simps Let_def split: if_splits)

lemma send_reqb_from_id:
  "send_reqb_from rh afi wup is atqb n h w = Some (ret, h', w') \<Longrightarrow> l2_id h' = l2_id h"
proof (induction "is" arbitrary: wup atqb n h w)
  case (Cons i "is")
  show ?case
    using Cons.prems by (auto simp: run_simps Let_def split: if_splits dest!: Cons.IH parse_atqb_id)
qed simp

lemma transceive_attrib_id:
  "transceive_attrib rh info rx d n a h w = Some (ret, d', n', h', w') \<Longrightarrow> l2_id h' = l2_id h"
  by (cases "iso14443_fsd_to_fsdi (b_fsd (l2_b h))")
    (auto simp: transceive_attrib_def run_simps Let_def split: if_splits)

lemma anticol_b_id: "iso14443b_anticol rh l h w = Some (ret, h', w') \<Longrightarrow> l2_id h' = l2_id h"
  by (auto simp: iso14443b_anticol_def send_reqb_def run_simps split: if_splits
      dest!: send_reqb_from_id transceive_attrib_id)

lemma set_uid8_id: "set_uid8 u h = Some h' \<Longrightarrow> l2_id h' = l2_id h"
  by (auto simp: set_uid8_def run_simps)

lemma inventory_loop_id:
  "inventory_loop rh acf n boc h w = Some (ret, h', w') \<Longrightarrow> l2_id h' = l2_id h"
proof (induction rh acf n boc h w "(ret, h', w')" rule: inventory_loop.raw_induct [rotated, consumes 1])
  case (1 f rh acf n boc h w)
  let ?n = "if i_single_slot (l2_i h) then 1 else 16 :: nat"
  obtain res w1 where "inventory_slots rh acf n ?n boc [] (replicate 10 0) w = Some (res, w1)"
    using 1(2) by (cases "inventory_slots rh acf n ?n boc [] (replicate 10 0) w") auto
  note run = 1(2) [unfolded this, simplified]
  show ?case
  proof (cases res)
    case (Inl uuid)
    then show ?thesis using run by (auto simp: run_simps dest: set_uid8_id)
  next
    case (Inr s)
    then show ?thesis
      using run by (cases s) (auto simp: run_simps Let_def split: option.splits if_splits
          dest: set_uid8_id 1(1))
  qed
qed

lemma layer2_open_id:
  "rfid_layer2_open rh l h r w = Some (ret, h', r', w') \<Longrightarrow> l2_id h' = l2_id h"
  by (auto simp: rfid_layer2_open_def iso15693_anticol_def run_simps split: if_splits
      dest!: anticol_a_id anticol_b_id inventory_loop_id)

lemma layer2_init_id:
  "rfid_layer2_init rh lid m h0 r w = Some (Some h, r', w') \<Longrightarrow> l2_id h = lid"
  by (auto simp: rfid_layer2_init_def iso14443a_init_def iso14443b_init_def iso15693_init_def run_simps
      Let_def split: if_splits)

lemma scan1_layer2:
  assumes "rfid_layer2_scan1 rh l i r w = Some (Some h, r', w')"
  shows "rdr_l2_supported (rh_reader rh) AND push_bit i 1 \<noteq> 0 \<and> l2_id h = of_nat i"
  using assms
  by (auto simp: rfid_layer2_scan1_def rfid_layer2_fini_def run_simps split: if_splits option.splits
      dest!: layer2_init_id layer2_open_id)

lemma scan_from_layer2:
  "rfid_layer2_scan_from rh l is r w = Some (Some h, r', w') \<Longrightarrow>
     \<exists>i \<in> set is. rdr_l2_supported (rh_reader rh) AND push_bit i 1 \<noteq> 0 \<and> l2_id h = of_nat i"
  by (induction "is" arbitrary: r w) (auto simp: run_simps split: if_splits dest!: scan1_layer2)

section \<open>The protocol\<close>

lemma speed_setopt_handle:
  "rfid_layer2_setopt rh h RFID_OPT_14443A_SPEED_RX v w = Some (ret, h', w') \<Longrightarrow> l2_id h = 1 \<Longrightarrow> h' = h"
  "rfid_layer2_setopt rh h RFID_OPT_14443A_SPEED_TX v w = Some (ret, h', w') \<Longrightarrow> l2_id h = 1 \<Longrightarrow> h' = h"
  by (auto simp: rfid_layer2_setopt_def iso14443a_setopt_def run_simps split: if_splits option.splits)

lemma do_pps_l2h:
  "tcl_do_pps rh pps l2h th w = Some (ret, l2h', th', w') \<Longrightarrow> l2_id l2h = 1 \<Longrightarrow> l2h' = l2h"
  by (auto simp: tcl_do_pps_def run_simps Let_def split: if_splits dest!: speed_setopt_handle)

lemma connect_l2h: "tcl_connect rh pps l2h th w = Some (ret, l2h', th', w') \<Longrightarrow> l2h' = l2h"
  by (auto simp: tcl_connect_def run_simps split: if_splits dest: do_pps_l2h)

lemma protocol_open_result:
  assumes "rfid_protocol_open rh l l2h ph w = Some (ret, l2h', ph', w')"
  shows "l2h' = l2h \<and> ph_proto ph' = ph_proto ph \<and>
         (0 \<le> ret \<and> ph_proto ph = PROTO_TCL \<longrightarrow> t_state (ph_tcl ph') = TCL_STATE_ESTABLISHED)"
proof (cases "ph_proto ph = PROTO_TCL")
  case True
  then obtain th' where c: "tcl_connect rh (lp_buf l) l2h (ph_tcl ph) w = Some (ret, l2h', th', w')"
      "ph' = ph\<lparr>ph_tcl := th'\<rparr>"
    using assms by (auto simp: rfid_protocol_open_def run_simps)
  moreover have "t_state th' = TCL_STATE_ESTABLISHED" if "0 \<le> ret"
    using connect_ret [OF c(1)] connect_state that c(1) by (metis order_antisym)
  ultimately show ?thesis using True by (auto dest: connect_l2h)
next
  case False
  then show ?thesis using assms by (simp add: rfid_protocol_open_def)
qed

lemma protocol_init_proto: "rfid_protocol_init rh l l2h m p = Some (Some ph) \<Longrightarrow> ph_proto ph = p"
  by (auto simp: rfid_protocol_init_def run_simps split: if_splits)

lemma scan1_protocol:
  assumes "rfid_protocol_scan1 rh l i l2h w = Some (p, l2h', w')"
  shows "l2h' = l2h \<and> (\<forall>ph. p = Some ph \<longrightarrow>
     rdr_proto_supported (rh_reader rh) AND push_bit i 1 \<noteq> 0 \<and>
     l2_proto_supported l2h AND push_bit i 1 \<noteq> 0 \<and> ph_proto ph = of_nat i \<and>
     (ph_proto ph = PROTO_TCL \<longrightarrow> t_state (ph_tcl ph) = TCL_STATE_ESTABLISHED))"
  using assms
  by (auto simp: rfid_protocol_scan1_def rfid_protocol_fini_def run_simps split: if_splits option.splits
      dest!: protocol_init_proto protocol_open_result)

lemma scan_from_protocol:
  "rfid_protocol_scan_from rh l is l2h w = Some (p, l2h', w') \<Longrightarrow>
     l2h' = l2h \<and> (\<forall>ph. p = Some ph \<longrightarrow> (\<exists>i \<in> set is.
       rdr_proto_supported (rh_reader rh) AND push_bit i 1 \<noteq> 0 \<and>
       l2_proto_supported l2h AND push_bit i 1 \<noteq> 0 \<and> ph_proto ph = of_nat i \<and>
       (ph_proto ph = PROTO_TCL \<longrightarrow> t_state (ph_tcl ph) = TCL_STATE_ESTABLISHED)))"
proof (induction "is" arbitrary: l2h w)
  case (Cons i "is")
  show ?case
    using Cons.prems
    by (auto simp: run_simps split: if_splits dest!: Cons.IH scan1_protocol)
qed simp

text \<open>
  C4: a scan returns 0 without handles, 2 with a layer 2 handle alone, or 3 with both handles; the
  layer 2 found is one the reader supports, the protocol found is one that the reader and the card
  both support, and a T=CL protocol handle is connected.\<close>

theorem rfid_scan_result:
  assumes "rfid_scan rh l r w = Some (ret, l2h, ph, r', w')"
  shows "(ret, l2h, ph) = (0, None, None) \<or>
    (\<exists>h i. i < 16 \<and> l2h = Some h \<and> l2_id h = of_nat i \<and>
       rdr_l2_supported (rh_reader rh) AND push_bit i 1 \<noteq> 0 \<and>
       (ret = 2 \<and> ph = None \<or>
        ret = 3 \<and> (\<exists>p j. j < 16 \<and> ph = Some p \<and> ph_proto p = of_nat j \<and>
          rdr_proto_supported (rh_reader rh) AND push_bit j 1 \<noteq> 0 \<and>
          l2_proto_supported h AND push_bit j 1 \<noteq> 0 \<and>
          (ph_proto p = PROTO_TCL \<longrightarrow> t_state (ph_tcl p) = TCL_STATE_ESTABLISHED))))"
  using assms
  by (fastforce simp: rfid_scan_def rfid_layer2_scan_def rfid_protocol_scan_def run_simps
      split: option.splits dest!: scan_from_layer2 scan_from_protocol)


text \<open>A reader for ISO 15693 alone, in whose field a single card answers, for the example.\<close>

definition sample_scan_locals :: scan_locals where
  "sample_scan_locals =
     \<lparr>sl_malloc = True, sl_h0 = sample_l2h,
      sl_l2 = \<lparr>lo_b = \<lparr>lb_atqb = replicate 12 0, lb_rx_buf = replicate 256 0, lb_buf = replicate 255 0,
                       lb_buf_len_addr = 0x7ffe0000\<rparr>,
               lo_acf = replicate 12 0, lo_rx = replicate 16 0\<rparr>,
      sl_proto = \<lparr>lp_atqa = [0, 0], lp_sak = [0], lp_uid6 = replicate 6 0, lp_buf = replicate 16 0,
                  lp_frame = replicate 3 0, lp_xcvb = undefined, lp_tcl = fresh_tcl\<rparr>\<rparr>"

definition scan_rh :: "unit rfid_reader_handle" where
  "scan_rh =
     \<lparr>rh_reader = (rc632_reader busy_transport)\<lparr>
        rdr_l2_supported := push_bit 3 1, rdr_init := (\<lambda>_ w. Some (0, w)),
        rdr_transceive_ac := Some (\<lambda>_ _ _ _ _ w.
          Some (0, [0, 0, 1, 2, 3, 4, 5, 6, 7, 0xe0], 10, Some 0, w))\<rparr>,
      rh_ah = sample_ah\<rparr>"

theorem rfid_scan_result_witness:
  "\<exists>l2h ph r' w'. rfid_scan scan_rh sample_scan_locals randctx_init () = Some (2, l2h, ph, r', w') \<and>
     (\<exists>h. l2h = Some h \<and> ph = None)"
proof -
  have "map_option fst (rfid_scan scan_rh sample_scan_locals randctx_init ()) = Some 2"
    by code_simp
  then obtain l2h ph r' w' where "rfid_scan scan_rh sample_scan_locals randctx_init () =
      Some (2, l2h, ph, r', w')"
    by auto
  from this rfid_scan_result [OF this] show ?thesis by auto
qed

end
