(* ===== verification/Layer2_Contracts.thy ===== *)
theory Layer2_Contracts
  imports Layer2
begin

text \<open>
  What the layer 2 functions promise to their callers: the coding of anticollision frames, the options,
  the ISO 15693 inventory with a single card and the type B request.
\<close>

section \<open>Number of valid bits\<close>

text \<open>
  The number of valid bits of an anticollision frame is coded with the whole bytes in the high
  and the remaining bits in the low nibble, for every number of bits from two bytes up to less than
  eight; any other number is refused and the field keeps its value.\<close>

theorem code_nvb_bits:
  "iso14443a_code_nvb_bits nvb bits =
     (if 16 \<le> unat bits \<and> unat bits < 64 then (0, of_nat (16 * (unat bits div 8) + unat bits mod 8))
      else (-1, nvb))"
proof (cases "16 \<le> unat bits \<and> unat bits < 64")
  case True
  from True have "ucast (push_bit 4 (bits div 8 AND 0xf) OR bits mod 8) =
      (of_nat (16 * (unat bits div 8) + unat bits mod 8) :: u8)"
    by (elim conjE) (rule word_range [of 16 bits 64], simp, simp, code_simp)
  moreover have "\<not> bits div 8 < 2" "\<not> bits div 8 > 7"
    using True by (auto simp: word_less_nat_alt unat_div)
  ultimately show ?thesis using True by (simp add: iso14443a_code_nvb_bits_def Let_def)
next
  case False
  then have "bits div 8 < 2 \<or> bits div 8 > 7"
    by (auto simp: word_less_nat_alt unat_div)
  then show ?thesis using False by (simp add: iso14443a_code_nvb_bits_def Let_def)
qed

section \<open>The identifier option\<close>

text \<open>
  Setting the identifier option succeeds only for at most ten bytes, reaches no hardware, and
  reading it back gives the bytes set, cut to the caller's buffer.\<close>

theorem uid_option_roundtrip:
  assumes "rfid_layer2_setopt rh h RFID_OPT_LAYER2_UID (Some bs) w = Some (0, h', w')"
  shows "w' = w \<and> length bs \<le> 10 \<and>
         rfid_layer2_getopt h' RFID_OPT_LAYER2_UID n =
           Some (0, Some (take (unat n) bs), min (of_nat (length bs)) n)"
proof -
  obtain uid where put: "put_slice (l2_uid h) 0 bs = Some uid" and h': "w' = w" "length bs \<le> 10"
      "h' = h\<lparr>l2_uid := uid, l2_uid_len := of_nat (length bs)\<rparr>"
    using assms by (auto simp: rfid_layer2_setopt_def run_simps split: if_splits)
  have len: "unat (of_nat (length bs) :: u32) = length bs"
    using h'(2) by (simp add: unat_of_nat_small)
  define m :: u32 where "m = min (of_nat (length bs)) n"
  have m: "unat m = min (length bs) (unat n)"
    by (auto simp: m_def min_def len word_le_nat_alt)
  have "take (unat m) uid = take (unat n) bs" "unat m \<le> length uid"
    using put_slice_take [OF put] put_slice_fits [OF put] put_slice_length [OF put] put
    by (auto simp: m put_slice_def min_def split: if_splits)
  moreover have "(if l2_uid_len h' < n then l2_uid_len h' else n) = m" "l2_uid h' = uid"
    using h'(3) by (auto simp: m_def min_def)
  ultimately have "rfid_layer2_getopt h' RFID_OPT_LAYER2_UID n = Some (0, Some (take (unat n) bs), m)"
    by (simp only: rfid_layer2_getopt_def get_slice_def Let_def) simp
  then show ?thesis using h'(1,2) by (simp add: m_def)
qed

theorem uid_option_roundtrip_witness:
  "rfid_layer2_getopt (sample_l2h\<lparr>l2_uid := [4, 3, 2, 1] @ replicate 6 0, l2_uid_len := 4\<rparr>)
     RFID_OPT_LAYER2_UID 10 = Some (0, Some [4, 3, 2, 1], 4)"
proof -
  have "rfid_layer2_setopt undefined sample_l2h RFID_OPT_LAYER2_UID (Some [4, 3, 2, 1]) () =
      Some (0, sample_l2h\<lparr>l2_uid := [4, 3, 2, 1] @ replicate 6 0, l2_uid_len := 4\<rparr>, ())"
    by (simp add: rfid_layer2_setopt_def sample_l2h_def put_slice_def)
  from uid_option_roundtrip [OF this, of 10] show ?thesis by simp
qed

section \<open>Options of ISO 15693\<close>

lemma iso15693_option_names:
  assumes "\<not> x < RFID_OPT_15693_MOD_DEPTH" "\<not> x > RFID_OPT_15693_AFI"
    "x \<noteq> RFID_OPT_15693_MOD_DEPTH" "x \<noteq> RFID_OPT_15693_VCD_CODING" "x \<noteq> RFID_OPT_15693_VICC_SUBC"
    "x \<noteq> RFID_OPT_15693_VICC_SPEED" "x \<noteq> RFID_OPT_15693_VCD_SLOTS" "x \<noteq> RFID_OPT_15693_USE_AFI"
  shows "x = RFID_OPT_15693_AFI"
  using assms by (simp add: word_less_nat_alt word_unat_eq_iff)

lemma ucast_byte: "\<not> v > 0xff \<Longrightarrow> ucast (ucast v :: u8) = (v :: u32)"
  by (simp add: word_unat_eq_iff unat_ucast_u32_u8 word_less_nat_alt)

text \<open>
  An option of ISO 15693 that was set successfully reads back as it was set, the flag for the
  application family as zero or one.  The fast card speed is stored too, but reported as an
  error, and the slow one also selects a single slot.\<close>

theorem iso15693_option_roundtrip:
  "(iso15693_setopt h optname (Some (u32_le_bytes v)) = Some (0, h') \<longrightarrow>
      (\<exists>n. iso15693_getopt h' optname 4 =
         (0, Some (if optname = RFID_OPT_15693_USE_AFI then of_bool (v \<noteq> 0) else v), n))) \<and>
   iso15693_setopt h RFID_OPT_15693_VICC_SPEED (Some (u32_le_bytes 2)) =
     Some (- EINVAL, h\<lparr>l2_i := (l2_i h)\<lparr>i_vicc_fast := True\<rparr>\<rparr>) \<and>
   iso15693_setopt h RFID_OPT_15693_VICC_SPEED (Some (u32_le_bytes 1)) =
     Some (0, h\<lparr>l2_i := (l2_i h)\<lparr>i_vicc_fast := False, i_single_slot := True\<rparr>\<rparr>)"
proof (intro conjI impI)
  have ne: "u32_le_bytes x \<noteq> []" for x by (simp add: u32_le_bytes_def)
  have val: "setopt_val (u32_le_bytes x) = Some x" for x by (simp add: setopt_val_def)
  show "iso15693_setopt h RFID_OPT_15693_VICC_SPEED (Some (u32_le_bytes 2)) =
      Some (- EINVAL, h\<lparr>l2_i := (l2_i h)\<lparr>i_vicc_fast := True\<rparr>\<rparr>)"
    by (simp add: iso15693_setopt_def ne val setopt_slots_def)
  show "iso15693_setopt h RFID_OPT_15693_VICC_SPEED (Some (u32_le_bytes 1)) =
      Some (0, h\<lparr>l2_i := (l2_i h)\<lparr>i_vicc_fast := False, i_single_slot := True\<rparr>\<rparr>)"
    by (simp add: iso15693_setopt_def ne val setopt_slots_def)
  assume "iso15693_setopt h optname (Some (u32_le_bytes v)) = Some (0, h')"
  then show "\<exists>n. iso15693_getopt h' optname 4 =
      (0, Some (if optname = RFID_OPT_15693_USE_AFI then of_bool (v \<noteq> 0) else v), n)"
    by (auto simp: iso15693_setopt_def ne val setopt_slots_def iso15693_getopt_def Let_def
        ucast_byte split: if_splits dest: iso15693_option_names)
qed


theorem iso15693_option_roundtrip_witness:
  "\<exists>n. iso15693_getopt (sample_l2h\<lparr>l2_i := (l2_i sample_l2h)\<lparr>i_afi := 0x30\<rparr>\<rparr>) RFID_OPT_15693_AFI 4 =
     (0, Some 0x30, n)"
proof -
  have "iso15693_setopt sample_l2h RFID_OPT_15693_AFI (Some (u32_le_bytes 0x30)) =
      Some (0, sample_l2h\<lparr>l2_i := (l2_i sample_l2h)\<lparr>i_afi := 0x30\<rparr>\<rparr>)"
    by code_simp
  then show ?thesis using iso15693_option_roundtrip by fastforce
qed

section \<open>ISO 15693 inventory\<close>

text \<open>
  C36: when a card answers the inventory request of the first slot without a collision, the
  inventory ends at once with success, and the handle has the card's eight identifier bytes; the
  request was the flags, the inventory command, the application family if it is in use, and an empty
  mask.\<close>

theorem iso15693_inventory_card:
  assumes "rdr_transceive_ac (rh_reader rh) = Some ac" "length acf = 12" "length (l2_uid h) = 10"
    and "req = [inventory_flags (l2_i h), ISO15693_CMD_INVENTORY] @
           (if i_use_afi (l2_i h) then [i_afi (l2_i h)] else []) @ [0]"
    and "ac (req @ drop (length req) acf) (of_nat (length req)) (replicate 10 0) 10 None w =
           Some (ret, resp, n, Some 0, w')" "0 \<le> ret" "length resp = 10"
  shows "iso15693_anticol rh acf h w =
           Some (1, h\<lparr>l2_uid := drop 2 resp @ drop 8 (l2_uid h), l2_uid_len := 8\<rparr>, w')"
proof -
  have afi: "inventory_flags i AND RFID_15693_F5_AFI_PRES \<noteq> 0 \<longleftrightarrow> i_use_afi i" for i
    by (cases "i_vicc_fast i"; cases "i_vicc_two_subc i"; cases "i_single_slot i"; cases "i_use_afi i")
      (simp_all add: inventory_flags_def iso15693_rate_flags_def)
  have acf: "iso15693_build_acf acf (inventory_flags (l2_i h)) (i_afi (l2_i h)) 0 [] =
      Some (req @ drop (length req) acf, length req)"
    using assms(2,4) by (simp add: iso15693_build_acf_def afi get_slice_def put_slice_def)
  have slots: "inventory_slots rh (req @ drop (length req) acf) (length req) (Suc k) None [] r w =
      Some (Inl (drop 2 resp), w')" for k r
    using assms(1,5-7) by (simp add: iso15693_transceive_acf_def get_slice_def)
  have "(if i_single_slot (l2_i h) then 1 else 16) = Suc (if i_single_slot (l2_i h) then 0 else 15)"
    by simp
  then have "inventory_loop rh (req @ drop (length req) acf) (length req) None h w =
      Some (1, h\<lparr>l2_uid := drop 2 resp @ drop 8 (l2_uid h), l2_uid_len := 8\<rparr>, w')"
    using assms(3,7) by (subst inventory_loop.simps) (simp only: slots, simp add: set_uid8_def put_slice_def)
  then show ?thesis by (simp add: iso15693_anticol_def acf)
qed

theorem iso15693_inventory_card_witness:
  "iso15693_anticol \<lparr>rh_reader = (rc632_reader busy_transport)\<lparr>rdr_transceive_ac :=
       Some (\<lambda>_ _ _ _ _ w. Some (0, [0, 0, 1, 2, 3, 4, 5, 6, 7, 0xe0], 10, Some 0, w))\<rparr>,
       rh_ah = \<lparr>ah_fc = 13560000, ah_mtu = 64, ah_mru = 64\<rparr>\<rparr> (replicate 12 0) sample_l2h () =
     Some (1, sample_l2h\<lparr>l2_uid := [1, 2, 3, 4, 5, 6, 7, 0xe0] @ replicate 2 0, l2_uid_len := 8\<rparr>, ())"
  by (subst iso15693_inventory_card [where resp = "[0, 0, 1, 2, 3, 4, 5, 6, 7, 0xe0]" and ret = 0])
    (auto simp: sample_l2h_def)

section \<open>ISO 14443 B\<close>

lemma atqb_updates [simp]:
  "b_fwt (l2_b (atqb_frame_options fo h)) = b_fwt (l2_b h)"
  "b_state (l2_b (atqb_frame_options fo h)) = b_state (l2_b h)"
  "b_fwt (l2_b (atqb_protocol_type pt h)) = b_fwt (l2_b h)"
  "b_state (l2_b (atqb_protocol_type pt h)) = b_state (l2_b h)"
  "b_fwt (l2_b (set_b_fsc x h)) = b_fwt (l2_b h)"
  "b_state (l2_b (set_b_fsc x h)) = b_state (l2_b h)"
  by (simp_all add: atqb_frame_options_def atqb_protocol_type_def set_b_fsc_def Let_def
      split: option.splits)

lemma parse_atqb_keeps:
  "parse_atqb rh atqb h = Some (ret, h') \<Longrightarrow> b_state (l2_b h') = b_state (l2_b h) \<and>
     b_fwt (l2_b h') = b_fwt (l2_b h)"
  by (auto simp: parse_atqb_def run_simps Let_def split: if_splits)

lemma send_reqb_from_keeps:
  "send_reqb_from rh afi wup is atqb n h w = Some (ret, h', w') \<Longrightarrow>
     b_fwt (l2_b h') = b_fwt (l2_b h) \<and>
     (b_state (l2_b h) \<noteq> ISO14443B_STATE_SELECTED \<longrightarrow> b_state (l2_b h') \<noteq> ISO14443B_STATE_SELECTED)"
proof (induction "is" arbitrary: wup atqb n h w)
  case (Cons i "is")
  show ?case
    using Cons.prems
    by (auto simp: run_simps Let_def set_b_state_def split: if_splits dest!: Cons.IH parse_atqb_keeps)
qed simp

lemma parse_atqb_success:
  assumes "parse_atqb rh atqb h = Some (ret, h')" "0 \<le> ret"
  shows "length atqb = 12 \<and> atqb ! 0 = 0x50 \<and> unat (drop_bit 4 (atqb ! 11)) \<le> 14 \<and>
         l2_uid_len h' = 4 \<and> take 4 (l2_uid h') = take 4 (drop 1 atqb)"
  using assms
  by (auto simp: parse_atqb_def fwi_to_fwt_b_def run_simps Let_def word_less_nat_alt
      split: if_splits dest!: put_slice_take) (auto simp: get_slice_def)

lemma send_reqb_from_success:
  "send_reqb_from rh afi wup is atqb n h w = Some (0, h', w') \<Longrightarrow>
     b_state (l2_b h') = ISO14443B_STATE_ATQB_RCVD \<and> l2_uid_len h' = 4 \<and>
     (\<exists>atqb. length atqb = 12 \<and> atqb ! 0 = 0x50 \<and> unat (drop_bit 4 (atqb ! 11)) \<le> 14 \<and>
        take 4 (l2_uid h') = take 4 (drop 1 atqb))"
proof (induction "is" arbitrary: wup atqb n h w)
  case (Cons i "is")
  show ?case
    using Cons.prems
    by (auto simp: run_simps Let_def set_b_state_def split: if_splits dest!: Cons.IH parse_atqb_success)
qed simp

text \<open>
  C37: a type B anticollision never succeeds, whatever cards are in the field and whatever they
  answer, for every place in memory that the length variable can have: ATTRIB is refused before it
  is sent.  The handle is never selected, and its frame waiting time stays as it was, also after a
  valid answer to the request.\<close>

theorem anticol_b_fails:
  assumes "4 \<le> lb_buf_len_addr l" "iso14443b_anticol rh l h w = Some (ret, h', w')"
    and "b_state (l2_b h) \<noteq> ISO14443B_STATE_SELECTED"
  shows "ret < 0 \<and> b_state (l2_b h') \<noteq> ISO14443B_STATE_SELECTED \<and> b_fwt (l2_b h') = b_fwt (l2_b h)"
proof -
  have "transceive_attrib rh info rx data n (lb_buf_len_addr l) h w = Some (- EINVAL, data, n, h, w)"
    for info rx data n h w
  proof -
    have "lb_buf_len_addr l - 4 \<le> lb_buf_len_addr l"
      using assms(1) by (rule word_sub_le)
    then show ?thesis by (simp add: transceive_attrib_def)
  qed
  with assms(2,3) show ?thesis
    by (auto simp: iso14443b_anticol_def send_reqb_def run_simps split: if_splits
        dest: send_reqb_from_keeps)
qed


text \<open>A reader behind which every request gets the answer of a T=CL card.\<close>

definition atqb_rh :: "unit rfid_reader_handle" where
  "atqb_rh = \<lparr>rh_reader = (rc632_reader busy_transport)\<lparr>rdr_transceive :=
       (\<lambda>_ _ _ rx _ _ _ w. Some (0, [0x50, 1, 2, 3, 4, 0, 0, 0, 0, 0, 0x81, 0x51], 12, w))\<rparr>,
     rh_ah = \<lparr>ah_fc = 13560000, ah_mtu = 64, ah_mru = 64\<rparr>\<rparr>"

theorem anticol_b_fails_witness:
  "\<exists>ret h'. iso14443b_anticol atqb_rh \<lparr>lb_atqb = replicate 12 0, lb_rx_buf = replicate 256 0,
        lb_buf = replicate 255 0, lb_buf_len_addr = 0x7ffe0000\<rparr> (sample_l2h\<lparr>l2_id := 2\<rparr>) () =
      Some (ret, h', ()) \<and> ret < 0 \<and> b_fwt (l2_b h') = 0"
proof -
  let ?run = "iso14443b_anticol atqb_rh \<lparr>lb_atqb = replicate 12 0, lb_rx_buf = replicate 256 0,
        lb_buf = replicate 255 0, lb_buf_len_addr = 0x7ffe0000\<rparr> (sample_l2h\<lparr>l2_id := 2\<rparr>) ()"
  have "map_option (\<lambda>(r, h, w). r) ?run = Some (- EINVAL)"
    by code_simp
  then obtain h' where run: "?run = Some (- EINVAL, h', ())" by auto
  from anticol_b_fails [OF _ run] show ?thesis unfolding run by (simp add: sample_l2h_def)
qed

text \<open>
  A request of type B that reports success has received an ATQB of a valid form with a valid
  frame waiting time code, and the handle is in the state behind it with the card's pseudo-unique
  identifier.\<close>

theorem send_reqb_success:
  assumes "send_reqb rh afi wup slots atqb h w = Some (0, h', w')"
  shows "b_state (l2_b h') = ISO14443B_STATE_ATQB_RCVD \<and> l2_uid_len h' = 4 \<and>
     (\<exists>atqb. length atqb = 12 \<and> atqb ! 0 = 0x50 \<and> unat (drop_bit 4 (atqb ! 11)) \<le> 14 \<and>
        take 4 (l2_uid h') = take 4 (drop 1 atqb))"
  using assms unfolding send_reqb_def by (rule send_reqb_from_success)

theorem send_reqb_success_witness:
  "\<exists>h'. send_reqb atqb_rh 0 False 0 (replicate 12 0) sample_l2h () = Some (0, h', ()) \<and>
     b_state (l2_b h') = ISO14443B_STATE_ATQB_RCVD"
proof -
  have "map_option (\<lambda>(r, h, w). r) (send_reqb atqb_rh 0 False 0 (replicate 12 0) sample_l2h ()) = Some 0"
    by code_simp
  then obtain h' where "send_reqb atqb_rh 0 False 0 (replicate 12 0) sample_l2h () = Some (0, h', ())"
    by auto
  with send_reqb_success [OF this] show ?thesis by blast
qed

end
