(* ===== verification/Iso14443a_Select.thy ===== *)
theory Iso14443a_Select
  imports Layer2_Iso14443a
begin

text \<open>
  What the ISO 14443 A anticollision of \<open>src/rfid_layer2_iso14443a.c\<close> achieves: it selects a single
  card in the field with its complete identifier, it ends after at most three cascade levels
  whatever the card does, and it reports success only with a handle that is filled in.
\<close>

section \<open>Selecting a single card\<close>

text \<open>
  What one card with an identifier of four, seven or ten bytes sends at cascade level \<open>n\<close>: four
  bytes, the first of which is the cascade tag when more follow.
\<close>

definition cl_bytes :: "bytes \<Rightarrow> nat \<Rightarrow> bytes" where
  "cl_bytes uid n =
     (if length uid = 3 * n + 4 then drop (3 * n) uid else 0x88 # take 3 (drop (3 * n) uid))"

definition cl_sel_code :: "nat \<Rightarrow> u8" where
  "cl_sel_code n = ISO14443A_AC_SEL_CODE_CL1 + 2 * of_nat n"

text \<open>
  A reader with such a card alone in its field: the anticollision command of each level is answered
  without a collision, and the select command with the SAK, with the cascade bit on all but the
  last level.
\<close>

definition single_card :: "'w rfid_reader \<Rightarrow> bytes \<Rightarrow> u8 \<Rightarrow> bool" where
  "single_card rd uid sak \<longleftrightarrow>
     (\<forall>n w acf. 3 * n + 4 \<le> length uid \<longrightarrow> acf_sel_code acf = cl_sel_code n \<longrightarrow> acf_nvb acf = 0x20 \<longrightarrow>
        (\<exists>bcc w'. rdr_transceive_acf rd acf w =
           Some (0, acf\<lparr>acf_uid_bits := cl_bytes uid n @ [bcc]\<rparr>, ISO14443A_BITOFCOL_NONE, w'))) \<and>
     (\<forall>n w bcc buf. 3 * n + 4 \<le> length uid \<longrightarrow> length buf = 3 \<longrightarrow>
        (\<exists>x y ret len w'. rdr_transceive rd RFID_14443A_FRAME_REGULAR
             (cl_sel_code n # 0x70 # cl_bytes uid n @ [bcc]) 7 buf 3 1236 0 w =
           Some (ret, [if length uid = 3 * n + 4 then sak else sak OR 0x04, x, y], len, w') \<and> 0 \<le> ret))"

definition selected :: "bytes \<Rightarrow> u8 \<Rightarrow> rfid_layer2_handle \<Rightarrow> bool" where
  "selected uid sak h \<longleftrightarrow>
     take (length uid) (l2_uid h) = uid \<and> l2_uid_len h = of_nat (length uid) \<and>
     a_state (l2_a h) = ISO14443A_STATE_SELECTED \<and> a_level (l2_a h) = ISO14443A_LEVEL_NONE \<and>
     a_sak (l2_a h) = sak \<and>
     (if sak AND 0x20 \<noteq> 0
      then l2_proto_supported h = push_bit RFID_PROTOCOL_TCL 1 \<and> a_tcl_capable (l2_a h) = 1
      else l2_proto_supported h = push_bit RFID_PROTOCOL_MIFARE_UL 1 OR
             push_bit RFID_PROTOCOL_MIFARE_CLASSIC 1 \<and> a_tcl_capable (l2_a h) = 0)"

definition cl_level :: "nat \<Rightarrow> iso14443a_level" where
  "cl_level n = (if n = 0 then ISO14443A_LEVEL_CL1
                 else if n = 1 then ISO14443A_LEVEL_CL2 else ISO14443A_LEVEL_CL3)"

lemma code_nvb [simp]: "acf_code_nvb 16 acf = acf\<lparr>acf_nvb := 0x20\<rparr>"
    "acf_code_nvb 56 acf = acf\<lparr>acf_nvb := 0x70\<rparr>"
  by (simp_all add: acf_code_nvb_def iso14443a_code_nvb_bits_def)

lemma collisions_none [simp]:
  "anticol_collisions rh acf ISO14443A_BITOFCOL_NONE r w = Some (0, acf, r, w)"
  by (simp add: anticol_collisions.simps)

lemma single_card_acf:
  assumes "single_card rd uid sak" "3 * n + 4 \<le> length uid" "acf_sel_code acf = cl_sel_code n"
    and "acf_nvb acf = 0x20"
  obtains bcc w' where "rdr_transceive_acf rd acf w =
    Some (0, acf\<lparr>acf_uid_bits := cl_bytes uid n @ [bcc]\<rparr>, ISO14443A_BITOFCOL_NONE, w')"
  using assms unfolding single_card_def by blast

lemma single_card_select:
  assumes "single_card rd uid sak" "3 * n + 4 \<le> length uid" "length buf = 3"
  obtains x y ret len w' where "rdr_transceive rd RFID_14443A_FRAME_REGULAR
      (cl_sel_code n # 0x70 # cl_bytes uid n @ [bcc]) 7 buf 3 1236 0 w =
    Some (ret, [if length uid = 3 * n + 4 then sak else sak OR 0x04, x, y], len, w')" "0 \<le> ret"
  using assms unfolding single_card_def by blast

lemma single_card_level:
  assumes "single_card (rh_reader rh) uid sak" "3 * n + 4 \<le> length uid"
    and "acf_sel_code acf = cl_sel_code n" "length buf = 3"
  obtains ret bcc x y w' where "0 \<le> ret" "anticol_level rh acf buf r w =
    Some (ret, acf\<lparr>acf_uid_bits := cl_bytes uid n @ [bcc], acf_nvb := 0x70\<rparr>,
          [if length uid = 3 * n + 4 then sak else sak OR 0x04, x, y], r, w')"
proof -
  let ?a = "acf\<lparr>acf_nvb := 0x20\<rparr>"
  have "acf_sel_code ?a = cl_sel_code n" "acf_nvb ?a = 0x20" using assms(3) by simp_all
  from single_card_acf [OF assms(1,2) this] obtain bcc w1 where
    acf: "rdr_transceive_acf (rh_reader rh) ?a w =
      Some (0, ?a\<lparr>acf_uid_bits := cl_bytes uid n @ [bcc]\<rparr>, ISO14443A_BITOFCOL_NONE, w1)" .
  obtain x y ret len w' where sel: "rdr_transceive (rh_reader rh) RFID_14443A_FRAME_REGULAR
      (cl_sel_code n # 0x70 # cl_bytes uid n @ [bcc]) 7 buf 3 1236 0 w1 =
      Some (ret, [if length uid = 3 * n + 4 then sak else sak OR 0x04, x, y], len, w')" "0 \<le> ret"
    by (rule single_card_select [OF assms(1,2,4)])
  show thesis
    by (rule that [OF sel(2), of bcc x y w'])
      (use acf sel(1) assms(3) in \<open>simp add: anticol_level_def iso14443a_transceive_acf_def
        iso14443a_transceive_def acf_bytes_def\<close>)
qed

text \<open>One level of the cascade: the last one finishes, the others hand three bytes over.\<close>

lemma cl_sel_codes: "cl_sel_code 0 = 0x93" "cl_sel_code (Suc 0) = 0x95" "cl_sel_code (Suc (Suc 0)) = 0x97"
  by (simp_all add: cl_sel_code_def)

lemma cascade_last:
  assumes "single_card (rh_reader rh) uid sak" "sak AND 0x04 = 0"
    and "length uid = 3 * n + 4" "n < 3" "length buf = 3" "acf_sel_code acf = cl_sel_code n"
    and "length (l2_uid h) = 10" "take (3 * n) (l2_uid h) = take (3 * n) uid"
    and "a_level (l2_a h) = cl_level n"
  shows "\<exists>h' w'. anticol_cascade rh acf buf h r w = Some (0, h', r, w') \<and> selected uid sak h'"
proof -
  have le: "3 * n + 4 \<le> length uid" using assms(3) by simp
  obtain ret bcc x y w' where lv: "0 \<le> ret" "anticol_level rh acf buf r w =
    Some (ret, acf\<lparr>acf_uid_bits := drop (3 * n) uid @ [bcc], acf_nvb := 0x70\<rparr>, [sak, x, y], r, w')"
    using assms(3) by (auto simp: cl_bytes_def intro: single_card_level [OF assms(1) le assms(6,5), of r w])
  have four: "length (drop (3 * n) uid) = 4" using assms(3) by simp
  let ?u = "take (3 * n) (l2_uid h) @ drop (3 * n) uid @ drop (3 * n + 4) (l2_uid h)"
  have put: "put_slice (l2_uid h) (3 * n) (drop (3 * n) uid) = Some ?u"
    using four assms(4,7) by (simp add: put_slice_def)
  have part: "get_slice (drop (3 * n) uid @ [bcc]) 0 4 = Some (drop (3 * n) uid)"
    using four by (simp add: get_slice_def)
  have pre: "take (length uid) ?u = uid"
    using assms(3,8) four by simp
  have "n = 0 \<or> n = Suc 0 \<or> n = Suc (Suc 0)" using assms(4) by linarith
  then have "\<exists>h'. anticol_finish (acf\<lparr>acf_uid_bits := drop (3 * n) uid @ [bcc], acf_nvb := 0x70\<rparr>)
      sak h = Some h' \<and> selected uid sak h'"
    using put part pre assms(3,6,9)
    by (cases "sak AND 0x20 = 0"; elim disjE) (simp_all add: anticol_finish_def cl_sel_codes cl_level_def selected_def)
  then show ?thesis
    using lv assms(2) by (subst anticol_cascade.simps) auto
qed

lemma cascade_more:
  assumes "single_card (rh_reader rh) uid sak"
    and "3 * n + 7 \<le> length uid" "n < 2" "length buf = 3" "acf_sel_code acf = cl_sel_code n"
    and "length (l2_uid h) = 10" "take (3 * n) (l2_uid h) = take (3 * n) uid"
  shows "\<exists>acf' buf' h' w'. anticol_cascade rh acf buf h r w = anticol_cascade rh acf' buf' h' r w' \<and>
           acf_sel_code acf' = cl_sel_code (Suc n) \<and> length buf' = 3 \<and>
           length (l2_uid h') = 10 \<and> take (3 * Suc n) (l2_uid h') = take (3 * Suc n) uid \<and>
           a_level (l2_a h') = cl_level (Suc n)"
proof -
  let ?b = "0x88 # take 3 (drop (3 * n) uid)"
  have le: "3 * n + 4 \<le> length uid" using assms(2) by simp
  obtain ret bcc x y w' where lv: "0 \<le> ret" "anticol_level rh acf buf r w =
    Some (ret, acf\<lparr>acf_uid_bits := ?b @ [bcc], acf_nvb := 0x70\<rparr>, [sak OR 0x04, x, y], r, w')"
    using assms(2) by (auto simp: cl_bytes_def intro: single_card_level [OF assms(1) le assms(5,4), of r w])
  have three: "length (take 3 (drop (3 * n) uid)) = 3" using assms(2) by simp
  let ?acf = "acf\<lparr>acf_uid_bits := ?b @ [bcc], acf_nvb := 0x70\<rparr>"
  let ?uid = "take (3 * n) (l2_uid h) @ take 3 (drop (3 * n) uid) @ drop (3 * n + 3) (l2_uid h)"
  obtain h' where cp: "anticol_cascade_copy (?b @ [bcc]) ?acf h =
        Some (0, ?acf\<lparr>acf_sel_code := cl_sel_code (Suc n)\<rparr>, h')"
      "l2_uid h' = ?uid"
      "a_level (l2_a h') = cl_level (Suc n)"
    using assms(3,5,6) three
    by (auto simp: anticol_cascade_copy_def put_slice_def get_slice_def cl_sel_codes
        numeral_2_eq_2 less_Suc_eq Let_def set_a_level_def cl_level_def)
  have "(sak OR 4) AND 4 \<noteq> 0" by (auto simp: bit_eq_iff bit_simps intro!: exI [of _ 2])
  then have "anticol_cascade rh acf buf h r w =
      anticol_cascade rh (?acf\<lparr>acf_sel_code := cl_sel_code (Suc n)\<rparr>) [sak OR 0x04, x, y] h' r w'"
    using lv cp(1) by (subst anticol_cascade.simps) simp
  moreover have "take (3 * Suc n) (l2_uid h') = take (3 * Suc n) uid"
  proof -
    have "take (3 * n + 3) uid = take (3 * n) uid @ take 3 (drop (3 * n) uid)" by (rule take_add)
    then show ?thesis using cp(2) assms(2,6,7) three by (simp add: add.commute)
  qed
  moreover have "length (l2_uid h') = 10" using cp(2) assms(2,3,6) by simp
  ultimately show ?thesis using cp(3) by fastforce
qed

lemma cascade_selects:
  assumes "single_card (rh_reader rh) uid sak" "length uid \<in> {4, 7, 10}" "sak AND 0x04 = 0"
    and "length buf = 3" "acf_sel_code acf = cl_sel_code n" "length (l2_uid h) = 10"
      "take (3 * n) (l2_uid h) = take (3 * n) uid" "a_level (l2_a h) = cl_level n"
      "3 * n + 4 \<le> length uid"
  shows "\<exists>h' w'. anticol_cascade rh acf buf h r w = Some (0, h', r, w') \<and> selected uid sak h'"
  using assms(4-)
proof (induction "length uid - 3 * n" arbitrary: acf buf h w n rule: less_induct)
  case less
  have "length uid = 4 \<or> length uid = 7 \<or> length uid = 10" using assms(2) by simp
  then have "length uid = 3 * n + 4 \<and> n < 3 \<or> 3 * n + 7 \<le> length uid \<and> n < 2"
    using less.prems(6) by presburger
  then consider "length uid = 3 * n + 4" "n < 3" | "3 * n + 7 \<le> length uid" "n < 2" by blast
  then show ?case
  proof cases
    case 1
    then show ?thesis using less.prems assms(1,3) by (intro cascade_last [of _ _ _ n]) auto
  next
    case 2
    with cascade_more [OF assms(1) this less.prems(1-4), of r w]
    obtain acf' buf' h' w' where step:
      "anticol_cascade rh acf buf h r w = anticol_cascade rh acf' buf' h' r w'"
      "acf_sel_code acf' = cl_sel_code (Suc n)" "length buf' = 3" "length (l2_uid h') = 10"
      "take (3 * Suc n) (l2_uid h') = take (3 * Suc n) uid" "a_level (l2_a h') = cl_level (Suc n)"
      by blast
    show ?thesis
      unfolding step(1) using 2 step(2-) by (intro less.hyps [of "Suc n"]) auto
  qed
qed

text \<open>
  C2: with a single type A card in the field, the anticollision ends and selects it: the handle gets
  the card's complete identifier of four, seven or ten bytes, its SAK, the selected state, and the
  protocols that the SAK announces.
\<close>

theorem anticol_selects_card:
  assumes "single_card (rh_reader rh) uid sak" "length uid \<in> {4, 7, 10}" "sak AND 0x04 = 0"
    and "rdr_transceive_sf (rh_reader rh)
           (if l2_flags h AND RFID_OPT_LAYER2_WUP \<noteq> 0 then ISO14443A_SF_CMD_WUPA
            else ISO14443A_SF_CMD_REQA) w = Some (ret, [lo, hi], w1)"
    and "0 \<le> ret" "lo AND 0x1f \<noteq> 0"
  shows "\<exists>h' w'. iso14443a_anticol rh h r w = Some (0, h', r, w') \<and> selected uid sak h'"
proof -
  let ?acf = "\<lparr>acf_sel_code = 0x93, acf_nvb = 0, acf_uid_bits = replicate 5 0\<rparr>"
  let ?h = "set_a_level ISO14443A_LEVEL_CL1 (set_a_state ISO14443A_STATE_ANTICOL_RUNNING
    (h\<lparr>l2_uid := replicate 10 0, l2_a := (l2_a h)\<lparr>a_sak := 0, a_atqa := [lo, hi]\<rparr>\<rparr>))"
  have "iso14443a_anticol rh h r w = anticol_cascade rh ?acf (replicate 3 0) ?h r w1"
    using assms(4-6)
    by (simp add: iso14443a_anticol_def iso14443a_transceive_sf_def set_a_state_def set_a_level_def)
  moreover have "\<exists>h' w'. anticol_cascade rh ?acf (replicate 3 0) ?h r w1 = Some (0, h', r, w') \<and>
      selected uid sak h'"
    using assms(2) by (intro cascade_selects [OF assms(1-3), where n = 0])
      (auto simp: set_a_level_def set_a_state_def cl_level_def cl_sel_codes)
  ultimately show ?thesis by simp
qed

text \<open>A reader with one card, for the example.\<close>

definition card_reader :: "bytes \<Rightarrow> u8 \<Rightarrow> unit rfid_reader" where
  "card_reader uid sak =
     (let level = (\<lambda>sel :: u8. unat ((sel - ISO14443A_AC_SEL_CODE_CL1) div 2))
      in \<lparr>rdr_l2_supported = 2, rdr_proto_supported = 2, rdr_init = (\<lambda>_ w. Some (0, w)),
          rdr_transceive = (\<lambda>_ tx _ rx n _ _ w.
            Some (0, (if length uid = 3 * level (tx ! 0) + 4 then sak else sak OR 0x04) # tl rx, 1, w)),
          rdr_transceive_sf = (\<lambda>_ w. Some (0, [0x44, 0], w)),
          rdr_transceive_acf = (\<lambda>acf w.
            let b = cl_bytes uid (level (acf_sel_code acf))
            in Some (0, acf\<lparr>acf_uid_bits := b @ [foldr (XOR) b 0]\<rparr>, ISO14443A_BITOFCOL_NONE, w)),
          rdr_set_speed = None, rdr_speed = 1, rdr_transceive_ac = None, rdr_setkey = None,
          rdr_setkey_ee = None, rdr_auth = None, rdr_setopt = (\<lambda>_ _ _ w. Some (-1, w))\<rparr>)"

lemma card_reader_single:
  assumes "length uid \<le> 10"
  shows "single_card (card_reader uid sak) uid sak"
proof -
  have lv: "unat ((cl_sel_code n - 0x93) div 2) = n" if "3 * n + 4 \<le> length uid" for n
  proof -
    have "n = 0 \<or> n = 1 \<or> n = 2" using that assms by linarith
    then show ?thesis by (auto simp: cl_sel_code_def)
  qed
  have "\<exists>x y. tl buf = [x, y]" if "length buf = 3" for buf :: bytes
    using that by (auto simp: length_Suc_conv numeral_3_eq_3)
  then show ?thesis
    unfolding single_card_def
    by (intro conjI allI impI) (auto simp: card_reader_def Let_def lv)
qed

theorem anticol_selects_card_witness:
  "\<exists>h' w'. iso14443a_anticol
      \<lparr>rh_reader = card_reader [4, 1, 2, 3, 4, 5, 6] 0x20, rh_ah = \<lparr>ah_fc = 0, ah_mtu = 0, ah_mru = 0\<rparr>\<rparr>
      sample_l2h randctx_init () = Some (0, h', randctx_init, w') \<and>
    selected [4, 1, 2, 3, 4, 5, 6] 0x20 h'"
  by (rule anticol_selects_card [where ret = 0 and lo = "0x44" and hi = 0])
    (simp_all add: card_reader_single, simp add: card_reader_def)

section \<open>Any card\<close>

text \<open>What a handle says about its card when the anticollision succeeds.\<close>

definition select_done :: "rfid_layer2_handle \<Rightarrow> bool" where
  "select_done h \<longleftrightarrow>
     a_state (l2_a h) = ISO14443A_STATE_SELECTED \<and> a_level (l2_a h) = ISO14443A_LEVEL_NONE \<and>
     l2_uid_len h \<in> {4, 7, 10} \<and> length (l2_uid h) = 10 \<and>
     (a_tcl_capable (l2_a h) = 1) = (a_sak (l2_a h) AND 0x20 \<noteq> 0) \<and>
     (l2_proto_supported h = push_bit RFID_PROTOCOL_TCL 1) = (a_sak (l2_a h) AND 0x20 \<noteq> 0)"

lemma anticol_finish_done:
  "anticol_finish acf sak h = Some h' \<Longrightarrow> length (l2_uid h) = 10 \<Longrightarrow> select_done h'"
  by (auto simp: anticol_finish_def select_done_def run_simps Let_def split: if_splits
      dest: mem_length)

lemma anticol_cascade_copy_uid:
  "anticol_cascade_copy u acf h = Some (ret, acf', h') \<Longrightarrow> length (l2_uid h') = length (l2_uid h)"
  by (auto simp: anticol_cascade_copy_def run_simps set_a_level_def set_a_state_def split: if_splits
      dest: mem_length)

lemma anticol_cascade_done:
  assumes "anticol_cascade rh acf sak h r w = Some out"
  shows "length (l2_uid h) = 10 \<longrightarrow> fst out = 0 \<longrightarrow> select_done (fst (snd out))"
  using assms
proof (induction rh acf sak h r w out rule: anticol_cascade.raw_induct [rotated, consumes 1])
  case (1 casc rh acf sak h r w out)
  from 1(2) show ?case
    by (auto simp: run_simps split: if_splits dest: anticol_cascade_copy_uid
        intro: anticol_finish_done dest!: 1(1))
qed

text \<open>
  An anticollision that reports success, whatever answered, leaves a handle in the
  selected state with an identifier of four, seven or ten bytes inside of its buffer, and offers
  T=CL exactly when the SAK does.
\<close>

theorem anticol_success:
  assumes "iso14443a_anticol rh h r w = Some (0, h', r', w')"
  shows "select_done h'"
  using assms
  by (auto simp: iso14443a_anticol_def run_simps Let_def set_a_state_def set_a_level_def
      split: if_splits dest!: anticol_cascade_done)

theorem anticol_success_witness:
  "\<exists>h' r' w'. iso14443a_anticol
      \<lparr>rh_reader = card_reader [1, 2, 3, 4] 0x08, rh_ah = \<lparr>ah_fc = 0, ah_mtu = 0, ah_mru = 0\<rparr>\<rparr>
      sample_l2h randctx_init () = Some (0, h', r', w') \<and> select_done h'"
proof -
  have "map_option fst (iso14443a_anticol
      \<lparr>rh_reader = card_reader [1, 2, 3, 4] 0x08, rh_ah = \<lparr>ah_fc = 0, ah_mtu = 0, ah_mru = 0\<rparr>\<rparr>
      sample_l2h randctx_init ()) = Some 0"
    by code_simp
  then show ?thesis using anticol_success by fastforce
qed

text \<open>
  A field in which every cascade level ends: its collisions are resolved, whatever the answers are.
\<close>

definition levels_end :: "'w rfid_reader_handle \<Rightarrow> bool" where
  "levels_end rh \<longleftrightarrow>
     (\<forall>acf sak r w. length (acf_uid_bits acf) = 5 \<longrightarrow> length sak = 3 \<longrightarrow>
        (\<exists>ret acf' sak' r' w'. anticol_level rh acf sak r w = Some (ret, acf', sak', r', w') \<and>
           acf_sel_code acf' = acf_sel_code acf \<and> length (acf_uid_bits acf') = 5 \<and> length sak' = 3))"

lemma cascade_copy_next:
  assumes "length u = 5" "length (l2_uid h) = 10"
  shows "\<exists>ret acf' h'. anticol_cascade_copy u acf h = Some (ret, acf', h') \<and>
           length (l2_uid h') = 10 \<and> acf_uid_bits acf' = acf_uid_bits acf \<and>
           (ret < 0 \<or> acf_sel_code acf = 0x93 \<and> acf_sel_code acf' = 0x95 \<or>
            acf_sel_code acf = 0x95 \<and> acf_sel_code acf' = 0x97)"
  using assms
  by (auto simp: anticol_cascade_copy_def get_at_def get_slice_def put_slice_def set_a_level_def
      set_a_state_def)

lemma finish_returns:
  assumes "length (acf_uid_bits acf) = 5" "length (l2_uid h) = 10"
  shows "\<exists>h'. anticol_finish acf sak h = Some h'"
  using assms by (auto simp: anticol_finish_def get_slice_def put_slice_def Let_def)

lemma cascade_ends:
  assumes "levels_end rh" "length (acf_uid_bits acf) = 5" "length sak = 3" "length (l2_uid h) = 10"
  shows "anticol_cascade rh acf sak h r w \<noteq> None"
  using assms(2-)
proof (induction "0x98 - unat (acf_sel_code acf)" arbitrary: acf sak h r w rule: less_induct)
  case less
  obtain ret acf1 sak1 r1 w1 where lv: "anticol_level rh acf sak r w = Some (ret, acf1, sak1, r1, w1)"
    "acf_sel_code acf1 = acf_sel_code acf" "length (acf_uid_bits acf1) = 5" "length sak1 = 3"
    using assms(1) less.prems unfolding levels_end_def by blast
  obtain ret2 acf2 h2 where cp: "anticol_cascade_copy (acf_uid_bits acf1) acf1 h = Some (ret2, acf2, h2)"
    "length (l2_uid h2) = 10" "acf_uid_bits acf2 = acf_uid_bits acf1"
    "ret2 < 0 \<or> acf_sel_code acf = 0x93 \<and> acf_sel_code acf2 = 0x95 \<or>
     acf_sel_code acf = 0x95 \<and> acf_sel_code acf2 = 0x97"
    using cascade_copy_next [OF lv(3) less.prems(3), of acf1] lv(2) by auto
  obtain h3 where "anticol_finish acf1 (sak1 ! 0) h = Some h3"
    using finish_returns [OF lv(3) less.prems(3)] by blast
  moreover have "anticol_cascade rh acf2 sak1 h2 r1 w1 \<noteq> None" if "\<not> ret2 < 0"
    using that cp lv by (intro less.hyps) auto
  ultimately show ?case
    using lv(1,4) cp(1) by (subst anticol_cascade.simps) auto
qed

section \<open>Collisions\<close>

text \<open>
  The number of valid bits that an anticollision frame announces.  Cards answer such a frame only when these
  bits are theirs, so the first bit in which two of them differ lies behind; and a frame has 56 bits.
\<close>

definition nvb_bits :: "iso14443a_anticol_cmd \<Rightarrow> nat" where
  "nvb_bits acf = unat (acf_nvb acf) div 16 * 8 + unat (acf_nvb acf) mod 16"

definition collisions_advance :: "'w rfid_reader \<Rightarrow> bool" where
  "collisions_advance rd \<longleftrightarrow>
     (\<forall>acf w. length (acf_uid_bits acf) = 5 \<longrightarrow>
        (\<exists>ret acf' boc w'. rdr_transceive_acf rd acf w = Some (ret, acf', boc, w') \<and>
           length (acf_uid_bits acf') = 5 \<and> acf_sel_code acf' = acf_sel_code acf \<and>
           (ret < 0 \<or> boc = ISO14443A_BITOFCOL_NONE \<or> nvb_bits acf < unat boc \<and> unat boc < 56)))"

lemma acf_code_nvb_simps [simp]:
  "acf_uid_bits (acf_code_nvb b acf) = acf_uid_bits acf" "acf_sel_code (acf_code_nvb b acf) = acf_sel_code acf"
  by (simp_all add: acf_code_nvb_def)

lemma nvb_bits_code:
  assumes "16 \<le> unat b" "unat b < 56"
  shows "nvb_bits (acf_code_nvb b acf) = unat b"
proof -
  have "2 \<le> unat b div 8" "unat b div 8 \<le> 7" using assms by presburger+
  then have bytes: "\<not> (b div 8 < 2 \<or> 7 < b div 8)"
    by (simp only: word_less_nat_alt unat_div) simp
  have "\<forall>b \<in> set (map of_nat [16..<56]). \<forall>n \<in> {snd (iso14443a_code_nvb_bits 0 b)}.
      unat n div 16 * 8 + unat n mod 16 = unat (b :: u32)"
    by code_simp
  moreover have "b \<in> set (map of_nat [16..<56])"
    unfolding set_map set_upt using assms by (intro image_eqI [where x = "unat b"]) simp_all
  ultimately have v: "unat (snd (iso14443a_code_nvb_bits 0 b)) div 16 * 8 +
      unat (snd (iso14443a_code_nvb_bits 0 b)) mod 16 = unat b"
    by blast
  have "snd (iso14443a_code_nvb_bits x b) = snd (iso14443a_code_nvb_bits 0 b)" for x
    by (simp only: iso14443a_code_nvb_bits_def Let_def bytes if_False snd_conv)
  then have "acf_nvb (acf_code_nvb b acf) = snd (iso14443a_code_nvb_bits 0 b)"
    by (simp add: acf_code_nvb_def)
  then show ?thesis using v by (simp only: nvb_bits_def)
qed

lemma rnd_toggle_length:
  assumes "length bits = 5"
  shows "\<exists>bits' r'. rnd_toggle_bit_in_field bits 5 pos r = Some (bits', r') \<and> length bits' = 5"
proof (cases "pos \<noteq> 0 \<and> pos \<le> 40")
  case True
  then have "0 < unat pos" "unat pos \<le> 40" by (simp_all add: word_le_nat_alt unat_gt_0)
  then have "unat pos - 1 < 5 * 8" by linarith
  then have "unat ((pos - 1) div 8) < 5"
    using True less_mult_imp_div_less [of "unat pos - 1" 5 8] by (simp add: unat_div unat_minus_one)
  with True assms show ?thesis
    by (auto simp: rnd_toggle_bit_in_field_def get_at_def put_at_def Let_def split: prod.splits)
qed (use assms in \<open>auto simp: rnd_toggle_bit_in_field_def\<close>)

lemma collisions_end:
  assumes "collisions_advance (rh_reader rh)"
  shows "length (acf_uid_bits acf) = 5 \<Longrightarrow>
     boc = ISO14443A_BITOFCOL_NONE \<or> 16 < unat boc \<and> unat boc < 56 \<Longrightarrow>
     \<exists>ret acf' r' w'. anticol_collisions rh acf boc r w = Some (ret, acf', r', w') \<and>
       acf_sel_code acf' = acf_sel_code acf \<and> length (acf_uid_bits acf') = 5"
proof (induction "56 - unat boc" arbitrary: acf boc r w rule: less_induct)
  case less
  show ?case
  proof (cases "boc = ISO14443A_BITOFCOL_NONE")
    case False
    then have boc: "16 < unat boc" "unat boc < 56" using less.prems(2) by auto
    obtain bits r1 where tog: "rnd_toggle_bit_in_field (acf_uid_bits acf) 5 boc r = Some (bits, r1)" "length bits = 5"
      using rnd_toggle_length [OF less.prems(1)] by blast
    let ?acf = "(acf_code_nvb boc acf)\<lparr>acf_uid_bits := bits\<rparr>"
    have acf: "length (acf_uid_bits ?acf) = 5" "acf_sel_code ?acf = acf_sel_code acf" "nvb_bits ?acf = unat boc"
      using tog(2) nvb_bits_code [of boc acf] boc by (simp_all add: acf_code_nvb_def nvb_bits_def)
    obtain ret acf1 boc1 w1 where x: "rdr_transceive_acf (rh_reader rh) ?acf w = Some (ret, acf1, boc1, w1)"
        "length (acf_uid_bits acf1) = 5" "acf_sel_code acf1 = acf_sel_code acf"
        "ret < 0 \<or> boc1 = ISO14443A_BITOFCOL_NONE \<or> unat boc < unat boc1 \<and> unat boc1 < 56"
      using assms acf unfolding collisions_advance_def by metis
    have tog': "rnd_toggle_bit_in_field (acf_uid_bits (acf_code_nvb boc acf)) 5 boc r = Some (bits, r1)"
      using tog(1) by (simp add: acf_code_nvb_def)
    have step: "anticol_collisions rh acf boc r w =
        (if ret < 0 then Some (ret, acf1, r1, w1) else anticol_collisions rh acf1 boc1 r1 w1)"
      using False tog' x(1) by (subst anticol_collisions.simps) (simp add: iso14443a_transceive_acf_def)
    show ?thesis
    proof (cases "ret < 0 \<or> boc1 = ISO14443A_BITOFCOL_NONE")
      case True
      then show ?thesis using step x(2,3) by auto
    next
      case adv: False
      then have "56 - unat boc1 < 56 - unat boc" "16 < unat boc1 \<and> unat boc1 < 56"
        using x(4) boc by auto
      with less.hyps [of boc1 acf1 r1 w1] x(2,3) step adv show ?thesis by auto
    qed
  qed (use less.prems(1) in simp)
qed

text \<open>A field in which every frame is answered or times out, and collisions advance.\<close>

definition orderly_field :: "'w rfid_reader \<Rightarrow> bool" where
  "orderly_field rd \<longleftrightarrow> collisions_advance rd \<and>
     (\<forall>acf sak w. length (acf_uid_bits acf) = 5 \<longrightarrow> length sak = 3 \<longrightarrow>
        (\<exists>ret sak' n w'. rdr_transceive rd RFID_14443A_FRAME_REGULAR (acf_bytes acf) 7 sak 3 1236 0 w =
           Some (ret, sak', n, w') \<and> length sak' = 3))"

lemma orderly_levels_end: "orderly_field (rh_reader rh) \<Longrightarrow> levels_end rh"
  unfolding levels_end_def
proof (intro allI impI)
  fix acf :: iso14443a_anticol_cmd and sak :: bytes and r and w :: 'a
  assume f: "orderly_field (rh_reader rh)" and len: "length (acf_uid_bits acf) = 5" "length sak = 3"
  let ?acf = "acf_code_nvb 16 acf"
  have bits: "nvb_bits ?acf = 16" by (simp add: nvb_bits_def)
  obtain ret acf1 boc w1 where x: "rdr_transceive_acf (rh_reader rh) ?acf w = Some (ret, acf1, boc, w1)"
      "length (acf_uid_bits acf1) = 5" "acf_sel_code acf1 = acf_sel_code acf"
      "ret < 0 \<or> boc = ISO14443A_BITOFCOL_NONE \<or> 16 < unat boc \<and> unat boc < 56"
    using f len bits unfolding orderly_field_def collisions_advance_def by (metis acf_code_nvb_simps)
  show "\<exists>ret acf' sak' r' w'. anticol_level rh acf sak r w = Some (ret, acf', sak', r', w') \<and>
     acf_sel_code acf' = acf_sel_code acf \<and> length (acf_uid_bits acf') = 5 \<and> length sak' = 3"
  proof (cases "ret < 0")
    case True
    then show ?thesis using x len by (simp add: anticol_level_def iso14443a_transceive_acf_def)
  next
    case False
    then obtain ret2 acf2 r2 w2 where c: "anticol_collisions rh acf1 boc r w1 = Some (ret2, acf2, r2, w2)"
        "acf_sel_code acf2 = acf_sel_code acf" "length (acf_uid_bits acf2) = 5"
      using collisions_end [of rh acf1 boc r w1] f x unfolding orderly_field_def by auto
    let ?acf3 = "acf_code_nvb (7 * 8) acf2"
    have len3: "length (acf_uid_bits ?acf3) = 5" using c(3) by (simp add: acf_code_nvb_simps)
    obtain ret3 sak' n w3 where "rdr_transceive (rh_reader rh) RFID_14443A_FRAME_REGULAR (acf_bytes ?acf3) 7
        sak 3 1236 0 w2 = Some (ret3, sak', n, w3)" "length sak' = 3"
      using f len(2) len3 unfolding orderly_field_def by blast
    then show ?thesis
      using False x(1) c len len3
      by (simp add: anticol_level_def iso14443a_transceive_acf_def iso14443a_transceive_def acf_code_nvb_simps)
  qed
qed

text \<open>
  C26: the anticollision returns, whatever number of cards is in the field and whatever they answer, as long as
  every reported collision lies behind the bits that were sent: the loop over the collisions of a level ends
  because their position grows, and the cascade after at most three levels, even for a card that asks for
  another level each time.
\<close>

theorem anticol_terminates:
  assumes "orderly_field (rh_reader rh)"
    and "rdr_transceive_sf (rh_reader rh) (if l2_flags h AND RFID_OPT_LAYER2_WUP \<noteq> 0
           then ISO14443A_SF_CMD_WUPA else ISO14443A_SF_CMD_REQA) w = Some (ret, [lo, hi], w1)"
  shows "\<exists>out. iso14443a_anticol rh h r w = Some out"
proof -
  have "\<exists>out. anticol_cascade rh acf (replicate 3 0) h r w = Some out"
    if "length (acf_uid_bits acf) = 5" "length (l2_uid h) = 10" for acf h r w
    using cascade_ends [OF orderly_levels_end [OF assms(1)] that(1) _ that(2)] by simp
  then show ?thesis
    using assms(2)
    by (auto simp: iso14443a_anticol_def iso14443a_transceive_sf_def set_a_state_def set_a_level_def
        Let_def)
qed

text \<open>
  Cards that answer every frame of fewer than 40 valid bits with a collision in the next bit, and ask for
  another cascade level each time.
\<close>

definition greedy_reader :: "unit rfid_reader" where
  "greedy_reader = (card_reader [] 0)
     \<lparr>rdr_transceive := (\<lambda>_ _ _ rx _ _ _ w. Some (0, 0x04 # tl rx, 1, w)),
      rdr_transceive_acf := (\<lambda>acf w.
        Some (0, acf\<lparr>acf_uid_bits := [0x88, 1, 2, 3, 0x88]\<rparr>,
              if nvb_bits acf < 40 then of_nat (nvb_bits acf + 1) else ISO14443A_BITOFCOL_NONE, w))\<rparr>"

lemma next_bit: "n < 40 \<Longrightarrow> unat (1 + of_nat n :: u32) = n + 1"
  using unat_of_nat_small [where 'a = 32, of "n + 1"] by simp

theorem anticol_terminates_witness:
  "\<exists>out. iso14443a_anticol \<lparr>rh_reader = greedy_reader, rh_ah = \<lparr>ah_fc = 0, ah_mtu = 0, ah_mru = 0\<rparr>\<rparr>
     sample_l2h randctx_init () = Some out"
proof (rule anticol_terminates)
  show "orderly_field (rh_reader \<lparr>rh_reader = greedy_reader, rh_ah = \<lparr>ah_fc = 0, ah_mtu = 0, ah_mru = 0\<rparr>\<rparr>)"
    using next_bit by (auto simp: orderly_field_def collisions_advance_def greedy_reader_def)
qed (simp add: greedy_reader_def card_reader_def Let_def)

end
