(* ===== verification/Tcl_Exchange.thy ===== *)
theory Tcl_Exchange
  imports Proto_Tcl
begin

text \<open>
  The exchange of T=CL against a card.  The card is the specification of the other side: it
  collects the payload of I-blocks, acknowledges chained ones with an R-block, and then plays a
  script of waiting time requests and parts of its answer, chained up to the last part, always with
  the block number of the block it answers.  The main result is that \<open>tcl_transceive\<close> ends, gives
  the card exactly the caller's data and the caller exactly the card's answer.
\<close>

section \<open>Prologues without CID and NAD\<close>

text \<open>The library never sets the two flags that say a CID or a NAD is used.\<close>

definition plain_prologue :: "tcl_handle \<Rightarrow> bool" where
  "plain_prologue th \<longleftrightarrow> t_flags th AND TCL_HANDLE_F_CID_USED = 0 \<and> t_flags th AND TCL_HANDLE_F_NAD_USED = 0"

definition flip :: "tcl_handle \<Rightarrow> tcl_handle" where
  "flip th = th\<lparr>t_toggle := (if t_toggle th = 0 then 1 else 0)\<rparr>"

definition toggle_bit :: "tcl_handle \<Rightarrow> u8" where
  "toggle_bit th = (if t_toggle th = 0 then 0 else 1)"

lemma flip_simps [simp]:
  "t_flags (flip th) = t_flags th" "t_fsc (flip th) = t_fsc th" "t_fwt (flip th) = t_fwt th"
  "t_cid (flip th) = t_cid th" "t_state (flip th) = t_state th" "t_nad (flip th) = t_nad th"
  "t_toggle (flip th) = (if t_toggle th = 0 then 1 else 0)"
  "plain_prologue (flip th) = plain_prologue th"
  "ucast (toggle_bit (flip th)) = t_toggle (flip th)"
  by (simp_all add: flip_def plain_prologue_def toggle_bit_def)

lemma prologue2_plain:
  assumes "plain_prologue th" "data \<noteq> []"
  shows "tcl_build_prologue2 th data pcb =
           Some (if is_s_block pcb then (th, data[0 := pcb], 1)
                 else (flip th, data[0 := pcb OR toggle_bit (flip th)], 1))"
  using assms
  by (auto simp: tcl_build_prologue2_def plain_prologue_def put_at_def flip_def toggle_bit_def Let_def)

lemma prologue_kinds:
  assumes "plain_prologue th" "data \<noteq> []"
  shows "tcl_build_prologue_i th data = Some (flip th, data[0 := 0x02 OR toggle_bit (flip th)], 1)"
    and "tcl_build_prologue_r th data 0 = Some (flip th, data[0 := 0xa2 OR toggle_bit (flip th)], 1)"
    and "tcl_build_prologue_s th data = Some (th, data[0 := 0xc2], 1)"
  using assms
  by (simp_all add: tcl_build_prologue_i_def tcl_build_prologue_r_def tcl_build_prologue_s_def
      prologue2_plain is_s_block_def)

section \<open>The card\<close>

datatype picc_reply = Wtx u8 | Part bytes

record picc =
  pc_rcvd :: bytes
  pc_script :: "picc_reply list"
  pc_bit :: u8

fun reply_data :: "picc_reply list \<Rightarrow> bytes" where
  "reply_data [] = []"
| "reply_data (Wtx m # s) = reply_data s"
| "reply_data (Part p # s) = p @ reply_data s"

fun has_part :: "picc_reply list \<Rightarrow> bool" where
  "has_part [] = False"
| "has_part (Wtx m # s) = has_part s"
| "has_part (Part p # s) = True"

fun wf_script :: "picc_reply list \<Rightarrow> bool" where
  "wf_script [] = False"
| "wf_script (Wtx m # s) = (0 < m \<and> m < 60 \<and> wf_script s)"
| "wf_script (Part p # s) = (length p \<le> 255 \<and> (has_part s \<longrightarrow> wf_script s))"

definition picc_frame :: "bytes \<Rightarrow> bytes \<Rightarrow> picc \<Rightarrow> (int \<times> bytes \<times> u32 \<times> picc) option" where
  "picc_frame frame rx c = do {
     rx \<leftarrow> put_slice rx 0 frame;
     Some (0, rx, of_nat (length frame), c) }"

definition picc_emit :: "bytes \<Rightarrow> u32 \<Rightarrow> picc \<Rightarrow> (int \<times> bytes \<times> u32 \<times> picc) option" where
  "picc_emit rx n c =
     (case pc_script c of
        [] \<Rightarrow> Some (- ETIMEDOUT, rx, n, c)
      | Wtx m # s \<Rightarrow> picc_frame [0xf2, m] rx (c\<lparr>pc_script := s\<rparr>)
      | Part p # s \<Rightarrow>
          picc_frame ((0x02 OR pc_bit c OR (if has_part s then 0x10 else 0)) # p) rx
            (c\<lparr>pc_script := s\<rparr>))"

definition picc_transceive ::
    "bytes \<Rightarrow> u32 \<Rightarrow> bytes \<Rightarrow> u32 \<Rightarrow> picc \<Rightarrow> (int \<times> bytes \<times> u32 \<times> picc) option" where
  "picc_transceive tx n rx m c = do {
     frame \<leftarrow> get_slice tx 0 (unat n);
     b0 \<leftarrow> get_at frame 0;
     if is_i_block b0 then do {
       let c = c\<lparr>pc_rcvd := pc_rcvd c @ drop 1 frame, pc_bit := b0 AND 0x01\<rparr>;
       if b0 AND 0x10 \<noteq> 0 then picc_frame [0xa2 OR pc_bit c] rx c else picc_emit rx m c }
     else if is_r_block b0 then picc_emit rx m (c\<lparr>pc_bit := b0 AND 0x01\<rparr>)
     else picc_emit rx m c }"

section \<open>The link\<close>

text \<open>The two frame buffers have 256 bytes, and layer 2 transfers reach the card.\<close>

definition wf_xcvb :: "rfid_xcvb \<Rightarrow> bool" where
  "wf_xcvb x \<longleftrightarrow> length (fb_data (x_tx x)) = 256 \<and> length (fb_data (x_rx x)) = 256"

definition tcl_link :: "picc rfid_reader_handle \<Rightarrow> rfid_layer2_handle \<Rightarrow> bool" where
  "tcl_link rh l2h \<longleftrightarrow>
     (l2_id l2h = RFID_LAYER2_ISO14443A \<or> l2_id l2h = RFID_LAYER2_ISO14443B) \<and>
     rdr_transceive (rh_reader rh) = (\<lambda>ft tx n rx m timeout flags c. picc_transceive tx n rx m c)"

lemma do_tx_link:
  assumes "tcl_link rh l2h"
    "picc_transceive (fb_data (x_tx x)) (fb_frame_len (x_tx x)) (fb_data (x_rx x)) 256 c
       = Some (0, data, n, c')"
  shows "tcl_do_tx rh l2h th x ctx c =
    do { (next, th, xcvb, ctx) \<leftarrow>
           tcl_rx_block 0 th (x\<lparr>x_rx := (x_rx x)\<lparr>fb_data := data, fb_frame_len := n\<rparr>\<rparr>) ctx;
         case next of
           Goto_out ret \<Rightarrow> Some (ret, th, ctx, c')
         | Goto_do_tx \<Rightarrow> tcl_do_tx rh l2h th xcvb ctx c'
         | Goto_tx_refill \<Rightarrow> do {
             (r, th, xcvb, ctx) \<leftarrow> tcl_refill_xcvb th xcvb ctx;
             if r < 0 then Some (-1, th, ctx, c')
             else tcl_do_tx rh l2h th xcvb ctx c' } }"
  using assms
  by (subst tcl_do_tx.simps) (auto simp: tcl_link_def l2_transceive_defs)


section \<open>Blocks from the card\<close>

lemma u8_and_3f: "(m :: u8) < 64 \<Longrightarrow> m AND 0x3f = m"
proof -
  assume "m < 64"
  then have "take_bit 6 (unat m) = unat m"
    by (simp add: word_less_nat_alt take_bit_nat_eq_self)
  then have "take_bit 6 m = m" by (metis unsigned_take_bit_eq unsigned_word_eqI)
  then show ?thesis by (simp add: take_bit_eq_mask mask_eq_exp_minus_1)
qed

lemma rx_block_wtx:
  assumes "plain_prologue th" "0 < m" "m < 60" "length (fb_data (x_tx x)) = 256"
    "fb_data (x_rx x) = 0xf2 # m # rest"
  shows "tcl_rx_block 0 th x ctx = Some (Goto_do_tx, th,
     x\<lparr>x_timeout := ucast (t_fwt th * ucast m),
       x_tx := \<lparr>fb_frame_len = 2, fb_hdr_len = 1, fb_data = (fb_data (x_tx x))[0 := 0xf2, 1 := m]\<rparr>\<rparr>,
     ctx)"
proof -
  have m: "m < 64" "m \<noteq> 0" "\<not> 60 \<le> m"
    using assms(2,3) by (auto intro: less_trans)
  have ne: "fb_data (x_tx x) \<noteq> []" using assms(4) by auto
  show ?thesis
    using assms m ne
    by (simp add: tcl_rx_block_def tcl_rx_s_block_def check_cid_def fill_xcvb_wtxm_def
        prologue_kinds [OF assms(1) ne] is_r_block_def is_s_block_def put_at_def u8_and_3f)
qed

lemma rx_block_part:
  assumes "plain_prologue th" "t_toggle th = 0 \<or> t_toggle th = 1" "length p \<le> 255"
    "length (fb_data (x_tx x)) = 256"
    "fb_data (x_rx x) = (0x02 OR toggle_bit th OR (if chain then 0x10 else 0)) # p @ rest"
    "fb_frame_len (x_rx x) = of_nat (Suc (length p))"
    "c_next_rx_byte ctx + length p \<le> length (c_rx ctx)"
  shows "\<exists>x'. tcl_rx_block 0 th x ctx = Some
     (if chain then Goto_do_tx else Goto_out 0, if chain then flip th else th, x',
      ctx\<lparr>c_rx := take (c_next_rx_byte ctx) (c_rx ctx) @ p @
                  drop (c_next_rx_byte ctx + length p) (c_rx ctx),
          c_next_rx_byte := c_next_rx_byte ctx + length p\<rparr>) \<and>
     fb_data (x_rx x') = fb_data (x_rx x) \<and>
     (chain \<longrightarrow> fb_data (x_tx x') = (fb_data (x_tx x))[0 := 0xa2 OR toggle_bit (flip th)] \<and>
              fb_frame_len (x_tx x') = 1)"
proof -
  have ne: "fb_data (x_tx x) \<noteq> []" using assms(4) by auto
  have len: "unat (word_of_nat (length p) :: u32) = length p"
    using assms(3) by (intro unat_of_nat_small) simp
  show ?thesis
    using assms len
    by (cases chain)
      (auto simp: tcl_rx_block_def tcl_rx_i_block_def check_cid_def toggle_bit_def
        prologue_kinds [OF assms(1) ne] is_r_block_def is_s_block_def is_i_block_def
        get_slice_def put_slice_def Let_def)
qed

lemma picc_s_block:
  assumes "tx = 0xf2 # m # rest"
  shows "picc_transceive tx 2 rx n c = picc_emit rx n c"
  using assms by (simp add: picc_transceive_def get_slice_def is_i_block_def is_r_block_def)

lemma picc_r_block:
  assumes "tx \<noteq> []"
  shows "picc_transceive (tx[0 := 0xa2 OR toggle_bit th]) 1 rx n c
           = picc_emit rx n (c\<lparr>pc_bit := toggle_bit th\<rparr>)"
  using assms
  by (cases tx) (simp_all add: picc_transceive_def get_slice_def is_i_block_def is_r_block_def toggle_bit_def)

lemma no_part_data: "\<not> has_part s \<Longrightarrow> reply_data s = []"
  by (induction s rule: has_part.induct) auto

definition emits :: "rfid_xcvb \<Rightarrow> picc \<Rightarrow> picc \<Rightarrow> bool" where
  "emits x c c0 \<longleftrightarrow>
     picc_transceive (fb_data (x_tx x)) (fb_frame_len (x_tx x)) (fb_data (x_rx x)) 256 c
       = picc_emit (fb_data (x_rx x)) 256 c0"

lemma rx_phase:
  assumes "tcl_link rh l2h" "plain_prologue th" "t_toggle th = 0 \<or> t_toggle th = 1" "wf_xcvb x"
    "emits x c c0" "pc_bit c0 = toggle_bit th" "wf_script s"
    "c_next_rx_byte ctx + length (reply_data s) \<le> length (c_rx ctx)" "pc_script c0 = s"
  shows "\<exists>th' ctx' c'. tcl_do_tx rh l2h th x ctx c = Some (0, th', ctx', c') \<and>
     pc_rcvd c' = pc_rcvd c0 \<and>
     c_rx ctx' = take (c_next_rx_byte ctx) (c_rx ctx) @ reply_data s @
                 drop (c_next_rx_byte ctx + length (reply_data s)) (c_rx ctx) \<and>
     c_next_rx_byte ctx' = c_next_rx_byte ctx + length (reply_data s)"
  using assms(2-9)
proof (induction s arbitrary: th x ctx c c0 rule: wf_script.induct)
  case 1
  then show ?case by simp
next
  case (2 m s)
  note sc = 2(9)
  have m: "0 < m" "m < 60" "wf_script s" using 2(7) by auto
  let ?rx = "fb_data (x_rx x)"
  let ?data = "0xf2 # m # drop (Suc (Suc 0)) ?rx"
  let ?c1 = "c0\<lparr>pc_script := s\<rparr>"
  have len: "length ?rx = 256" "length (fb_data (x_tx x)) = 256" using 2(4) by (auto simp: wf_xcvb_def)
  have "picc_emit ?rx 256 c0 = Some (0, ?data, 2, ?c1)"
    using sc len by (simp add: picc_emit_def picc_frame_def put_slice_def)
  then have "picc_transceive (fb_data (x_tx x)) (fb_frame_len (x_tx x)) ?rx 256 c
               = Some (0, ?data, 2, ?c1)"
    using 2(5) by (simp add: emits_def)
  note step = do_tx_link [OF assms(1) this]
  let ?x0 = "x\<lparr>x_rx := (x_rx x)\<lparr>fb_data := ?data, fb_frame_len := 2\<rparr>\<rparr>"
  let ?x1 = "?x0\<lparr>x_timeout := ucast (t_fwt th * ucast m),
       x_tx := \<lparr>fb_frame_len = 2, fb_hdr_len = 1, fb_data = (fb_data (x_tx x))[0 := 0xf2, 1 := m]\<rparr>\<rparr>"
  have blk: "tcl_rx_block 0 th ?x0 ctx = Some (Goto_do_tx, th, ?x1, ctx)"
    using rx_block_wtx [OF 2(2) m(1,2), of ?x0 "drop (Suc (Suc 0)) ?rx" ctx] len by simp
  have eq: "tcl_do_tx rh l2h th x ctx c = tcl_do_tx rh l2h th ?x1 ctx ?c1"
    using step [of th ctx] by (simp add: blk)
  obtain a b r where tx: "fb_data (x_tx x) = a # b # r"
    using len(2) by (cases "fb_data (x_tx x)" rule: remdups_adj.cases) auto
  have "emits ?x1 ?c1 ?c1"
    by (simp add: emits_def tx picc_s_block)
  from 2(1) [OF 2(2,3) _ this, of ctx] show ?case
    unfolding eq using 2(6,8) m(3) len by (simp add: wf_xcvb_def)
next
  case (3 p s)
  note sc = 3(9)
  have p: "length p \<le> 255" "has_part s \<Longrightarrow> wf_script s" using 3(7) by auto
  let ?rx = "fb_data (x_rx x)"
  let ?data = "(0x02 OR toggle_bit th OR (if has_part s then 0x10 else 0)) # p @ drop (Suc (length p)) ?rx"
  let ?c1 = "c0\<lparr>pc_script := s\<rparr>"
  let ?ctx = "ctx\<lparr>c_rx := take (c_next_rx_byte ctx) (c_rx ctx) @ p @
                  drop (c_next_rx_byte ctx + length p) (c_rx ctx),
                 c_next_rx_byte := c_next_rx_byte ctx + length p\<rparr>"
  have len: "length ?rx = 256" "length (fb_data (x_tx x)) = 256" using 3(4) by (auto simp: wf_xcvb_def)
  have "picc_emit ?rx 256 c0 = Some (0, ?data, of_nat (Suc (length p)), ?c1)"
    using sc len p(1) 3(6) by (simp add: picc_emit_def picc_frame_def put_slice_def)
  then have "picc_transceive (fb_data (x_tx x)) (fb_frame_len (x_tx x)) ?rx 256 c
               = Some (0, ?data, of_nat (Suc (length p)), ?c1)"
    using 3(5) by (simp add: emits_def)
  note step = do_tx_link [OF assms(1) this]
  let ?x0 = "x\<lparr>x_rx := (x_rx x)\<lparr>fb_data := ?data, fb_frame_len := of_nat (Suc (length p))\<rparr>\<rparr>"
  obtain x' where x': "tcl_rx_block 0 th ?x0 ctx = Some
       (if has_part s then Goto_do_tx else Goto_out 0, if has_part s then flip th else th, x', ?ctx)"
     "fb_data (x_rx x') = ?data"
     "has_part s \<longrightarrow> fb_data (x_tx x') = (fb_data (x_tx x))[0 := 0xa2 OR toggle_bit (flip th)] \<and>
              fb_frame_len (x_tx x') = 1"
    using rx_block_part [OF 3(2,3) p(1), of ?x0 "has_part s" "drop (Suc (length p)) ?rx" ctx]
      len 3(8) by auto
  show ?case
  proof (cases "has_part s")
    case True
    let ?c2 = "?c1\<lparr>pc_bit := toggle_bit (flip th)\<rparr>"
    have eq: "tcl_do_tx rh l2h th x ctx c = tcl_do_tx rh l2h (flip th) x' ?ctx ?c1"
      unfolding step x'(1) using True by simp
    have "fb_data (x_tx x) \<noteq> []" using len by auto
    then have em: "emits x' ?c1 ?c2"
      using x'(3) True by (simp add: emits_def picc_r_block)
    have "wf_xcvb x'" using x'(2,3) True len p(1) by (simp add: wf_xcvb_def)
    have kle: "c_next_rx_byte ctx \<le> length (c_rx ctx)" using 3(8) by simp
    have "\<exists>th' ctx' c'. tcl_do_tx rh l2h (flip th) x' ?ctx ?c1 = Some (0, th', ctx', c') \<and>
        pc_rcvd c' = pc_rcvd ?c2 \<and>
        c_rx ctx' = take (c_next_rx_byte ?ctx) (c_rx ?ctx) @ reply_data s @
                    drop (c_next_rx_byte ?ctx + length (reply_data s)) (c_rx ?ctx) \<and>
        c_next_rx_byte ctx' = c_next_rx_byte ?ctx + length (reply_data s)"
      by (rule 3(1) [OF True _ _ \<open>wf_xcvb x'\<close> em _ p(2) [OF True]]) (use 3(2,8) in auto)
    then show ?thesis
      unfolding eq using kle by (simp add: min.absorb2 ac_simps)
  next
    case False
    then show ?thesis
      unfolding step x'(1) by (simp add: no_part_data)
  qed
qed

section \<open>Blocks to the card\<close>

text \<open>
  One refill: the next \<open>fsc - 1\<close> bytes, or what is left, behind a one-byte prologue with the next
  block number, chained unless they are the last.
\<close>

lemma refill_plain:
  assumes "plain_prologue th" "2 \<le> t_fsc th" "t_fsc th \<le> 256" "length (fb_data (x_tx x)) = 256"
    "c_tx_len ctx = of_nat (length (c_tx ctx))" "length (c_tx ctx) < 2 ^ 32"
    "c_next_tx_byte ctx < length (c_tx ctx)"
  defines "k \<equiv> min (length (c_tx ctx) - c_next_tx_byte ctx) (unat (t_fsc th) - 1)"
  shows "\<exists>x'. tcl_refill_xcvb th x ctx = Some (0, flip th, x',
            ctx\<lparr>c_next_tx_byte := c_next_tx_byte ctx + k\<rparr>) \<and> 0 < k \<and>
     fb_frame_len (x_tx x') = of_nat (Suc k) \<and> x_rx x' = x_rx x \<and>
     length (fb_data (x_tx x')) = 256 \<and>
     take (Suc k) (fb_data (x_tx x')) =
       (0x02 OR toggle_bit (flip th) OR
          (if c_next_tx_byte ctx + k < length (c_tx ctx) then 0x10 else 0)) #
       take k (drop (c_next_tx_byte ctx) (c_tx ctx))"
proof -
  let ?n = "c_next_tx_byte ctx" and ?len = "length (c_tx ctx)" and ?d = "fb_data (x_tx x)"
  have ne: "?d \<noteq> []" using assms(4) by auto
  have fsc: "2 \<le> unat (t_fsc th)" "unat (t_fsc th) \<le> 256"
    using assms(2,3) by (auto simp: word_le_nat_alt)
  have un: "unat (c_tx_len ctx) = ?len" "uint (c_tx_len ctx) = int ?len"
    using assms(5,6) by (simp_all add: unat_of_nat_small uint_nat)
  have fsc1: "unat (t_fsc th - 1) = unat (t_fsc th) - 1"
    using fsc by (simp add: unat_sub_if' word_le_nat_alt)
  then have fsc1': "uint (t_fsc th - 1) = int (unat (t_fsc th) - 1)"
    by (simp only: uint_nat)
  let ?fl = "if tcl_ctx_todo ctx > uint (t_fsc th - 1) then max_net_tx_framesize (flip th)
             else word_of_int (tcl_ctx_todo ctx)"
  have todo: "tcl_ctx_todo ctx = int (?len - ?n)"
    using assms(7) by (simp add: tcl_ctx_todo_def un of_nat_diff)
  have net: "max_net_tx_framesize (flip th) = t_fsc th - 1"
    using assms(1) by (simp add: max_net_tx_framesize_def tcl_prlg_len_def plain_prologue_def)
  have "of_nat (unat (t_fsc th) - 1) = t_fsc th - 1"
    using fsc by (simp add: word_unat_eq_iff fsc1 unat_of_nat_small)
  then have fl: "?fl = of_nat k"
    unfolding todo fsc1' net of_nat_less_iff of_int_of_nat_eq k_def by (simp add: min_def)
  have k: "unat (of_nat k :: u32) = k"
    using assms(6) by (intro unat_of_nat_small) (simp add: k_def)
  have kb: "0 < k" "k \<le> 255" "?n + k \<le> ?len"
    using fsc assms(7) by (auto simp: k_def)
  let ?b = "0x02 OR toggle_bit (flip th)"
  let ?c = "if ?n + k < ?len then 0x10 else 0 :: u8"
  define d where "d = (?b OR ?c) # take k (drop ?n (c_tx ctx)) @ drop (Suc k) ?d"
  obtain a r where d0: "?d = a # r" using ne by (cases ?d) auto
  have pro: "tcl_build_prologue_i th (a # r) = Some (flip th, ?b # r, 1)"
    using prologue_kinds(1) [OF assms(1), of "a # r"] by simp
  have "tcl_refill_xcvb th x ctx = Some (0, flip th,
          x\<lparr>x_timeout := ucast (t_fwt th),
            x_tx := \<lparr>fb_frame_len = of_nat k + 1, fb_hdr_len = 1, fb_data = d\<rparr>\<rparr>,
          ctx\<lparr>c_next_tx_byte := ?n + k\<rparr>)"
    using assms(4,7) kb d0
    by (auto simp: tcl_refill_xcvb_def pro un fl k d_def
        get_slice_def put_slice_def put_at_def)
  with kb show ?thesis
    using assms(4) by (auto simp: d_def min_def or.assoc)
qed

lemma picc_i_block:
  assumes "take (Suc k) data = (0x02 OR toggle_bit th OR (if chain then 0x10 else 0)) # chunk"
    "k < 256" "length data = 256"
  shows "picc_transceive data (of_nat (Suc k)) rx m c =
    (let c = c\<lparr>pc_rcvd := pc_rcvd c @ chunk, pc_bit := toggle_bit th\<rparr>
     in if chain then picc_frame [0xa2 OR toggle_bit th] rx c else picc_emit rx m c)"
proof -
  have "unat (of_nat (Suc k) :: u32) = Suc k"
    using assms(2) by (intro unat_of_nat_small) simp
  then have "get_slice data 0 (unat (of_nat (Suc k) :: u32)) = Some (take (Suc k) data)"
    using assms(2,3) by (simp add: get_slice_def)
  then show ?thesis
    unfolding picc_transceive_def assms(1)
    by (simp add: toggle_bit_def is_i_block_def Let_def)
qed

lemma rx_block_ack:
  assumes "fb_data (x_rx x) = (0xa2 OR toggle_bit th) # rest" "t_toggle th = 0 \<or> t_toggle th = 1"
  shows "tcl_rx_block 0 th x ctx = Some (Goto_tx_refill, th, x, ctx)"
  using assms
  by (auto simp: tcl_rx_block_def tcl_rx_r_block_def check_cid_def is_r_block_def toggle_bit_def)

definition tx_frame :: "tcl_handle \<Rightarrow> rfid_xcvb \<Rightarrow> tcl_tx_context \<Rightarrow> bytes \<Rightarrow> bool" where
  "tx_frame th x ctx chunk \<longleftrightarrow>
     length chunk < 256 \<and> fb_frame_len (x_tx x) = of_nat (Suc (length chunk)) \<and>
     take (Suc (length chunk)) (fb_data (x_tx x)) =
       (0x02 OR toggle_bit th OR (if c_next_tx_byte ctx < length (c_tx ctx) then 0x10 else 0)) # chunk"

lemma tx_phase:
  assumes link: "tcl_link rh l2h" and fsc: "2 \<le> t_fsc th" "t_fsc th \<le> 256"
    and "plain_prologue th" "t_toggle th = 0 \<or> t_toggle th = 1" "wf_xcvb x"
    and "c_tx_len ctx = of_nat (length (c_tx ctx))" "length (c_tx ctx) < 2 ^ 32"
    and "tx_frame th x ctx chunk" "wf_script (pc_script c)"
    and "c_next_rx_byte ctx + length (reply_data (pc_script c)) \<le> length (c_rx ctx)"
  shows "\<exists>th' ctx' c'. tcl_do_tx rh l2h th x ctx c = Some (0, th', ctx', c') \<and>
     pc_rcvd c' = pc_rcvd c @ chunk @ drop (c_next_tx_byte ctx) (c_tx ctx) \<and>
     c_rx ctx' = take (c_next_rx_byte ctx) (c_rx ctx) @ reply_data (pc_script c) @
                 drop (c_next_rx_byte ctx + length (reply_data (pc_script c))) (c_rx ctx) \<and>
     c_next_rx_byte ctx' = c_next_rx_byte ctx + length (reply_data (pc_script c))"
  using assms(2-)
proof (induction "length (c_tx ctx) - c_next_tx_byte ctx" arbitrary: th x ctx c chunk
    rule: less_induct)
  case less
  let ?n = "c_next_tx_byte ctx" and ?len = "length (c_tx ctx)" and ?rx = "fb_data (x_rx x)"
  let ?c1 = "c\<lparr>pc_rcvd := pc_rcvd c @ chunk, pc_bit := toggle_bit th\<rparr>"
  have buf: "length (fb_data (x_tx x)) = 256" "length ?rx = 256"
    using less.prems(5) by (auto simp: wf_xcvb_def)
  have fr: "length chunk < 256" "fb_frame_len (x_tx x) = of_nat (Suc (length chunk))"
     "take (Suc (length chunk)) (fb_data (x_tx x)) =
       (0x02 OR toggle_bit th OR (if ?n < ?len then 0x10 else 0)) # chunk"
    using less.prems(8) by (auto simp: tx_frame_def)
  note sent = picc_i_block [OF fr(3,1) buf(1), of ?rx 256 c, folded fr(2), unfolded Let_def]
  show ?case
  proof (cases "?n < ?len")
    case False
    then have "emits x c ?c1" using sent by (simp add: emits_def)
    then show ?thesis
      using rx_phase [OF link less.prems(3,4,5), of c ?c1 "pc_script c" ctx] less.prems(9,10) False
      by simp
  next
    case True
    let ?data = "(0xa2 OR toggle_bit th) # drop 1 ?rx"
    let ?x0 = "x\<lparr>x_rx := (x_rx x)\<lparr>fb_data := ?data, fb_frame_len := 1\<rparr>\<rparr>"
    let ?k = "min (?len - ?n) (unat (t_fsc th) - 1)"
    let ?ctx = "ctx\<lparr>c_next_tx_byte := ?n + ?k\<rparr>"
    have "picc_transceive (fb_data (x_tx x)) (fb_frame_len (x_tx x)) ?rx 256 c
            = Some (0, ?data, 1, ?c1)"
      using sent True buf(2) by (simp add: picc_frame_def put_slice_def)
    note step = do_tx_link [OF link this]
    have ack: "tcl_rx_block 0 th ?x0 ctx = Some (Goto_tx_refill, th, ?x0, ctx)"
      using less.prems(4) by (intro rx_block_ack) auto
    obtain x' where x': "tcl_refill_xcvb th ?x0 ctx = Some (0, flip th, x', ?ctx)" "0 < ?k"
        "fb_frame_len (x_tx x') = of_nat (Suc ?k)" "x_rx x' = x_rx ?x0"
        "length (fb_data (x_tx x')) = 256"
        "take (Suc ?k) (fb_data (x_tx x')) = (0x02 OR toggle_bit (flip th) OR
          (if ?n + ?k < ?len then 0x10 else 0)) # take ?k (drop ?n (c_tx ctx))"
      using refill_plain [OF less.prems(3,1,2), of ?x0 ctx] buf less.prems(6,7) True by auto
    have eq: "tcl_do_tx rh l2h th x ctx c = tcl_do_tx rh l2h (flip th) x' ?ctx ?c1"
      unfolding step ack Option.bind.simps prod.case tcl_goto.case x'(1) by simp
    have "unat (t_fsc th) \<le> 256" using less.prems(2) by (simp add: word_le_nat_alt)
    then have "tx_frame (flip th) x' ?ctx (take ?k (drop ?n (c_tx ctx)))"
      using x'(3,6) by (auto simp: tx_frame_def min_def)
    moreover have "wf_xcvb x'" using x'(4,5) buf(2) by (simp add: wf_xcvb_def)
    ultimately have "\<exists>th' ctx' c'. tcl_do_tx rh l2h (flip th) x' ?ctx ?c1 = Some (0, th', ctx', c') \<and>
      pc_rcvd c' = pc_rcvd ?c1 @ take ?k (drop ?n (c_tx ctx)) @ drop (c_next_tx_byte ?ctx) (c_tx ?ctx) \<and>
      c_rx ctx' = take (c_next_rx_byte ?ctx) (c_rx ?ctx) @ reply_data (pc_script ?c1) @
                 drop (c_next_rx_byte ?ctx + length (reply_data (pc_script ?c1))) (c_rx ?ctx) \<and>
      c_next_rx_byte ctx' = c_next_rx_byte ?ctx + length (reply_data (pc_script ?c1))"
      by (intro less.hyps) (use less.prems x'(2) True in \<open>auto\<close>)
    moreover have "take ?k (drop ?n (c_tx ctx)) @ drop (?n + ?k) (c_tx ctx) = drop ?n (c_tx ctx)"
      using append_take_drop_id [of ?k "drop ?n (c_tx ctx)"] by (simp only: drop_drop add.commute)
    ultimately show ?thesis unfolding eq by simp
  qed
qed


section \<open>The exchange\<close>

lemma exchange_run:
  assumes "tcl_link rh l2h" "plain_prologue th" "2 \<le> t_fsc th" "t_fsc th \<le> 256" "wf_xcvb x"
    "tx \<noteq> []" "length tx < 2 ^ 32" "wf_script (pc_script c)"
    "length (reply_data (pc_script c)) \<le> length rx"
  shows "\<exists>th' c'. tcl_transceive rh x l2h th tx (of_nat (length tx)) rx rx_len c =
           Some (0, reply_data (pc_script c) @ drop (length (reply_data (pc_script c))) rx,
                 of_nat (length (reply_data (pc_script c))), th', c') \<and>
         pc_rcvd c' = pc_rcvd c @ tx"
proof -
  let ?ctx = "\<lparr>c_tx = tx, c_rx = rx, c_next_tx_byte = 0, c_next_rx_byte = 0, c_rx_len = rx_len,
               c_tx_len = of_nat (length tx)\<rparr> :: tcl_tx_context"
  let ?x = "x\<lparr>x_timeout := ucast (t_fwt th)\<rparr>"
  let ?k = "min (length tx) (unat (t_fsc th) - 1)"
  let ?ctx1 = "?ctx\<lparr>c_next_tx_byte := ?k\<rparr>"
  have buf: "length (fb_data (x_tx ?x)) = 256" "length (fb_data (x_rx ?x)) = 256"
    using assms(5) by (auto simp: wf_xcvb_def)
  obtain x' where x': "tcl_refill_xcvb th ?x ?ctx = Some (0, flip th, x', ?ctx1)"
      "fb_frame_len (x_tx x') = of_nat (Suc ?k)" "x_rx x' = x_rx ?x"
      "length (fb_data (x_tx x')) = 256"
      "take (Suc ?k) (fb_data (x_tx x')) =
         (0x02 OR toggle_bit (flip th) OR (if ?k < length tx then 0x10 else 0)) # take ?k tx"
    using refill_plain [OF assms(2-4) buf(1), of ?ctx] assms(6,7) by auto
  have "unat (t_fsc th) \<le> 256" using assms(4) by (simp add: word_le_nat_alt)
  then have "tx_frame (flip th) x' ?ctx1 (take ?k tx)"
    using x'(2,5) by (auto simp: tx_frame_def min_def)
  moreover have "wf_xcvb x'" using x'(3,4) buf(2) by (simp add: wf_xcvb_def)
  moreover have tg: "t_toggle (flip th) = 0 \<or> t_toggle (flip th) = 1" by simp
  ultimately obtain th' ctx' c' where "tcl_do_tx rh l2h (flip th) x' ?ctx1 c = Some (0, th', ctx', c')"
     "pc_rcvd c' = pc_rcvd c @ tx"
     "c_rx ctx' = reply_data (pc_script c) @ drop (length (reply_data (pc_script c))) rx"
     "c_next_rx_byte ctx' = length (reply_data (pc_script c))"
    using tx_phase [OF assms(1) _ _ _ tg, of x' ?ctx1 "take ?k tx" c] assms(2-4,7-9) by auto
  then show ?thesis
    unfolding tcl_transceive_def Let_def x'(1) by simp
qed

text \<open>
  C1: against such a card an exchange returns zero, whatever the lengths of the data and of the
  answer: the card has received the caller's bytes once and in order, however many chained frames of
  at most the card's frame size they took; the caller's buffer starts with the card's complete
  answer and is unchanged behind it; and the returned length is that of the answer.
\<close>

theorem tcl_transceive_exchange:
  assumes "tcl_link rh l2h" "plain_prologue th" "2 \<le> t_fsc th" "t_fsc th \<le> 256" "wf_xcvb x"
    "tx \<noteq> []" "length tx < 2 ^ 32" "wf_script (pc_script c)"
    "length (reply_data (pc_script c)) \<le> length rx"
  shows "\<exists>th' c'. tcl_transceive rh x l2h th tx (of_nat (length tx)) rx rx_len c =
           Some (0, reply_data (pc_script c) @ drop (length (reply_data (pc_script c))) rx,
                 of_nat (length (reply_data (pc_script c))), th', c') \<and>
         pc_rcvd c' = pc_rcvd c @ tx"
  using assms by (rule exchange_run)

text \<open>A reader whose field holds such a card.\<close>

definition picc_reader :: "picc rfid_reader" where
  "picc_reader =
     \<lparr>rdr_l2_supported = 0, rdr_proto_supported = 0, rdr_init = (\<lambda>_ c. Some (0, c)),
      rdr_transceive = (\<lambda>ft tx n rx m timeout flags c. picc_transceive tx n rx m c),
      rdr_transceive_sf = (\<lambda>_ c. Some (-1, [0, 0], c)),
      rdr_transceive_acf = (\<lambda>acf c. Some (-1, acf, 0, c)),
      rdr_set_speed = None, rdr_speed = 1, rdr_transceive_ac = None, rdr_setkey = None,
      rdr_setkey_ee = None, rdr_auth = None, rdr_setopt = (\<lambda>_ _ _ c. Some (-1, c))\<rparr>"

definition sample_rh :: "picc rfid_reader_handle" where
  "sample_rh = \<lparr>rh_reader = picc_reader, rh_ah = \<lparr>ah_fc = 13560000, ah_mtu = 64, ah_mru = 64\<rparr>\<rparr>"

definition sample_th :: tcl_handle where
  "sample_th =
     \<lparr>t_historical_bytes = None, t_historical_len = 0, t_fsc = 16, t_fsd = 64, t_fwt = 4832, t_ta = 0,
      t_sfgt = 0, t_cid = 0, t_nad = 0, t_flags = 0, t_state = TCL_STATE_ESTABLISHED, t_toggle = 1,
      t_ats_len = 0, t_ats = replicate 256 0\<rparr>"

definition sample_xcvb :: rfid_xcvb where
  "sample_xcvb =
     \<lparr>x_timeout = 0, x_tx = \<lparr>fb_frame_len = 0, fb_hdr_len = 0, fb_data = replicate 256 0\<rparr>,
      x_rx = \<lparr>fb_frame_len = 0, fb_hdr_len = 0, fb_data = replicate 256 0\<rparr>\<rparr>"

definition sample_picc :: picc where
  "sample_picc = \<lparr>pc_rcvd = [], pc_script = [Wtx 5, Part [1, 2], Wtx 1, Part [3]], pc_bit = 0\<rparr>"

theorem tcl_transceive_exchange_witness:
  "\<exists>th' c'. tcl_transceive sample_rh sample_xcvb sample_l2h sample_th (replicate 40 7) 40
               [0, 0, 0, 0] 4 sample_picc = Some (0, [1, 2, 3, 0], 3, th', c') \<and>
            pc_rcvd c' = replicate 40 7"
  using tcl_transceive_exchange [of sample_rh sample_l2h sample_th sample_xcvb "replicate 40 7"
      sample_picc "[0, 0, 0, 0]" 4]
  by (simp add: tcl_link_def sample_rh_def picc_reader_def sample_l2h_def plain_prologue_def
      sample_th_def wf_xcvb_def sample_xcvb_def sample_picc_def)

end
