(* ===== verification/Rc632_Frames.thy ===== *)
theory Rc632_Frames
  imports Rc632_Proto
begin

text \<open>
  What reaches the RC632 FIFO: the bytes of a transmission without reply, the coding of a MIFARE
  key, and what a successful Crypto1 authentication has read from the chip.
\<close>

section \<open>Transmission\<close>

text \<open>
  C34: a transmission of at most 64 bytes fills the FIFO with them, starts the command and waits for
  its end.  Of a longer one the first 64 bytes are sent, and the refill is one FIFO write of 192
  bytes from offset 64, whatever the length was.\<close>

theorem transmit_fifo_writes:
  "rc632_transmit t buf len timeout w =
     (if len \<le> 64 then do {
        (ret, w) \<leftarrow> rc632_fifo_write t len buf 0x03 w;
        if ret < 0 then Some (ret, w)
        else do {
          (ret, w) \<leftarrow> rc632_reg_write t RC632_REG_COMMAND RC632_CMD_TRANSMIT w;
          if ret < 0 then Some (ret, w) else rc632_wait_idle t timeout w } }
      else do {
        (ret, w) \<leftarrow> rc632_fifo_write t 64 buf 0x03 w;
        if ret < 0 then Some (ret, w)
        else do {
          (ret, w) \<leftarrow> rc632_reg_write t RC632_REG_COMMAND RC632_CMD_TRANSMIT w;
          if ret < 0 then Some (ret, w)
          else do {
            (ret, w) \<leftarrow> rc632_fifo_write t 192 (drop 64 buf) 0x03 w;
            if ret < 0 then Some (ret, w) else rc632_wait_idle t timeout w } } })"
proof (cases "len \<le> 64")
  case True
  then have "\<not> len > 64" by simp
  with True show ?thesis
    by (simp add: rc632_transmit_def transmit_loop.simps [of t buf len timeout 0 "uint len"] Let_def
        cong: if_cong)
next
  case False
  then have big: "64 < uint len" "len > 64" using False by (auto simp: word_le_def word_less_def)
  have refill: "- 64 = (192 :: u8)" by simp
  show ?thesis
    using big False unfolding refill [symmetric]
    by (simp add: rc632_transmit_def transmit_loop.simps [of t buf len timeout 0 64]
        transmit_loop.simps [of t buf len timeout 64 "- 64"] Let_def cong: if_cong)
qed

section \<open>Keys\<close>

text \<open>
  The RC632 takes a key in twelve bytes, two for each byte of the key: a nibble in the low half and
  its complement in the high half.
\<close>

fun decode_key :: "bytes \<Rightarrow> bytes" where
  "decode_key (h # l # ks) = (push_bit 4 (h AND 0x0f) OR (l AND 0x0f)) # decode_key ks"
| "decode_key ks = []"

definition nibble_complemented :: "u8 \<Rightarrow> bool" where
  "nibble_complemented b \<longleftrightarrow> (drop_bit 4 b) XOR (b AND 0x0f) = 0x0f"

lemma coded_nibble:
  assumes "unat x < 16"
  shows "nibble_complemented (push_bit 4 (NOT x) OR x) \<and> (push_bit 4 (NOT x) OR x) AND 0x0f = x"
  by (rule u8_below [OF assms]) code_simp

lemma coded_nibbles:
  "push_bit 4 ((push_bit 4 (NOT (drop_bit 4 k)) OR drop_bit 4 k) AND 0x0f) OR
     ((push_bit 4 (NOT (k AND 0x0f)) OR (k AND 0x0f)) AND 0x0f) = (k :: u8) \<and>
   nibble_complemented (push_bit 4 (NOT (drop_bit 4 k)) OR drop_bit 4 k) \<and>
   nibble_complemented (push_bit 4 (NOT (k AND 0x0f)) OR (k AND 0x0f))"
proof -
  have hi: "unat (drop_bit 4 k) < 16"
    using unat_u8_less [of k] by (simp add: unat_drop_bit_eq drop_bit_nat_def)
  have lo: "unat (k AND 0x0f) < 16"
    using word_and_le1 [of k "0x0f"] by (simp add: word_le_nat_alt)
  have "push_bit 4 (drop_bit 4 k) OR (k AND 0x0f) = k"
    by (rule bit_word_eqI) (auto simp: bit_simps bit_nibble)
  then show ?thesis using coded_nibble [OF hi] coded_nibble [OF lo] by simp
qed

lemma transform_key_from_correct:
  "decode_key (transform_key_from ks) = ks \<and> length (transform_key_from ks) = 2 * length ks \<and>
   list_all nibble_complemented (transform_key_from ks)"
proof (induction ks)
  case (Cons k ks)
  then show ?case using coded_nibbles [of k] by (simp add: Let_def)
qed simp

text \<open>
  Every MIFARE key is coded into twelve bytes whose high nibbles are the complements of the low
  ones, and decoding them gives the key back.\<close>

theorem transform_key_correct:
  assumes "length key = 6"
  shows "\<exists>c. rc632_mifare_transform_key key = Some c \<and> length c = 12 \<and> decode_key c = key \<and>
           list_all nibble_complemented c"
  using assms transform_key_from_correct [of key]
  by (simp add: rc632_mifare_transform_key_def get_slice_def)

theorem transform_key_correct_witness:
  "\<exists>c. rc632_mifare_transform_key [0xa0, 0xa1, 0xa2, 0xa3, 0xa4, 0xa5] = Some c \<and> length c = 12 \<and>
     decode_key c = [0xa0, 0xa1, 0xa2, 0xa3, 0xa4, 0xa5] \<and> list_all nibble_complemented c"
  by (rule transform_key_correct) simp

section \<open>Authentication\<close>

lemma auth2_crypto1:
  assumes "mifare_auth2 t w = Some (0, w')"
  shows "\<exists>w1 n v. rc632_reg_read t RC632_REG_CONTROL None w1 = Some (n, Some v, w') \<and> 0 \<le> n \<and>
           v AND RC632_CONTROL_CRYPTO1_ON \<noteq> 0"
  using assms by (fastforce simp: mifare_auth2_def run_simps not_less split: if_splits)

lemma auth_crypto1:
  assumes "rc632_mifare_auth t cmd serno block w = Some (0, w')"
  shows "cmd \<in> {RFID_CMD_MIFARE_AUTH1A, RFID_CMD_MIFARE_AUTH1B} \<and>
         (\<exists>w1 n v. rc632_reg_read t RC632_REG_CONTROL None w1 = Some (n, Some v, w') \<and> 0 \<le> n \<and>
            v AND RC632_CONTROL_CRYPTO1_ON \<noteq> 0)"
  using assms
  by (auto simp: rc632_mifare_auth_def run_simps split: if_splits dest: auth2_crypto1)

text \<open>A transport behind which every command completes and the Crypto1 unit is on.\<close>

definition crypto_transport :: "unit rc632_transport" where
  "crypto_transport = busy_transport\<lparr>rt_reg_read :=
     (\<lambda>r w. Some (0, Some (if r = RC632_REG_CONTROL then RC632_CONTROL_CRYPTO1_ON else 0), w))\<rparr>"

end
