(* ===== verification/Reader_Openpcd.thy ===== *)
theory Reader_Openpcd
  imports Rfid_Reader
begin

text \<open>
  The OpenPCD reader on a host (\<open>src/rfid_reader_openpcd.c\<close> without \<open>LIBRFID_FIRMWARE\<close>): RC632
  accesses as four-byte headers with data over USB bulk transfers.

  libusb is a parameter: the record \<open>usb_ops\<close> holds the calls the driver makes, over a type \<open>'d\<close> for
  the devices behind it.  A bulk read gives its return code and the bytes that libusb stored.
  The file's static buffers are part of the state.
\<close>

section \<open>Model\<close>

record 'd usb_ops =
  usb_bulk_write :: "u8 \<Rightarrow> bytes \<Rightarrow> 'd \<Rightarrow> int \<times> 'd"
  usb_bulk_read :: "u8 \<Rightarrow> nat \<Rightarrow> 'd \<Rightarrow> int \<times> bytes \<times> 'd"
  usb_find_busses :: "'d \<Rightarrow> int \<times> 'd"
  usb_find_devices :: "'d \<Rightarrow> int \<times> 'd"
  usb_get_busses :: "'d \<Rightarrow> (u16 \<times> u16) list list"
  usb_open :: "u16 \<times> u16 \<Rightarrow> 'd \<Rightarrow> bool \<times> 'd"
  usb_set_configuration :: "'d \<Rightarrow> int \<times> 'd"
  usb_claim_interface :: "'d \<Rightarrow> int \<times> 'd"
  usb_close :: "'d \<Rightarrow> 'd"

record 'd openpcd_state =
  snd_buf :: bytes
  rcv_buf :: bytes
  opcd_dev :: 'd

definition SENDBUF_LEN :: nat where
  "SENDBUF_LEN = 256 + 4 + 10"

abbreviation (input) OPENPCD_FLAG_RESPOND :: u8 where "OPENPCD_FLAG_RESPOND \<equiv> 0x01"
abbreviation (input) OPENPCD_CMD_GET_API_VERSION :: u8 where "OPENPCD_CMD_GET_API_VERSION \<equiv> 0x04"
abbreviation (input) OPENPCD_CMD_GET_ENVIRONMENT :: u8 where "OPENPCD_CMD_GET_ENVIRONMENT \<equiv> 0x05"
abbreviation (input) OPENPCD_CMD_SET_ENVIRONMENT :: u8 where "OPENPCD_CMD_SET_ENVIRONMENT \<equiv> 0x06"
abbreviation (input) OPENPCD_CMD_RESET :: u8 where "OPENPCD_CMD_RESET \<equiv> 0x07"
abbreviation (input) OPENPCD_CMD_WRITE_REG :: u8 where "OPENPCD_CMD_WRITE_REG \<equiv> 0x11"
abbreviation (input) OPENPCD_CMD_WRITE_FIFO :: u8 where "OPENPCD_CMD_WRITE_FIFO \<equiv> 0x12"
abbreviation (input) OPENPCD_CMD_READ_REG :: u8 where "OPENPCD_CMD_READ_REG \<equiv> 0x16"
abbreviation (input) OPENPCD_CMD_READ_FIFO :: u8 where "OPENPCD_CMD_READ_FIFO \<equiv> 0x17"
abbreviation (input) OPENPCD_OUT_EP :: u8 where "OPENPCD_OUT_EP \<equiv> 0x01"
abbreviation (input) OPENPCD_IN_EP :: u8 where "OPENPCD_IN_EP \<equiv> 0x82"

definition openpcd_send_command ::
    "'d usb_ops \<Rightarrow> u8 \<Rightarrow> u8 \<Rightarrow> u8 \<Rightarrow> u16 \<Rightarrow> bytes \<Rightarrow> 'd openpcd_state
       \<Rightarrow> (int \<times> 'd openpcd_state) option" where
  "openpcd_send_command u cmd reg val len data s = do {
     buf \<leftarrow> put_slice (snd_buf s) 0 [cmd, OPENPCD_FLAG_RESPOND, reg, val];
     buf \<leftarrow> (if len \<noteq> 0 then do { d \<leftarrow> get_slice data 0 (unat len); put_slice buf 4 d }
             else Some buf);
     let cur = 4 + len;
     out \<leftarrow> get_slice buf 0 (unat cur);
     let (ret, d) = usb_bulk_write u OPENPCD_OUT_EP out (opcd_dev s);
     Some (ret, s\<lparr>snd_buf := buf, opcd_dev := d\<rparr>) }"

definition openpcd_recv_reply ::
    "'d usb_ops \<Rightarrow> 'd openpcd_state \<Rightarrow> (int \<times> 'd openpcd_state) option" where
  "openpcd_recv_reply u s = do {
     let (ret, inp, d) = usb_bulk_read u OPENPCD_IN_EP SENDBUF_LEN (opcd_dev s);
     buf \<leftarrow> put_slice (rcv_buf s) 0 inp;
     Some (ret, s\<lparr>rcv_buf := buf, opcd_dev := d\<rparr>) }"

definition openpcd_xcv ::
    "'d usb_ops \<Rightarrow> u8 \<Rightarrow> u8 \<Rightarrow> u8 \<Rightarrow> u16 \<Rightarrow> bytes \<Rightarrow> 'd openpcd_state
       \<Rightarrow> (int \<times> 'd openpcd_state) option" where
  "openpcd_xcv u cmd reg val len data s = do {
     (ret, s) \<leftarrow> openpcd_send_command u cmd reg val len data s;
     if ret < 0 then Some (ret, s)
     else if ret < 4 then Some (- EINVAL, s)
     else openpcd_recv_reply u s }"

definition opcd_usb_ids :: "(u16 \<times> u16) list" where
  "opcd_usb_ids = [(0x2342, 0x0001), (0x16c0, 0x076b)]"

definition find_opcd_device :: "(u16 \<times> u16) list list \<Rightarrow> (u16 \<times> u16) option" where
  "find_opcd_device busses = find (\<lambda>dev. dev \<in> set opcd_usb_ids) (concat busses)"

definition openpcd_reg_write ::
    "'d usb_ops \<Rightarrow> u8 \<Rightarrow> u8 \<Rightarrow> 'd openpcd_state \<Rightarrow> (int \<times> 'd openpcd_state) option" where
  "openpcd_reg_write u reg value s = openpcd_xcv u OPENPCD_CMD_WRITE_REG reg value 0 [] s"

text \<open>A reply shorter than the header is returned as its length, without storing a value.\<close>

definition openpcd_reg_read ::
    "'d usb_ops \<Rightarrow> u8 \<Rightarrow> 'd openpcd_state \<Rightarrow> (int \<times> u8 option \<times> 'd openpcd_state) option" where
  "openpcd_reg_read u reg s = do {
     (ret, s) \<leftarrow> openpcd_xcv u OPENPCD_CMD_READ_REG reg 0 0 [] s;
     if ret < 0 then Some (ret, None, s)
     else if ret < 4 then Some (ret, None, s)
     else do {
       v \<leftarrow> get_at (rcv_buf s) 3;
       Some (ret, Some v, s) } }"

text \<open>The copy is as long as the reply says, whatever was asked for.\<close>

definition openpcd_copy_reply ::
    "int \<Rightarrow> bytes \<Rightarrow> 'd openpcd_state \<Rightarrow> (int \<times> bytes \<times> 'd openpcd_state) option" where
  "openpcd_copy_reply ret buf s =
     (if ret < 4 then None
      else do {
        d \<leftarrow> get_slice (rcv_buf s) 4 (nat (ret - 4));
        buf \<leftarrow> put_slice buf 0 d;
        Some (ret, buf, s) })"

definition openpcd_fifo_read ::
    "'d usb_ops \<Rightarrow> u8 \<Rightarrow> bytes \<Rightarrow> 'd openpcd_state \<Rightarrow> (int \<times> bytes \<times> 'd openpcd_state) option" where
  "openpcd_fifo_read u num_bytes buf s = do {
     (ret, s) \<leftarrow> openpcd_xcv u OPENPCD_CMD_READ_FIFO 0x00 num_bytes 0 [] s;
     if ret < 0 then Some (ret, buf, s) else openpcd_copy_reply ret buf s }"

definition openpcd_fifo_write ::
    "'d usb_ops \<Rightarrow> u8 \<Rightarrow> bytes \<Rightarrow> u8 \<Rightarrow> 'd openpcd_state \<Rightarrow> (int \<times> 'd openpcd_state) option" where
  "openpcd_fifo_write u len data flags s =
     openpcd_xcv u OPENPCD_CMD_WRITE_FIFO 0 0 (ucast len) data s"

definition openpcd_rat :: "'d usb_ops \<Rightarrow> 'd openpcd_state rc632_transport" where
  "openpcd_rat u =
     \<lparr>rt_reg_write = openpcd_reg_write u, rt_reg_read = openpcd_reg_read u,
      rt_fifo_write = openpcd_fifo_write u, rt_fifo_read = openpcd_fifo_read u\<rparr>"

definition openpcd_get_api_version ::
    "'d usb_ops \<Rightarrow> 'd openpcd_state \<Rightarrow> (int \<times> u8 option \<times> 'd openpcd_state) option" where
  "openpcd_get_api_version u s = do {
     buf \<leftarrow> put_at (rcv_buf s) 3 0;
     (ret, s) \<leftarrow> openpcd_xcv u OPENPCD_CMD_GET_API_VERSION 0 0 0 [] (s\<lparr>rcv_buf := buf\<rparr>);
     if ret < 0 then Some (ret, None, s)
     else if ret < 4 then Some (- EINVAL, None, s)
     else do {
       v \<leftarrow> get_at (rcv_buf s) 3;
       Some (ret, Some v, s) } }"

definition openpcd_get_environment ::
    "'d usb_ops \<Rightarrow> u8 \<Rightarrow> bytes \<Rightarrow> 'd openpcd_state \<Rightarrow> (int \<times> bytes \<times> 'd openpcd_state) option" where
  "openpcd_get_environment u num_bytes buf s = do {
     (ret, s) \<leftarrow> openpcd_xcv u OPENPCD_CMD_GET_ENVIRONMENT 0x00 num_bytes 0 [] s;
     if ret < 0 then Some (ret, buf, s) else openpcd_copy_reply ret buf s }"

definition openpcd_set_environment ::
    "'d usb_ops \<Rightarrow> u8 \<Rightarrow> bytes \<Rightarrow> 'd openpcd_state \<Rightarrow> (int \<times> 'd openpcd_state) option" where
  "openpcd_set_environment u num_bytes buf s = do {
     (ret, s) \<leftarrow> openpcd_xcv u OPENPCD_CMD_SET_ENVIRONMENT 0 0 (ucast num_bytes) buf s;
     if ret < 0 then Some (ret, s)
     else if ret < 4 then Some (- EINVAL, s)
     else do {
       v \<leftarrow> get_at (rcv_buf s) 3;
       Some (uint v, s) } }"

definition openpcd_reset :: "'d usb_ops \<Rightarrow> 'd openpcd_state \<Rightarrow> (int \<times> 'd openpcd_state) option" where
  "openpcd_reset u s = openpcd_xcv u OPENPCD_CMD_RESET 0 0 0 [] s"

definition openpcd_getopt ::
    "'d usb_ops \<Rightarrow> u32 \<Rightarrow> 'd openpcd_state \<Rightarrow> (int \<times> u8 option \<times> 'd openpcd_state) option" where
  "openpcd_getopt u optname s =
     (if optname = RFID_OPT_RDR_FW_VERSION then openpcd_get_api_version u s
      else do { (ret, s) \<leftarrow> rdr_rc632_getopt s; Some (ret, None, s) })"

definition rfid_reader_openpcd :: "'d usb_ops \<Rightarrow> 'd openpcd_state rfid_reader" where
  "rfid_reader_openpcd u = rc632_reader (openpcd_rat u)"

text \<open>The USB part of \<open>openpcd_open\<close>: whether a device is ready to be talked to.\<close>

definition openpcd_usb_setup :: "'d usb_ops \<Rightarrow> 'd \<Rightarrow> bool \<times> 'd" where
  "openpcd_usb_setup u d =
     (let (r, d) = usb_find_busses u d in
      if r < 0 then (False, d) else
      let (r, d) = usb_find_devices u d in
      if r < 0 then (False, d) else
      case find_opcd_device (usb_get_busses u d) of
        None \<Rightarrow> (False, d)
      | Some dev \<Rightarrow>
          let (opened, d) = usb_open u dev d in
          if \<not> opened then (False, d) else
          let (r, d) = usb_set_configuration u d in
          if r < 0 then (False, usb_close u d) else
          let (r, d) = usb_claim_interface u d in
          if r < 0 then (False, usb_close u d) else (True, d))"

definition openpcd_open ::
    "'d usb_ops \<Rightarrow> bool \<Rightarrow> bool \<Rightarrow> bool \<Rightarrow> 'd openpcd_state
       \<Rightarrow> ('d openpcd_state rfid_reader_handle option \<times> 'd openpcd_state) option" where
  "openpcd_open u malloc_rh malloc_rath malloc_ah s =
     (let (ready, d) = openpcd_usb_setup u (opcd_dev s); s = s\<lparr>opcd_dev := d\<rparr> in
      if \<not> ready \<or> \<not> malloc_rh \<or> \<not> malloc_rath then Some (None, s)
      else do {
        (ah, s) \<leftarrow> rc632_open (openpcd_rat u) malloc_ah s;
        case ah of
          None \<Rightarrow> Some (None, s)
        | Some ah \<Rightarrow> Some (Some \<lparr>rh_reader = rfid_reader_openpcd u, rh_ah = ah\<rparr>, s) })"

definition openpcd_close :: "'d usb_ops \<Rightarrow> 'd openpcd_state \<Rightarrow> (unit \<times> 'd openpcd_state) option" where
  "openpcd_close u s = do {
     (_, s) \<leftarrow> rc632_close (openpcd_rat u) s;
     Some ((), s\<lparr>opcd_dev := usb_close u (opcd_dev s)\<rparr>) }"

section \<open>The transport contract\<close>

lemma openpcd_copy_reply_length:
  "openpcd_copy_reply ret buf s = Some (ret', buf', s') \<Longrightarrow> length buf' = length buf"
  by (auto simp: openpcd_copy_reply_def run_simps split: if_splits dest: mem_length)

lemma openpcd_fifo_read_length:
  "openpcd_fifo_read u n buf s = Some (ret, buf', s') \<Longrightarrow> length buf' = length buf"
  by (auto simp: openpcd_fifo_read_def run_simps split: if_splits dest: openpcd_copy_reply_length)

interpretation openpcd: bounded_transport "openpcd_rat u" for u
  by unfold_locales (auto simp: openpcd_rat_def dest: openpcd_fifo_read_length)

section \<open>Registers behind the OpenPCD protocol\<close>

text \<open>
  A device that answers the register commands as the protocol header describes them: the reply
  repeats the command's header, with the register's content as its value.  What the other commands
  do is left to \<open>other\<close>.
\<close>

record 'x opcd_device =
  dev_regs :: "u8 \<Rightarrow> u8"
  dev_reply :: bytes
  dev_rest :: 'x

definition opcd_reg_command ::
    "(bytes \<Rightarrow> 'x opcd_device \<Rightarrow> 'x opcd_device) \<Rightarrow> bytes \<Rightarrow> 'x opcd_device \<Rightarrow> 'x opcd_device" where
  "opcd_reg_command other out d =
     (case out of
        [cmd, flags, reg, val] \<Rightarrow>
          if cmd = OPENPCD_CMD_READ_REG then d\<lparr>dev_reply := [cmd, flags, reg, dev_regs d reg]\<rparr>
          else if cmd = OPENPCD_CMD_WRITE_REG then
            d\<lparr>dev_regs := (dev_regs d)(reg := val), dev_reply := out\<rparr>
          else other out d
      | _ \<Rightarrow> other out d)"

definition opcd_device_usb ::
    "(bytes \<Rightarrow> 'x opcd_device \<Rightarrow> 'x opcd_device) \<Rightarrow> 'x opcd_device usb_ops" where
  "opcd_device_usb other =
     \<lparr>usb_bulk_write = (\<lambda>ep out d. (int (length out), opcd_reg_command other out d)),
      usb_bulk_read = (\<lambda>ep n d. (int (length (take n (dev_reply d))), take n (dev_reply d), d)),
      usb_find_busses = (\<lambda>d. (0, d)), usb_find_devices = (\<lambda>d. (0, d)),
      usb_get_busses = (\<lambda>d. [[(0x16c0, 0x076b)]]), usb_open = (\<lambda>dev d. (True, d)),
      usb_set_configuration = (\<lambda>d. (0, d)), usb_claim_interface = (\<lambda>d. (0, d)),
      usb_close = (\<lambda>d. d)\<rparr>"

text \<open>A command without data and its reply, whatever is behind the bus.\<close>

lemma openpcd_xcv_header:
  assumes "openpcd_xcv u cmd reg val 0 [] s = Some (n, s')"
  obtains d r where "usb_bulk_write u OPENPCD_OUT_EP [cmd, OPENPCD_FLAG_RESPOND, reg, val]
                       (opcd_dev s) = (r, d)"
    and "r < 4 \<Longrightarrow> n < 0 \<and> opcd_dev s' = d"
    and "4 \<le> r \<Longrightarrow> \<exists>inp. usb_bulk_read u OPENPCD_IN_EP SENDBUF_LEN d = (n, inp, opcd_dev s') \<and>
           put_slice (rcv_buf s) 0 inp = Some (rcv_buf s')"
proof -
  obtain r d where rd: "usb_bulk_write u OPENPCD_OUT_EP [cmd, OPENPCD_FLAG_RESPOND, reg, val]
                       (opcd_dev s) = (r, d)" by fastforce
  show thesis
    by (rule that [OF rd])
      (use assms rd in \<open>auto simp: openpcd_xcv_def openpcd_send_command_def openpcd_recv_reply_def
        run_simps Let_def put_slice_def get_slice_def split: if_splits prod.splits\<close>)
qed

lemma opcd_device_xcv:
  assumes "openpcd_xcv (opcd_device_usb other) cmd reg val 0 [] s = Some (n, s')"
    and "cmd = OPENPCD_CMD_READ_REG \<or> cmd = OPENPCD_CMD_WRITE_REG"
  shows "opcd_dev s' = opcd_reg_command other [cmd, OPENPCD_FLAG_RESPOND, reg, val] (opcd_dev s) \<and>
         n = 4 \<and> rcv_buf s' ! 3 = dev_reply (opcd_dev s') ! 3"
proof -
  let ?d = "opcd_reg_command other [cmd, OPENPCD_FLAG_RESPOND, reg, val] (opcd_dev s)"
  have four: "length (dev_reply ?d) = 4"
    using assms(2) by (auto simp: opcd_reg_command_def)
  obtain d r where bus: "usb_bulk_write (opcd_device_usb other) OPENPCD_OUT_EP
        [cmd, OPENPCD_FLAG_RESPOND, reg, val] (opcd_dev s) = (r, d)"
    and reply: "4 \<le> r \<Longrightarrow> \<exists>inp. usb_bulk_read (opcd_device_usb other) OPENPCD_IN_EP SENDBUF_LEN d
           = (n, inp, opcd_dev s') \<and> put_slice (rcv_buf s) 0 inp = Some (rcv_buf s')"
    using openpcd_xcv_header [OF assms(1)] by blast
  have "r = 4" "d = ?d"
    using bus by (simp_all add: opcd_device_usb_def)
  then have "n = 4 \<and> opcd_dev s' = ?d \<and> put_slice (rcv_buf s) 0 (dev_reply ?d) = Some (rcv_buf s')"
    using reply four by (auto simp: opcd_device_usb_def SENDBUF_LEN_def)
  then show ?thesis
    using four put_slice_nth [of "rcv_buf s" "dev_reply ?d" "rcv_buf s'" 3] by simp
qed

interpretation opcd_regs:
  register_transport "openpcd_rat (opcd_device_usb other)" "\<lambda>s. dev_regs (opcd_dev s)" "{r. r < 0x40}"
  for other
proof
  fix r w n v w'
  assume "rt_reg_read (openpcd_rat (opcd_device_usb other)) r w = Some (n, v, w')" "0 \<le> n"
  then show "v = Some (dev_regs (opcd_dev w) r) \<and>
             (\<forall>p \<in> {r. r < 0x40}. dev_regs (opcd_dev w') p = dev_regs (opcd_dev w) p)"
    by (auto simp: openpcd_rat_def openpcd_reg_read_def run_simps opcd_reg_command_def
        split: if_splits dest!: opcd_device_xcv get_at_SomeD)
next
  fix r x w n w' p
  assume "rt_reg_write (openpcd_rat (opcd_device_usb other)) r x w = Some (n, w')"
  then show "dev_regs (opcd_dev w') p = (if p = r then x else dev_regs (opcd_dev w) p)"
    by (auto simp: openpcd_rat_def openpcd_reg_write_def opcd_reg_command_def
        dest!: opcd_device_xcv)
qed simp

end
