(* ===== verification/Reader_Cm5121.thy ===== *)
theory Reader_Cm5121
  imports Rfid_Reader
begin

text \<open>
  The Omnikey CardMan 5121 (\<open>src/rfid_reader_cm5121.c\<close>): RC632 accesses wrapped in CCID escape
  commands.  \<open>PC_to_RDR_Escape\<close>, which one of two back ends provides, is a parameter: it gets the
  command and the size of the receive buffer, and gives its return code and the bytes it stored.
\<close>

section \<open>Model\<close>

type_synonym 'w escape = "bytes \<Rightarrow> nat \<Rightarrow> 'w \<Rightarrow> int \<times> bytes \<times> 'w"

definition Write1ByteToReg :: "'w escape \<Rightarrow> u8 \<Rightarrow> u8 \<Rightarrow> 'w \<Rightarrow> (int \<times> 'w) option" where
  "Write1ByteToReg esc reg value w =
     (let (r, rcv, w) = esc [0x20, 0x00, 0x01, 0x00, 0x00, 0x00, reg, value] 273 w
      in if r = 0 then Some (0, w) else Some (-1, w))"

definition Read1ByteFromReg :: "'w escape \<Rightarrow> u8 \<Rightarrow> 'w \<Rightarrow> (int \<times> u8 option \<times> 'w) option" where
  "Read1ByteFromReg esc reg w =
     (let (r, rcv, w) = esc [0x20, 0x00, 0x00, 0x00, 0x01, 0x00, reg] 273 w
      in if r = 0 then do { v \<leftarrow> get_at rcv 1; Some (0, Some v, w) } else Some (-1, None, w))"

definition ReadNBytesFromFIFO ::
    "'w escape \<Rightarrow> u8 \<Rightarrow> bytes \<Rightarrow> 'w \<Rightarrow> (int \<times> bytes \<times> 'w) option" where
  "ReadNBytesFromFIFO esc num_bytes buf w =
     (let (r, rcv, w) = esc [0x20, 0x00, 0x00, 0x00, num_bytes, 0x00, 0x02] 0x7f w
      in if r = 0 then do {
           d \<leftarrow> get_slice rcv 1 (unat num_bytes);
           buf \<leftarrow> put_slice buf 0 d;
           Some (0, buf, w) }
         else Some (-1, buf, w))"

definition WriteNBytesToFIFO ::
    "'w escape \<Rightarrow> u8 \<Rightarrow> bytes \<Rightarrow> u8 \<Rightarrow> 'w \<Rightarrow> (int \<times> 'w) option" where
  "WriteNBytesToFIFO esc len data flags w = do {
     d \<leftarrow> get_slice data 0 (unat len);
     let (r, rcv, w) = esc ([0x20, 0x00, len, 0x00, 0x00, flags, 0x02] @ d) 0x7f w;
     if r = 0 then Some (0, w) else Some (-1, w) }"

definition cm5121_ccid :: "'w escape \<Rightarrow> 'w rc632_transport" where
  "cm5121_ccid esc =
     \<lparr>rt_reg_write = Write1ByteToReg esc, rt_reg_read = Read1ByteFromReg esc,
      rt_fifo_write = WriteNBytesToFIFO esc, rt_fifo_read = ReadNBytesFromFIFO esc\<rparr>"

definition cm5121_enable_rc632 :: "'w escape \<Rightarrow> 'w \<Rightarrow> int \<times> 'w" where
  "cm5121_enable_rc632 esc w = (let (r, rcv, w) = esc [0x01] 64 w in (0, w))"

definition rfid_reader_cm5121 :: "'w escape \<Rightarrow> 'w rfid_reader" where
  "rfid_reader_cm5121 esc = rc632_reader (cm5121_ccid esc)"

text \<open>\<open>cm5121_source_init\<close>, the back end's initialisation, is a parameter as well.\<close>

definition cm5121_open ::
    "'w escape \<Rightarrow> ('w \<Rightarrow> int \<times> 'w) \<Rightarrow> bool \<Rightarrow> bool \<Rightarrow> bool \<Rightarrow> 'w
       \<Rightarrow> ('w rfid_reader_handle option \<times> 'w) option" where
  "cm5121_open esc source_init malloc_rh malloc_rath malloc_ah w =
     (if \<not> malloc_rh \<or> \<not> malloc_rath then Some (None, w)
      else
        let (r, w) = source_init w in
        if r < 0 then Some (None, w) else
        let (r, w) = cm5121_enable_rc632 esc w in
        if r < 0 then Some (None, w)
        else do {
          (ah, w) \<leftarrow> rc632_open (cm5121_ccid esc) malloc_ah w;
          case ah of
            None \<Rightarrow> Some (None, w)
          | Some ah \<Rightarrow> Some (Some \<lparr>rh_reader = rfid_reader_cm5121 esc, rh_ah = ah\<rparr>, w) })"

definition cm5121_close :: "'w escape \<Rightarrow> 'w \<Rightarrow> (unit \<times> 'w) option" where
  "cm5121_close esc w = rc632_close (cm5121_ccid esc) w"

section \<open>The transport contract\<close>

lemma ReadNBytesFromFIFO_length:
  "ReadNBytesFromFIFO esc n buf w = Some (ret, buf', w') \<Longrightarrow> length buf' = length buf"
  by (auto simp: ReadNBytesFromFIFO_def run_simps Let_def split: if_splits prod.splits
      dest: mem_length)

interpretation cm5121: bounded_transport "cm5121_ccid esc" for esc
  by unfold_locales (auto simp: cm5121_ccid_def dest: ReadNBytesFromFIFO_length)

section \<open>Registers behind the escape commands\<close>

text \<open>
  A back end that serves the two register commands from a register file and leaves the others to
  \<open>other\<close>.  The answer to a read holds the value behind a status byte.
\<close>

definition cm5121_reg_escape ::
    "((u8 \<Rightarrow> u8) \<times> 'x) escape \<Rightarrow> ((u8 \<Rightarrow> u8) \<times> 'x) escape" where
  "cm5121_reg_escape other cmd n w =
     (if cmd = [0x20, 0x00, 0x01, 0x00, 0x00, 0x00, cmd ! 6, cmd ! 7]
      then (0, [0], ((fst w)(cmd ! 6 := cmd ! 7), snd w))
      else if cmd = [0x20, 0x00, 0x00, 0x00, 0x01, 0x00, cmd ! 6]
      then (0, [0, fst w (cmd ! 6)], w)
      else other cmd n w)"

interpretation cm5121_regs:
  register_transport "cm5121_ccid (cm5121_reg_escape other)" fst "{r. r < 0x40}" for other
  by unfold_locales
    (auto simp: cm5121_ccid_def cm5121_reg_escape_def Read1ByteFromReg_def Write1ByteToReg_def)

end
