(* ===== verification/Reader_Spidev.thy ===== *)
theory Reader_Spidev
  imports Rfid_Reader
begin

text \<open>
  The reader on a Linux SPI bus (\<open>src/rfid_reader_spidev.c\<close>): an RC632 register access is an address
  byte followed by data in one full-duplex transfer.

  The kernel's \<open>spidev\<close> device is a parameter.  A transfer gets the bytes to send and gives the return
  code of \<open>ioctl\<close> and the bytes that came back; the configuration calls of \<open>spidev_open\<close> give their
  return codes.  The file's two static buffers are part of the state.
\<close>

section \<open>Model\<close>

record 'd spi_ops =
  spi_message :: "bytes \<Rightarrow> 'd \<Rightarrow> int \<times> bytes \<times> 'd"
  spi_open :: "'d \<Rightarrow> int \<times> 'd"
  spi_wr_mode :: "u32 \<Rightarrow> 'd \<Rightarrow> int \<times> 'd"
  spi_wr_lsb_first :: "u32 \<Rightarrow> 'd \<Rightarrow> int \<times> 'd"
  spi_wr_bits_per_word :: "u32 \<Rightarrow> 'd \<Rightarrow> int \<times> 'd"
  spi_wr_max_speed_hz :: "u32 \<Rightarrow> 'd \<Rightarrow> int \<times> 'd"
  spi_close :: "'d \<Rightarrow> 'd"

record 'd spidev_state =
  spi_snd_buf :: bytes
  spi_rcv_buf :: bytes
  spi_dev :: 'd

text \<open>The end of a read: the answer is behind the byte that came in with the address.\<close>

definition spidev_read_reply ::
    "int \<Rightarrow> u8 \<Rightarrow> bytes \<Rightarrow> 'd spidev_state \<Rightarrow> (int \<times> bytes \<times> 'd spidev_state) option" where
  "spidev_read_reply ret len buf s =
     (if ret < 0 then Some (ret, buf, s)
      else if ret \<noteq> uint len + 1 then Some (- EINVAL, buf, s)
      else do {
        bs \<leftarrow> get_slice (spi_rcv_buf s) 1 (unat len);
        buf \<leftarrow> put_slice buf 0 bs;
        Some (uint len, buf, s) })"

definition spidev_read ::
    "'d spi_ops \<Rightarrow> u8 \<Rightarrow> u8 \<Rightarrow> bytes \<Rightarrow> 'd spidev_state \<Rightarrow> (int \<times> bytes \<times> 'd spidev_state) option" where
  "spidev_read u reg len buf s =
     (if len = 0 then Some (- EINVAL, buf, s)
      else do {
        snd \<leftarrow> put_at (spi_snd_buf s) 0 (push_bit 1 reg OR 0x80);
        snd \<leftarrow> (if len > 1 then put_slice snd 1 (replicate (unat len - 1) (push_bit 1 reg))
                else Some snd);
        snd \<leftarrow> put_at snd (unat len) 0;
        out \<leftarrow> get_slice snd 0 (unat len + 1);
        let (ret, inp, d) = spi_message u out (spi_dev s);
        rcv \<leftarrow> put_slice (spi_rcv_buf s) 0 inp;
        spidev_read_reply ret len buf
          (s\<lparr>spi_snd_buf := snd, spi_rcv_buf := rcv, spi_dev := d\<rparr>) })"

text \<open>The receive buffer of a write transfer is a null pointer: what comes back is dropped.\<close>

definition spidev_write ::
    "'d spi_ops \<Rightarrow> u8 \<Rightarrow> u8 \<Rightarrow> bytes \<Rightarrow> 'd spidev_state \<Rightarrow> (int \<times> 'd spidev_state) option" where
  "spidev_write u reg len buf s =
     (if len = 0 then Some (- EINVAL, s)
      else do {
        snd \<leftarrow> put_at (spi_snd_buf s) 0 (push_bit 1 reg AND 0x7e);
        bs \<leftarrow> get_slice buf 0 (unat len);
        snd \<leftarrow> put_slice snd 1 bs;
        out \<leftarrow> get_slice snd 0 (unat len + 1);
        let (ret, inp, d) = spi_message u out (spi_dev s);
        let s = s\<lparr>spi_snd_buf := snd, spi_dev := d\<rparr>;
        if ret < 0 then Some (ret, s)
        else if ret \<noteq> uint len + 1 then Some (- EINVAL, s)
        else Some (uint len, s) })"

definition spidev_reg_read ::
    "'d spi_ops \<Rightarrow> u8 \<Rightarrow> 'd spidev_state \<Rightarrow> (int \<times> u8 option \<times> 'd spidev_state) option" where
  "spidev_reg_read u reg s = do {
     (ret, value, s) \<leftarrow> spidev_read u reg 1 [0] s;
     if ret < 0 then Some (ret, None, s)
     else do { v \<leftarrow> get_at value 0; Some (1, Some v, s) } }"

definition spidev_reg_write ::
    "'d spi_ops \<Rightarrow> u8 \<Rightarrow> u8 \<Rightarrow> 'd spidev_state \<Rightarrow> (int \<times> 'd spidev_state) option" where
  "spidev_reg_write u reg value s = do {
     (ret, s) \<leftarrow> spidev_write u reg 1 [value] s;
     if ret < 0 then Some (ret, s) else Some (1, s) }"

definition spidev_fifo_read ::
    "'d spi_ops \<Rightarrow> u8 \<Rightarrow> bytes \<Rightarrow> 'd spidev_state \<Rightarrow> (int \<times> bytes \<times> 'd spidev_state) option" where
  "spidev_fifo_read u len buf s = do {
     (ret, buf, s) \<leftarrow> spidev_read u 2 len buf s;
     if ret < 0 then Some (ret, buf, s) else Some (uint len, buf, s) }"

definition spidev_fifo_write ::
    "'d spi_ops \<Rightarrow> u8 \<Rightarrow> bytes \<Rightarrow> u8 \<Rightarrow> 'd spidev_state \<Rightarrow> (int \<times> 'd spidev_state) option" where
  "spidev_fifo_write u len buf flags s = do {
     (ret, s) \<leftarrow> spidev_write u 2 len buf s;
     if ret < 0 then Some (ret, s) else Some (uint len, s) }"

definition spidev_spi :: "'d spi_ops \<Rightarrow> 'd spidev_state rc632_transport" where
  "spidev_spi u =
     \<lparr>rt_reg_write = spidev_reg_write u, rt_reg_read = spidev_reg_read u,
      rt_fifo_write = spidev_fifo_write u, rt_fifo_read = spidev_fifo_read u\<rparr>"

definition rfid_reader_spidev :: "'d spi_ops \<Rightarrow> 'd spidev_state rfid_reader" where
  "rfid_reader_spidev u = rc632_reader (spidev_spi u)"

text \<open>The four configuration calls of \<open>spidev_open\<close>, in order, up to the first that fails.\<close>

definition spidev_configure :: "'d spi_ops \<Rightarrow> 'd \<Rightarrow> bool \<times> 'd" where
  "spidev_configure u d =
     (let (r, d) = spi_wr_mode u 0 d in
      if r < 0 then (False, d) else
      let (r, d) = spi_wr_lsb_first u 0 d in
      if r < 0 then (False, d) else
      let (r, d) = spi_wr_bits_per_word u 8 d in
      if r < 0 then (False, d) else
      let (r, d) = spi_wr_max_speed_hz u 1000000 d in
      (0 \<le> r, d))"

text \<open>
  \<open>name_given\<close> is whether the argument, the name of the device, is not null.  Every failure after the
  device was opened closes it again.
\<close>

definition spidev_open ::
    "'d spi_ops \<Rightarrow> bool \<Rightarrow> bool \<Rightarrow> bool \<Rightarrow> bool \<Rightarrow> 'd spidev_state
       \<Rightarrow> ('d spidev_state rfid_reader_handle option \<times> 'd spidev_state) option" where
  "spidev_open u name_given malloc_rh malloc_rath malloc_ah s =
     (let fail = (\<lambda>s. Some (None, s\<lparr>spi_dev := spi_close u (spi_dev s)\<rparr>)) in
      if \<not> name_given then Some (None, s) else
      let (fd, d) = spi_open u (spi_dev s); s = s\<lparr>spi_dev := d\<rparr> in
      if fd < 0 then Some (None, s)
      else if \<not> malloc_rh \<or> \<not> malloc_rath then fail s
      else
        let (ok, d) = spidev_configure u (spi_dev s); s = s\<lparr>spi_dev := d\<rparr> in
        if \<not> ok then fail s
        else do {
          (ah, s) \<leftarrow> rc632_open (spidev_spi u) malloc_ah s;
          case ah of
            None \<Rightarrow> fail s
          | Some ah \<Rightarrow> Some (Some \<lparr>rh_reader = rfid_reader_spidev u, rh_ah = ah\<rparr>, s) })"

text \<open>\<open>fd\<close> is the file's static descriptor.\<close>

definition spidev_close :: "'d spi_ops \<Rightarrow> int \<Rightarrow> 'd spidev_state \<Rightarrow> (unit \<times> 'd spidev_state) option" where
  "spidev_close u fd s = do {
     (_, s) \<leftarrow> rc632_close (spidev_spi u) s;
     Some ((), if fd > 0 then s\<lparr>spi_dev := spi_close u (spi_dev s)\<rparr> else s) }"

section \<open>The transport contract\<close>

lemma spidev_read_reply_length:
  "spidev_read_reply ret len buf s = Some (ret', buf', s') \<Longrightarrow> length buf' = length buf"
  by (auto simp: spidev_read_reply_def run_simps split: if_splits dest: mem_length)

lemma spidev_read_length:
  "spidev_read u reg len buf s = Some (ret, buf', s') \<Longrightarrow> length buf' = length buf"
  by (auto simp: spidev_read_def run_simps Let_def split_beta split: if_splits
      dest: spidev_read_reply_length)

lemma spidev_fifo_read_length:
  "spidev_fifo_read u len buf s = Some (ret, buf', s') \<Longrightarrow> length buf' = length buf"
  by (auto simp: spidev_fifo_read_def run_simps split: if_splits dest: spidev_read_length)

interpretation spidev: bounded_transport "spidev_spi u" for u
  by unfold_locales (auto simp: spidev_spi_def dest: spidev_fifo_read_length)

section \<open>Registers on the bus\<close>

text \<open>
  A chip that decodes the address byte as the RC632's SPI interface does: bit 7 selects reading, the
  six bits below it the register.  Only transfers of two bytes are register accesses, the others are
  left to \<open>other\<close>.
\<close>

definition spi_addr :: "u8 \<Rightarrow> u8" where
  "spi_addr b = drop_bit 1 b AND 0x3f"

definition spi_reg_message ::
    "(bytes \<Rightarrow> (u8 \<Rightarrow> u8) \<times> 'x \<Rightarrow> int \<times> bytes \<times> ((u8 \<Rightarrow> u8) \<times> 'x))
       \<Rightarrow> bytes \<Rightarrow> (u8 \<Rightarrow> u8) \<times> 'x \<Rightarrow> int \<times> bytes \<times> ((u8 \<Rightarrow> u8) \<times> 'x)" where
  "spi_reg_message other out d =
     (case out of
        [a, v] \<Rightarrow> (if bit a 7 then (2, [0, fst d (spi_addr a)], d)
                   else (2, [0, 0], ((fst d)(spi_addr a := v), snd d)))
      | _ \<Rightarrow> other out d)"

definition spi_reg_ops ::
    "(bytes \<Rightarrow> (u8 \<Rightarrow> u8) \<times> 'x \<Rightarrow> int \<times> bytes \<times> ((u8 \<Rightarrow> u8) \<times> 'x)) \<Rightarrow> ((u8 \<Rightarrow> u8) \<times> 'x) spi_ops" where
  "spi_reg_ops other =
     \<lparr>spi_message = spi_reg_message other, spi_open = (\<lambda>d. (3, d)), spi_wr_mode = (\<lambda>_ d. (0, d)),
      spi_wr_lsb_first = (\<lambda>_ d. (0, d)), spi_wr_bits_per_word = (\<lambda>_ d. (0, d)),
      spi_wr_max_speed_hz = (\<lambda>_ d. (0, d)), spi_close = (\<lambda>d. d)\<rparr>"

lemma u8_below_64: "r < (0x40 :: u8) \<Longrightarrow> unat r < 64"
  by (simp add: word_less_nat_alt)

lemma spi_addr_read:
  assumes "r < 0x40"
  shows "spi_addr (push_bit 1 r OR 0x80) = r \<and> bit (push_bit 1 r OR 0x80) 7"
  by (rule u8_below [OF u8_below_64 [OF assms]]) code_simp

lemma spi_addr_write:
  assumes "r < 0x40"
  shows "spi_addr (push_bit 1 r AND 0x7e) = r \<and> \<not> bit (push_bit 1 r AND 0x7e) 7"
  by (rule u8_below [OF u8_below_64 [OF assms]]) code_simp

text \<open>Transfers of one byte of data, whatever is on the bus.\<close>

lemma spidev_read_reply_one:
  assumes "spidev_read_reply ret 1 [z] s = Some (n, b, s')" "0 \<le> n"
  shows "ret = 2 \<and> s' = s \<and> b = [spi_rcv_buf s ! 1]"
proof -
  have "take (Suc 0) (drop (Suc 0) xs) = [xs ! 1]" if "Suc (Suc 0) \<le> length xs" for xs :: bytes
    using that by (simp add: take_Suc_conv_app_nth)
  then show ?thesis
    using assms
    by (auto simp: spidev_read_reply_def run_simps get_slice_def put_slice_def split: if_splits)
qed

lemma spidev_read_one:
  assumes "spidev_read u reg 1 [z] s = Some (n, b, s')" "0 \<le> n"
  shows "\<exists>inp. spi_message u [push_bit 1 reg OR 0x80, 0] (spi_dev s) = (2, inp, spi_dev s') \<and>
           put_slice (spi_rcv_buf s) 0 inp = Some (spi_rcv_buf s') \<and> b = [spi_rcv_buf s' ! 1]"
proof -
  obtain x y rest where buf: "spi_snd_buf s = x # y # rest"
    using assms(1) by (cases "spi_snd_buf s" rule: remdups_adj.cases)
      (auto simp: spidev_read_def run_simps mem_defs)
  obtain ret inp d where msg: "spi_message u [push_bit 1 reg OR 0x80, 0] (spi_dev s) = (ret, inp, d)"
    by (metis prod_cases3)
  show ?thesis
    using assms msg
    by (auto simp: spidev_read_def buf run_simps put_at_def get_slice_def dest!: spidev_read_reply_one)
qed

lemma spidev_write_one:
  assumes "spidev_write u reg 1 [v] s = Some (n, s')" "0 \<le> n"
  shows "\<exists>inp. spi_message u [push_bit 1 reg AND 0x7e, v] (spi_dev s) = (2, inp, spi_dev s')"
proof -
  obtain x y rest where buf: "spi_snd_buf s = x # y # rest"
    using assms(1) by (cases "spi_snd_buf s" rule: remdups_adj.cases)
      (auto simp: spidev_write_def run_simps mem_defs)
  obtain ret inp d where msg: "spi_message u [push_bit 1 reg AND 0x7e, v] (spi_dev s) = (ret, inp, d)"
    by (metis prod_cases3)
  show ?thesis
    using assms msg
    by (auto simp: spidev_write_def buf run_simps mem_defs Let_def split: if_splits)
qed

interpretation spidev_regs:
  register_transport "spidev_spi (spi_reg_ops other)" "\<lambda>s. fst (spi_dev s)" "{r. r < 0x40}" for other
proof
  fix r w n v w'
  assume r: "r \<in> {r. r < 0x40}"
    and "rt_reg_read (spidev_spi (spi_reg_ops other)) r w = Some (n, v, w')" "0 \<le> n"
  then obtain k b where rd: "spidev_read (spi_reg_ops other) r 1 [0] w = Some (k, b, w')" "0 \<le> k"
      "v = Some (b ! 0)"
    by (auto simp: spidev_spi_def spidev_reg_read_def run_simps split: if_splits dest!: get_at_SomeD)
  from spidev_read_one [OF rd(1,2)] spi_addr_read [of r] r
  have "spi_dev w' = spi_dev w" "put_slice (spi_rcv_buf w) 0 [0, fst (spi_dev w) r] = Some (spi_rcv_buf w')"
      "b = [spi_rcv_buf w' ! 1]"
    by (auto simp: spi_reg_ops_def spi_reg_message_def simp del: push_bit_of_1)
  then show "v = Some (fst (spi_dev w) r) \<and>
             (\<forall>p \<in> {r. r < 0x40}. fst (spi_dev w') p = fst (spi_dev w) p)"
    using rd(3) put_slice_nth [of "spi_rcv_buf w" "[0, fst (spi_dev w) r]" "spi_rcv_buf w'" 1] by simp
next
  fix r x w n w' p
  assume r: "r < 0x40"
    and "rt_reg_write (spidev_spi (spi_reg_ops other)) r x w = Some (n, w')" "0 \<le> n"
  then obtain k where wr: "spidev_write (spi_reg_ops other) r 1 [x] w = Some (k, w')" "0 \<le> k"
    by (auto simp: spidev_spi_def spidev_reg_write_def run_simps split: if_splits)
  from spidev_write_one [OF wr] spi_addr_write [OF r]
  have "spi_dev w' = ((fst (spi_dev w))(r := x), snd (spi_dev w))"
    by (auto simp: spi_reg_ops_def spi_reg_message_def)
  then show "fst (spi_dev w') p = (if p = r then x else fst (spi_dev w) p)"
    by simp
qed simp

end
