(* ===== verification/Proto_Icode.thy ===== *)
theory Proto_Icode
  imports Proto_Mifare_Ul
begin

text \<open>
  The I*Code SLI protocol (\<open>src/rfid_proto_icode.c\<close>).  It is a stub: reading and writing return an
  error, the size is a constant, and the protocol table of the library has no entry for it.
\<close>

definition icode_read :: "bytes \<Rightarrow> u32 \<Rightarrow> 'w \<Rightarrow> (int \<times> bytes \<times> u32 \<times> 'w) option" where
  "icode_read rx_data rx_len w = Some (- EINVAL, rx_data, rx_len, w)"

definition icode_write :: "'w \<Rightarrow> (int \<times> 'w) option" where
  "icode_write w = Some (- EINVAL, w)"

definition icode_getopt :: "u32 \<Rightarrow> u32 \<Rightarrow> int \<times> bytes option \<times> u32" where
  "icode_getopt optname optlen =
     (if optname = RFID_OPT_PROTO_SIZE then (0, Some (u32_le_bytes 12345), optlen)
      else (- EINVAL, None, optlen))"

text \<open>\<open>uid\<close> is the uninitialised local of six bytes; the result is whether a handle is returned.\<close>

definition icode_init :: "bytes \<Rightarrow> rfid_layer2_handle \<Rightarrow> bool \<Rightarrow> bool option" where
  "icode_init uid l2h malloc_ok =
     (if l2_id l2h \<noteq> RFID_LAYER2_ICODE1 then Some False
      else do {
        uid \<leftarrow> getopt_into l2h RFID_OPT_LAYER2_UID uid;
        u5 \<leftarrow> get_at uid 5;
        u4 \<leftarrow> get_at uid 4;
        if u5 \<noteq> 0xe0 \<or> u4 \<noteq> 0x07 then Some False
        else if l2_uid_len l2h \<noteq> 6 then Some False
        else Some malloc_ok })"

end
