(* ===== verification/Rfid_Hex.thy ===== *)
theory Rfid_Hex
  imports Rfid_Prelude
begin

text \<open>
  Hexadecimal text: the dump of bytes that the library and the tools print (\<open>rfid_hexdump\<close> of
  \<open>src/rfid.c\<close> and its copy in \<open>utils/common.c\<close>) and the reader of hexadecimal arguments
  (\<open>hexread\<close>).  Characters are their ASCII codes.
\<close>

section \<open>Model\<close>

definition hex_digit :: "u8 \<Rightarrow> u8" where
  "hex_digit n = (if n < 10 then 0x30 + n else 0x57 + n)"

text \<open>The two characters of the conversion \<open>%02x\<close>.\<close>

definition hex2 :: "u8 \<Rightarrow> bytes" where
  "hex2 b = [hex_digit (drop_bit 4 b), hex_digit (b AND 0x0f)]"

text \<open>
  The loop over the bytes: \<open>i\<close> is where the next conversion goes; \<open>snprintf\<close> writes three characters
  and the terminating zero.
\<close>

fun hexdump_from :: "bytes \<Rightarrow> nat \<Rightarrow> bytes \<Rightarrow> nat \<Rightarrow> bytes option" where
  "hexdump_from string i d 0 = Some string"
| "hexdump_from string i d (Suc len) =
     (if i \<ge> 1024 - 4 then Some string
      else do {
        b \<leftarrow> get_at d 0;
        string \<leftarrow> put_slice string i ([0x20] @ hex2 b @ [0]);
        hexdump_from string (i + 3) (tl d) len })"

text \<open>\<open>string\<close> is the static buffer, which keeps its content between two calls.\<close>

definition rfid_hexdump :: "bytes \<Rightarrow> bytes \<Rightarrow> u32 \<Rightarrow> bytes option" where
  "rfid_hexdump string data len = do {
     string \<leftarrow> put_at string 0 0;
     hexdump_from string 0 data (unat len) }"

definition hexdump :: "bytes \<Rightarrow> bytes \<Rightarrow> u32 \<Rightarrow> bytes option" where
  "hexdump string data len = do {
     string \<leftarrow> put_at string 0 0;
     hexdump_from string 0 data (unat len) }"

text \<open>The characters are signed in C; codes from 128 on are negative and fail every comparison.\<close>

definition parse_hexdigit :: "u8 \<Rightarrow> u8" where
  "parse_hexdigit c =
     (if c \<le> 0x39 \<and> 0x30 \<le> c then c - 0x30
      else if c \<le> 0x66 \<and> 0x61 \<le> c then 10 + (c - 0x61)
      else if c \<le> 0x46 \<and> 0x41 \<le> c then 10 + (c - 0x41)
      else 0)"

text \<open>
  \<open>pos\<close> and \<open>res\<close> are the offsets into the text and the result.  The difference of the pointers is
  compared with the unsigned \<open>len - 2\<close>, which is huge for a length below two: the loop then runs out
  of the text.
\<close>

partial_function (option) hexread_from ::
    "bytes \<Rightarrow> bytes \<Rightarrow> u32 \<Rightarrow> nat \<Rightarrow> nat \<Rightarrow> (int \<times> bytes) option" where
  "hexread_from result inp len pos res =
     (if pos \<le> unat (len - 2) then do {
        c \<leftarrow> get_at inp pos;
        let pos = (if c = 0x3a then pos + 1 else pos);
        dig1 \<leftarrow> get_at inp pos;
        dig2 \<leftarrow> get_at inp (pos + 1);
        result \<leftarrow> put_at result res (push_bit 4 (parse_hexdigit dig1) OR parse_hexdigit dig2);
        hexread_from result inp len (pos + 2) (res + 1) }
      else Some (int res, result))"

declare hexread_from.simps [code]

definition hexread :: "bytes \<Rightarrow> bytes \<Rightarrow> u32 \<Rightarrow> (int \<times> bytes) option" where
  "hexread result inp len = hexread_from result inp len 0 0"

section \<open>Dumps\<close>

text \<open>A C string in a buffer.\<close>

definition c_string :: "bytes \<Rightarrow> bytes" where
  "c_string s = takeWhile (\<lambda>c. c \<noteq> 0) s"

definition hex_dump_text :: "bytes \<Rightarrow> bytes" where
  "hex_dump_text bs = concat (map (\<lambda>b. 0x20 # hex2 b) bs)"

lemma nibbles:
  "unat (drop_bit 4 (b :: u8)) < 16" "unat (b AND 0x0f) < 16"
proof -
  show "unat (drop_bit 4 b) < 16"
    using unat_u8_less [of b] by (simp add: unat_drop_bit_eq drop_bit_nat_def)
  show "unat (b AND 0x0f) < 16"
    using word_and_le1 [of b "0x0f"] by (simp add: word_le_nat_alt)
qed

lemma nibbles_join: "push_bit 4 (drop_bit 4 b) OR (b AND 0x0f) = (b :: u8)"
  by (rule bit_word_eqI) (auto simp: bit_simps bit_nibble)

lemma hex_digit_props:
  assumes "unat (n :: u8) < 16"
  shows "hex_digit n \<noteq> 0 \<and> hex_digit n \<noteq> 0x3a \<and> parse_hexdigit (hex_digit n) = n"
  by (rule u8_below [OF assms]) code_simp

lemma hex2_nonzero: "0 \<notin> set (hex2 b)"
  using hex_digit_props nibbles [of b] by (auto simp: hex2_def)

lemma length_hex2 [simp]: "length (hex2 b) = 2"
  by (simp add: hex2_def)

lemma dump_text_nonzero: "0 \<notin> set (hex_dump_text bs)"
  using hex2_nonzero by (auto simp: hex_dump_text_def)

lemma length_dump_text [simp]: "length (hex_dump_text bs) = 3 * length bs"
  by (induction bs) (simp_all add: hex_dump_text_def)

lemma dump_text_snoc: "hex_dump_text (xs @ [b]) = hex_dump_text xs @ [0x20] @ hex2 b"
  by (simp add: hex_dump_text_def)

lemma c_string_prefix: "0 \<notin> set xs \<Longrightarrow> c_string (xs @ 0 # ys) = xs"
  by (induction xs) (auto simp: c_string_def)

text \<open>The loop with \<open>pre\<close> already written: its text with the zero behind it starts the buffer.\<close>

lemma hexdump_from_text:
  assumes "length rest = 1023 - 3 * length pre" "3 * length pre \<le> 1020" "n \<le> length d"
  shows "\<exists>rest'. hexdump_from (hex_dump_text pre @ 0 # rest) (3 * length pre) d n =
           Some (hex_dump_text (pre @ take (min n (340 - length pre)) d) @ 0 # rest') \<and>
           length rest' = 1023 - 3 * length (pre @ take (min n (340 - length pre)) d)"
  using assms
proof (induction n arbitrary: pre rest d)
  case (Suc n)
  show ?case
  proof (cases "3 * length pre = 1020")
    case True
    then show ?thesis using Suc.prems by simp
  next
    case False
    then have l: "length pre < 340" using Suc.prems(2) by simp
    obtain b d' where d: "d = b # d'" using Suc.prems(3) by (cases d) auto
    have "put_slice (hex_dump_text pre @ 0 # rest) (3 * length pre) ([0x20] @ hex2 b @ [0]) =
        Some (hex_dump_text (pre @ [b]) @ 0 # drop 3 rest)"
      using l Suc.prems(1) by (simp add: put_slice_def dump_text_snoc)
    moreover have "min (Suc n) (340 - length pre) = Suc (min n (340 - length (pre @ [b])))"
      using l by simp
    moreover have "\<exists>rest'. hexdump_from (hex_dump_text (pre @ [b]) @ 0 # drop 3 rest)
        (3 * length (pre @ [b])) d' n =
          Some (hex_dump_text ((pre @ [b]) @ take (min n (340 - length (pre @ [b]))) d') @ 0 # rest') \<and>
        length rest' = 1023 - 3 * length ((pre @ [b]) @ take (min n (340 - length (pre @ [b]))) d')"
      using l Suc.prems d by (intro Suc.IH) auto
    ultimately show ?thesis using l d by (simp add: add.commute)
  qed
qed simp

lemma hexdump_run:
  assumes "length string = 1024" "unat len \<le> length data"
  shows "\<exists>s. hexdump string data len = Some s \<and> rfid_hexdump string data len = Some s \<and>
           length s = 1024 \<and> c_string s = hex_dump_text (take (min (unat len) 340) data)"
proof -
  obtain c cs where s: "string = c # cs" "length cs = 1023" using assms(1) by (cases string) auto
  then have "put_at string 0 0 = Some (0 # cs)" by (simp add: put_at_def)
  moreover obtain rest where "hexdump_from (0 # cs) 0 data (unat len) =
      Some (hex_dump_text (take (min (unat len) 340) data) @ 0 # rest)"
      "length rest = 1023 - 3 * length (take (min (unat len) 340) data)"
    using hexdump_from_text [of cs "[]" "unat len" data] s(2) assms(2) by (auto simp: hex_dump_text_def)
  ultimately show ?thesis
    by (auto simp: hexdump_def rfid_hexdump_def c_string_prefix [OF dump_text_nonzero])
qed

text \<open>
  C39: the hexadecimal dump of any number of bytes stays within its buffer of 1024 characters and is
  a terminated text of the first 340 bytes at most, three characters for each.\<close>

theorem hexdump_text:
  assumes "length string = 1024" "unat len \<le> length data"
  shows "\<exists>s. hexdump string data len = Some s \<and> rfid_hexdump string data len = Some s \<and>
           length s = 1024 \<and> c_string s = hex_dump_text (take (min (unat len) 340) data)"
  using assms by (rule hexdump_run)

theorem hexdump_text_witness:
  "\<exists>s. hexdump (replicate 1024 0) [0xa1, 0x0f] 2 = Some s \<and>
     c_string s = hex_dump_text [0xa1, 0x0f]"
  using hexdump_text [of "replicate 1024 0" 2 "[0xa1, 0x0f]"] by auto

section \<open>Reading\<close>

text \<open>Bytes in hexadecimal, each with or without a colon in front of it.\<close>

definition hex_tuples :: "(bool \<times> u8) list \<Rightarrow> bytes" where
  "hex_tuples ts = concat (map (\<lambda>(colon, b). (if colon then [0x3a] else []) @ hex2 b) ts)"

lemma hex_tuples_Cons:
  "hex_tuples ((colon, b) # ts) = (if colon then [0x3a] else []) @ hex2 b @ hex_tuples ts"
  by (simp add: hex_tuples_def)

lemma hexread_from_tuples:
  assumes "unat (len - 2) + 2 = length pre + length (hex_tuples ts)" "res \<le> length result"
  shows "hexread_from result (pre @ hex_tuples ts @ post) len (length pre) res =
           (if res + length ts \<le> length result
            then Some (int (res + length ts), take res result @ map snd ts @ drop (res + length ts) result)
            else None)"
  using assms
proof (induction ts arbitrary: pre res result)
  case Nil
  then show ?case by (subst hexread_from.simps) (simp add: hex_tuples_def)
next
  case (Cons t ts)
  obtain colon b where t: "t = (colon, b)" by (cases t)
  define col where "col = (if colon then [0x3a :: u8] else [])"
  define inp where "inp = pre @ hex_tuples (t # ts) @ post"
  have inp: "inp = (pre @ col @ hex2 b) @ hex_tuples ts @ post"
    by (simp add: inp_def t hex_tuples_Cons col_def)
  have col: "length col = of_bool colon" by (simp add: col_def)
  have d1: "hex_digit (drop_bit 4 b) \<noteq> 0x3a" "parse_hexdigit (hex_digit (drop_bit 4 b)) = drop_bit 4 b"
    "parse_hexdigit (hex_digit (b AND 0x0f)) = b AND 0x0f"
    using hex_digit_props nibbles [of b] by auto
  have at: "get_at inp (length pre) = Some (if colon then 0x3a else hex_digit (drop_bit 4 b))"
    "get_at inp (length pre + of_bool colon) = Some (hex_digit (drop_bit 4 b))"
    "get_at inp (length pre + of_bool colon + 1) = Some (hex_digit (b AND 0x0f))"
    by (auto simp: inp col_def hex2_def get_at_def nth_append)
  have step: "length pre \<le> unat (len - 2)"
    using Cons.prems(1) by (simp add: t hex_tuples_Cons)
  let ?result = "take res result @ b # drop (Suc res) result"
  have put: "put_at result res b = (if res < length result then Some ?result else None)"
    by (simp add: put_at_def upd_conv_take_nth_drop)
  have run: "hexread_from result inp len (length pre) res =
      (if res < length result
       then hexread_from ?result inp len (length (pre @ col @ hex2 b)) (res + 1) else None)"
    using step at d1 put
    by (subst hexread_from.simps) (cases colon; simp add: nibbles_join col)
  show ?case
  proof (cases "res < length result")
    case True
    then have "hexread_from ?result inp len (length (pre @ col @ hex2 b)) (res + 1) =
        (if res + 1 + length ts \<le> length ?result
         then Some (int (res + 1 + length ts),
                    take (res + 1) ?result @ map snd ts @ drop (res + 1 + length ts) ?result)
         else None)"
      unfolding inp using Cons.prems by (intro Cons.IH) (auto simp: t hex_tuples_Cons col_def)
    with run True show ?thesis unfolding inp_def [symmetric] by (simp add: t add.commute) arith
  next
    case False
    with run show ?thesis unfolding inp_def [symmetric] by simp
  qed
qed

text \<open>
  C38: reading hexadecimal text gives the bytes it was written from, with colons between them or
  without, and their number, and leaves the rest of the result buffer as it was; when they are more
  than the buffer holds, the rest is written behind its end.\<close>

theorem hexread_tuples:
  assumes "ts \<noteq> []" "length (hex_tuples ts) < 2 ^ 32"
  shows "hexread result (hex_tuples ts @ post) (of_nat (length (hex_tuples ts))) =
           (if length ts \<le> length result
            then Some (int (length ts), map snd ts @ drop (length ts) result) else None)"
proof -
  have "2 \<le> length (hex_tuples ts)"
    using assms(1) by (cases ts) (auto simp: hex_tuples_Cons)
  then have "unat (of_nat (length (hex_tuples ts)) - 2 :: u32) + 2 = length (hex_tuples ts)"
    using assms(2) by (subst unat_sub) (simp_all add: word_le_nat_alt unat_of_nat_small)
  with hexread_from_tuples [of _ "[]" ts 0 result post] show ?thesis
    by (simp add: hexread_def)
qed

theorem hexread_tuples_witness:
  "hexread [9, 9, 9] (hex_tuples [(False, 0xa1), (True, 0xb2)] @ [0])
     (of_nat (length (hex_tuples [(False, 0xa1), (True, 0xb2)]))) = Some (2, [0xa1, 0xb2, 9])"
  using hexread_tuples [of "[(False, 0xa1), (True, 0xb2)]" "[9, 9, 9]" "[0]"]
  by (simp add: hex_tuples_def)

end
