(* ===== verification/Tool_Common.thy ===== *)
theory Tool_Common
  imports Rfid_Scan Rfid_Hex
begin

text \<open>
  What the command line tools share (\<open>utils/common.c\<close>): opening a reader, a layer 2 and a protocol.
  The tools keep the three handles in global variables; here they are results.  What is printed besides
  data is left out.
\<close>

abbreviation (input) RFID_READER_CM5121 :: u32 where "RFID_READER_CM5121 \<equiv> 0"
abbreviation (input) RFID_READER_OPENPCD :: u32 where "RFID_READER_OPENPCD \<equiv> 2"

text \<open>
  The table of readers depends on how the library is configured, so it is an argument: the \<open>open\<close>
  function of each reader, or a null pointer.
\<close>

definition rfid_reader_open ::
    "('w \<Rightarrow> ('w rfid_reader_handle option \<times> 'w) option) option list \<Rightarrow> u32 \<Rightarrow> 'w
       \<Rightarrow> ('w rfid_reader_handle option \<times> 'w) option" where
  "rfid_reader_open rfid_readers rid w =
     (if unat rid \<ge> length rfid_readers then Some (None, w)
      else case rfid_readers ! unat rid of
             None \<Rightarrow> Some (None, w)
           | Some open \<Rightarrow> open w)"

definition reader_init ::
    "('w \<Rightarrow> ('w rfid_reader_handle option \<times> 'w) option) option list \<Rightarrow> 'w
       \<Rightarrow> (int \<times> 'w rfid_reader_handle option \<times> 'w) option" where
  "reader_init rfid_readers w = do {
     (rh, w) \<leftarrow> rfid_reader_open rfid_readers RFID_READER_OPENPCD w;
     if rh = None then do {
       (rh, w) \<leftarrow> rfid_reader_open rfid_readers RFID_READER_CM5121 w;
       if rh = None then Some (-1, None, w) else Some (0, rh, w) }
     else Some (0, rh, w) }"

definition l2_init ::
    "'w rfid_reader_handle \<Rightarrow> scan_locals \<Rightarrow> u32 \<Rightarrow> randctx \<Rightarrow> 'w
       \<Rightarrow> (int \<times> rfid_layer2_handle option \<times> randctx \<times> 'w) option" where
  "l2_init rh l layer2 r w = do {
     (l2h, r, w) \<leftarrow> rfid_layer2_init rh layer2 (sl_malloc l) (sl_h0 l) r w;
     (case l2h of
        None \<Rightarrow> Some (-1, None, r, w)
      | Some l2h \<Rightarrow> do {
          (rc, l2h, r, w) \<leftarrow> rfid_layer2_open rh (sl_l2 l) l2h r w;
          if rc < 0 then Some (rc, Some l2h, r, w) else Some (0, Some l2h, r, w) }) }"

definition l3_init ::
    "'w rfid_reader_handle \<Rightarrow> scan_locals \<Rightarrow> rfid_layer2_handle \<Rightarrow> u32 \<Rightarrow> 'w
       \<Rightarrow> (int \<times> rfid_layer2_handle \<times> rfid_protocol_handle option \<times> 'w) option" where
  "l3_init rh l l2h protocol w = do {
     ph \<leftarrow> rfid_protocol_init rh (sl_proto l) l2h (sl_malloc l) protocol;
     (case ph of
        None \<Rightarrow> Some (-1, l2h, None, w)
      | Some ph \<Rightarrow> do {
          (rc, l2h, ph, w) \<leftarrow> rfid_protocol_open rh (sl_proto l) l2h ph w;
          if rc < 0 then Some (-1, l2h, Some ph, w) else Some (0, l2h, Some ph, w) }) }"

text \<open>The data of a dump as it is printed; the buffer of \<open>hexdump\<close> is static.\<close>

definition print_hex :: "bytes \<Rightarrow> u32 \<Rightarrow> bytes option" where
  "print_hex data len = map_option c_string (hexdump (replicate 1024 0) data len)"

lemma print_hex_text:
  assumes "unat len \<le> length data"
  shows "print_hex data len = Some (hex_dump_text (take (min (unat len) 340) data))"
proof -
  obtain s where "hexdump (replicate 1024 0) data len = Some s"
      "c_string s = hex_dump_text (take (min (unat len) 340) data)"
    using hexdump_run [of "replicate 1024 0" len data] assms by auto
  then show ?thesis by (simp add: print_hex_def)
qed

end
