(* ===== verification/Librfid_Tool.thy ===== *)
theory Librfid_Tool
  imports Tool_Common
begin

text \<open>
  The operations of the command line tool (\<open>utils/librfid-tool.c\<close>): the ISO 7816 commands it sends over
  T=CL, the dumps of MIFARE and ISO 15693 cards, and its names for protocols and layers.

  What a function prints of the card's data is part of its result.  The receive buffers on its
  stack are arguments.
\<close>

section \<open>ISO 7816 commands\<close>

text \<open>
  All of them send one command and print what came back: \<open>resp\<close> is the receive buffer, whose length
  is announced, and the text is what \<open>hexdump\<close> prints.
\<close>

definition send_apdu ::
    "'w rfid_reader_handle \<Rightarrow> proto_locals \<Rightarrow> rfid_layer2_handle \<Rightarrow> rfid_protocol_handle \<Rightarrow> bytes \<Rightarrow> bytes
       \<Rightarrow> 'w \<Rightarrow> (int \<times> bytes \<times> rfid_protocol_handle \<times> 'w) option" where
  "send_apdu rh l l2h ph cmd resp w = do {
     (rv, resp, rlen, ph, w) \<leftarrow>
       rfid_protocol_transceive rh l l2h ph cmd (of_nat (length cmd)) resp (of_nat (length resp)) w;
     if rv < 0 then Some (rv, [], ph, w)
     else do {
       text \<leftarrow> print_hex resp rlen;
       Some (0, text, ph, w) } }"

definition select_mf ::
    "'w rfid_reader_handle \<Rightarrow> proto_locals \<Rightarrow> rfid_layer2_handle \<Rightarrow> rfid_protocol_handle \<Rightarrow> bytes
       \<Rightarrow> 'w \<Rightarrow> (int \<times> bytes \<times> rfid_protocol_handle \<times> 'w) option" where
  "select_mf rh l l2h ph resp w =
     send_apdu rh l l2h ph [0x00, 0xa4, 0x00, 0x00, 0x02, 0x3f, 0x00, 0x00] resp w"

definition iso7816_get_challenge ::
    "'w rfid_reader_handle \<Rightarrow> proto_locals \<Rightarrow> rfid_layer2_handle \<Rightarrow> rfid_protocol_handle \<Rightarrow> bytes \<Rightarrow> u8
       \<Rightarrow> 'w \<Rightarrow> (int \<times> bytes \<times> rfid_protocol_handle \<times> 'w) option" where
  "iso7816_get_challenge rh l l2h ph resp len w =
     send_apdu rh l l2h ph [0x00, 0x84, 0x00, 0x00, len] resp w"

definition iso7816_select_application ::
    "'w rfid_reader_handle \<Rightarrow> proto_locals \<Rightarrow> rfid_layer2_handle \<Rightarrow> rfid_protocol_handle \<Rightarrow> bytes
       \<Rightarrow> 'w \<Rightarrow> (int \<times> bytes \<times> rfid_protocol_handle \<times> 'w) option" where
  "iso7816_select_application rh l l2h ph resp w =
     send_apdu rh l l2h ph
       [0x00, 0xa4, 0x04, 0x0c, 0x07, 0xa0, 0x00, 0x00, 0x02, 0x47, 0x10, 0x01] resp w"

definition iso7816_select_ef ::
    "'w rfid_reader_handle \<Rightarrow> proto_locals \<Rightarrow> rfid_layer2_handle \<Rightarrow> rfid_protocol_handle \<Rightarrow> bytes \<Rightarrow> u16
       \<Rightarrow> 'w \<Rightarrow> (int \<times> bytes \<times> rfid_protocol_handle \<times> 'w) option" where
  "iso7816_select_ef rh l l2h ph resp fid w =
     send_apdu rh l l2h ph
       [0x00, 0xa4, 0x02, 0x0c, 0x02, ucast (drop_bit 8 fid AND 0xff), ucast (fid AND 0xff)] resp w"

definition iso7816_read_binary ::
    "'w rfid_reader_handle \<Rightarrow> proto_locals \<Rightarrow> rfid_layer2_handle \<Rightarrow> rfid_protocol_handle \<Rightarrow> bytes
       \<Rightarrow> 'w \<Rightarrow> (int \<times> bytes \<times> rfid_protocol_handle \<times> 'w) option" where
  "iso7816_read_binary rh l l2h ph resp w =
     send_apdu rh l l2h ph [0x00, 0xb0, 0x00, 0x00, 0x00] resp w"

definition iso7816_read_ef ::
    "'w rfid_reader_handle \<Rightarrow> proto_locals \<Rightarrow> rfid_layer2_handle \<Rightarrow> rfid_protocol_handle \<Rightarrow> bytes \<Rightarrow> bytes
       \<Rightarrow> u16 \<Rightarrow> 'w \<Rightarrow> (int \<times> bytes list \<times> rfid_protocol_handle \<times> 'w) option" where
  "iso7816_read_ef rh l l2h ph resp7 resp256 fid w = do {
     (rv, text, ph, w) \<leftarrow> iso7816_select_ef rh l l2h ph resp7 fid w;
     if rv < 0 then Some (rv, [], ph, w)
     else do {
       (rv, text', ph, w) \<leftarrow> iso7816_read_binary rh l l2h ph resp256 w;
       Some (rv, text # (if rv < 0 then [] else [text']), ph, w) } }"

section \<open>MIFARE Ultralight\<close>

definition mifare_ulight_write ::
    "'w rfid_reader_handle \<Rightarrow> proto_locals \<Rightarrow> rfid_layer2_handle \<Rightarrow> rfid_protocol_handle \<Rightarrow> 'w
       \<Rightarrow> (int \<times> 'w) option" where
  "mifare_ulight_write rh l l2h ph w = rfid_protocol_write rh l l2h ph 10 [0xa1, 0xa2, 0xa3, 0xa4] 4 w"

fun ulight_blank_pages ::
    "'w rfid_reader_handle \<Rightarrow> proto_locals \<Rightarrow> rfid_layer2_handle \<Rightarrow> rfid_protocol_handle \<Rightarrow> nat list \<Rightarrow> 'w
       \<Rightarrow> (int \<times> 'w) option" where
  "ulight_blank_pages rh l l2h ph [] w = Some (0, w)"
| "ulight_blank_pages rh l l2h ph (i # is) w = do {
     (ret, w) \<leftarrow> rfid_protocol_write rh l l2h ph (of_nat i) [0, 0, 0, 0] 4 w;
     if ret < 0 then Some (ret, w) else ulight_blank_pages rh l l2h ph is w }"

definition mifare_ulight_blank ::
    "'w rfid_reader_handle \<Rightarrow> proto_locals \<Rightarrow> rfid_layer2_handle \<Rightarrow> rfid_protocol_handle \<Rightarrow> 'w
       \<Rightarrow> (int \<times> 'w) option" where
  "mifare_ulight_blank rh l l2h ph w = ulight_blank_pages rh l l2h ph [4..<16] w"

text \<open>
  The loops that read cards.  \<open>len\<close> is not reset before a read, so a short answer limits all that
  follow; a line of output is a number and a text.
\<close>

fun ulight_read_pages ::
    "'w rfid_reader_handle \<Rightarrow> proto_locals \<Rightarrow> rfid_layer2_handle \<Rightarrow> rfid_protocol_handle \<Rightarrow> nat list \<Rightarrow> bytes
       \<Rightarrow> u32 \<Rightarrow> 'w \<Rightarrow> (int \<times> (nat \<times> bytes) list \<times> 'w) option" where
  "ulight_read_pages rh l l2h ph [] buf len w = Some (0, [], w)"
| "ulight_read_pages rh l l2h ph (i # is) buf len w = do {
     (ret, buf, len, w) \<leftarrow> rfid_protocol_read rh l l2h ph (of_nat i) buf len w;
     if ret < 0 then Some (ret, [], w)
     else do {
       text \<leftarrow> print_hex buf 4;
       (ret, out, w) \<leftarrow> ulight_read_pages rh l l2h ph is buf len w;
       Some (ret, (i, text) # out, w) } }"

definition mifare_ulight_read ::
    "'w rfid_reader_handle \<Rightarrow> proto_locals \<Rightarrow> rfid_layer2_handle \<Rightarrow> rfid_protocol_handle \<Rightarrow> bytes \<Rightarrow> 'w
       \<Rightarrow> (int \<times> (nat \<times> bytes) list \<times> 'w) option" where
  "mifare_ulight_read rh l l2h ph buf w =
     ulight_read_pages rh l l2h ph [0..<16] buf (of_nat (length buf)) w"

section \<open>MIFARE Classic\<close>

fun classic_read_blocks ::
    "'w rfid_reader_handle \<Rightarrow> proto_locals \<Rightarrow> rfid_layer2_handle \<Rightarrow> rfid_protocol_handle \<Rightarrow> nat list \<Rightarrow> bytes
       \<Rightarrow> u32 \<Rightarrow> 'w \<Rightarrow> (int \<times> (nat \<times> bytes) list \<times> 'w) option" where
  "classic_read_blocks rh l l2h ph [] buf len w = Some (0, [], w)"
| "classic_read_blocks rh l l2h ph (b # bs) buf len w = do {
     (ret, buf, len, w) \<leftarrow> rfid_protocol_read rh l l2h ph (of_nat b) buf len w;
     if ret < 0 then Some (ret, [], w)
     else do {
       text \<leftarrow> print_hex buf len;
       (ret, out, w) \<leftarrow> classic_read_blocks rh l l2h ph bs buf len w;
       Some (ret, (b, text) # out, w) } }"

text \<open>The sector is an \<open>int\<close> that both functions take as a byte.\<close>

definition mifare_classic_read_sector ::
    "'w rfid_reader_handle \<Rightarrow> proto_locals \<Rightarrow> rfid_layer2_handle \<Rightarrow> rfid_protocol_handle \<Rightarrow> bytes \<Rightarrow> int \<Rightarrow> 'w
       \<Rightarrow> (int \<times> (nat \<times> bytes) list \<times> 'w) option" where
  "mifare_classic_read_sector rh l l2h ph buf sector w =
     (let first_block = mfcl_sector2block (word_of_int sector);
          blocks_per_sector = mfcl_sector_blocks (word_of_int sector)
      in if first_block < 0 \<or> blocks_per_sector < 0 then Some (- EINVAL, [], w)
         else classic_read_blocks rh l l2h ph
                [nat first_block..<nat (first_block + blocks_per_sector)] buf (of_nat (length buf)) w)"

text \<open>
  The loop over the sectors.  An error of the key or the authentication exits the program: the first
  component of the result is then the exit code.  The result of reading a sector is dropped.
\<close>

fun classic_dump_sectors ::
    "'w rfid_reader_handle \<Rightarrow> proto_locals \<Rightarrow> rfid_layer2_handle \<Rightarrow> rfid_protocol_handle \<Rightarrow> bytes \<Rightarrow> nat list \<Rightarrow> 'w
       \<Rightarrow> (int option \<times> (nat \<times> bytes) list \<times> 'w) option" where
  "classic_dump_sectors rh l l2h ph buf [] w = Some (None, [], w)"
| "classic_dump_sectors rh l l2h ph buf (s # ss) w = do {
     (rc, w) \<leftarrow> mfcl_set_key rh (replicate 6 0xff) w;
     if rc < 0 then Some (Some 1, [], w)
     else do {
       (rc, w) \<leftarrow> mfcl_auth rh l2h RFID_CMD_MIFARE_AUTH1A (word_of_int (mfcl_sector2block (of_nat s))) w;
       if rc < 0 then Some (Some 1, [], w)
       else do {
         (_, out, w) \<leftarrow> mifare_classic_read_sector rh l l2h ph buf (int s) w;
         (exit, out', w) \<leftarrow> classic_dump_sectors rh l l2h ph buf ss w;
         Some (exit, out @ out', w) } } }"

definition classic_num_sectors :: "u32 \<Rightarrow> nat option" where
  "classic_num_sectors sz =
     (if sz = 320 then Some 5 else if sz = 1024 then Some 16
      else if sz = 4096 then Some 40 else None)"

text \<open>\<^const>\<open>Inl\<close> is an early return, \<^const>\<open>Inr\<close> what the loop did.\<close>

definition mifare_classic_dump ::
    "'w rfid_reader_handle \<Rightarrow> proto_locals \<Rightarrow> rfid_layer2_handle \<Rightarrow> rfid_protocol_handle \<Rightarrow> bytes \<Rightarrow> 'w
       \<Rightarrow> (int + int option \<times> (nat \<times> bytes) list \<times> 'w) option" where
  "mifare_classic_dump rh l l2h ph buf w = do {
     (ret, v, _) \<leftarrow> rfid_protocol_getopt l l2h ph RFID_OPT_PROTO_SIZE 4;
     if ret \<noteq> 0 then Some (Inl (- EINVAL))
     else do {
       sz \<leftarrow> load_u32 v;
       (case classic_num_sectors sz of
          None \<Rightarrow> Some (Inl (- EINVAL))
        | Some n \<Rightarrow> do {
            r \<leftarrow> classic_dump_sectors rh l l2h ph buf [0..<n] w;
            Some (Inr r) }) } }"

section \<open>ISO 15693\<close>

text \<open>
  Both functions open the layer 2 themselves; the inventory reports success with a positive code.
  After a failed open the handle is not given back.  The receive buffers of the functions called are
  arguments: \<open>resp\<close> for the blocks, \<open>rx\<close> for select.  The result has the printed identifier and the
  return code of the write.
\<close>

definition open_layer2 ::
    "'w rfid_reader_handle \<Rightarrow> scan_locals \<Rightarrow> u32 \<Rightarrow> randctx \<Rightarrow> 'w
       \<Rightarrow> (rfid_layer2_handle option \<times> bytes \<times> randctx \<times> 'w) option" where
  "open_layer2 rh l layer2 r w = do {
     (l2h, r, w) \<leftarrow> rfid_layer2_init rh layer2 (sl_malloc l) (sl_h0 l) r w;
     (case l2h of
        None \<Rightarrow> Some (None, [], r, w)
      | Some l2h \<Rightarrow> do {
          (rc, l2h, r, w) \<leftarrow> rfid_layer2_open rh (sl_l2 l) l2h r w;
          if rc > 0 then do {
            (_, uid, uid_len) \<leftarrow> rfid_layer2_getopt l2h RFID_OPT_LAYER2_UID 16;
            uid_buf \<leftarrow> uid;
            text \<leftarrow> print_hex uid_buf uid_len;
            Some (Some l2h, text, r, w) }
          else Some (None, [], r, w) }) }"

definition iso15693_write ::
    "'w rfid_reader_handle \<Rightarrow> scan_locals \<Rightarrow> u32 \<Rightarrow> bytes \<Rightarrow> u8 \<Rightarrow> bytes \<Rightarrow> u32 \<Rightarrow> randctx \<Rightarrow> 'w
       \<Rightarrow> ((bytes \<times> int) option \<times> randctx \<times> 'w) option" where
  "iso15693_write rh l layer2 resp sector data len r w =
     (if rdr_l2_supported (rh_reader rh) AND push_bit (unat layer2) 1 \<noteq> 0 then do {
        (l2h, text, r, w) \<leftarrow> open_layer2 rh l layer2 r w;
        (case l2h of
           None \<Rightarrow> Some (None, r, w)
         | Some l2h \<Rightarrow> do {
             (rc, w) \<leftarrow> iso15693_write_block rh l2h resp sector data len w;
             (_, l2h, w) \<leftarrow> rfid_layer2_close rh (sl_l2 l) l2h w;
             Some (Some (text, rc), r, w) }) }
      else Some (None, r, w))"

text \<open>
  The loop over the blocks; \<open>stop\<close> says whether the first failing block ends it.  What is printed for a
  block is its data.
\<close>

fun dump_blocks ::
    "'w rfid_reader_handle \<Rightarrow> rfid_layer2_handle \<Rightarrow> bytes \<Rightarrow> bool \<Rightarrow> nat list \<Rightarrow> bytes \<Rightarrow> 'w
       \<Rightarrow> ((nat \<times> bytes option) list \<times> 'w) option" where
  "dump_blocks rh l2h resp stop [] buf w = Some ([], w)"
| "dump_blocks rh l2h resp stop (i # is) buf w = do {
     (rc, buf, w) \<leftarrow> iso15693_read_block rh l2h resp (of_nat i) buf 1024 True w;
     if rc \<ge> 0 then do {
       text \<leftarrow> print_hex buf (word_of_int rc);
       (out, w) \<leftarrow> dump_blocks rh l2h resp stop is buf w;
       Some ((i, Some text) # out, w) }
     else if stop then Some ([(i, None)], w)
     else do {
       (out, w) \<leftarrow> dump_blocks rh l2h resp stop is buf w;
       Some ((i, None) # out, w) } }"

text \<open>
  A negative \<open>sector\<close> asks for all blocks.  For a single block the call of \<open>iso15693_read_block\<close> lacks its
  last argument, so what it does is not defined.
\<close>

definition iso15693_dump ::
    "'w rfid_reader_handle \<Rightarrow> scan_locals \<Rightarrow> u32 \<Rightarrow> bytes \<Rightarrow> bytes \<Rightarrow> bytes \<Rightarrow> int \<Rightarrow> randctx \<Rightarrow> 'w
       \<Rightarrow> ((bytes \<times> (nat \<times> bytes option) list) option \<times> randctx \<times> 'w) option" where
  "iso15693_dump rh l layer2 rx resp buf sector r w =
     (if rdr_l2_supported (rh_reader rh) AND push_bit (unat layer2) 1 \<noteq> 0 then do {
        (l2h, text, r, w) \<leftarrow> open_layer2 rh l layer2 r w;
        (case l2h of
           None \<Rightarrow> Some (None, r, w)
         | Some l2h \<Rightarrow>
             if sector < 0 then do {
               (_, l2h, w) \<leftarrow> (if sector \<le> -3 then iso15693_select rh rx l2h w
                              else Some (0, l2h, w));
               (out, w) \<leftarrow> dump_blocks rh l2h resp (sector = -1 \<or> sector = -3) [0..<256] buf w;
               (_, l2h, w) \<leftarrow> rfid_layer2_close rh (sl_l2 l) l2h w;
               Some (Some (text, out), r, w) }
             else None) }
      else Some (None, r, w))"

section \<open>Names\<close>

definition lower :: "char \<Rightarrow> char" where
  "lower c = (let n = of_char c :: nat in if 65 \<le> n \<and> n \<le> 90 then char_of (n + 32) else c)"

definition strcasecmp_eq :: "string \<Rightarrow> string \<Rightarrow> bool" where
  "strcasecmp_eq a b = (map lower a = map lower b)"

text \<open>The search of both functions: the first entry that is no null pointer and has the name.\<close>

fun by_name :: "string \<Rightarrow> string option list \<Rightarrow> nat \<Rightarrow> int" where
  "by_name name [] i = -1"
| "by_name name (None # ns) i = by_name name ns (Suc i)"
| "by_name name (Some n # ns) i = (if strcasecmp_eq name n then int i else by_name name ns (Suc i))"

definition proto_names :: "string option list" where
  "proto_names =
     [None, Some ''tcl'', Some ''mifare-ultralight'', Some ''mifare-classic'', Some ''icode'',
      Some ''tagit'']"

definition l2_names :: "string option list" where
  "l2_names = [None, Some ''iso14443a'', Some ''iso14443b'', Some ''iso15693'', Some ''icode1'']"

definition proto_by_name :: "string \<Rightarrow> int" where
  "proto_by_name name = by_name name proto_names 0"

definition l2_by_name :: "string \<Rightarrow> int" where
  "l2_by_name name = by_name name l2_names 0"

section \<open>Scanning\<close>

definition rf_reset :: "'w rfid_reader_handle \<Rightarrow> 'w \<Rightarrow> 'w option" where
  "rf_reset rh w = do {
     (_, w) \<leftarrow> rfid_reader_setopt rh RFID_OPT_RDR_RF_KILL (Some 1) 4 w;
     (_, w) \<leftarrow> rfid_reader_setopt rh RFID_OPT_RDR_RF_KILL (Some 0) 4 w;
     Some w }"

text \<open>What is printed of a protocol: its size, and the ATS into a buffer allocated for it.\<close>

definition report_size ::
    "proto_locals \<Rightarrow> rfid_layer2_handle \<Rightarrow> rfid_protocol_handle \<Rightarrow> u32 option option" where
  "report_size l l2h ph = do {
     (ret, v, _) \<leftarrow> rfid_protocol_getopt l l2h ph RFID_OPT_PROTO_SIZE 4;
     if ret = 0 then do { sz \<leftarrow> load_u32 v; Some (Some sz) } else Some None }"

definition report_ats ::
    "proto_locals \<Rightarrow> bool \<Rightarrow> rfid_layer2_handle \<Rightarrow> rfid_protocol_handle \<Rightarrow> bytes option option" where
  "report_ats l malloc_ok l2h ph = do {
     (ret, v, _) \<leftarrow> rfid_protocol_getopt l l2h ph RFID_OPT_P_TCL_ATS_LEN 4;
     if ret = 0 then do {
       sz \<leftarrow> load_u32 v;
       if malloc_ok then do {
         (ret, data, data_len) \<leftarrow> rfid_protocol_getopt l l2h ph RFID_OPT_P_TCL_ATS (sz + 1);
         if ret = 0 then do {
           data \<leftarrow> data;
           text \<leftarrow> print_hex data data_len;
           Some (Some text) }
         else Some None }
       else Some None }
     else Some None }"

text \<open>The result has the handles and what is printed: identifier, size and ATS.\<close>

definition do_scan ::
    "'w rfid_reader_handle \<Rightarrow> scan_locals \<Rightarrow> bool \<Rightarrow> randctx \<Rightarrow> 'w
       \<Rightarrow> (int \<times> rfid_layer2_handle option \<times> rfid_protocol_handle option \<times>
           (bytes \<times> u32 option \<times> bytes option) \<times> randctx \<times> 'w) option" where
  "do_scan rh l first r w = do {
     w \<leftarrow> (if first then rf_reset rh w else Some w);
     (rc, l2h, ph, r, w) \<leftarrow> rfid_scan rh l r w;
     text \<leftarrow> (if rc \<ge> 2 then do {
               h \<leftarrow> l2h;
               (_, uid, uid_len) \<leftarrow> rfid_layer2_getopt h RFID_OPT_LAYER2_UID 16;
               uid_buf \<leftarrow> uid;
               print_hex uid_buf uid_len }
             else Some []);
     (sz, ats) \<leftarrow> (if rc \<ge> 3 then do {
                     h \<leftarrow> l2h;
                     p \<leftarrow> ph;
                     sz \<leftarrow> report_size (sl_proto l) h p;
                     ats \<leftarrow> report_ats (sl_proto l) (sl_malloc l) h p;
                     Some (sz, ats) }
                   else Some (None, None));
     Some (rc, l2h, ph, (text, sz, ats), r, w) }"

text \<open>
  The enumeration: every card found is halted and the next one looked for, until none answers.  In a
  field that never empties the loop does not end.
\<close>

partial_function (option) enum_loop ::
    "'w rfid_reader_handle \<Rightarrow> scan_locals \<Rightarrow> int \<Rightarrow> rfid_layer2_handle \<Rightarrow> bytes list \<Rightarrow> randctx \<Rightarrow> 'w
       \<Rightarrow> (bytes list \<times> randctx \<times> 'w) option" where
  "enum_loop rh l rc l2h out r w =
     (if rc < 0 then Some (out, r, w)
      else do {
        (_, uid, uid_len) \<leftarrow> rfid_layer2_getopt l2h RFID_OPT_LAYER2_UID 16;
        uid_buf \<leftarrow> uid;
        text \<leftarrow> print_hex uid_buf uid_len;
        (_, l2h, w) \<leftarrow> rfid_layer2_close rh (sl_l2 l) l2h w;
        (rc, l2h, r, w) \<leftarrow> rfid_layer2_open rh (sl_l2 l) l2h r w;
        enum_loop rh l rc l2h (out @ [text]) r w })"

declare enum_loop.simps [code]

definition do_enum ::
    "'w rfid_reader_handle \<Rightarrow> scan_locals \<Rightarrow> u32 \<Rightarrow> randctx \<Rightarrow> 'w
       \<Rightarrow> (bytes list \<times> randctx \<times> 'w) option" where
  "do_enum rh l layer2 r w =
     (if rdr_l2_supported (rh_reader rh) AND push_bit (unat layer2) 1 \<noteq> 0 then do {
        (l2h, r, w) \<leftarrow> rfid_layer2_init rh layer2 (sl_malloc l) (sl_h0 l) r w;
        (case l2h of
           None \<Rightarrow> Some ([], r, w)
         | Some l2h \<Rightarrow> do {
             (rc, l2h, r, w) \<leftarrow> rfid_layer2_open rh (sl_l2 l) l2h r w;
             enum_loop rh l rc l2h [] r w }) }
      else Some ([], r, w))"

end
