(* ===== verification/Mifare_Tool.thy ===== *)
theory Mifare_Tool
  imports Tool_Common
begin

text \<open>
  The MIFARE tool (\<open>utils/mifare-tool.c\<close>): waiting for a card, authentication, and what its options do.
  The key is the program's variable of six bytes, which the option \<open>-k\<close> overwrites.
\<close>

section \<open>Waiting for a card\<close>

definition mifare_cl_auth ::
    "'w rfid_reader_handle \<Rightarrow> rfid_layer2_handle \<Rightarrow> bytes \<Rightarrow> u32 \<Rightarrow> 'w \<Rightarrow> (int \<times> 'w) option" where
  "mifare_cl_auth rh l2h key page w = do {
     (rc, w) \<leftarrow> mfcl_set_key rh key w;
     if rc < 0 then Some (rc, w)
     else do {
       (rc, w) \<leftarrow> mfcl_auth rh l2h RFID_CMD_MIFARE_AUTH1A (ucast page) w;
       if rc < 0 then Some (rc, w) else Some (0, w) } }"

text \<open>Both loops wait for ever when no card of the right kind comes.\<close>

partial_function (option) l2_init_retry ::
    "'w rfid_reader_handle \<Rightarrow> scan_locals \<Rightarrow> randctx \<Rightarrow> 'w \<Rightarrow> (rfid_layer2_handle \<times> randctx \<times> 'w) option" where
  "l2_init_retry rh l r w = do {
     (rc, l2h, r, w) \<leftarrow> l2_init rh l RFID_LAYER2_ISO14443A r w;
     if rc < 0 then l2_init_retry rh l r w
     else do { l2h \<leftarrow> l2h; Some (l2h, r, w) } }"

partial_function (option) l3_init_retry ::
    "'w rfid_reader_handle \<Rightarrow> scan_locals \<Rightarrow> rfid_layer2_handle \<Rightarrow> 'w
       \<Rightarrow> (rfid_layer2_handle \<times> rfid_protocol_handle \<times> 'w) option" where
  "l3_init_retry rh l l2h w = do {
     (rc, l2h, ph, w) \<leftarrow> l3_init rh l l2h PROTO_MIFARE_CLASSIC w;
     if rc < 0 then l3_init_retry rh l l2h w
     else do { ph \<leftarrow> ph; Some (l2h, ph, w) } }"

declare l2_init_retry.simps [code] l3_init_retry.simps [code]

definition mifare_l3 ::
    "'w rfid_reader_handle \<Rightarrow> scan_locals \<Rightarrow> randctx \<Rightarrow> 'w
       \<Rightarrow> (rfid_layer2_handle \<times> rfid_protocol_handle \<times> randctx \<times> 'w) option" where
  "mifare_l3 rh l r w = do {
     (l2h, r, w) \<leftarrow> l2_init_retry rh l r w;
     (l2h, ph, w) \<leftarrow> l3_init_retry rh l l2h w;
     Some (l2h, ph, r, w) }"

section \<open>Options\<close>

text \<open>\<open>-k\<close>: the argument is a C string.\<close>

definition option_key :: "bytes \<Rightarrow> bytes \<Rightarrow> bytes option" where
  "option_key key arg = map_option snd (hexread key (arg @ [0]) (of_nat (length arg)))"

text \<open>\<open>-b\<close>: all values of the last byte of the key are tried; the result is the keys printed.\<close>

fun brute_force_from ::
    "'w rfid_reader_handle \<Rightarrow> rfid_layer2_handle \<Rightarrow> bytes \<Rightarrow> u32 \<Rightarrow> nat list \<Rightarrow> 'w \<Rightarrow> (bytes list \<times> 'w) option" where
  "brute_force_from rh l2h key page [] w = Some ([], w)"
| "brute_force_from rh l2h key page (i # is) w = do {
     key \<leftarrow> put_at key 5 (of_nat i);
     (rc, w) \<leftarrow> mifare_cl_auth rh l2h key page w;
     (found, w) \<leftarrow> brute_force_from rh l2h key page is w;
     Some ((if rc \<ge> 0 then key # found else found), w) }"

definition option_brute_force ::
    "'w rfid_reader_handle \<Rightarrow> scan_locals \<Rightarrow> bytes \<Rightarrow> u32 \<Rightarrow> randctx \<Rightarrow> 'w
       \<Rightarrow> (bytes list \<times> randctx \<times> 'w) option" where
  "option_brute_force rh l key page r w = do {
     (l2h, ph, r, w) \<leftarrow> mifare_l3 rh l r w;
     (found, w) \<leftarrow> brute_force_from rh l2h key page [0..<256] w;
     Some (found, r, w) }"

text \<open>
  \<open>-r\<close>: the access conditions are printed when the low bit of the page is set, since the comparison
  in \<open>page & 0x3 == 0x3\<close> binds tighter.  \<^const>\<open>Inl\<close> is the exit code of a failed authentication; an
  error of the read prints nothing.
\<close>

definition report_access :: "bytes \<Rightarrow> string list option" where
  "report_access buf = do {
     (_, s) \<leftarrow> mfcl_parse_access (drop 6 buf);
     es \<leftarrow> mfcl_access_to_exp s;
     b0 \<leftarrow> get_at (es_block es) 0; t0 \<leftarrow> mfcl_access_exp_stringify b0;
     b1 \<leftarrow> get_at (es_block es) 1; t1 \<leftarrow> mfcl_access_exp_stringify b1;
     b2 \<leftarrow> get_at (es_block es) 2; t2 \<leftarrow> mfcl_access_exp_stringify b2;
     t3 \<leftarrow> mfcl_access_exp_acc_stringify (es_acc es);
     Some [t0, t1, t2, t3] }"

definition option_read ::
    "'w rfid_reader_handle \<Rightarrow> scan_locals \<Rightarrow> bytes \<Rightarrow> bytes \<Rightarrow> u32 \<Rightarrow> randctx \<Rightarrow> 'w
       \<Rightarrow> ((int + bytes \<times> string list) \<times> randctx \<times> 'w) option" where
  "option_read rh l key buf page r w = do {
     (l2h, ph, r, w) \<leftarrow> mifare_l3 rh l r w;
     (rc, w) \<leftarrow> mifare_cl_auth rh l2h key page w;
     if rc < 0 then Some (Inl 1, r, w)
     else do {
       _ \<leftarrow> rfid_layer2_getopt l2h RFID_OPT_LAYER2_UID 4;
       (rc, buf, len, w) \<leftarrow> rfid_protocol_read rh (sl_proto l) l2h ph page buf 16 w;
       if rc < 0 then Some (Inr ([], []), r, w)
       else do {
         text \<leftarrow> print_hex buf len;
         access \<leftarrow> (if page AND 1 \<noteq> 0 then report_access buf else Some []);
         Some (Inr (text, access), r, w) } } }"

text \<open>\<open>-w\<close>: the data is the next argument, read into a buffer of 16 bytes.\<close>

definition option_write ::
    "'w rfid_reader_handle \<Rightarrow> scan_locals \<Rightarrow> bytes \<Rightarrow> bytes \<Rightarrow> u32 \<Rightarrow> bytes \<Rightarrow> randctx \<Rightarrow> 'w
       \<Rightarrow> ((int + int) \<times> randctx \<times> 'w) option" where
  "option_write rh l key buf page arg r w = do {
     (len, buf) \<leftarrow> hexread buf (arg @ [0]) (of_nat (length arg));
     (l2h, ph, r, w) \<leftarrow> mifare_l3 rh l r w;
     (rc, w) \<leftarrow> mifare_cl_auth rh l2h key page w;
     if rc < 0 then Some (Inl 1, r, w)
     else do {
       (rc, w) \<leftarrow> rfid_protocol_write rh (sl_proto l) l2h ph page buf (word_of_int len) w;
       Some (Inr rc, r, w) } }"


end
