(* ===== verification/Tool_Session.thy ===== *)
theory Tool_Session
  imports Librfid_Tool Mifare_Tool Tcl_Exchange "HOL-Library.Sublist"
begin

text \<open>
  What the tools do with the library: an ISO 7816 command over T=CL from the bytes of the command to the
  printed answer, and the dump of a MIFARE Classic card.
\<close>

section \<open>Commands over T=CL\<close>

lemma send_apdu_run:
  assumes "tcl_link rh l2h" "ph_proto ph = PROTO_TCL" "plain_prologue (ph_tcl ph)"
    "2 \<le> t_fsc (ph_tcl ph)" "t_fsc (ph_tcl ph) \<le> 256" "wf_xcvb (lp_xcvb l)"
    "cmd \<noteq> []" "length cmd < 2 ^ 32" "wf_script (pc_script c)"
    "length (reply_data (pc_script c)) \<le> length resp" "length resp \<le> 340"
  shows "\<exists>ph' c'. send_apdu rh l l2h ph cmd resp c =
           Some (0, hex_dump_text (reply_data (pc_script c)), ph', c') \<and>
         pc_rcvd c' = pc_rcvd c @ cmd"
proof -
  let ?reply = "reply_data (pc_script c)"
  obtain th' c' where run: "tcl_transceive rh (lp_xcvb l) l2h (ph_tcl ph) cmd (of_nat (length cmd)) resp
        (of_nat (length resp)) c =
      Some (0, ?reply @ drop (length ?reply) resp, of_nat (length ?reply), th', c')"
      "pc_rcvd c' = pc_rcvd c @ cmd"
    using exchange_run [OF assms(1,3-10)] by blast
  have n: "unat (of_nat (length ?reply) :: u32) = length ?reply"
    using assms(10,11) by (simp add: unat_of_nat_small)
  have "print_hex (?reply @ drop (length ?reply) resp) (of_nat (length ?reply)) =
      Some (hex_dump_text ?reply)"
    using assms(10,11) by (subst print_hex_text) (simp_all add: n)
  with run assms(2) show ?thesis
    by (simp add: send_apdu_def rfid_protocol_transceive_def)
qed

text \<open>
  C10: selecting an elementary file on a card that conforms to T=CL gives the card the select command
  with the file identifier, high byte first, whole and in order whatever the card's frame size, and
  prints exactly the card's answer, up to the seven bytes the tool has room for.\<close>

theorem select_ef_exchange:
  assumes "tcl_link rh l2h" "ph_proto ph = PROTO_TCL" "plain_prologue (ph_tcl ph)"
    "2 \<le> t_fsc (ph_tcl ph)" "t_fsc (ph_tcl ph) \<le> 256" "wf_xcvb (lp_xcvb l)"
    "wf_script (pc_script c)" "length (reply_data (pc_script c)) \<le> 7" "length resp = 7"
  shows "\<exists>ph' c'. iso7816_select_ef rh l l2h ph resp fid c =
           Some (0, hex_dump_text (reply_data (pc_script c)), ph', c') \<and>
         pc_rcvd c' = pc_rcvd c @ [0x00, 0xa4, 0x02, 0x0c, 0x02, ucast (drop_bit 8 fid), ucast fid]"
proof -
  have "ucast (x AND 0xff) = (ucast x :: u8)" for x :: u16
    by (rule bit_word_eqI) (auto simp: bit_simps bit_byte)
  then show ?thesis
    using send_apdu_run [OF assms(1-6) _ _ assms(7),
        of "[0x00, 0xa4, 0x02, 0x0c, 0x02, ucast (drop_bit 8 fid), ucast fid]" resp] assms(8,9)
    by (simp add: iso7816_select_ef_def)
qed

definition sample_ph :: rfid_protocol_handle where
  "sample_ph = \<lparr>ph_proto = PROTO_TCL, ph_tcl = sample_th\<rparr>"

definition sample_locals :: proto_locals where
  "sample_locals = \<lparr>lp_atqa = [0, 0], lp_sak = [0], lp_uid6 = replicate 6 0, lp_buf = replicate 16 0,
     lp_frame = replicate 3 0, lp_xcvb = sample_xcvb, lp_tcl = sample_th\<rparr>"

theorem select_ef_exchange_witness:
  "\<exists>ph' c'. iso7816_select_ef sample_rh sample_locals sample_l2h sample_ph (replicate 7 0) 0x011e
       (sample_picc\<lparr>pc_script := [Wtx 5, Part [0x90], Part [0x00]]\<rparr>) =
     Some (0, hex_dump_text [0x90, 0x00], ph', c') \<and>
     pc_rcvd c' = [0x00, 0xa4, 0x02, 0x0c, 0x02, 0x01, 0x1e]"
proof -
  let ?c = "sample_picc\<lparr>pc_script := [Wtx 5, Part [0x90], Part [0x00]]\<rparr>"
  have hyps: "tcl_link sample_rh sample_l2h" "ph_proto sample_ph = PROTO_TCL"
      "plain_prologue (ph_tcl sample_ph)" "2 \<le> t_fsc (ph_tcl sample_ph)" "t_fsc (ph_tcl sample_ph) \<le> 256"
      "wf_xcvb (lp_xcvb sample_locals)"
    by (simp_all add: tcl_link_def sample_rh_def picc_reader_def sample_l2h_def plain_prologue_def
        sample_th_def wf_xcvb_def sample_xcvb_def sample_ph_def sample_locals_def)
  have "ucast (drop_bit 8 (0x011e :: u16)) = (0x01 :: u8)" "(286 :: u8) = 0x1e"
    "pc_rcvd ?c = []" "reply_data (pc_script ?c) = [0x90, 0x00]" "wf_script (pc_script ?c)"
    by (simp_all add: sample_picc_def)
  with select_ef_exchange [OF hyps, of ?c "replicate 7 0" "0x011e"] show ?thesis by simp
qed

section \<open>Dumping a MIFARE Classic card\<close>

lemma read_blocks_numbers:
  "classic_read_blocks rh l l2h ph bs buf len w = Some (ret, out, w') \<Longrightarrow>
     (if ret = 0 then map fst out = bs else ret < 0 \<and> (\<exists>n < length bs. map fst out = take n bs))"
proof (induction bs arbitrary: buf len w ret out)
  case (Cons b bs)
  then obtain r buf' len' w1 where rd: "rfid_protocol_read rh l l2h ph (of_nat b) buf len w =
      Some (r, buf', len', w1)"
    by (auto simp: run_simps)
  show ?case
  proof (cases "r < 0")
    case True
    then show ?thesis using Cons.prems rd by auto
  next
    case False
    then obtain line out' where "classic_read_blocks rh l l2h ph bs buf' len' w1 = Some (ret, out', w')"
        "out = (b, line) # out'"
      using Cons.prems rd by (auto simp: run_simps)
    note rest = Cons.IH [OF this(1)] this(2)
    show ?thesis
    proof (cases "ret = 0")
      case False
      then obtain n where "ret < 0" "n < length bs" "map fst out' = take n bs" using rest(1) by auto
      then show ?thesis using rest(2) by (auto intro: exI [of _ "Suc n"])
    qed (use rest in simp)
  qed
qed simp

definition sector_block_list :: "nat \<Rightarrow> nat list" where
  "sector_block_list s =
     (if s < 32 then [4 * s..<4 * s + 4]
      else if s < 36 then [128 + 16 * (s - 32)..<128 + 16 * (s - 32) + 16] else [])"

lemma uint_sector: "s < 256 \<Longrightarrow> uint (of_nat s :: u8) = int s"
  by (rule uint_of_nat_small) simp

lemma read_sector_run:
  assumes "s < 256"
  shows "mifare_classic_read_sector rh l l2h ph buf (int s) w =
    (if s < 36 then classic_read_blocks rh l l2h ph (sector_block_list s) buf (of_nat (length buf)) w
     else Some (- EINVAL, [], w))"
proof -
  have "nat (128 + (int s - 32) * 16) = 128 + 16 * (s - 32)" if "\<not> s < 32"
    using that by (simp add: nat_add_distrib nat_mult_distrib nat_diff_distrib)
  then show ?thesis
    by (auto simp: mifare_classic_read_sector_def sector_defs uint_sector [OF assms] sector_block_list_def
        Let_def nat_add_distrib nat_mult_distrib mult.commute)
qed

lemma read_sector_out:
  assumes "mifare_classic_read_sector rh l l2h ph buf (int s) w = Some (ret, out, w')" "s < 256"
  shows "\<exists>n. map fst out = take n (sector_block_list s)"
proof (cases "s < 36")
  case True
  then have "classic_read_blocks rh l l2h ph (sector_block_list s) buf (of_nat (length buf)) w =
      Some (ret, out, w')"
    using assms by (simp add: read_sector_run)
  from read_blocks_numbers [OF this] show ?thesis
    by (metis take_all_iff order_refl)
next
  case False
  then show ?thesis using assms by (auto simp: read_sector_run)
qed

lemma dump_sectors_out:
  "classic_dump_sectors rh l l2h ph buf ss w = Some (exit, out, w') \<Longrightarrow> \<forall>s \<in> set ss. s < 256 \<Longrightarrow>
     subseq (map fst out) (concat (map sector_block_list ss))"
proof (induction ss arbitrary: w out)
  case (Cons s ss)
  show ?case
  proof (cases "out = []")
    case False
    then obtain ret o1 o2 w1 w2 where "mifare_classic_read_sector rh l l2h ph buf (int s) w1 = Some (ret, o1, w2)"
        "classic_dump_sectors rh l l2h ph buf ss w2 = Some (exit, o2, w')" "out = o1 @ o2"
      using Cons.prems(1) by (clarsimp simp: run_simps split: if_splits) blast
    moreover have "subseq (take n xs) xs" for n and xs :: "nat list"
      using list_emb_append2 [of "(=)" "take n xs" "take n xs" "drop n xs"]
      by (metis append_take_drop_id list_emb_append_mono list_emb_Nil append_Nil2 subseq_order.order_refl)
    ultimately show ?thesis
      using Cons.IH Cons.prems(2) read_sector_out by (metis (no_types, lifting) list.simps(9)
          concat.simps(2) list_emb_append_mono list.set_intros map_append)
  qed simp
qed simp


lemma sector_blocks_upto:
  "concat (map sector_block_list [0..<5]) = [0..<20]"
  "concat (map sector_block_list [0..<16]) = [0..<64]"
  "concat (map sector_block_list [0..<40]) = [0..<192]"
  by code_simp+

lemma subseq_upt: "subseq xs [0..<k] \<Longrightarrow> k \<le> n \<Longrightarrow> subseq xs [0..<n]"
  by (metis le_add_diff_inverse list_emb_append2 list_emb_prefix upt_add_eq_append zero_le)

text \<open>
  C40: a dump of a MIFARE Classic card of any size prints each block at most once and in ascending
  order, and never one from 192 on: the last quarter of a 4 KByte card is missing.\<close>

theorem classic_dump_blocks:
  assumes "mifare_classic_dump rh l l2h ph buf w = Some (Inr (exit, out, w'))"
  shows "subseq (map fst out) [0..<192]"
proof -
  obtain n where n: "n \<in> {5, 16, 40}" and run: "classic_dump_sectors rh l l2h ph buf [0..<n] w = Some (exit, out, w')"
    using assms by (auto simp: mifare_classic_dump_def classic_num_sectors_def run_simps
        split: if_splits option.splits)
  have "\<forall>s \<in> set [0..<n]. s < 256" using n by auto
  from dump_sectors_out [OF run this] n show ?thesis
    using subseq_upt by (auto simp only: sector_blocks_upto insert_iff empty_iff)
qed


text \<open>A reader that authenticates every sector, and a card of 320 bytes that answers a byte per block.\<close>

definition dump_rh :: "unit rfid_reader_handle" where
  "dump_rh = \<lparr>rh_reader = (rc632_reader busy_transport)\<lparr>
       rdr_transceive := (\<lambda>_ _ _ rx _ _ _ w. Some (0, replicate 16 0xab, 1, w)),
       rdr_setkey := Some (\<lambda>_ w. Some (0, w)), rdr_auth := Some (\<lambda>_ _ _ w. Some (0, w))\<rparr>,
     rh_ah = \<lparr>ah_fc = 13560000, ah_mtu = 64, ah_mru = 64\<rparr>\<rparr>"

theorem classic_dump_blocks_witness:
  "\<exists>exit out w'. mifare_classic_dump dump_rh sample_locals
       (sample_l2h\<lparr>l2_a := (l2_a sample_l2h)\<lparr>a_sak := 0x09\<rparr>\<rparr>)
       (sample_ph\<lparr>ph_proto := PROTO_MIFARE_CLASSIC\<rparr>) (replicate 20 0) () = Some (Inr (exit, out, w')) \<and>
     length out = 20 \<and> subseq (map fst out) [0..<192]"
proof -
  let ?run = "mifare_classic_dump dump_rh sample_locals
       (sample_l2h\<lparr>l2_a := (l2_a sample_l2h)\<lparr>a_sak := 0x09\<rparr>\<rparr>)
       (sample_ph\<lparr>ph_proto := PROTO_MIFARE_CLASSIC\<rparr>) (replicate 20 0) ()"
  have "map_option (\<lambda>r. case r of Inl _ \<Rightarrow> 0 | Inr (exit, out, w) \<Rightarrow> length out) ?run = Some 20"
    by code_simp
  then obtain z where z: "?run = Some z" "(case z of Inl _ \<Rightarrow> 0 | Inr (exit, out, w) \<Rightarrow> length out) = 20"
    by blast
  then obtain exit out w' where run: "?run = Some (Inr (exit, out, w'))" "length out = 20"
    by (cases z) auto
  with classic_dump_blocks [OF run(1)] show ?thesis by blast
qed

end
