(* ===== verification/Iso15693_Blocks.thy ===== *)
theory Iso15693_Blocks
  imports Layer2_Iso15693
begin

text \<open>
  The block transfers of ISO 15693 against a card: what is written with \<open>iso15693_write_block\<close> is what
  \<open>iso15693_read_block\<close> gives back, for a card that is addressed by its identifier or has been selected.
\<close>

section \<open>A card\<close>

text \<open>
  A card with an identifier, blocks and their security status.  It keeps silent unless a request carries its
  identifier, or the selected flag while it is selected; a block that it does not have, or data of the wrong
  length, is refused with an error code.
\<close>

record vicc =
  vc_uid :: bytes
  vc_selected :: bool
  vc_mem :: "u8 \<Rightarrow> bytes option"
  vc_sec :: "u8 \<Rightarrow> u8"

definition vicc_params :: "bytes \<Rightarrow> vicc \<Rightarrow> bytes option" where
  "vicc_params tx c =
     (if bit (tx ! 0) 5 then (if take 8 (drop 2 tx) = vc_uid c then Some (drop 10 tx) else None)
      else if bit (tx ! 0) 4 \<and> vc_selected c then Some (drop 2 tx) else None)"

definition vicc_answer :: "bytes \<Rightarrow> vicc \<Rightarrow> bytes \<times> vicc" where
  "vicc_answer tx c =
     (case vicc_params tx c of
        Some (b # data) \<Rightarrow>
          (case vc_mem c b of
             None \<Rightarrow> ([0x01, 0x10], c)
           | Some old \<Rightarrow>
               if tx ! 1 = ISO15693_CMD_READ_BLOCK_SINGLE
               then ([0x00] @ (if bit (tx ! 0) 6 then [vc_sec c b] else []) @ old, c)
               else if tx ! 1 = ISO15693_CMD_WRITE_BLOCK_SINGLE \<and> length data = length old
               then ([0x00], c\<lparr>vc_mem := (vc_mem c)(b \<mapsto> data)\<rparr>)
               else ([0x01, 0x0f], c))
      | _ \<Rightarrow> ([], c))"

definition vicc_transceive ::
    "bytes \<Rightarrow> u32 \<Rightarrow> bytes \<Rightarrow> u32 \<Rightarrow> vicc \<Rightarrow> (int \<times> bytes \<times> u32 \<times> vicc) option" where
  "vicc_transceive tx n rx m c =
     (let (ans, c) = vicc_answer (take (unat n) tx) c in
      if ans = [] then Some (- ETIMEDOUT, rx, m, c)
      else Some (0, take (length rx) ans @ drop (length ans) rx, of_nat (min (length ans) (length rx)), c))"

definition vicc_link :: "vicc rfid_reader_handle \<Rightarrow> bool" where
  "vicc_link rh \<longleftrightarrow> (\<forall>tx n rx m timeout flags c.
     rdr_transceive (rh_reader rh) RFID_15693_FRAME tx n rx m timeout flags c = vicc_transceive tx n rx m c)"

text \<open>The card listens to requests made with the handle.\<close>

definition vicc_listens :: "rfid_layer2_handle \<Rightarrow> vicc \<Rightarrow> bool" where
  "vicc_listens h c \<longleftrightarrow>
     (if i_state (l2_i h) = RFID_15693_STATE_SELECTED then vc_selected c
      else length (vc_uid c) = 8 \<and> 8 \<le> length (l2_uid h) \<and> take 8 (l2_uid h) = vc_uid c)"

section \<open>Requests\<close>

lemma rate_flags_bits:
  assumes "x = iso15693_rate_flags i OR f" "f \<in> {0, RFID_15693_F4_CUSTOM}"
  shows "bit (x OR RFID_15693_F4_SELECTED) 5 = False" "bit (x OR RFID_15693_F4_SELECTED) 4"
    "bit (x OR RFID_15693_F4_ADDRESS) 5"
    "bit (x OR RFID_15693_F4_SELECTED) 6 = (f \<noteq> 0)" "bit (x OR RFID_15693_F4_ADDRESS) 6 = (f \<noteq> 0)"
  using assms by (auto simp: iso15693_rate_flags_def bit_simps)

lemma block_request_params:
  assumes "vicc_listens h c" "f \<in> {0, RFID_15693_F4_CUSTOM}"
  shows "\<exists>req. iso15693_block_request h cmd f b = Some req \<and> length req \<le> 11 \<and>
    (\<forall>data. vicc_params (req @ data) c = Some (b # data) \<and> (req @ data) ! 1 = cmd \<and>
       bit ((req @ data) ! 0) 6 = (f \<noteq> 0))"
proof (cases "i_state (l2_i h) = RFID_15693_STATE_SELECTED")
  case True
  then show ?thesis
    using assms rate_flags_bits [OF refl assms(2), of "l2_i h"]
    by (simp add: iso15693_block_request_def vicc_params_def vicc_listens_def Let_def)
next
  case False
  then have uid: "length (vc_uid c) = 8" "get_slice (l2_uid h) 0 8 = Some (vc_uid c)"
    using assms(1) by (auto simp: vicc_listens_def get_slice_def)
  then show ?thesis
    using False rate_flags_bits [OF refl assms(2), of "l2_i h"]
    by (simp add: iso15693_block_request_def vicc_params_def Let_def)
qed

section \<open>Writing and reading\<close>

lemma u32_small: "n \<le> 43 \<Longrightarrow> unat (of_nat n :: u32) = n"
  by (rule unat_of_nat_small) simp

lemma write_block_card:
  assumes "vicc_link rh" "vicc_listens h c" "length resp = 36"
    and "vc_mem c b = Some old" "length data = length old" "length old \<le> 32"
  shows "iso15693_write_block rh h resp b data (of_nat (length data)) c =
           Some (0, c\<lparr>vc_mem := (vc_mem c)(b \<mapsto> data)\<rparr>)"
proof -
  obtain req where req: "iso15693_block_request h ISO15693_CMD_WRITE_BLOCK_SINGLE 0 b = Some req" "length req \<le> 11"
      "vicc_params (req @ data) c = Some (b # data)" "(req @ data) ! 1 = ISO15693_CMD_WRITE_BLOCK_SINGLE"
    using block_request_params [OF assms(2), of 0] by force
  have ans: "vicc_answer (req @ data) c = ([0x00], c\<lparr>vc_mem := (vc_mem c)(b \<mapsto> data)\<rparr>)"
    using req(3,4) assms(4,5) by (simp add: vicc_answer_def)
  have len: "unat (of_nat (length (req @ data)) :: u32) = length (req @ data)"
      "unat (of_nat (length data) :: u32) = length data"
    using req(2) assms(5,6) by (intro u32_small; simp)+
  have "\<not> of_nat (length data) > (32 :: u32)" "\<not> 1 > (of_nat (length data) + 1 :: u32)"
    using len(2) assms(5,6) by (simp_all add: word_less_nat_alt unat_word_ariths)
  moreover have "vicc_transceive (req @ data) (of_nat (length (req @ data))) resp 36 c =
      Some (0, 0x00 # drop 1 resp, 1, c\<lparr>vc_mem := (vc_mem c)(b \<mapsto> data)\<rparr>)"
    using assms(3) by (simp only: vicc_transceive_def len take_all_iff order_refl take_all ans) simp
  ultimately show ?thesis
    using assms(1) req(1) len(2)
    by (simp add: iso15693_write_block_def iso15693_transceive_def vicc_link_def get_slice_def)
qed

lemma read_block_card:
  assumes "vicc_link rh" "vicc_listens h c" "length resp = 36"
    and "vc_mem c b = Some d" "length d \<le> 32" "length d \<le> unat len" "unat len \<le> length buf" "unat len < 2 ^ 31"
  shows "iso15693_read_block rh h resp b buf len sec c =
    Some (if sec \<and> unat len = length d then (-1, buf, c) else (int (length d), d @ drop (length d) buf, c))"
proof -
  let ?f = "if sec then RFID_15693_F4_CUSTOM else 0"
  let ?hdr = "if sec then 2 else 1 :: nat"
  have "?f \<in> {0, RFID_15693_F4_CUSTOM}" "(?f \<noteq> 0) = sec" by simp_all
  then obtain req where req: "iso15693_block_request h ISO15693_CMD_READ_BLOCK_SINGLE ?f b = Some req"
      "length req \<le> 11"
    and all: "\<forall>data. vicc_params (req @ data) c = Some (b # data) \<and>
      (req @ data) ! 1 = ISO15693_CMD_READ_BLOCK_SINGLE \<and> bit ((req @ data) ! 0) 6 = sec"
    using block_request_params [OF assms(2), of ?f ISO15693_CMD_READ_BLOCK_SINGLE b] by auto
  have par: "vicc_params req c = Some [b]" "req ! 1 = ISO15693_CMD_READ_BLOCK_SINGLE" "bit (req ! 0) 6 = sec"
    using spec [OF all, of "[]"] by simp_all
  let ?ans = "0x00 # (if sec then [vc_sec c b] else []) @ d"
  have ans: "vicc_answer req c = (?ans, c)" using par assms(4) by (simp add: vicc_answer_def)
  have len: "unat (of_nat (length req) :: u32) = length req" "length ?ans = length d + ?hdr"
      "unat (of_nat (length d + ?hdr) :: u32) = length d + ?hdr" "unat (of_nat (length d) :: u32) = length d"
    using req(2) assms(5) by ((intro u32_small; simp) | simp)+
  have x: "vicc_transceive req (of_nat (length req)) resp 36 c =
      Some (0, ?ans @ drop (length ?ans) resp, of_nat (length d + ?hdr), c)"
    using assms(3,5) len(1,2) by (simp add: vicc_transceive_def ans min_def)
  have "unat (len + 1) = unat len + 1" using assms(8) by (simp add: unat_word_ariths)
  then have big: "of_nat (length d + ?hdr) > len + 1 \<longleftrightarrow> sec \<and> unat len = length d"
    using assms(6) len(3) by (simp only: word_less_nat_alt) auto
  have diff: "of_nat (length d + ?hdr) - of_nat ?hdr = (of_nat (length d) :: u32)" by simp
  have "sint (of_nat (length d) :: u32) = int (length d)"
    using assms(5) by (simp add: sint_uint signed_take_bit_eq_if_positive bit_iff_odd uint_of_nat_small
        take_bit_int_eq_self)
  then show ?thesis
    using assms(1,3,5-7) req(1) x big diff len(4)
    by (simp add: iso15693_read_block_def iso15693_transceive_def vicc_link_def get_slice_def put_slice_def
        Let_def)
qed

text \<open>
  C7: a block written to an ISO 15693 card, addressed by its identifier or selected, is what a later read
  returns, with its length, at the start of the caller's buffer; the other blocks and the identifier stay.  Only a
  read that also asks for the security status needs a buffer one byte longer than the block, or it is refused.
\<close>

theorem iso15693_write_read:
  assumes "vicc_link rh" "vicc_listens h c" "length resp = 36" "length resp' = 36"
    and "vc_mem c b = Some old" "length data = length old" "length old \<le> 32"
    and "length old \<le> unat len" "unat len \<le> length buf" "unat len < 2 ^ 31"
  shows "\<exists>c'. iso15693_write_block rh h resp b data (of_nat (length data)) c = Some (0, c') \<and>
    iso15693_read_block rh h resp' b buf len sec c' =
      Some (if sec \<and> unat len = length data then (-1, buf, c')
            else (int (length data), data @ drop (length data) buf, c')) \<and>
    vc_uid c' = vc_uid c \<and> (\<forall>b'. b' \<noteq> b \<longrightarrow> vc_mem c' b' = vc_mem c b')"
proof -
  let ?c = "c\<lparr>vc_mem := (vc_mem c)(b \<mapsto> data)\<rparr>"
  have "vicc_listens h ?c" "vc_mem ?c b = Some data" using assms(2) by (simp_all add: vicc_listens_def)
  from read_block_card [OF assms(1) this(1) assms(4) this(2), of len buf sec] assms(6-10)
    write_block_card [OF assms(1-3,5-7)]
  show ?thesis by simp
qed

definition vicc_rh :: "vicc rfid_reader_handle" where
  "vicc_rh = \<lparr>rh_reader = \<lparr>rdr_l2_supported = 8, rdr_proto_supported = 0, rdr_init = (\<lambda>_ c. Some (0, c)),
      rdr_transceive = (\<lambda>ft tx n rx m timeout flags c. vicc_transceive tx n rx m c),
      rdr_transceive_sf = (\<lambda>_ c. Some (-1, [0, 0], c)), rdr_transceive_acf = (\<lambda>acf c. Some (-1, acf, 0, c)),
      rdr_set_speed = None, rdr_speed = 0, rdr_transceive_ac = None, rdr_setkey = None,
      rdr_setkey_ee = None, rdr_auth = None, rdr_setopt = (\<lambda>_ _ _ c. Some (-1, c))\<rparr>,
    rh_ah = \<lparr>ah_fc = 13560000, ah_mtu = 64, ah_mru = 64\<rparr>\<rparr>"

definition sample_vicc :: vicc where
  "sample_vicc = \<lparr>vc_uid = replicate 8 0, vc_selected = False,
     vc_mem = (\<lambda>b. if b < 28 then Some [0, 0, 0, 0] else None), vc_sec = (\<lambda>_. 0)\<rparr>"

theorem iso15693_write_read_witness:
  "\<exists>c'. iso15693_write_block vicc_rh sample_l2h (replicate 36 0) 5 [1, 2, 3, 4] 4 sample_vicc = Some (0, c') \<and>
     iso15693_read_block vicc_rh sample_l2h (replicate 36 0) 5 (replicate 8 0xee) 8 False c' =
       Some (4, [1, 2, 3, 4] @ replicate 4 0xee, c')"
  using iso15693_write_read [of vicc_rh sample_l2h sample_vicc "replicate 36 0" "replicate 36 0" 5 "[0, 0, 0, 0]"
      "[1, 2, 3, 4]" 8 "replicate 8 0xee" False]
  by (auto simp: vicc_link_def vicc_rh_def vicc_listens_def sample_vicc_def sample_l2h_def)

end
