(* ===== verification/Mifare_Blocks.thy ===== *)
theory Mifare_Blocks
  imports Protocol
begin

text \<open>
  The block transfers of MIFARE Classic against a card: what \<open>rfid_protocol_write\<close> writes is what
  \<open>rfid_protocol_read\<close> gives back, as far as the card shows it, and what the card refuses is an error.
\<close>

section \<open>A card\<close>

text \<open>
  A card after authentication: its blocks of sixteen bytes, a block it does not have or whose sector is not
  authenticated being \<^const>\<open>None\<close>, and the blocks that may be written.  A write has two parts, the command and
  the data.  After a refusal the card falls silent.  Of a sector trailer, the last block of a sector, it never
  shows key A, and key B only where the access conditions allow that.
\<close>

datatype mcard_phase = MC_ACTIVE | MC_WRITING u8 | MC_IDLE

record mcard =
  mc_phase :: mcard_phase
  mc_mem :: "u8 \<Rightarrow> bytes option"
  mc_writable :: "u8 \<Rightarrow> bool"
  mc_shows_key_b :: "u8 \<Rightarrow> bool"

definition mcard_trailer :: "u8 \<Rightarrow> bool" where
  "mcard_trailer b = (if unat b < 128 then unat b mod 4 = 3 else unat b mod 16 = 15)"

definition mcard_shown :: "mcard \<Rightarrow> u8 \<Rightarrow> bytes \<Rightarrow> bytes" where
  "mcard_shown c b d =
     (if mcard_trailer b
      then replicate 6 0 @ take 4 (drop 6 d) @ (if mc_shows_key_b c b then take 6 (drop 10 d) else replicate 6 0)
      else d)"

definition mcard_refuse :: "mcard \<Rightarrow> bytes \<times> mcard" where
  "mcard_refuse c = ([0x04], c\<lparr>mc_phase := MC_IDLE\<rparr>)"

definition mcard_answer :: "bytes \<Rightarrow> mcard \<Rightarrow> bytes \<times> mcard" where
  "mcard_answer tx c =
     (case mc_phase c of
        MC_IDLE \<Rightarrow> ([], c)
      | MC_WRITING b \<Rightarrow>
          if length tx = 16 then ([0x0a], c\<lparr>mc_phase := MC_ACTIVE, mc_mem := (mc_mem c)(b \<mapsto> tx)\<rparr>)
          else mcard_refuse c
      | MC_ACTIVE \<Rightarrow>
          (case tx of
             [cmd, b] \<Rightarrow>
               (case mc_mem c b of
                  None \<Rightarrow> mcard_refuse c
                | Some d \<Rightarrow>
                    if cmd = 0x30 then (mcard_shown c b d, c)
                    else if cmd = 0xa0 \<and> mc_writable c b then ([0x0a], c\<lparr>mc_phase := MC_WRITING b\<rparr>)
                    else mcard_refuse c)
           | _ \<Rightarrow> mcard_refuse c))"

definition mcard_transceive ::
    "bytes \<Rightarrow> u32 \<Rightarrow> bytes \<Rightarrow> u32 \<Rightarrow> mcard \<Rightarrow> (int \<times> bytes \<times> u32 \<times> mcard) option" where
  "mcard_transceive tx n rx m c =
     (let (ans, c) = mcard_answer (take (unat n) tx) c; k = min (length ans) (unat m) in
      if ans = [] then Some (- ETIMEDOUT, rx, m, c)
      else Some (0, take k ans @ drop k rx, of_nat k, c))"

definition mcard_link :: "mcard rfid_reader_handle \<Rightarrow> bool" where
  "mcard_link rh \<longleftrightarrow> (\<forall>tx n rx m timeout flags c.
     rdr_transceive (rh_reader rh) RFID_MIFARE_FRAME tx n rx m timeout flags c = mcard_transceive tx n rx m c)"

section \<open>Writing and reading\<close>

lemma mcard_shown_length: "length d = 16 \<Longrightarrow> length (mcard_shown c b d) = 16"
  by (simp add: mcard_shown_def)

lemma mcard_layer2:
  assumes "mcard_link rh" "l2_id l2h = RFID_LAYER2_ISO14443A"
  shows "rfid_layer2_transceive rh l2h RFID_MIFARE_FRAME tx n rx m timeout flags c = mcard_transceive tx n rx m c"
  using assms by (simp add: rfid_layer2_transceive_def iso14443a_transceive_def mcard_link_def)

text \<open>The card's block for a page number within a byte.\<close>

abbreviation (input) page_block :: "u32 \<Rightarrow> u8" where "page_block page \<equiv> ucast (page AND 0xff)"

lemma mfcl_write_card:
  assumes "mcard_link rh" "l2_id l2h = RFID_LAYER2_ISO14443A" "mc_phase c = MC_ACTIVE"
    and "length rx = 1" "page \<le> 0xff" "length data = 16"
  shows "mfcl_write rh rx l2h page data 16 c =
    (if mc_mem c (page_block page) \<noteq> None \<and> mc_writable c (page_block page)
     then Some (0, c\<lparr>mc_mem := (mc_mem c)(page_block page \<mapsto> data)\<rparr>)
     else Some (- ETIMEDOUT, c\<lparr>mc_phase := MC_IDLE\<rparr>))"
proof -
  obtain r0 where rx: "rx = [r0]" using assms(4) by (cases rx) auto
  have "\<not> 0xff < page" using assms(5) by simp
  then show ?thesis
    using assms(3,6)
    by (simp add: mfcl_write_def mcard_layer2 [OF assms(1,2)] rx mcard_transceive_def mcard_answer_def
        mcard_refuse_def get_at_def split: option.splits)
qed

lemma mfcl_read_card:
  assumes "mcard_link rh" "l2_id l2h = RFID_LAYER2_ISO14443A" "mc_phase c = MC_ACTIVE"
    and "length rx = 16" "page \<le> 0xff" "unat n \<le> length buf"
    and "\<And>d. mc_mem c (page_block page) = Some d \<Longrightarrow> length d = 16"
  shows "mfcl_read rh rx l2h page buf n c =
    (case mc_mem c (page_block page) of
       None \<Rightarrow> Some (- EPERM, buf, n, c\<lparr>mc_phase := MC_IDLE\<rparr>)
     | Some d \<Rightarrow> Some (0, take (unat n) (mcard_shown c (page_block page) d) @ drop (min 16 (unat n)) buf,
                       min 16 n, c))"
proof (cases "mc_mem c (page_block page)")
  case None
  obtain r0 rx' where rx: "rx = r0 # rx'" using assms(4) by (cases rx) auto
  have "\<not> 0xff < page" using assms(5) by simp
  then show ?thesis
    using None assms(3)
    by (simp add: mfcl_read_def mcard_layer2 [OF assms(1,2)] mcard_transceive_def mcard_answer_def
        mcard_refuse_def get_at_def rx)
next
  case (Some d)
  let ?d = "mcard_shown c (page_block page) d"
  have d: "length ?d = 16" using assms(7) [OF Some] by (rule mcard_shown_length)
  have xfer: "mcard_transceive [0x30, page_block page] 2 rx 16 c = Some (0, ?d, 16, c)"
    using d assms(3,4) Some by (auto simp: mcard_transceive_def mcard_answer_def)
  have n: "unat (if 16 < n then 16 else n) = min 16 (unat n)" by (simp add: word_less_nat_alt)
  show ?thesis
    using d xfer copy_reply [of 16 ?d n buf] assms(5,6) Some
    by (auto simp: mfcl_read_def mcard_layer2 [OF assms(1,2)] get_at_def run_simps Let_def min_def
        word_less_nat_alt word_le_nat_alt word_unat_eq_iff)
qed

text \<open>
  C17: a block written to a MIFARE Classic card over the protocol interface is what a later read returns, cut to
  the caller's buffer, whose bytes beyond it stay as they were; of a sector trailer it is what the card shows.
  The other blocks keep their content.  A write that the card refuses is reported as an error and leaves
  its memory as it was, although the answer to its first part is not looked at, because the card does not answer the data; a
  refused read is reported as \<open>EPERM\<close>, and a page above 255 or data of another length than sixteen bytes as
  \<open>EINVAL\<close>, with nothing sent.
\<close>

theorem mfcl_write_read:
  assumes "mcard_link rh" "l2_id l2h = RFID_LAYER2_ISO14443A" "ph_proto ph = PROTO_MIFARE_CLASSIC"
    and "mc_phase c = MC_ACTIVE" "length (lp_buf lw) = 1" "length (lp_buf lr) = 16"
    and "length data = 16" "unat n \<le> length buf"
  shows "(if page > 0xff \<or> m \<noteq> 16 then rfid_protocol_write rh lw l2h ph page data m c = Some (- EINVAL, c)
          else if mc_mem c (page_block page) \<noteq> None \<and> mc_writable c (page_block page) then
            \<exists>c'. rfid_protocol_write rh lw l2h ph page data m c = Some (0, c') \<and>
              rfid_protocol_read rh lr l2h ph page buf n c' =
                Some (0, take (unat n) (mcard_shown c (page_block page) data) @ drop (min 16 (unat n)) buf,
                      min 16 n, c') \<and>
              (\<forall>b. b \<noteq> page_block page \<longrightarrow> mc_mem c' b = mc_mem c b)
          else rfid_protocol_write rh lw l2h ph page data m c = Some (- ETIMEDOUT, c\<lparr>mc_phase := MC_IDLE\<rparr>)) \<and>
         (page > 0xff \<longrightarrow> rfid_protocol_read rh lr l2h ph page buf n c = Some (- EINVAL, buf, n, c)) \<and>
         (page \<le> 0xff \<and> mc_mem c (page_block page) = None \<longrightarrow>
            rfid_protocol_read rh lr l2h ph page buf n c = Some (- EPERM, buf, n, c\<lparr>mc_phase := MC_IDLE\<rparr>))"
proof -
  have proto: "rfid_protocol_write rh lw l2h ph = mfcl_write rh (lp_buf lw) l2h"
      "rfid_protocol_read rh lr l2h ph = mfcl_read rh (lp_buf lr) l2h"
    using assms(3) by (simp_all add: rfid_protocol_write_def rfid_protocol_read_def fun_eq_iff)
  let ?c = "c\<lparr>mc_mem := (mc_mem c)(page_block page \<mapsto> data)\<rparr>"
  show ?thesis
  proof (cases "page > 0xff")
    case True
    moreover from True have "\<not> page \<le> 0xff" by (simp add: not_le)
    ultimately show ?thesis by (simp add: proto mfcl_write_def mfcl_read_def)
  next
    case False
    then have page: "page \<le> 0xff" by simp
    have "mfcl_read rh (lp_buf lr) l2h page buf n ?c =
        Some (0, take (unat n) (mcard_shown c (page_block page) data) @ drop (min 16 (unat n)) buf, min 16 n, ?c)"
      using mfcl_read_card [OF assms(1,2) _ assms(6) page assms(8), of ?c] assms(4,7)
      by (simp add: mcard_shown_def)
    moreover have "mfcl_write rh (lp_buf lw) l2h page data m c = Some (- EINVAL, c)" if "m \<noteq> 16"
      using False that by (simp add: mfcl_write_def)
    moreover note mfcl_write_card [OF assms(1,2,4,5) page assms(7)]
    moreover have "mfcl_read rh (lp_buf lr) l2h page buf n c = Some (- EPERM, buf, n, c\<lparr>mc_phase := MC_IDLE\<rparr>)"
      if "mc_mem c (page_block page) = None"
      using mfcl_read_card [OF assms(1,2,4,6) page assms(8)] that by simp
    ultimately show ?thesis using False page by (simp add: proto)
  qed
qed

definition mcard_rh :: "mcard rfid_reader_handle" where
  "mcard_rh = \<lparr>rh_reader = \<lparr>rdr_l2_supported = 2, rdr_proto_supported = 8, rdr_init = (\<lambda>_ c. Some (0, c)),
      rdr_transceive = (\<lambda>ft tx n rx m timeout flags c. mcard_transceive tx n rx m c),
      rdr_transceive_sf = (\<lambda>_ c. Some (-1, [0, 0], c)), rdr_transceive_acf = (\<lambda>acf c. Some (-1, acf, 0, c)),
      rdr_set_speed = None, rdr_speed = 0, rdr_transceive_ac = None, rdr_setkey = None,
      rdr_setkey_ee = None, rdr_auth = None, rdr_setopt = (\<lambda>_ _ _ c. Some (-1, c))\<rparr>,
    rh_ah = \<lparr>ah_fc = 13560000, ah_mtu = 64, ah_mru = 64\<rparr>\<rparr>"

definition sample_mcard :: mcard where
  "sample_mcard = \<lparr>mc_phase = MC_ACTIVE, mc_mem = (\<lambda>b. if b < 64 then Some (replicate 16 0) else None),
     mc_writable = (\<lambda>b. b \<noteq> 0), mc_shows_key_b = (\<lambda>_. False)\<rparr>"

definition mcard_locals :: "nat \<Rightarrow> proto_locals" where
  "mcard_locals n = \<lparr>lp_atqa = [0, 0], lp_sak = [0], lp_uid6 = replicate 6 0, lp_buf = replicate n 0,
     lp_frame = replicate 3 0, lp_xcvb = undefined, lp_tcl = undefined\<rparr>"

definition mcard_ph :: rfid_protocol_handle where
  "mcard_ph = \<lparr>ph_proto = PROTO_MIFARE_CLASSIC, ph_tcl = undefined\<rparr>"

theorem mfcl_write_read_witness:
  "\<exists>c'. rfid_protocol_write mcard_rh (mcard_locals 1) sample_l2h mcard_ph 7 (replicate 16 0x11) 16 sample_mcard
          = Some (0, c') \<and>
        rfid_protocol_read mcard_rh (mcard_locals 16) sample_l2h mcard_ph 7 (replicate 18 0xee) 18 c'
          = Some (0, replicate 6 0 @ replicate 4 0x11 @ replicate 6 0 @ replicate 2 0xee, 16, c') \<and>
        rfid_protocol_write mcard_rh (mcard_locals 1) sample_l2h mcard_ph 0 (replicate 16 0x11) 16 sample_mcard
          = Some (- ETIMEDOUT, sample_mcard\<lparr>mc_phase := MC_IDLE\<rparr>)"
proof -
  have link: "mcard_link mcard_rh" "l2_id sample_l2h = RFID_LAYER2_ISO14443A"
      "ph_proto mcard_ph = PROTO_MIFARE_CLASSIC" "mc_phase sample_mcard = MC_ACTIVE"
      "length (lp_buf (mcard_locals 1)) = 1" "length (lp_buf (mcard_locals 16)) = 16"
      "length (replicate 16 0x11 :: bytes) = 16" "unat (18 :: u32) \<le> length (replicate 18 0xee :: bytes)"
    by (simp_all add: mcard_link_def mcard_rh_def sample_l2h_def mcard_ph_def sample_mcard_def mcard_locals_def)
  note run = mfcl_write_read [OF this]
  have trailer: "mcard_trailer 7" by (simp add: mcard_trailer_def)
  have "min 16 (18 :: u32) = 16" by (simp add: min_def)
  then show ?thesis
    using run [of 7 16] run [of 0 16] trailer
    by (auto simp: sample_mcard_def mcard_shown_def)
qed

end
