(* ===== verification/Layer2_Types.thy ===== *)
theory Layer2_Types
  imports Scan_Results Iso14443a_Select
begin

text \<open>
  The type of a layer 2 handle.  \<open>struct rfid_layer2_handle\<close> has a buffer of ten bytes for the identifier and
  a number that says how many of them are used; every function that hands out the identifier copies that many.
  The lemmas show that all operations keep the number within the buffer.
\<close>

definition uid_typed :: "rfid_layer2_handle \<Rightarrow> bool" where
  "uid_typed h \<longleftrightarrow> length (l2_uid h) = 10 \<and> l2_uid_len h \<le> 10"

section \<open>ISO 14443 A\<close>

lemma set_a_uid [simp]:
  "l2_uid (set_a_state s h) = l2_uid h" "l2_uid (set_a_level lv h) = l2_uid h"
  "l2_uid_len (set_a_state s h) = l2_uid_len h" "l2_uid_len (set_a_level lv h) = l2_uid_len h"
  by (simp_all add: set_a_state_def set_a_level_def)

lemma cascade_copy_typed: "anticol_cascade_copy u acf h = Some (ret, acf', h') \<Longrightarrow> uid_typed h \<Longrightarrow> uid_typed h'"
  by (auto simp: anticol_cascade_copy_def run_simps uid_typed_def split: if_splits dest: mem_length)

lemma anticol_finish_typed: "anticol_finish acf sak h = Some h' \<Longrightarrow> uid_typed h \<Longrightarrow> uid_typed h'"
  by (auto simp: anticol_finish_def run_simps uid_typed_def Let_def split: if_splits dest: mem_length)

lemma anticol_cascade_typed:
  "anticol_cascade rh acf sak h r w = Some (ret, h', r', w') \<Longrightarrow> uid_typed h \<Longrightarrow> uid_typed h'"
proof (induction rh acf sak h r w "(ret, h', r', w')" rule: anticol_cascade.raw_induct [rotated, consumes 1])
  case (1 f rh acf sak h r w)
  from 1(2,3) show ?case
    by (auto simp: run_simps split: if_splits
        intro: cascade_copy_typed anticol_finish_typed dest!: 1(1))
qed

lemma anticol_a_typed:
  "iso14443a_anticol rh h r w = Some (ret, h', r', w') \<Longrightarrow> l2_uid_len h \<le> 10 \<Longrightarrow> uid_typed h'"
  by (auto simp: iso14443a_anticol_def run_simps Let_def uid_typed_def [where h = "set_a_state s h" for s h]
      split: if_splits dest!: anticol_cascade_typed) (simp_all add: uid_typed_def)

section \<open>ISO 14443 B\<close>

lemma atqb_uid [simp]:
  "l2_uid (atqb_frame_options fo h) = l2_uid h" "l2_uid (atqb_protocol_type pt h) = l2_uid h"
  "l2_uid (set_b_fsc x h) = l2_uid h" "l2_uid (set_b_state st h) = l2_uid h"
  "l2_uid_len (atqb_frame_options fo h) = l2_uid_len h" "l2_uid_len (atqb_protocol_type pt h) = l2_uid_len h"
  "l2_uid_len (set_b_fsc x h) = l2_uid_len h" "l2_uid_len (set_b_state st h) = l2_uid_len h"
  by (simp_all add: atqb_frame_options_def atqb_protocol_type_def set_b_fsc_def set_b_state_def Let_def
      split: option.splits)

lemma parse_atqb_uid:
  "parse_atqb rh atqb h = Some (ret, h') \<Longrightarrow> length (l2_uid h') = length (l2_uid h) \<and>
     (l2_uid_len h' = l2_uid_len h \<and> ret < 0 \<or> l2_uid_len h' = 4)"
  by (auto simp: parse_atqb_def run_simps Let_def split: if_splits
      dest: mem_length arg_cong [where f = l2_uid_len])

lemma send_reqb_from_uid:
  "send_reqb_from rh afi wup is atqb n h w = Some (ret, h', w') \<Longrightarrow>
     length (l2_uid h') = length (l2_uid h) \<and>
     (l2_uid_len h' = l2_uid_len h \<and> ret < 0 \<or> l2_uid_len h' = 4)"
proof (induction "is" arbitrary: wup atqb n h w)
  case (Cons i "is")
  show ?case
    using Cons.prems
    by (auto simp: run_simps Let_def split: if_splits dest!: Cons.IH parse_atqb_uid)
qed simp

lemma transceive_attrib_uid:
  "transceive_attrib rh info rx d n a h w = Some (ret, d', n', h', w') \<Longrightarrow>
     l2_uid h' = l2_uid h \<and> l2_uid_len h' = l2_uid_len h"
  by (cases "iso14443_fsd_to_fsdi (b_fsd (l2_b h))")
    (auto simp: transceive_attrib_def run_simps Let_def split: if_splits)

lemma anticol_b_uid:
  "iso14443b_anticol rh l h w = Some (ret, h', w') \<Longrightarrow> length (l2_uid h') = length (l2_uid h) \<and>
     (l2_uid_len h' = l2_uid_len h \<and> ret < 0 \<or> l2_uid_len h' = 4)"
  by (auto simp: iso14443b_anticol_def send_reqb_def run_simps split: if_splits
      dest!: send_reqb_from_uid transceive_attrib_uid)

section \<open>ISO 15693\<close>

lemma set_uid8_uid: "set_uid8 u h = Some h' \<Longrightarrow> length (l2_uid h') = length (l2_uid h) \<and> l2_uid_len h' = 8"
  by (auto simp: set_uid8_def run_simps dest: mem_length)

lemma inventory_loop_uid:
  "inventory_loop rh acf n boc h w = Some (ret, h', w') \<Longrightarrow> length (l2_uid h') = length (l2_uid h) \<and>
     (l2_uid_len h' = l2_uid_len h \<and> ret < 0 \<or> l2_uid_len h' = 8)"
proof (induction rh acf n boc h w "(ret, h', w')" rule: inventory_loop.raw_induct [rotated, consumes 1])
  case (1 f rh acf n boc h w)
  let ?n = "if i_single_slot (l2_i h) then 1 else 16 :: nat"
  obtain res w1 where "inventory_slots rh acf n ?n boc [] (replicate 10 0) w = Some (res, w1)"
    using 1(2) by (cases "inventory_slots rh acf n ?n boc [] (replicate 10 0) w") auto
  note run = 1(2) [unfolded this, simplified]
  show ?case
  proof (cases res)
    case (Inl uuid)
    then show ?thesis using run by (auto simp: run_simps dest: set_uid8_uid)
  next
    case (Inr s)
    then show ?thesis
      using run by (cases s) (auto simp: run_simps Let_def split: option.splits if_splits
          dest: set_uid8_uid 1(1))
  qed
qed

lemma iso15693_setopt_uid:
  "iso15693_setopt h optname v = Some (ret, h') \<Longrightarrow>
     l2_uid h' = l2_uid h \<and> l2_uid_len h' = l2_uid_len h \<and> l2_id h' = l2_id h"
  by (cases "v = None \<or> v = Some []";
      cases "optname < RFID_OPT_15693_MOD_DEPTH \<or> optname > RFID_OPT_15693_AFI")
    (auto simp: iso15693_setopt_def run_simps Let_def case_prod_beta)

section \<open>The life of a handle\<close>

lemma open_typed:
  assumes "rfid_layer2_open rh l h r w = Some (ret, h', r', w')" "uid_typed h"
  shows "uid_typed h'"
  using assms
  by (auto simp: rfid_layer2_open_def iso15693_anticol_def run_simps uid_typed_def split: if_splits
      dest!: anticol_a_typed anticol_b_uid inventory_loop_uid)

lemma setopt_typed:
  assumes "rfid_layer2_setopt rh h optname v w = Some (ret, h', w')" "uid_typed h"
  shows "uid_typed h'"
proof (cases "drop_bit 16 optname = 0")
  case True
  have "(of_nat (length bs) :: u32) \<le> 10" if "length bs \<le> 10" for bs :: bytes
    using that by (simp add: word_le_nat_alt unat_of_nat_small)
  then show ?thesis
    using assms True
    by (auto simp: rfid_layer2_setopt_def run_simps uid_typed_def split: if_splits dest: mem_length)
next
  case False
  then show ?thesis
    using assms
    by (auto simp: rfid_layer2_setopt_def iso14443a_setopt_def iso14443b_setopt_def run_simps uid_typed_def
        split: if_splits option.splits dest!: iso15693_setopt_uid)
qed

text \<open>
  The identifier has ten bytes throughout, also where the number of used ones is not known.
\<close>

lemma open_uid_length:
  assumes "rfid_layer2_open rh l h r w = Some (ret, h', r', w')" "length (l2_uid h) = 10"
    and "l2_id h = RFID_LAYER2_ISO14443A \<Longrightarrow> l2_uid_len h \<le> 10"
  shows "length (l2_uid h') = 10 \<and> (0 \<le> ret \<longrightarrow> l2_uid_len h' \<le> 10)"
  using assms
  by (auto simp: rfid_layer2_open_def iso15693_anticol_def run_simps uid_typed_def split: if_splits
      dest!: anticol_a_typed anticol_b_uid inventory_loop_uid)

lemma close_uid:
  "rfid_layer2_close rh l h w = Some (ret, h', w') \<Longrightarrow>
     l2_uid h' = l2_uid h \<and> l2_uid_len h' = l2_uid_len h \<and> l2_id h' = l2_id h"
  by (auto simp: rfid_layer2_close_def iso14443b_hltb_def iso15693_stay_quiet_def run_simps Let_def
      split: if_splits)

lemma setopt_uid_length:
  assumes "rfid_layer2_setopt rh h optname v w = Some (ret, h', w')" "length (l2_uid h) = 10"
  shows "length (l2_uid h') = 10 \<and> l2_id h' = l2_id h \<and>
    (0 \<le> ret \<and> optname = RFID_OPT_LAYER2_UID \<longrightarrow> l2_uid_len h' \<le> 10)"
proof (cases "drop_bit 16 optname = 0")
  case True
  have "(of_nat (length bs) :: u32) \<le> 10" if "length bs \<le> 10" for bs :: bytes
    using that by (simp add: word_le_nat_alt unat_of_nat_small)
  then show ?thesis
    using assms True
    by (auto simp: rfid_layer2_setopt_def run_simps split: if_splits dest: mem_length)
next
  case False
  then show ?thesis
    using assms
    by (auto simp: rfid_layer2_setopt_def iso14443a_setopt_def iso14443b_setopt_def run_simps
        split: if_splits option.splits dest!: iso15693_setopt_uid)
qed

text \<open>
  The life of a handle, from its initialisation for any of the three layers on.  Its flag says whether the
  length of the identifier is known: a type A handle is cleared when it is made, the other two start with what
  the memory held (the identifier field has ten bytes all the same) until a search has found a card or the
  caller has set the identifier.
\<close>

inductive l2_life :: "'w rfid_reader_handle \<Rightarrow> bool \<Rightarrow> rfid_layer2_handle \<Rightarrow> bool" for rh where
  init: "rfid_layer2_init rh lid m h0 r w = Some (Some h, r', w') \<Longrightarrow> length (l2_uid h0) = 10 \<Longrightarrow>
    l2_life rh (lid = RFID_LAYER2_ISO14443A) h"
| open_card: "l2_life rh k h \<Longrightarrow> rfid_layer2_open rh l h r w = Some (ret, h', r', w') \<Longrightarrow>
    l2_life rh (k \<or> 0 \<le> ret) h'"
| close: "l2_life rh k h \<Longrightarrow> rfid_layer2_close rh l h w = Some (ret, h', w') \<Longrightarrow> l2_life rh k h'"
| setopt: "l2_life rh k h \<Longrightarrow> rfid_layer2_setopt rh h optname v w = Some (ret, h', w') \<Longrightarrow>
    l2_life rh (k \<or> 0 \<le> ret \<and> optname = RFID_OPT_LAYER2_UID) h'"

definition life_inv :: "bool \<Rightarrow> rfid_layer2_handle \<Rightarrow> bool" where
  "life_inv k h \<longleftrightarrow> length (l2_uid h) = 10 \<and> (k \<longrightarrow> l2_uid_len h \<le> 10) \<and> (l2_id h = RFID_LAYER2_ISO14443A \<longrightarrow> k)"

lemma init_life:
  assumes "rfid_layer2_init rh lid m h0 r w = Some (Some h, r', w')" "length (l2_uid h0) = 10"
  shows "life_inv (lid = RFID_LAYER2_ISO14443A) h"
  using assms
  by (auto simp: life_inv_def rfid_layer2_init_def iso14443a_init_def iso14443b_init_def iso15693_init_def
      run_simps Let_def split: if_splits)

lemma open_life:
  assumes "life_inv k h" "rfid_layer2_open rh l h r w = Some (ret, h', r', w')"
  shows "life_inv (k \<or> 0 \<le> ret) h'"
  using open_uid_length [OF assms(2)] open_typed [OF assms(2)] layer2_open_id [OF assms(2)] assms(1)
  by (auto simp: life_inv_def uid_typed_def)

lemma setopt_life:
  assumes "life_inv k h" "rfid_layer2_setopt rh h optname v w = Some (ret, h', w')"
  shows "life_inv (k \<or> 0 \<le> ret \<and> optname = RFID_OPT_LAYER2_UID) h'"
  using setopt_uid_length [OF assms(2)] setopt_typed [OF assms(2)] assms(1)
  by (auto simp: life_inv_def uid_typed_def)

lemma l2_life_inv: "l2_life rh k h \<Longrightarrow> life_inv k h"
proof (induction rule: l2_life.induct)
  case (close k h l w ret h' w')
  then show ?case by (auto simp: life_inv_def dest: close_uid)
qed (auto dest: init_life open_life setopt_life)

text \<open>
  C12: from its initialisation on, through any sequence of card searches, halts and option changes, and whatever
  cards answer, a layer 2 handle of any kind has ten bytes for its identifier, and asking for it gives exactly
  the identifier, cut to the caller's buffer, as long as the number of bytes lies within the ten.  It does from
  the start for type A, and for the other two once a search has found a card or the caller has set an
  identifier; until then the number is what the memory held, and where both it and the caller's buffer exceed
  the ten bytes, the copy reads behind them and has no defined result.
\<close>

theorem l2_life_uid:
  assumes "l2_life rh known h"
  shows "length (l2_uid h) = 10 \<and> (l2_id h = RFID_LAYER2_ISO14443A \<longrightarrow> known) \<and>
    (known \<longrightarrow> l2_uid_len h \<le> 10) \<and>
    rfid_layer2_getopt h RFID_OPT_LAYER2_UID n =
      (if min (l2_uid_len h) n \<le> 10
       then Some (0, Some (take (unat (min (l2_uid_len h) n)) (l2_uid h)), min (l2_uid_len h) n) else None)"
proof -
  have "(if l2_uid_len h < n then l2_uid_len h else n) = min (l2_uid_len h) n"
    by (auto simp: min_def)
  then show ?thesis
    using l2_life_inv [OF assms]
    by (simp add: life_inv_def rfid_layer2_getopt_def get_slice_def Let_def word_le_nat_alt)
qed

theorem l2_life_uid_witness:
  "(\<exists>h. rfid_layer2_getopt h RFID_OPT_LAYER2_UID 16 = Some (0, Some [9, 8, 7], 3)) \<and>
   (\<exists>h. l2_id h = RFID_LAYER2_ISO14443B \<and> rfid_layer2_getopt h RFID_OPT_LAYER2_UID 16 = None)"
proof
  let ?rh = "\<lparr>rh_reader = card_reader [1, 2, 3, 4] 0x08, rh_ah = \<lparr>ah_fc = 0, ah_mtu = 0, ah_mru = 0\<rparr>\<rparr>"
  obtain h r' where i: "rfid_layer2_init ?rh RFID_LAYER2_ISO14443A True sample_l2h randctx_init () = Some (Some h, r', ())"
    and h: "l2_uid h = replicate 10 0" "l2_uid_len h = 0"
    by (simp add: rfid_layer2_init_def iso14443a_init_def card_reader_def Let_def word_le_def)
  let ?h = "h\<lparr>l2_uid := [9, 8, 7] @ replicate 7 0, l2_uid_len := 3\<rparr>"
  have "rfid_layer2_setopt ?rh h RFID_OPT_LAYER2_UID (Some [9, 8, 7]) () = Some (0, ?h, ())"
    by (simp add: rfid_layer2_setopt_def h put_slice_def)
  from l2_life.setopt [OF l2_life.init [OF i] this] have "l2_life ?rh True ?h" by (simp add: sample_l2h_def)
  from l2_life_uid [OF this, of 16]
  show "\<exists>h. rfid_layer2_getopt h RFID_OPT_LAYER2_UID 16 = Some (0, Some [9, 8, 7], 3)" by (auto simp: min_def)
  obtain b where i: "rfid_layer2_init ?rh RFID_LAYER2_ISO14443B True (sample_l2h\<lparr>l2_uid_len := 200\<rparr>) randctx_init ()
        = Some (Some b, randctx_init, ())"
    and b: "l2_id b = RFID_LAYER2_ISO14443B" "l2_uid_len b = 200"
    by (simp add: rfid_layer2_init_def iso14443b_init_def card_reader_def Let_def word_le_def)
  have "l2_life ?rh False b"
    using l2_life.init [OF i] by (simp add: sample_l2h_def)
  from l2_life_uid [OF this, of 16] b
  show "\<exists>h. l2_id h = RFID_LAYER2_ISO14443B \<and> rfid_layer2_getopt h RFID_OPT_LAYER2_UID 16 = None"
    by (auto simp: min_def)
qed

end
