(* ===== verification/Text_Numbers.thy ===== *)
theory Text_Numbers
  imports Rfid_Prelude
begin

text \<open>
  Decimal numbers in text, for the command lines of the tools and the numbers of CCID readers: \<open>strtol\<close> and \<open>atoi\<close>
  of the C library.
\<close>

text \<open>
  \<open>strtol\<close> with base ten, as far as it can be observed: white space, a sign, and digits; the result is cut to
  the range of a \<open>long\<close> and then converted to \<open>int\<close>.
\<close>

definition is_digit :: "char \<Rightarrow> bool" where
  "is_digit c \<longleftrightarrow> 48 \<le> (of_char c :: nat) \<and> (of_char c :: nat) \<le> 57"

definition is_space :: "char \<Rightarrow> bool" where
  "is_space c \<longleftrightarrow> (of_char c :: nat) \<in> {9, 10, 11, 12, 13, 32}"

definition digits_value :: "string \<Rightarrow> int" where
  "digits_value ds = foldl (\<lambda>n d. 10 * n + (of_char d - 48)) 0 ds"

definition strtol10 :: "string \<Rightarrow> int" where
  "strtol10 s =
     (let s = dropWhile is_space s;
          neg = (s \<noteq> [] \<and> hd s = CHR ''-'');
          s = (if s \<noteq> [] \<and> hd s \<in> {CHR ''-'', CHR ''+''} then tl s else s);
          n = digits_value (takeWhile is_digit s)
      in max (- (2 ^ 63)) (min (2 ^ 63 - 1) (if neg then - n else n)))"

definition long_to_int :: "int \<Rightarrow> int" where
  "long_to_int n = sint (word_of_int n :: u32)"

definition atoi :: "string \<Rightarrow> int" where
  "atoi s = long_to_int (strtol10 s)"

end
