(* ===== verification/Ccid_Driver.thy ===== *)
theory Ccid_Driver
  imports Reader_Openpcd Text_Numbers
begin

text \<open>
  The CCID driver (\<open>src/ccid/ccid-driver.c\<close>) up to the commands for a card: the search for readers and their
  descriptors, opening and closing, messages over the bulk endpoints with the wait for time extensions, the
  escape command, the status of the slot and the interrupt endpoint.

  libusb is a parameter, and so is whether an allocation succeeds.  The world behind it includes libusb's own state,
  which \<open>usb_init\<close> sets up.  The driver keeps the sequence number of messages in an \<open>int\<close> of which only the low
  byte is ever used; here it is that byte.
\<close>

section \<open>Devices and handles\<close>

record usb_endpoint =
  ep_type :: u8
  ep_address :: u8
  ep_attributes :: u8

record usb_altsetting =
  if_number :: u8
  if_class :: u8
  if_subclass :: u8
  if_protocol :: u8
  if_endpoints :: "usb_endpoint list"
  if_extra :: "bytes option"

text \<open>A device with its configurations, their interfaces and the settings of these.\<close>

record usb_device =
  ud_vendor :: u16
  ud_product :: u16
  ud_bcd :: u16
  ud_serial :: u8
  ud_config :: "usb_altsetting list list list"

record 'd ccid_usb = "'d usb_ops" +
  cu_busses :: "'d \<Rightarrow> usb_device list list"
  cu_open :: "usb_device \<Rightarrow> 'd \<Rightarrow> bool \<times> 'd"
  cu_string :: "u8 \<Rightarrow> u16 \<Rightarrow> nat \<Rightarrow> 'd \<Rightarrow> int \<times> bytes \<times> 'd"
  cu_claim :: "u8 \<Rightarrow> 'd \<Rightarrow> int \<times> 'd"
  cu_release :: "u8 \<Rightarrow> 'd \<Rightarrow> 'd"
  cu_clear_halt :: "u8 \<Rightarrow> 'd \<Rightarrow> 'd"
  cu_errno :: "'d \<Rightarrow> int"
  cu_malloc :: "nat \<Rightarrow> 'd \<Rightarrow> bool \<times> 'd"

record ccid_handle =
  ch_open :: bool
  ch_rid :: "string option"
  ch_id_vendor :: u16
  ch_id_product :: u16
  ch_bcd_device :: u16
  ch_ifc_no :: u8
  ch_ep_bulk_out :: u8
  ch_ep_bulk_in :: u8
  ch_ep_intr :: u8
  ch_seqno :: u8
  ch_t1_ns :: u8
  ch_t1_nr :: u8
  ch_nonnull_nad :: bool
  ch_auto_ifsd :: bool
  ch_max_ifsd :: int
  ch_ifsd :: int
  ch_powered_off :: bool
  ch_has_pinpad :: u8
  ch_apdu_level :: bool

abbreviation (input) CCID_DRIVER_ERR_OUT_OF_CORE :: int where "CCID_DRIVER_ERR_OUT_OF_CORE \<equiv> 0x10001"
abbreviation (input) CCID_DRIVER_ERR_INV_VALUE :: int where "CCID_DRIVER_ERR_INV_VALUE \<equiv> 0x10002"
abbreviation (input) CCID_DRIVER_ERR_NOT_SUPPORTED :: int where "CCID_DRIVER_ERR_NOT_SUPPORTED \<equiv> 0x10005"
abbreviation (input) CCID_DRIVER_ERR_NO_CARD :: int where "CCID_DRIVER_ERR_NO_CARD \<equiv> 0x10008"
abbreviation (input) CCID_DRIVER_ERR_CARD_INACTIVE :: int where "CCID_DRIVER_ERR_CARD_INACTIVE \<equiv> 0x10009"
abbreviation (input) CCID_DRIVER_ERR_CARD_IO_ERROR :: int where "CCID_DRIVER_ERR_CARD_IO_ERROR \<equiv> 0x1000a"
abbreviation (input) CCID_DRIVER_ERR_NO_READER :: int where "CCID_DRIVER_ERR_NO_READER \<equiv> 0x1000c"
abbreviation (input) CCID_DRIVER_ERR_ABORTED :: int where "CCID_DRIVER_ERR_ABORTED \<equiv> 0x1000d"
abbreviation (input) CCID_DRIVER_ERR_NO_KEYPAD :: int where "CCID_DRIVER_ERR_NO_KEYPAD \<equiv> 0x1000e"

abbreviation (input) PC_to_RDR_SetParameters :: u8 where "PC_to_RDR_SetParameters \<equiv> 0x61"
abbreviation (input) PC_to_RDR_IccPowerOn :: u8 where "PC_to_RDR_IccPowerOn \<equiv> 0x62"
abbreviation (input) PC_to_RDR_IccPowerOff :: u8 where "PC_to_RDR_IccPowerOff \<equiv> 0x63"
abbreviation (input) PC_to_RDR_GetSlotStatus :: u8 where "PC_to_RDR_GetSlotStatus \<equiv> 0x65"
abbreviation (input) PC_to_RDR_Secure :: u8 where "PC_to_RDR_Secure \<equiv> 0x69"
abbreviation (input) PC_to_RDR_Escape :: u8 where "PC_to_RDR_Escape \<equiv> 0x6b"
abbreviation (input) PC_to_RDR_XfrBlock :: u8 where "PC_to_RDR_XfrBlock \<equiv> 0x6f"
abbreviation (input) RDR_to_PC_DataBlock :: u8 where "RDR_to_PC_DataBlock \<equiv> 0x80"
abbreviation (input) RDR_to_PC_SlotStatus :: u8 where "RDR_to_PC_SlotStatus \<equiv> 0x81"
abbreviation (input) RDR_to_PC_Parameters :: u8 where "RDR_to_PC_Parameters \<equiv> 0x82"
abbreviation (input) RDR_to_PC_Escape :: u8 where "RDR_to_PC_Escape \<equiv> 0x83"

abbreviation (input) VENDOR_SCM :: u16 where "VENDOR_SCM \<equiv> 0x04e6"
abbreviation (input) VENDOR_CHERRY :: u16 where "VENDOR_CHERRY \<equiv> 0x046a"
abbreviation (input) VENDOR_GEMPC :: u16 where "VENDOR_GEMPC \<equiv> 0x08e6"

section \<open>The descriptor of a reader\<close>

definition convert_le_u32 :: "bytes \<Rightarrow> u32 option" where
  "convert_le_u32 buf = map_option u32_of_le (get_slice buf 0 4)"

definition scm_workaround :: "ccid_handle \<Rightarrow> ccid_handle" where
  "scm_workaround ch =
     (if ch_id_vendor ch = VENDOR_SCM \<and> ch_max_ifsd ch > 48 \<and>
         (ch_id_product ch = 0xe001 \<and> ch_bcd_device ch < 0x0516 \<or>
          ch_id_product ch = 0x5111 \<and> ch_bcd_device ch < 0x0620 \<or>
          ch_id_product ch = 0x5115 \<and> ch_bcd_device ch < 0x0514 \<or>
          ch_id_product ch = 0xe003 \<and> ch_bcd_device ch < 0x0504)
      then ch\<lparr>ch_max_ifsd := 48\<rparr> else ch)"

definition parse_ccid_descriptor :: "ccid_handle \<Rightarrow> bytes \<Rightarrow> (int \<times> ccid_handle) option" where
  "parse_ccid_descriptor ch buf = do {
     let ch = ch\<lparr>ch_nonnull_nad := False, ch_auto_ifsd := False, ch_max_ifsd := 32, ch_ifsd := 0,
                 ch_has_pinpad := 0, ch_apdu_level := False\<rparr>;
     if length buf < 54 \<or> buf ! 0 < 54 then Some (-1, ch)
     else do {
       max_ifsd \<leftarrow> convert_le_u32 (drop 28 buf);
       features \<leftarrow> convert_le_u32 (drop 40 buf);
       Some (0, scm_workaround
         (ch\<lparr>ch_max_ifsd := sint max_ifsd,
             ch_nonnull_nad := (features AND 0x200 \<noteq> 0), ch_auto_ifsd := (features AND 0x400 \<noteq> 0),
             ch_apdu_level := (features AND 0x10000 = 0 \<and> (features AND 0x20000 \<noteq> 0 \<or> features AND 0x40000 \<noteq> 0)),
             ch_has_pinpad := buf ! 52 AND 3\<rparr>)) } }"

section \<open>Names of readers\<close>

definition hexX :: "u16 \<Rightarrow> char" where
  "hexX n = (''0123456789ABCDEF'' ! unat (n AND 0xf))"

text \<open>
  The characters of a string descriptor are two bytes each, low byte first.  The first pass over them computes the
  length of the escaped text, the second writes it.
\<close>

abbreviation (input) must_escape :: "u8 \<Rightarrow> bool" where
  "must_escape c \<equiv> c \<le> 0x20 \<or> c \<ge> 0x7f \<or> c = 0x25 \<or> c = 0x3a"

fun escaped_length :: "bytes \<Rightarrow> nat" where
  "escaped_length (lo # hi # s) =
     (if hi \<noteq> 0 then 1 else if must_escape lo then 3 else 1) + escaped_length s"
| "escaped_length s = 0"

fun escape_units :: "bytes \<Rightarrow> string" where
  "escape_units (lo # hi # s) =
     (if hi \<noteq> 0 then [CHR 0xFF]
      else if must_escape lo then [CHR ''%'', hexX (ucast (drop_bit 4 lo)), hexX (ucast lo)]
      else [char_of (unat lo)]) @ escape_units s"
| "escape_units s = []"

definition escape_string ::
    "('d, 'x) ccid_usb_scheme \<Rightarrow> bytes \<Rightarrow> int \<Rightarrow> string \<Rightarrow> string \<Rightarrow> 'd \<Rightarrow> (string option \<times> 'd) option" where
  "escape_string u buf rc pre suf d =
     (if rc < 2 \<or> buf ! 1 \<noteq> 3 then Some (None, d)
      else if int (unat (buf ! 0)) > rc then Some (None, d)
      else do {
        let s = take (unat (buf ! 0) - 2) (drop 2 buf);
        let text = pre @ escape_units s @ suf;
        let size = length pre + escaped_length s + length suf + 1;
        let (ok, d) = cu_malloc u size d;
        if \<not> ok then Some (None, d)
        else if length text < size then Some (Some text, d)
        else None })"

definition get_escaped_usb_string ::
    "('d, 'x) ccid_usb_scheme \<Rightarrow> u8 \<Rightarrow> string \<Rightarrow> string \<Rightarrow> 'd \<Rightarrow> (string option \<times> 'd) option" where
  "get_escaped_usb_string u idx pre suf d =
     (if idx = 0 then Some (None, d)
      else case cu_string u 0 0 280 d of (rc, inp, d) \<Rightarrow> do {
        buf \<leftarrow> put_slice (replicate 280 0) 0 inp;
        let langid = (if rc < 4 then 0x0409 else push_bit 8 (ucast (buf ! 3)) OR ucast (buf ! 2));
        case cu_string u idx langid 280 d of (rc, inp, d) \<Rightarrow> do {
          buf \<leftarrow> put_slice buf 0 inp;
          escape_string u buf rc pre suf d } })"

text \<open>The vendor is cut to twelve bits.\<close>

definition reader_prefix :: "u16 \<Rightarrow> u16 \<Rightarrow> string" where
  "reader_prefix vendor product =
     (let hex4 = (\<lambda>n :: u16. [hexX (drop_bit 12 n), hexX (drop_bit 8 n), hexX (drop_bit 4 n), hexX n])
      in hex4 (vendor AND 0xfff) @ '':'' @ hex4 product @ '':'')"

definition make_reader_id ::
    "('d, 'x) ccid_usb_scheme \<Rightarrow> u16 \<Rightarrow> u16 \<Rightarrow> u8 \<Rightarrow> 'd \<Rightarrow> (string option \<times> 'd) option" where
  "make_reader_id u vendor product serialno_index d = do {
     let pre = reader_prefix vendor product;
     (rid, d) \<leftarrow> get_escaped_usb_string u serialno_index pre '':0'' d;
     case rid of
       Some rid \<Rightarrow> Some (Some rid, d)
     | None \<Rightarrow> do {
         let (ok, d) = cu_malloc u (length pre + 3 + 1) d;
         Some (if ok then Some (pre @ ''X:0'') else None, d) } }"

section \<open>The search for readers\<close>

fun find_endpoint :: "usb_endpoint list \<Rightarrow> nat \<Rightarrow> u8" where
  "find_endpoint [] mode = (if mode = 2 then 0x83 else if mode = 1 then 0x82 else 1)"
| "find_endpoint (ep # eps) mode =
     (if ep_type ep \<noteq> 5 then find_endpoint eps mode
      else if mode = 2 \<and> ep_attributes ep AND 3 = 3 \<and> ep_address ep AND 0x80 \<noteq> 0 then ep_address ep AND 0x0f
      else if ep_attributes ep AND 3 = 2 \<and> ep_address ep AND 0x80 = (if mode = 1 then 0x80 else 0)
           then ep_address ep AND 0x0f
      else find_endpoint eps mode)"

definition is_ccid :: "usb_device \<Rightarrow> usb_altsetting \<Rightarrow> bool" where
  "is_ccid dev ifc \<longleftrightarrow> if_extra ifc \<noteq> None \<and>
     (if_class ifc = 11 \<and> if_subclass ifc = 0 \<and> if_protocol ifc = 0 \<or>
      if_class ifc = 255 \<and> ud_vendor dev = 0x04e6 \<and> ud_product dev = 0xe003)"

record scan_state =
  sc_readerno :: int
  sc_rid_list :: "string option"

text \<open>The search goes on, ends with a reader that stays open, or ends because memory ran out.\<close>

datatype 'd scan_result =
    Scan_Next scan_state 'd
  | Scan_Found string usb_device usb_altsetting 'd
  | Scan_Failed 'd

text \<open>What happens with an opened device and the name made for it.\<close>

definition scan_opened ::
    "('d, 'x) ccid_usb_scheme \<Rightarrow> bool \<Rightarrow> string option \<Rightarrow> usb_device \<Rightarrow> usb_altsetting \<Rightarrow> string option
       \<Rightarrow> scan_state \<Rightarrow> 'd \<Rightarrow> 'd scan_result" where
  "scan_opened u scan_mode readerid dev ifc rid st d =
     (case rid of
        None \<Rightarrow> Scan_Next st (usb_close u d)
      | Some rid \<Rightarrow>
          if scan_mode then
            (let old = (case sc_rid_list st of None \<Rightarrow> '''' | Some l \<Rightarrow> l);
                 (ok, d) = cu_malloc u (length old + 1 + length rid + 1) d
             in Scan_Next (if ok then st\<lparr>sc_rid_list := Some (old @ rid @ [CHR 0x0A])\<rparr> else st) (usb_close u d))
          else if sc_readerno st = 0 \<or> sc_readerno st < 0 \<and> readerid = Some rid then
            (let (ok, d) = cu_malloc u (length (the (if_extra ifc))) d
             in if ok then Scan_Found rid dev ifc d else Scan_Failed (usb_close u d))
          else Scan_Next (if sc_readerno st \<ge> 0 then st\<lparr>sc_readerno := sc_readerno st - 1\<rparr> else st)
                 (usb_close u d))"

text \<open>
  The loops over configurations, interfaces and settings of a device: a device that cannot be opened is tried again
  with its next setting, and after the first setting that opened the next device is looked at.
\<close>

fun scan_settings ::
    "('d, 'x) ccid_usb_scheme \<Rightarrow> bool \<Rightarrow> string option \<Rightarrow> usb_device \<Rightarrow> usb_altsetting list \<Rightarrow> scan_state \<Rightarrow> 'd
       \<Rightarrow> 'd scan_result option" where
  "scan_settings u scan_mode readerid dev [] st d = Some (Scan_Next st d)"
| "scan_settings u scan_mode readerid dev (ifc # ifcs) st d =
     (if \<not> is_ccid dev ifc then scan_settings u scan_mode readerid dev ifcs st d
      else case cu_open u dev d of (opened, d) \<Rightarrow>
        if \<not> opened then scan_settings u scan_mode readerid dev ifcs st d
        else do {
          (rid, d) \<leftarrow> make_reader_id u (ud_vendor dev) (ud_product dev) (ud_serial dev) d;
          Some (scan_opened u scan_mode readerid dev ifc rid st d) })"

fun scan_devices ::
    "('d, 'x) ccid_usb_scheme \<Rightarrow> bool \<Rightarrow> string option \<Rightarrow> usb_device list \<Rightarrow> scan_state \<Rightarrow> 'd
       \<Rightarrow> 'd scan_result option" where
  "scan_devices u scan_mode readerid [] st d = Some (Scan_Next st d)"
| "scan_devices u scan_mode readerid (dev # devs) st d = do {
     r \<leftarrow> scan_settings u scan_mode readerid dev (concat (concat (ud_config dev))) st d;
     case r of
       Scan_Next st d \<Rightarrow> scan_devices u scan_mode readerid devs st d
     | _ \<Rightarrow> Some r }"

definition scan_or_find_devices ::
    "('d, 'x) ccid_usb_scheme \<Rightarrow> int \<Rightarrow> string option \<Rightarrow> 'd \<Rightarrow> 'd scan_result option" where
  "scan_or_find_devices u readerno readerid d =
     (let (_, d) = usb_find_busses u d;
          (_, d) = usb_find_devices u d
      in scan_devices u (readerno = -1 \<and> readerid = None) readerid (concat (cu_busses u d))
           \<lparr>sc_readerno = readerno, sc_rid_list = None\<rparr> d)"

definition ccid_get_reader_list :: "('d, 'x) ccid_usb_scheme \<Rightarrow> 'd \<Rightarrow> (string option \<times> 'd) option" where
  "ccid_get_reader_list u d = do {
     r \<leftarrow> scan_or_find_devices u (-1) None d;
     case r of
       Scan_Next st d \<Rightarrow> Some (sc_rid_list st, d)
     | Scan_Found rid dev ifc d \<Rightarrow> Some (None, d)
     | Scan_Failed d \<Rightarrow> Some (None, d) }"

section \<open>Opening a reader\<close>

text \<open>
  The end of opening and of a reset: the descriptor is looked at and the interface claimed.  The caller closes the
  device when the code is not zero.
\<close>

definition claim_reader ::
    "('d, 'x) ccid_usb_scheme \<Rightarrow> ccid_handle \<Rightarrow> bytes \<Rightarrow> 'd \<Rightarrow> (int \<times> ccid_handle \<times> 'd) option" where
  "claim_reader u ch extra d = do {
     (rc, ch) \<leftarrow> parse_ccid_descriptor ch extra;
     if rc \<noteq> 0 then Some (CCID_DRIVER_ERR_NO_READER, ch, d)
     else do {
       let (rc, d) = cu_claim u (ch_ifc_no ch) d;
       Some (if rc \<noteq> 0 then CCID_DRIVER_ERR_CARD_IO_ERROR else 0, ch, d) } }"

definition new_ccid_handle :: "string \<Rightarrow> usb_device \<Rightarrow> usb_altsetting \<Rightarrow> ccid_handle" where
  "new_ccid_handle rid dev ifc =
     \<lparr>ch_open = True, ch_rid = Some rid, ch_id_vendor = ud_vendor dev, ch_id_product = ud_product dev,
      ch_bcd_device = ud_bcd dev, ch_ifc_no = if_number ifc,
      ch_ep_bulk_out = find_endpoint (if_endpoints ifc) 0, ch_ep_bulk_in = find_endpoint (if_endpoints ifc) 1,
      ch_ep_intr = find_endpoint (if_endpoints ifc) 2, ch_seqno = 0, ch_t1_ns = 0, ch_t1_nr = 0,
      ch_nonnull_nad = False, ch_auto_ifsd = False, ch_max_ifsd = 0, ch_ifsd = 0, ch_powered_off = False,
      ch_has_pinpad = 0, ch_apdu_level = False\<rparr>"

text \<open>A name with a colon is searched for by name, which is the number -1; a negative number is refused.\<close>

definition reader_number :: "string option \<Rightarrow> int option" where
  "reader_number readerid =
     (case readerid of
        None \<Rightarrow> Some 0
      | Some s \<Rightarrow> if CHR '':'' \<in> set s then Some (-1) else if atoi s < 0 then None else Some (atoi s))"

text \<open>Eighty bytes is the size of the driver's structure.\<close>

definition ccid_open_reader ::
    "('d, 'x) ccid_usb_scheme \<Rightarrow> string option \<Rightarrow> 'd \<Rightarrow> (int \<times> ccid_handle option \<times> 'd) option" where
  "ccid_open_reader u readerid d =
     (case reader_number readerid of
        None \<Rightarrow> Some (CCID_DRIVER_ERR_NO_READER, None, d)
      | Some readerno \<Rightarrow> do {
          r \<leftarrow> scan_or_find_devices u readerno readerid d;
          case r of
            Scan_Next st d \<Rightarrow> Some (CCID_DRIVER_ERR_NO_READER, None, d)
          | Scan_Failed d \<Rightarrow> Some (CCID_DRIVER_ERR_NO_READER, None, d)
          | Scan_Found rid dev ifc d \<Rightarrow> (case cu_malloc u 80 d of (ok, d) \<Rightarrow>
              if \<not> ok then Some (CCID_DRIVER_ERR_OUT_OF_CORE, None, usb_close u d)
              else do {
                (rc, ch, d) \<leftarrow> claim_reader u (new_ccid_handle rid dev ifc) (the (if_extra ifc)) d;
                if rc \<noteq> 0 then Some (rc, None, usb_close u d)
                else Some (0, Some ch, d) }) })"

section \<open>Messages\<close>

definition set_msg_len :: "bytes \<Rightarrow> u32 \<Rightarrow> bytes option" where
  "set_msg_len msg len = put_slice msg 1 (u32_le_bytes len)"

definition bulk_out :: "('d, 'x) usb_ops_scheme \<Rightarrow> ccid_handle \<Rightarrow> bytes \<Rightarrow> nat \<Rightarrow> 'd \<Rightarrow> (int \<times> 'd) option" where
  "bulk_out u ch msg msglen d = do {
     out \<leftarrow> get_slice msg 0 msglen;
     let (rc, d) = usb_bulk_write u (ch_ep_bulk_out ch) out d;
     Some (if rc = int msglen then 0 else CCID_DRIVER_ERR_CARD_IO_ERROR, d) }"

text \<open>What the header of a message means: an error code, or that the reader asks for more time.\<close>

datatype bulk_result = Done int | Retry

definition bulk_in_check :: "u8 \<Rightarrow> u8 \<Rightarrow> bytes \<Rightarrow> nat \<Rightarrow> bulk_result" where
  "bulk_in_check expected_type seqno buffer msglen =
     (if msglen < 10 then Done CCID_DRIVER_ERR_INV_VALUE
      else if buffer ! 0 \<noteq> expected_type then Done CCID_DRIVER_ERR_INV_VALUE
      else if buffer ! 5 \<noteq> 0 then Done CCID_DRIVER_ERR_INV_VALUE
      else if buffer ! 6 \<noteq> seqno then Done CCID_DRIVER_ERR_INV_VALUE
      else if buffer ! 7 AND 0x03 = 0 \<and> buffer ! 7 AND 0xc0 = 0x80 then Retry
      else if buffer ! 7 AND 0x03 = 1 then Done CCID_DRIVER_ERR_CARD_INACTIVE
      else if buffer ! 7 AND 0x03 = 2 then Done CCID_DRIVER_ERR_NO_CARD
      else Done 0)"

text \<open>
  The loop over \<open>retry\<close>.  The number of bytes read is only stored when the transfer succeeds.  A reader that asks
  for more time for ever keeps it running.
\<close>

partial_function (option) bulk_in_retry ::
    "('d, 'x) usb_ops_scheme \<Rightarrow> ccid_handle \<Rightarrow> u8 \<Rightarrow> u8 \<Rightarrow> bytes \<Rightarrow> 'd
       \<Rightarrow> (int \<times> bytes \<times> nat option \<times> 'd) option" where
  "bulk_in_retry u ch expected_type seqno buffer d =
     (case usb_bulk_read u (ch_ep_bulk_in ch) (length buffer) d of (rc, inp, d) \<Rightarrow> do {
        buffer \<leftarrow> put_slice buffer 0 inp;
        if rc < 0 then Some (CCID_DRIVER_ERR_CARD_IO_ERROR, buffer, None, d)
        else if nat rc \<ge> 10 \<and> length buffer < 10 then None
        else case bulk_in_check expected_type seqno buffer (nat rc) of
               Retry \<Rightarrow> bulk_in_retry u ch expected_type seqno buffer d
             | Done e \<Rightarrow> Some (e, buffer, Some (nat rc), d) })"

declare bulk_in_retry.simps [code]

definition bulk_in ::
    "('d, 'x) usb_ops_scheme \<Rightarrow> ccid_handle \<Rightarrow> bytes \<Rightarrow> nat \<Rightarrow> u8 \<Rightarrow> u8 \<Rightarrow> 'd
       \<Rightarrow> (int \<times> bytes \<times> nat option \<times> 'd) option" where
  "bulk_in u ch buffer len expected_type seqno d = do {
     buffer \<leftarrow> memset0 buffer len;
     bulk_in_retry u ch expected_type seqno buffer d }"

text \<open>
  How every command is sent: \<open>msg\<close> holds the data behind the header, which is filled in with the next sequence
  number.  Byte seven depends on the command.
\<close>

definition ccid_put ::
    "('d, 'x) usb_ops_scheme \<Rightarrow> bytes \<Rightarrow> ccid_handle \<Rightarrow> u8 \<Rightarrow> nat \<Rightarrow> u8 \<Rightarrow> 'd
       \<Rightarrow> (int \<times> bytes \<times> ccid_handle \<times> 'd) option" where
  "ccid_put u msg ch msg_type datalen byte7 d = do {
     msg \<leftarrow> put_at msg 0 msg_type;
     msg \<leftarrow> put_slice msg 5 [0, ch_seqno ch, byte7, 0, 0];
     msg \<leftarrow> set_msg_len msg (of_nat datalen);
     let ch = ch\<lparr>ch_seqno := ch_seqno ch + 1\<rparr>;
     (rc, d) \<leftarrow> bulk_out u ch msg (10 + datalen) d;
     Some (rc, msg, ch, d) }"

text \<open>The header has ten bytes.\<close>

definition ccid_header :: "u8 \<Rightarrow> u32 \<Rightarrow> u8 \<Rightarrow> u8 \<Rightarrow> bytes" where
  "ccid_header msg_type len seqno byte7 = [msg_type] @ u32_le_bytes len @ [0, seqno, byte7, 0, 0]"

section \<open>The escape command\<close>

text \<open>
  The end of the function: the data is copied only when it fits, but the error for a reply that does not is
  overwritten with zero.  Without a buffer for the result the code of the transfer is returned, whatever it is.
\<close>

definition escape_result ::
    "int \<Rightarrow> bytes \<Rightarrow> nat option \<Rightarrow> bytes option \<Rightarrow> nat \<Rightarrow> (int \<times> bytes option \<times> nat) option" where
  "escape_result rc msg nread result resultmax =
     (case result of
        None \<Rightarrow> Some (rc, None, 0)
      | Some res \<Rightarrow>
          if rc \<in> {0, CCID_DRIVER_ERR_CARD_INACTIVE, CCID_DRIVER_ERR_NO_CARD} then do {
            msglen \<leftarrow> nread;
            if msglen < 10 \<or> msglen - 10 > resultmax then Some (0, result, 0)
            else do {
              data \<leftarrow> get_slice msg 10 (msglen - 10);
              res \<leftarrow> put_slice res 0 data;
              Some (0, Some res, msglen - 10) } }
          else Some (rc, result, 0))"

text \<open>\<open>msg\<close> is the uninitialised local of 100 bytes.  The results are the code, \<open>result\<close> and \<open>*resultlen\<close>.\<close>

definition send_escape_cmd ::
    "('d, 'x) usb_ops_scheme \<Rightarrow> bytes \<Rightarrow> ccid_handle \<Rightarrow> bytes \<Rightarrow> nat \<Rightarrow> bytes option \<Rightarrow> nat \<Rightarrow> 'd
       \<Rightarrow> (int \<times> bytes option \<times> nat \<times> ccid_handle \<times> 'd) option" where
  "send_escape_cmd u msg ch data datalen result resultmax d =
     (if datalen > 100 - 10 then Some (CCID_DRIVER_ERR_INV_VALUE, result, 0, ch, d)
      else do {
        out \<leftarrow> get_slice data 0 datalen;
        msg \<leftarrow> put_slice msg 10 out;
        let seqno = ch_seqno ch;
        (rc, msg, ch, d) \<leftarrow> ccid_put u msg ch PC_to_RDR_Escape datalen 0 d;
        if rc \<noteq> 0 then Some (rc, result, 0, ch, d)
        else do {
          (rc, msg, nread, d) \<leftarrow> bulk_in u ch msg 100 RDR_to_PC_Escape seqno d;
          (rc, result, resultlen) \<leftarrow> escape_result rc msg nread result resultmax;
          Some (rc, result, resultlen, ch, d) } })"

definition ccid_transceive_escape ::
    "('d, 'x) usb_ops_scheme \<Rightarrow> bytes \<Rightarrow> ccid_handle \<Rightarrow> bytes \<Rightarrow> nat \<Rightarrow> bytes option \<Rightarrow> nat \<Rightarrow> 'd
       \<Rightarrow> (int \<times> bytes option \<times> nat \<times> ccid_handle \<times> 'd) option" where
  "ccid_transceive_escape u msg ch data datalen resp maxresplen d =
     send_escape_cmd u msg ch data datalen resp maxresplen d"

section \<open>Closing and reset\<close>

definition do_close_reader ::
    "('d, 'x) ccid_usb_scheme \<Rightarrow> bytes \<Rightarrow> ccid_handle \<Rightarrow> 'd \<Rightarrow> (ccid_handle \<times> 'd) option" where
  "do_close_reader u msg ch d = do {
     (ch, d) \<leftarrow>
       (if ch_powered_off ch then Some (ch, d)
        else do {
          let seqno = ch_seqno ch;
          (rc, msg, ch, d) \<leftarrow> ccid_put u msg ch PC_to_RDR_IccPowerOff 0 0 d;
          d \<leftarrow> (if rc = 0 then do {
                  (_, _, _, d) \<leftarrow> bulk_in u ch msg 100 RDR_to_PC_SlotStatus seqno d;
                  Some d }
                else Some d);
          Some (ch\<lparr>ch_powered_off := True\<rparr>, d) });
     Some (if ch_open ch then (ch\<lparr>ch_open := False\<rparr>, usb_close u (cu_release u (ch_ifc_no ch) d)) else (ch, d)) }"

text \<open>
  The reader is closed and looked for again by its name.  When it is not found the handle stays closed; when
  it cannot be claimed it is closed again.
\<close>

definition ccid_shutdown_reader ::
    "('d, 'x) ccid_usb_scheme \<Rightarrow> bytes \<Rightarrow> ccid_handle \<Rightarrow> 'd \<Rightarrow> (int \<times> ccid_handle \<times> 'd) option" where
  "ccid_shutdown_reader u msg ch d =
     (if ch_rid ch = None then Some (CCID_DRIVER_ERR_INV_VALUE, ch, d)
      else do {
        (ch, d) \<leftarrow> do_close_reader u msg ch d;
        r \<leftarrow> scan_or_find_devices u (-1) (ch_rid ch) d;
        case r of
          Scan_Next st d \<Rightarrow> Some (CCID_DRIVER_ERR_NO_READER, ch, d)
        | Scan_Failed d \<Rightarrow> Some (CCID_DRIVER_ERR_NO_READER, ch, d)
        | Scan_Found rid dev ifc d \<Rightarrow> do {
            let ch = ch\<lparr>ch_open := True, ch_ifc_no := if_number ifc,
                        ch_ep_bulk_out := find_endpoint (if_endpoints ifc) 0,
                        ch_ep_bulk_in := find_endpoint (if_endpoints ifc) 1,
                        ch_ep_intr := find_endpoint (if_endpoints ifc) 2\<rparr>;
            (rc, ch, d) \<leftarrow> claim_reader u ch (the (if_extra ifc)) d;
            Some (if rc \<noteq> 0 then (rc, ch\<lparr>ch_open := False\<rparr>, usb_close u d) else (0, ch, d)) } })"

text \<open>A null handle is absent; the handle is freed.\<close>

definition ccid_close_reader ::
    "('d, 'x) ccid_usb_scheme \<Rightarrow> bytes \<Rightarrow> ccid_handle option \<Rightarrow> 'd \<Rightarrow> (int \<times> 'd) option" where
  "ccid_close_reader u msg handle d =
     (case handle of
        None \<Rightarrow> Some (0, d)
      | Some ch \<Rightarrow>
          if \<not> ch_open ch then Some (0, d)
          else do { (_, d) \<leftarrow> do_close_reader u msg ch d; Some (0, d) })"

section \<open>The state of the slot\<close>

text \<open>
  The status is asked for again after an error of the transfer, three times at most; before the first repetition
  the endpoints are cleared.  \<open>left\<close> is the number of repetitions left.
\<close>

fun slot_status_retry ::
    "('d, 'x) ccid_usb_scheme \<Rightarrow> nat \<Rightarrow> bytes \<Rightarrow> ccid_handle \<Rightarrow> 'd \<Rightarrow> (int \<times> u8 option \<times> ccid_handle \<times> 'd) option" where
  "slot_status_retry u left msg ch d = do {
     let seqno = ch_seqno ch;
     (rc, msg, ch, d) \<leftarrow> ccid_put u msg ch PC_to_RDR_GetSlotStatus 0 0 d;
     if rc \<noteq> 0 then Some (rc, None, ch, d)
     else do {
       (rc, msg, nread, d) \<leftarrow> bulk_in u ch msg 100 RDR_to_PC_SlotStatus seqno d;
       (case left of
          Suc l \<Rightarrow>
            if rc = CCID_DRIVER_ERR_CARD_IO_ERROR then
              slot_status_retry u l msg ch
                (if left = 3 then cu_clear_halt u (ch_ep_bulk_out ch) (cu_clear_halt u (ch_ep_bulk_in ch) d) else d)
            else if rc \<notin> {0, CCID_DRIVER_ERR_NO_CARD, CCID_DRIVER_ERR_CARD_INACTIVE} then Some (rc, None, ch, d)
            else Some (0, Some (msg ! 7 AND 3), ch, d)
        | 0 \<Rightarrow>
            if rc \<notin> {0, CCID_DRIVER_ERR_NO_CARD, CCID_DRIVER_ERR_CARD_INACTIVE} then Some (rc, None, ch, d)
            else Some (0, Some (msg ! 7 AND 3), ch, d)) } }"

definition ccid_slot_status ::
    "('d, 'x) ccid_usb_scheme \<Rightarrow> bytes \<Rightarrow> ccid_handle \<Rightarrow> 'd \<Rightarrow> (int \<times> u8 option \<times> ccid_handle \<times> 'd) option" where
  "ccid_slot_status u msg ch d = slot_status_retry u 3 msg ch d"

text \<open>What the interrupt endpoint reports is only printed.\<close>

definition ccid_poll :: "('d, 'x) ccid_usb_scheme \<Rightarrow> ccid_handle \<Rightarrow> 'd \<Rightarrow> int \<times> 'd" where
  "ccid_poll u ch d =
     (let (rc, msg, d) = usb_bulk_read u (ch_ep_intr ch) 10 d
      in (if rc < 0 \<and> cu_errno u d = 110 then 0
          else if rc < 0 then CCID_DRIVER_ERR_CARD_IO_ERROR
          else if rc < 1 then CCID_DRIVER_ERR_INV_VALUE
          else 0, d))"

section \<open>Headers of messages\<close>

lemma length_ccid_header [simp]: "length (ccid_header a n s b) = 10"
  by (simp add: ccid_header_def)

lemma ccid_put_run:
  assumes "10 + datalen \<le> length msg"
  shows "ccid_put u msg ch msg_type datalen byte7 d = do {
     let msg = ccid_header msg_type (of_nat datalen) (ch_seqno ch) byte7 @ drop 10 msg;
     let ch = ch\<lparr>ch_seqno := ch_seqno ch + 1\<rparr>;
     (rc, d) \<leftarrow> bulk_out u ch msg (10 + datalen) d;
     Some (rc, msg, ch, d) }"
proof -
  obtain m0 m1 m2 m3 m4 m5 m6 m7 m8 m9 ms where "msg = m0 # m1 # m2 # m3 # m4 # m5 # m6 # m7 # m8 # m9 # ms"
    using assms by (auto simp: Suc_le_length_iff numeral_eq_Suc)
  then show ?thesis
    by (simp add: ccid_put_def set_msg_len_def put_at_def put_slice_def ccid_header_def u32_le_bytes_def Let_def)
qed

end
