(* ===== verification/Cm5121_Backends.thy ===== *)
theory Cm5121_Backends
  imports Reader_Cm5121 Ccid_Driver
begin

text \<open>
  The two back ends of the CardMan 5121 reader, which implement \<open>PC_to_RDR_Escape\<close>: over the bundled CCID driver
  (\<open>src/ccid/rfid_reader_cm5121_ccid_direct.c\<close>) and over OpenCT (\<open>src/rfid_reader_cm5121_openct.c\<close>), whose library
  is a parameter.
\<close>

section \<open>The back ends\<close>

text \<open>\<open>PC_to_RDR_Escape\<close> and \<open>cm5121_source_init\<close> over the CCID driver, which opens its first reader.\<close>

definition ccid_PC_to_RDR_Escape ::
    "('d, 'x) usb_ops_scheme \<Rightarrow> bytes \<Rightarrow> ccid_handle \<Rightarrow> bytes \<Rightarrow> nat \<Rightarrow> bytes \<Rightarrow> nat \<Rightarrow> 'd
       \<Rightarrow> (int \<times> bytes option \<times> nat \<times> ccid_handle \<times> 'd) option" where
  "ccid_PC_to_RDR_Escape u msg ch tx_buf tx_len rx_buf rx_len d =
     ccid_transceive_escape u msg ch tx_buf tx_len (Some rx_buf) rx_len d"

definition ccid_source_init :: "('d, 'x) ccid_usb_scheme \<Rightarrow> 'd \<Rightarrow> (int \<times> ccid_handle option \<times> 'd) option" where
  "ccid_source_init u d = do {
     (rc, handle, d) \<leftarrow> ccid_open_reader u None d;
     Some (if rc \<noteq> 0 then -1 else 0, handle, d) }"

text \<open>The calls of the OpenCT library.\<close>

record 'd openct_ops =
  ct_reader_connect :: "'d \<Rightarrow> bool \<times> 'd"
  ct_card_lock :: "'d \<Rightarrow> int \<times> 'd"
  ct_card_reset :: "'d \<Rightarrow> int \<times> 'd"
  ct_card_transact :: "bytes \<Rightarrow> nat \<Rightarrow> 'd \<Rightarrow> int \<times> bytes \<times> 'd"

definition openct_PC_to_RDR_Escape ::
    "'d openct_ops \<Rightarrow> bytes \<Rightarrow> nat \<Rightarrow> bytes \<Rightarrow> nat \<Rightarrow> 'd \<Rightarrow> (int \<times> bytes \<times> nat \<times> 'd) option" where
  "openct_PC_to_RDR_Escape ct tx_buf tx_len rx_buf rx_len d = do {
     tx \<leftarrow> get_slice tx_buf 0 tx_len;
     let (rc, inp, d) = ct_card_transact ct tx rx_len d;
     rx_buf \<leftarrow> put_slice rx_buf 0 inp;
     Some (if rc \<ge> 0 then (0, rx_buf, nat rc, d) else (rc, rx_buf, rx_len, d)) }"

text \<open>When a later step fails, the connection is not given back.\<close>

definition openct_source_init :: "'d openct_ops \<Rightarrow> 'd \<Rightarrow> int \<times> 'd" where
  "openct_source_init ct d =
     (let (connected, d) = ct_reader_connect ct d in
      if \<not> connected then (-1, d) else
      let (rc, d) = ct_card_lock ct d in
      if rc < 0 then (-1, d) else
      let (rc, d) = ct_card_reset ct d in
      (if rc < 0 then -1 else 0, d))"

section \<open>Waiting for the reply\<close>

text \<open>A reader that has taken messages and will give those in a queue.\<close>

record ccid_dev =
  cd_taken :: "bytes list"
  cd_queue :: "bytes list"

definition ccid_dev_usb :: "ccid_dev usb_ops" where
  "ccid_dev_usb =
     \<lparr>usb_bulk_write = (\<lambda>ep out d. (int (length out), d\<lparr>cd_taken := cd_taken d @ [out]\<rparr>)),
      usb_bulk_read = (\<lambda>ep n d. case cd_queue d of
         [] \<Rightarrow> (-110, [], d)
       | m # ms \<Rightarrow> (int (length (take n m)), take n m, d\<lparr>cd_queue := ms\<rparr>)),
      usb_find_busses = (\<lambda>d. (0, d)), usb_find_devices = (\<lambda>d. (0, d)),
      usb_get_busses = (\<lambda>d. []), usb_open = (\<lambda>dev d. (True, d)),
      usb_set_configuration = (\<lambda>d. (0, d)), usb_claim_interface = (\<lambda>d. (0, d)), usb_close = (\<lambda>d. d)\<rparr>"

text \<open>A message of the reader with this sequence number, and its kinds.\<close>

definition ccid_message :: "u8 \<Rightarrow> bytes \<Rightarrow> bool" where
  "ccid_message seqno m \<longleftrightarrow> 10 \<le> length m \<and> length m \<le> 100 \<and> m ! 0 = RDR_to_PC_Escape \<and> m ! 5 = 0 \<and> m ! 6 = seqno"

definition asks_for_time :: "bytes \<Rightarrow> bool" where
  "asks_for_time m \<longleftrightarrow> m ! 7 AND 0x03 = 0 \<and> m ! 7 AND 0xc0 = 0x80"

lemma bulk_in_step:
  assumes "length buffer = 100" "cd_queue d = m # ms" "ccid_message seqno m"
  shows "\<exists>buffer'. length buffer' = 100 \<and> take (length m) buffer' = m \<and>
     bulk_in_retry ccid_dev_usb ch RDR_to_PC_Escape seqno buffer d =
       (if asks_for_time m
        then bulk_in_retry ccid_dev_usb ch RDR_to_PC_Escape seqno buffer' (d\<lparr>cd_queue := ms\<rparr>)
        else Some (if m ! 7 AND 0x03 = 1 then CCID_DRIVER_ERR_CARD_INACTIVE
                   else if m ! 7 AND 0x03 = 2 then CCID_DRIVER_ERR_NO_CARD else 0,
                   buffer', Some (length m), d\<lparr>cd_queue := ms\<rparr>))"
proof -
  let ?buffer = "m @ drop (length m) buffer"
  have len: "10 \<le> length m" "length m \<le> 100" using assms(3) by (auto simp: ccid_message_def)
  have put: "put_slice buffer 0 m = Some ?buffer" using assms(1) len by (simp add: put_slice_def)
  have "?buffer ! i = m ! i" if "i < 10" for i using that len by (simp add: nth_append)
  then have chk: "bulk_in_check RDR_to_PC_Escape seqno ?buffer (length m) =
      (if asks_for_time m then Retry
       else Done (if m ! 7 AND 0x03 = 1 then CCID_DRIVER_ERR_CARD_INACTIVE
                  else if m ! 7 AND 0x03 = 2 then CCID_DRIVER_ERR_NO_CARD else 0))"
    using assms(3) by (simp add: bulk_in_check_def ccid_message_def asks_for_time_def)
  have rd: "usb_bulk_read ccid_dev_usb ep 100 d = (int (length m), m, d\<lparr>cd_queue := ms\<rparr>)" for ep
    using assms(2) len by (simp add: ccid_dev_usb_def)
  show ?thesis
    by (rule exI [of _ ?buffer], subst bulk_in_retry.simps)
      (use assms(1) len put chk rd in simp)
qed

lemma bulk_in_waits:
  assumes "ccid_message seqno reply" "\<not> asks_for_time reply"
  shows "\<forall>m \<in> set exts. ccid_message seqno m \<and> asks_for_time m \<Longrightarrow> length buffer = 100 \<Longrightarrow>
    cd_queue d = exts @ reply # ms \<Longrightarrow>
    \<exists>buffer' rc. take (length reply) buffer' = reply \<and> length buffer' = 100 \<and>
      rc \<in> {0, CCID_DRIVER_ERR_CARD_INACTIVE, CCID_DRIVER_ERR_NO_CARD} \<and>
      bulk_in_retry ccid_dev_usb ch RDR_to_PC_Escape seqno buffer d =
        Some (rc, buffer', Some (length reply), d\<lparr>cd_queue := ms\<rparr>)"
proof (induction exts arbitrary: buffer d)
  case Nil
  then show ?case using bulk_in_step [of buffer d reply ms seqno ch] assms by auto
next
  case (Cons m exts)
  have m: "ccid_message seqno m" "asks_for_time m" using Cons.prems(1) by auto
  obtain buffer' where "length buffer' = 100"
    "bulk_in_retry ccid_dev_usb ch RDR_to_PC_Escape seqno buffer d =
       bulk_in_retry ccid_dev_usb ch RDR_to_PC_Escape seqno buffer' (d\<lparr>cd_queue := exts @ reply # ms\<rparr>)"
    using bulk_in_step [OF Cons.prems(2) _ m(1), of d "exts @ reply # ms" ch] Cons.prems(3) m(2) by auto
  with Cons.IH [of buffer' "d\<lparr>cd_queue := exts @ reply # ms\<rparr>"] Cons.prems(1) show ?case by simp
qed

text \<open>
  C13: an escape command to a CCID reader that asks for more time any number of times and then answers is sent
  once, whole, behind its header, and returns; when the reply fits into the caller's buffer, its data and
  length are handed over, also with a status that no card is present.  A reply that does not fit is reported as a
  success with no data, although an error is meant.
\<close>

theorem escape_waits_for_reply:
  assumes "length msg = 100" "datalen \<le> 90" "datalen \<le> length data" "resultmax \<le> length result"
    and "cd_queue d = exts @ reply # ms"
    and "\<forall>m \<in> set exts. ccid_message (ch_seqno ch) m \<and> asks_for_time m"
    and "ccid_message (ch_seqno ch) reply" "\<not> asks_for_time reply"
  shows "send_escape_cmd ccid_dev_usb msg ch data datalen (Some result) resultmax d =
    (let n = length reply - 10; fits = (n \<le> resultmax) in
     Some (0, Some (if fits then drop 10 reply @ drop n result else result), if fits then n else 0,
       ch\<lparr>ch_seqno := ch_seqno ch + 1\<rparr>,
       d\<lparr>cd_taken := cd_taken d @ [ccid_header PC_to_RDR_Escape (of_nat datalen) (ch_seqno ch) 0 @ take datalen data],
         cd_queue := ms\<rparr>))"
proof -
  let ?ch = "ch\<lparr>ch_seqno := ch_seqno ch + 1\<rparr>"
  let ?out = "ccid_header PC_to_RDR_Escape (of_nat datalen) (ch_seqno ch) 0 @ take datalen data"
  let ?d = "d\<lparr>cd_taken := cd_taken d @ [?out]\<rparr>"
  have l: "length ?out = 10 + datalen" using assms(3) by (simp add: ccid_header_def)
  have "put_slice msg 10 (take datalen data) = Some (take 10 msg @ take datalen data @ drop (10 + datalen) msg)"
    using assms(1-3) by (simp add: put_slice_def)
  note msg = this
  have get: "get_slice (?out @ drop (10 + datalen) msg) 0 (10 + datalen) = Some ?out"
    using l by (simp only: get_slice_def) (simp add: assms(3))
  have out: "bulk_out ccid_dev_usb ?ch (?out @ drop (10 + datalen) msg) (10 + datalen) d = Some (0, ?d)"
    using get l by (simp only: bulk_out_def) (simp add: ccid_dev_usb_def)
  have len: "length (?out @ drop (10 + datalen) msg) = 100" using l assms(1,2) by simp
  then have ms0: "memset0 (?out @ drop (10 + datalen) msg) 100 = Some (replicate 100 0)"
    by (simp only: memset0_def) simp
  obtain buffer rc where b: "take (length reply) buffer = reply" "length buffer = 100"
      "rc \<in> {0, CCID_DRIVER_ERR_CARD_INACTIVE, CCID_DRIVER_ERR_NO_CARD}"
      "bulk_in_retry ccid_dev_usb ?ch RDR_to_PC_Escape (ch_seqno ch) (replicate 100 0) ?d =
         Some (rc, buffer, Some (length reply), ?d\<lparr>cd_queue := ms\<rparr>)"
    using bulk_in_waits [OF assms(7,8,6), of "replicate 100 0" ?d ms ?ch] assms(5) by auto
  have r: "10 \<le> length reply" "length reply \<le> 100" using assms(7) by (auto simp: ccid_message_def)
  have "drop 10 (take (length reply) buffer) = drop 10 reply" by (simp only: b(1))
  then have g: "get_slice buffer 10 (length reply - 10) = Some (drop 10 reply)"
    using r b(2) by (simp add: get_slice_def drop_take)
  have res: "escape_result rc buffer (Some (length reply)) (Some result) resultmax =
      Some (0, Some (if length reply - 10 \<le> resultmax then drop 10 reply @ drop (length reply - 10) result else result),
            if length reply - 10 \<le> resultmax then length reply - 10 else 0)"
    using b(3) r g assms(4) by (auto simp: escape_result_def put_slice_def)
  have "drop 10 (take 10 msg @ take datalen data @ drop (10 + datalen) msg) = take datalen data @ drop (10 + datalen) msg"
    using assms(1) by simp
  then have put: "ccid_put ccid_dev_usb (take 10 msg @ take datalen data @ drop (10 + datalen) msg) ch
      PC_to_RDR_Escape datalen 0 d = Some (0, ?out @ drop (10 + datalen) msg, ?ch, ?d)"
    using assms(1-3) out by (subst ccid_put_run) (simp_all add: Let_def)
  show ?thesis
    using assms(2,3) msg put ms0 b(4) res
    by (simp add: send_escape_cmd_def bulk_in_def get_slice_def Let_def del: append_assoc)
qed

definition sample_ccid_reply :: "u8 \<Rightarrow> bytes \<Rightarrow> bytes" where
  "sample_ccid_reply status data = [RDR_to_PC_Escape, 0, 0, 0, 0, 0, 7, status, 0, 0] @ data"

definition sample_ccid :: ccid_handle where
  "sample_ccid =
     (new_ccid_handle ''076B:5121:X:0'' \<lparr>ud_vendor = 0x076b, ud_product = 0x5121, ud_bcd = 1, ud_serial = 0, ud_config = []\<rparr>
       \<lparr>if_number = 0, if_class = 11, if_subclass = 0, if_protocol = 0, if_endpoints = [], if_extra = None\<rparr>)
     \<lparr>ch_seqno := 7\<rparr>"

theorem escape_waits_for_reply_witness:
  "\<exists>d'. send_escape_cmd ccid_dev_usb (replicate 100 0) sample_ccid [0x20, 1] 2 (Some [0, 0, 0]) 3
      \<lparr>cd_taken = [], cd_queue = [sample_ccid_reply 0x80 [], sample_ccid_reply 0x80 [], sample_ccid_reply 2 [0xaa, 0xbb]]\<rparr> =
     Some (0, Some [0xaa, 0xbb, 0], 2, sample_ccid\<lparr>ch_seqno := 8\<rparr>, d')"
  using escape_waits_for_reply [of "replicate 100 0" 2 "[0x20, 1]" 3 "[0, 0, 0]"
      "\<lparr>cd_taken = [], cd_queue = [sample_ccid_reply 0x80 [], sample_ccid_reply 0x80 [], sample_ccid_reply 2 [0xaa, 0xbb]]\<rparr>"
      "[sample_ccid_reply 0x80 [], sample_ccid_reply 0x80 []]" "sample_ccid_reply 2 [0xaa, 0xbb]" "[]" sample_ccid]
  by (simp add: sample_ccid_def new_ccid_handle_def sample_ccid_reply_def ccid_message_def asks_for_time_def)

end
