(* ===== verification/Ccid_T1.thy ===== *)
theory Ccid_T1
  imports Ccid_Driver
begin

text \<open>
  The commands of the CCID driver for a card (\<open>src/ccid/ccid-driver.c\<close>): power and ATR, the exchange of an APDU with
  readers that take it whole, the T=1 protocol for those that do not, and the entry of a PIN at the reader.
\<close>

section \<open>Blocks of T=1\<close>

text \<open>The checksum; the variant with a CRC is never asked for.\<close>

definition compute_edc :: "bytes \<Rightarrow> u8" where
  "compute_edc data = foldl (\<lambda>crc b. crc XOR b) 0 data"

definition t1_nad :: "ccid_handle \<Rightarrow> u8" where
  "t1_nad ch = (if ch_nonnull_nad ch then 0x10 else 0)"

definition t1_block :: "ccid_handle \<Rightarrow> u8 \<Rightarrow> bytes \<Rightarrow> bytes" where
  "t1_block ch pcb info =
     (let block = [t1_nad ch, pcb, of_nat (length info)] @ info in block @ [compute_edc block])"

section \<open>Power and ATR\<close>

abbreviation (input) command_failed :: "bytes \<Rightarrow> bool" where
  "command_failed msg \<equiv> msg ! 7 AND 0x40 \<noteq> 0"

definition icc_power_on ::
    "('d, 'x) ccid_usb_scheme \<Rightarrow> bytes \<Rightarrow> ccid_handle \<Rightarrow> 'd \<Rightarrow> (int \<times> bytes \<times> nat option \<times> ccid_handle \<times> 'd) option" where
  "icc_power_on u msg ch d = do {
     let seqno = ch_seqno ch;
     (rc, msg, ch, d) \<leftarrow> ccid_put u msg ch PC_to_RDR_IccPowerOn 0 0 d;
     if rc \<noteq> 0 then Some (rc, msg, None, ch, d)
     else do {
       (rc, msg, nread, d) \<leftarrow> bulk_in u ch msg 100 RDR_to_PC_DataBlock seqno d;
       Some (rc, msg, nread, ch, d) } }"

definition needs_iso_mode :: "ccid_handle \<Rightarrow> bytes \<Rightarrow> bool" where
  "needs_iso_mode ch msg \<longleftrightarrow> command_failed msg \<and> msg ! 8 = 0xbb \<and>
     (ch_id_vendor ch = VENDOR_CHERRY \<and> ch_id_product ch = 0x0005 \<or>
      ch_id_vendor ch = VENDOR_GEMPC \<and> ch_id_product ch = 0x4433)"

text \<open>
  Two readers are switched to ISO mode and asked again.  When the switch fails, the failed answer is used as if it
  had succeeded.  \<open>esc\<close> is the local buffer of the escape command.
\<close>

definition atr_power_on ::
    "('d, 'x) ccid_usb_scheme \<Rightarrow> bytes \<Rightarrow> bytes \<Rightarrow> ccid_handle \<Rightarrow> 'd
       \<Rightarrow> (int \<times> bytes \<times> nat option \<times> ccid_handle \<times> 'd) option" where
  "atr_power_on u esc msg ch d = do {
     (rc, msg, nread, ch, d) \<leftarrow> icc_power_on u msg ch d;
     if rc \<noteq> 0 then Some (rc, msg, nread, ch, d)
     else if needs_iso_mode ch msg then do {
       (rc, _, _, ch, d) \<leftarrow> send_escape_cmd u esc ch [0xf1, 0x01] 2 None 0 d;
       if rc \<noteq> 0 then Some (0, msg, nread, ch, d)
       else do {
         (rc, msg, nread, ch, d) \<leftarrow> icc_power_on u msg ch d;
         Some (if rc \<noteq> 0 then rc else if command_failed msg then CCID_DRIVER_ERR_CARD_IO_ERROR else 0,
               msg, nread, ch, d) } }
     else Some (if command_failed msg then CCID_DRIVER_ERR_CARD_IO_ERROR else 0, msg, nread, ch, d) }"

text \<open>The parameters that select T=1; whether the reader takes them is ignored.\<close>

definition select_t1 ::
    "('d, 'x) ccid_usb_scheme \<Rightarrow> bytes \<Rightarrow> ccid_handle \<Rightarrow> 'd \<Rightarrow> (int \<times> bytes \<times> ccid_handle \<times> 'd) option" where
  "select_t1 u msg ch d = do {
     msg \<leftarrow> put_slice msg 10 [0x01, 0x10, 0, 0x41, 0, 254, 0];
     let seqno = ch_seqno ch;
     (rc, msg, ch, d) \<leftarrow> ccid_put u msg ch PC_to_RDR_SetParameters 7 1 d;
     if rc \<noteq> 0 then Some (rc, msg, ch, d)
     else do {
       (_, msg, _, d) \<leftarrow> bulk_in u ch msg 100 RDR_to_PC_Parameters seqno d;
       Some (0, msg, ch, d) } }"

text \<open>The request to change the size of information fields.\<close>

definition change_ifsd ::
    "('d, 'x) ccid_usb_scheme \<Rightarrow> bytes \<Rightarrow> ccid_handle \<Rightarrow> 'd \<Rightarrow> (int \<times> ccid_handle \<times> 'd) option" where
  "change_ifsd u msg ch d = do {
     msg \<leftarrow> put_slice msg 10
       (t1_block ch 0xc1 [word_of_int (if ch_max_ifsd ch \<noteq> 0 then ch_max_ifsd ch else 32)]);
     let seqno = ch_seqno ch;
     (rc, msg, ch, d) \<leftarrow> ccid_put u msg ch PC_to_RDR_XfrBlock 5 0 d;
     if rc \<noteq> 0 then Some (rc, ch, d)
     else do {
       (rc, msg, nread, d) \<leftarrow> bulk_in u ch msg 100 RDR_to_PC_DataBlock seqno d;
       if rc \<noteq> 0 then Some (rc, ch, d)
       else do {
         msglen \<leftarrow> nread;
         tpdu \<leftarrow> get_slice msg 10 (msglen - 10);
         Some (if length tpdu < 4 then CCID_DRIVER_ERR_ABORTED
               else if tpdu ! 1 AND 0xe0 \<noteq> 0xe0 \<or> tpdu ! 2 \<noteq> 1 then -1
               else 0, ch, d) } } }"

text \<open>The buffer for the ATR and its length are absent when the caller's pointers are null.\<close>

definition ccid_get_atr ::
    "('d, 'x) ccid_usb_scheme \<Rightarrow> bytes \<Rightarrow> bytes \<Rightarrow> bytes \<Rightarrow> ccid_handle \<Rightarrow> bytes option \<Rightarrow> nat \<Rightarrow> 'd
       \<Rightarrow> (int \<times> (bytes \<times> nat) option \<times> ccid_handle \<times> 'd) option" where
  "ccid_get_atr u slot_msg esc msg ch atr maxatrlen d = do {
     (rc, status, ch, d) \<leftarrow> ccid_slot_status u slot_msg ch d;
     if rc \<noteq> 0 then Some (rc, None, ch, d)
     else if status = Some 2 then Some (CCID_DRIVER_ERR_NO_CARD, None, ch, d)
     else do {
       (rc, msg, nread, ch, d) \<leftarrow> atr_power_on u esc msg ch d;
       if rc \<noteq> 0 then Some (rc, None, ch, d)
       else do {
         msglen \<leftarrow> nread;
         got \<leftarrow> (case atr of
                   None \<Rightarrow> Some None
                 | Some buf \<Rightarrow> do {
                     let n = min (msglen - 10) maxatrlen;
                     data \<leftarrow> get_slice msg 10 n;
                     buf \<leftarrow> put_slice buf 0 data;
                     Some (Some (buf, n)) });
         (rc, msg, ch, d) \<leftarrow> select_t1 u msg (ch\<lparr>ch_powered_off := False\<rparr>) d;
         if rc \<noteq> 0 then Some (rc, got, ch, d)
         else do {
           let ch = ch\<lparr>ch_t1_ns := 0, ch_t1_nr := 0\<rparr>;
           if ch_auto_ifsd ch then Some (0, got, ch, d)
           else do {
             (rc, ch, d) \<leftarrow> change_ifsd u msg ch d;
             Some (rc, got, ch, d) } } } } }"

section \<open>An APDU as a whole\<close>

text \<open>The assertion that there is an APDU ends the program when it fails.\<close>

definition ccid_transceive_apdu_level ::
    "('d, 'x) ccid_usb_scheme \<Rightarrow> bytes \<Rightarrow> bytes \<Rightarrow> ccid_handle \<Rightarrow> bytes \<Rightarrow> bytes option \<Rightarrow> nat \<Rightarrow> 'd
       \<Rightarrow> (int \<times> bytes option \<times> nat \<times> ccid_handle \<times> 'd) option" where
  "ccid_transceive_apdu_level u send_buffer recv_buffer ch apdu resp maxresplen d =
     (if apdu = [] then None
      else if length apdu > 254 then Some (CCID_DRIVER_ERR_INV_VALUE, resp, 0, ch, d)
      else do {
        msg \<leftarrow> put_slice send_buffer 10 apdu;
        let seqno = ch_seqno ch;
        (rc, msg, ch, d) \<leftarrow> ccid_put u msg ch PC_to_RDR_XfrBlock (length apdu) 4 d;
        if rc \<noteq> 0 then Some (rc, resp, 0, ch, d)
        else do {
          (rc, msg, nread, d) \<leftarrow> bulk_in u ch recv_buffer 269 RDR_to_PC_DataBlock seqno d;
          if rc \<noteq> 0 then Some (rc, resp, 0, ch, d)
          else do {
            msglen \<leftarrow> nread;
            data \<leftarrow> get_slice msg 10 (msglen - 10);
            case resp of
              None \<Rightarrow> Some (0, resp, 0, ch, d)
            | Some buf \<Rightarrow>
                if length data > maxresplen then Some (CCID_DRIVER_ERR_INV_VALUE, resp, 0, ch, d)
                else do {
                  buf \<leftarrow> put_slice buf 0 data;
                  Some (0, Some buf, length data, ch, d) } } } })"

section \<open>The T=1 protocol\<close>

text \<open>
  The locals of the loop: the send buffer with the last block and its length, what is to be done next, and the rest of
  the command.  The answer is written behind the \<open>tx_nresp\<close> bytes of it that are there already.
\<close>

record t1_ctx =
  tx_send :: bytes
  tx_tpdulen :: nat
  tx_next_chunk :: bool
  tx_sending :: bool
  tx_retries :: nat
  tx_apdu :: bytes
  tx_resp :: "bytes option"
  tx_nresp :: nat
  tx_max :: nat

definition t1_write :: "ccid_handle \<Rightarrow> u8 \<Rightarrow> bytes \<Rightarrow> t1_ctx \<Rightarrow> t1_ctx option" where
  "t1_write ch pcb info c = do {
     send \<leftarrow> put_slice (tx_send c) 10 (t1_block ch pcb info);
     Some (c\<lparr>tx_send := send, tx_tpdulen := 4 + length info\<rparr>) }"

text \<open>The next part of the command; the last part stays in place.\<close>

definition t1_chunk :: "ccid_handle \<Rightarrow> t1_ctx \<Rightarrow> (int \<times> t1_ctx) option" where
  "t1_chunk ch c =
     (if \<not> tx_next_chunk c then Some (0, c)
      else if tx_apdu c = [] then None
      else if length (tx_apdu c) > 254 then Some (CCID_DRIVER_ERR_INV_VALUE, c)
      else do {
        let chained = (length (tx_apdu c) > 128);
        c' \<leftarrow> t1_write ch (push_bit 6 (ch_t1_ns ch AND 1) OR (if chained then 0x20 else 0)) (take 128 (tx_apdu c)) c;
        Some (0, c'\<lparr>tx_next_chunk := False, tx_apdu := (if chained then drop 128 (tx_apdu c) else tx_apdu c)\<rparr>) })"

text \<open>What a received block leads to: \<^const>\<open>Some\<close> a return code, or another block to send.\<close>

definition t1_store :: "bytes \<Rightarrow> t1_ctx \<Rightarrow> (int \<times> t1_ctx) option" where
  "t1_store data c =
     (case tx_resp c of
        None \<Rightarrow> Some (0, c)
      | Some buf \<Rightarrow>
          if length data > tx_max c then Some (CCID_DRIVER_ERR_INV_VALUE, c)
          else do {
            buf \<leftarrow> put_slice buf (tx_nresp c) data;
            Some (0, c\<lparr>tx_resp := Some buf, tx_nresp := tx_nresp c + length data,
                       tx_max := tx_max c - length data\<rparr>) })"

definition t1_rx_i :: "ccid_handle \<Rightarrow> bytes \<Rightarrow> t1_ctx \<Rightarrow> (int option \<times> ccid_handle \<times> t1_ctx) option" where
  "t1_rx_i ch tpdu c = do {
     let ch = (if tx_sending c then ch\<lparr>ch_t1_ns := ch_t1_ns ch XOR 1\<rparr> else ch);
     let c = c\<lparr>tx_retries := 0, tx_sending := False\<rparr>;
     if (if tpdu ! 1 AND 0x40 \<noteq> 0 then 1 else 0) \<noteq> ch_t1_nr ch then do {
       c \<leftarrow> t1_write ch (0x80 OR push_bit 4 (ch_t1_nr ch AND 1) OR 2) [] c;
       Some (None, ch, c) }
     else do {
       let ch = ch\<lparr>ch_t1_nr := ch_t1_nr ch XOR 1\<rparr>;
       (rc, c) \<leftarrow> t1_store (take (length tpdu - 4) (drop 3 tpdu)) c;
       if rc \<noteq> 0 then Some (Some rc, ch, c)
       else if tpdu ! 1 AND 0x20 = 0 then Some (Some 0, ch, c)
       else do {
         c \<leftarrow> t1_write ch (0x80 OR push_bit 4 (ch_t1_nr ch AND 1)) [] c;
         Some (None, ch, c) } } }"

definition t1_rx_r :: "ccid_handle \<Rightarrow> bytes \<Rightarrow> t1_ctx \<Rightarrow> int option \<times> ccid_handle \<times> t1_ctx" where
  "t1_rx_r ch tpdu c =
     (if tpdu ! 1 AND 0x0f \<noteq> 0 then
        (if tx_retries c + 1 > 3 then Some CCID_DRIVER_ERR_CARD_IO_ERROR else None, ch,
         c\<lparr>tx_retries := tx_retries c + 1\<rparr>)
      else if tx_sending c \<and> (if tpdu ! 1 AND 0x10 \<noteq> 0 then 1 else 0) = ch_t1_ns ch then
        (Some CCID_DRIVER_ERR_CARD_IO_ERROR, ch, c)
      else if tx_sending c then
        (None, ch\<lparr>ch_t1_ns := ch_t1_ns ch XOR 1\<rparr>, c\<lparr>tx_retries := 0, tx_next_chunk := True\<rparr>)
      else (Some CCID_DRIVER_ERR_CARD_IO_ERROR, ch, c))"

definition t1_rx_s :: "ccid_handle \<Rightarrow> bytes \<Rightarrow> t1_ctx \<Rightarrow> (int option \<times> ccid_handle \<times> t1_ctx) option" where
  "t1_rx_s ch tpdu c =
     (if tpdu ! 1 AND 0x20 = 0 \<and> tpdu ! 1 AND 0x1f = 3 \<and> tpdu ! 2 \<noteq> 0 then do {
        c \<leftarrow> t1_write ch 0xe3 [tpdu ! 3] (c\<lparr>tx_retries := 0\<rparr>);
        Some (None, ch, c) }
      else Some (Some CCID_DRIVER_ERR_CARD_IO_ERROR, ch, c\<lparr>tx_retries := 0\<rparr>))"

definition t1_receive :: "ccid_handle \<Rightarrow> bytes \<Rightarrow> t1_ctx \<Rightarrow> (int option \<times> ccid_handle \<times> t1_ctx) option" where
  "t1_receive ch tpdu c =
     (if tpdu ! 1 AND 0x80 = 0 then t1_rx_i ch tpdu c
      else if tpdu ! 1 AND 0xc0 = 0x80 then Some (t1_rx_r ch tpdu c)
      else t1_rx_s ch tpdu c)"

text \<open>One turn of the loop: a block is sent and one received.\<close>

definition t1_turn ::
    "('d, 'x) ccid_usb_scheme \<Rightarrow> bytes \<Rightarrow> ccid_handle \<Rightarrow> t1_ctx \<Rightarrow> 'd
       \<Rightarrow> (int option \<times> bytes \<times> ccid_handle \<times> t1_ctx \<times> 'd) option" where
  "t1_turn u recv ch c d = do {
     (rc, c) \<leftarrow> t1_chunk ch c;
     if rc \<noteq> 0 then Some (Some rc, recv, ch, c, d)
     else do {
       let seqno = ch_seqno ch;
       (rc, send, ch, d) \<leftarrow> ccid_put u (tx_send c) ch PC_to_RDR_XfrBlock (tx_tpdulen c) 4 d;
       let c = c\<lparr>tx_send := send\<rparr>;
       if rc \<noteq> 0 then Some (Some rc, recv, ch, c, d)
       else do {
         (rc, recv, nread, d) \<leftarrow> bulk_in u ch recv 269 RDR_to_PC_DataBlock seqno d;
         if rc \<noteq> 0 then Some (Some rc, recv, ch, c, d)
         else do {
           msglen \<leftarrow> nread;
           tpdu \<leftarrow> get_slice recv 10 (msglen - 10);
           if length tpdu < 4
           then Some (Some CCID_DRIVER_ERR_ABORTED, recv, ch, c, cu_clear_halt u (ch_ep_bulk_in ch) d)
           else do {
             (ret, ch, c) \<leftarrow> t1_receive ch tpdu c;
             Some (ret, recv, ch, c, d) } } } } }"

text \<open>A card can keep the loop running for ever.\<close>

partial_function (option) t1_loop ::
    "('d, 'x) ccid_usb_scheme \<Rightarrow> bytes \<Rightarrow> ccid_handle \<Rightarrow> t1_ctx \<Rightarrow> 'd
       \<Rightarrow> (int \<times> ccid_handle \<times> t1_ctx \<times> 'd) option" where
  "t1_loop u recv ch c d = do {
     (ret, recv, ch, c, d) \<leftarrow> t1_turn u recv ch c d;
     case ret of
       Some rc \<Rightarrow> Some (rc, ch, c, d)
     | None \<Rightarrow> t1_loop u recv ch c d }"

declare t1_loop.simps [code]

definition ccid_transceive ::
    "('d, 'x) ccid_usb_scheme \<Rightarrow> bytes \<Rightarrow> bytes \<Rightarrow> ccid_handle \<Rightarrow> bytes \<Rightarrow> bytes option \<Rightarrow> nat \<Rightarrow> 'd
       \<Rightarrow> (int \<times> bytes option \<times> nat \<times> ccid_handle \<times> 'd) option" where
  "ccid_transceive u send_buffer recv_buffer ch apdu resp maxresplen d =
     (if ch_apdu_level ch
      then ccid_transceive_apdu_level u send_buffer recv_buffer ch apdu resp maxresplen d
      else do {
        (rc, ch, c, d) \<leftarrow> t1_loop u recv_buffer ch
          \<lparr>tx_send = send_buffer, tx_tpdulen = 0, tx_next_chunk = True, tx_sending = True, tx_retries = 0,
           tx_apdu = apdu, tx_resp = resp, tx_nresp = 0, tx_max = maxresplen\<rparr> d;
        Some (rc, tx_resp c, tx_nresp c, ch, d) })"

section \<open>Entry of a PIN at the reader\<close>

definition secure_refused ::
    "ccid_handle \<Rightarrow> bytes \<Rightarrow> int \<Rightarrow> int \<Rightarrow> int \<Rightarrow> int \<Rightarrow> int" where
  "secure_refused ch apdu pin_mode pinlen_min pinlen_max pin_padlen =
     (if length apdu \<ge> 4 \<and> apdu ! 1 = 0x20 \<and> ch_has_pinpad ch AND 1 \<noteq> 0 then
        (if pin_mode \<noteq> 1 \<or> pin_padlen \<noteq> 0 then CCID_DRIVER_ERR_NOT_SUPPORTED
         else if pinlen_min < 1 \<or> pinlen_min > 25 \<or> pinlen_max < 1 \<or> pinlen_max > 25 \<or> pinlen_min > pinlen_max
              then CCID_DRIVER_ERR_INV_VALUE
         else if ch_id_vendor ch \<noteq> VENDOR_SCM then CCID_DRIVER_ERR_NOT_SUPPORTED
         else 0)
      else if length apdu \<ge> 4 \<and> apdu ! 1 = 0x24 \<and> ch_has_pinpad ch AND 2 \<noteq> 0 then CCID_DRIVER_ERR_NOT_SUPPORTED
      else CCID_DRIVER_ERR_NO_KEYPAD)"

definition secure_data :: "ccid_handle \<Rightarrow> bytes \<Rightarrow> int \<Rightarrow> int \<Rightarrow> bytes" where
  "secure_data ch apdu pinlen_min pinlen_max =
     [0, 0, 0x82, 0, 0, word_of_int pinlen_min, word_of_int pinlen_max,
      if pinlen_min = pinlen_max then 0x03 else 0x02, 0xff, 0x04, 0x09, 0,
      t1_nad ch, push_bit 6 (ch_t1_ns ch AND 1), 4] @ take 4 apdu"

text \<open>The answer: no chaining, no repetition.\<close>

definition secure_receive ::
    "ccid_handle \<Rightarrow> bytes \<Rightarrow> bytes option \<Rightarrow> nat \<Rightarrow> (int \<times> bytes option \<times> nat \<times> ccid_handle) option" where
  "secure_receive ch tpdu resp maxresplen =
     (if tpdu ! 1 AND 0x80 \<noteq> 0 then Some (CCID_DRIVER_ERR_CARD_IO_ERROR, resp, 0, ch)
      else do {
        let ch = ch\<lparr>ch_t1_ns := ch_t1_ns ch XOR 1\<rparr>;
        if (if tpdu ! 1 AND 0x40 \<noteq> 0 then 1 else 0) \<noteq> ch_t1_nr ch
        then Some (CCID_DRIVER_ERR_CARD_IO_ERROR, resp, 0, ch)
        else do {
          let ch = ch\<lparr>ch_t1_nr := ch_t1_nr ch XOR 1\<rparr>;
          let data = take (length tpdu - 4) (drop 3 tpdu);
          let rc = (if tpdu ! 1 AND 0x20 = 0 then 0 else CCID_DRIVER_ERR_CARD_IO_ERROR);
          case resp of
            None \<Rightarrow> Some (rc, resp, 0, ch)
          | Some buf \<Rightarrow>
              if length data > maxresplen then Some (CCID_DRIVER_ERR_INV_VALUE, resp, 0, ch)
              else do {
                buf \<leftarrow> put_slice buf 0 data;
                Some (rc, Some buf, length data, ch) } } })"

text \<open>
  Without a buffer for the answer and for its length (\<open>want_nresp\<close> false) only the possibility is tested.  \<open>esc\<close> is
  the local buffer of the escape command.
\<close>

definition ccid_transceive_secure ::
    "('d, 'x) ccid_usb_scheme \<Rightarrow> bytes \<Rightarrow> bytes \<Rightarrow> bytes \<Rightarrow> ccid_handle \<Rightarrow> bytes \<Rightarrow> int \<Rightarrow> int \<Rightarrow> int \<Rightarrow> int
       \<Rightarrow> bytes option \<Rightarrow> nat \<Rightarrow> bool \<Rightarrow> 'd \<Rightarrow> (int \<times> bytes option \<times> nat \<times> ccid_handle \<times> 'd) option" where
  "ccid_transceive_secure u esc send_buffer recv_buffer ch apdu pin_mode pinlen_min pinlen_max pin_padlen
       resp maxresplen want_nresp d = do {
     let pinlen_min = (if pinlen_min = 0 then 1 else pinlen_min);
     let pinlen_max = (if pinlen_max = 0 then 25 else pinlen_max);
     let refused = secure_refused ch apdu pin_mode pinlen_min pinlen_max pin_padlen;
     if refused \<noteq> 0 \<or> resp = None \<and> \<not> want_nresp then Some (refused, resp, 0, ch, d)
     else do {
       (rc, _, _, ch, d) \<leftarrow> send_escape_cmd u esc ch [0x80, 0x02, 0x00] 3 None 0 d;
       if rc \<noteq> 0 then Some (rc, resp, 0, ch, d)
       else do {
         msg \<leftarrow> put_slice send_buffer 10 (secure_data ch apdu pinlen_min pinlen_max);
         let seqno = ch_seqno ch;
         (rc, msg, ch, d) \<leftarrow> ccid_put u msg ch PC_to_RDR_Secure 19 4 d;
         if rc \<noteq> 0 then Some (rc, resp, 0, ch, d)
         else do {
           (rc, msg, nread, d) \<leftarrow> bulk_in u ch recv_buffer 269 RDR_to_PC_DataBlock seqno d;
           if rc \<noteq> 0 then Some (rc, resp, 0, ch, d)
           else do {
             msglen \<leftarrow> nread;
             tpdu \<leftarrow> get_slice msg 10 (msglen - 10);
             if length tpdu < 4
             then Some (CCID_DRIVER_ERR_ABORTED, resp, 0, ch, cu_clear_halt u (ch_ep_bulk_in ch) d)
             else do {
               (rc, resp, nresp, ch) \<leftarrow> secure_receive ch tpdu resp maxresplen;
               Some (rc, resp, nresp, ch, d) } } } } } }"

end
