(* ===== verification/Ccid_Exchange.thy ===== *)
theory Ccid_Exchange
  imports Ccid_T1
begin

text \<open>
  The T=1 exchange of the CCID driver against a card behind a reader.  The card is the specification of the other
  side: it checks every message, asks for the repetition of those that arrived garbled, collects the command,
  acknowledges chained blocks, and plays a script of waiting time requests and parts of its answer, chained up to
  the last one.
\<close>

section \<open>The card\<close>

datatype t1_reply = T1_Wait u8 | T1_Part bytes

record t1_card =
  tc_rcvd :: bytes
  tc_vr :: bool
  tc_vs :: bool
  tc_script :: "t1_reply list"
  tc_noise :: "bool list"
  tc_pending :: bytes

fun t1_reply_data :: "t1_reply list \<Rightarrow> bytes" where
  "t1_reply_data [] = []"
| "t1_reply_data (T1_Wait w # s) = t1_reply_data s"
| "t1_reply_data (T1_Part p # s) = p @ t1_reply_data s"

text \<open>The script ends with a part of the answer.\<close>

fun t1_script_ok :: "t1_reply list \<Rightarrow> bool" where
  "t1_script_ok [] = False"
| "t1_script_ok (T1_Wait w # s) = t1_script_ok s"
| "t1_script_ok (T1_Part p # s) = (length p \<le> 254 \<and> (s = [] \<or> t1_script_ok s))"

text \<open>At most three messages in a row are garbled, \<open>k\<close> of them already.\<close>

fun few_faults :: "nat \<Rightarrow> bool list \<Rightarrow> bool" where
  "few_faults k [] = True"
| "few_faults k (True # ns) = (k < 3 \<and> few_faults (Suc k) ns)"
| "few_faults k (False # ns) = few_faults 0 ns"

definition t1_emit :: "t1_card \<Rightarrow> (u8 \<times> bytes) \<times> t1_card" where
  "t1_emit icc =
     (case tc_script icc of
        [] \<Rightarrow> ((0x82, []), icc)
      | T1_Wait w # s \<Rightarrow> ((0xc3, [w]), icc\<lparr>tc_script := s\<rparr>)
      | T1_Part p # s \<Rightarrow>
          ((push_bit 6 (of_bool (tc_vs icc)) OR (if s = [] then 0 else 0x20), p),
           icc\<lparr>tc_script := s, tc_vs := \<not> tc_vs icc\<rparr>))"

text \<open>A block in sequence, and whether the card is to wait for more of the command.\<close>

definition t1_accept :: "u8 \<Rightarrow> bytes \<Rightarrow> t1_card \<Rightarrow> (t1_card \<times> bool) option" where
  "t1_accept pcb info icc =
     (if pcb AND 0x80 = 0 then
        (if (pcb AND 0x40 \<noteq> 0) = tc_vr icc
         then Some (icc\<lparr>tc_rcvd := tc_rcvd icc @ info, tc_vr := \<not> tc_vr icc\<rparr>, pcb AND 0x20 \<noteq> 0)
         else None)
      else if pcb AND 0xc0 = 0x80 then
        (if (pcb AND 0x10 \<noteq> 0) = tc_vs icc \<and> pcb AND 0x0f = 0 then Some (icc, False) else None)
      else if pcb = 0xe3 then Some (icc, False)
      else None)"

definition t1_answer :: "u8 \<Rightarrow> bytes \<Rightarrow> t1_card \<Rightarrow> (u8 \<times> bytes) \<times> t1_card" where
  "t1_answer pcb info icc =
     (if tc_noise icc \<noteq> [] \<and> hd (tc_noise icc)
      then ((0x81, []), icc\<lparr>tc_noise := tl (tc_noise icc)\<rparr>)
      else let icc = icc\<lparr>tc_noise := tl (tc_noise icc)\<rparr> in
        case t1_accept pcb info icc of
          None \<Rightarrow> ((0x82, []), icc)
        | Some (icc, chained) \<Rightarrow>
            if chained then ((0x80 OR push_bit 4 (of_bool (tc_vr icc)), []), icc) else t1_emit icc)"

definition card_block :: "u8 \<times> bytes \<Rightarrow> bytes" where
  "card_block r = (let block = [0, fst r, of_nat (length (snd r))] @ snd r in block @ [compute_edc block])"

definition t1_well_formed :: "bytes \<Rightarrow> bool" where
  "t1_well_formed msg \<longleftrightarrow> 14 \<le> length msg \<and> msg ! 0 = PC_to_RDR_XfrBlock \<and>
     u32_of_le (take 4 (drop 1 msg)) = of_nat (length msg - 10) \<and>
     msg ! 12 = of_nat (length msg - 14) \<and> compute_edc (drop 10 msg) = 0"

definition t1_take :: "bytes \<Rightarrow> t1_card \<Rightarrow> t1_card" where
  "t1_take msg icc =
     (let (r, icc) = (if t1_well_formed msg
                       then t1_answer (msg ! 11) (take (length msg - 14) (drop 13 msg)) icc
                       else ((0x81, []), icc));
          block = card_block r
      in icc\<lparr>tc_pending := ccid_header RDR_to_PC_DataBlock (of_nat (length block)) (msg ! 6) 0 @ block\<rparr>)"

text \<open>libusb with such a reader and card at the other end.\<close>

definition t1_device :: "(t1_card, 'x) ccid_usb_scheme \<Rightarrow> bool" where
  "t1_device u \<longleftrightarrow>
     (\<forall>ep msg icc. usb_bulk_write u ep msg icc = (int (length msg), t1_take msg icc)) \<and>
     (\<forall>ep n icc. length (tc_pending icc) \<le> n \<longrightarrow>
        usb_bulk_read u ep n icc = (int (length (tc_pending icc)), tc_pending icc, icc))"

section \<open>One turn\<close>

lemma compute_edc_append: "compute_edc (xs @ [x]) = compute_edc xs XOR x"
  by (simp add: compute_edc_def)

lemma t1_block_edc: "compute_edc (t1_block ch pcb info) = 0"
  by (simp only: t1_block_def Let_def compute_edc_append) simp

lemma length_t1_block [simp]: "length (t1_block ch pcb info) = 4 + length info"
  by (simp add: t1_block_def)

lemma length_card_block [simp]: "length (card_block r) = 4 + length (snd r)"
  by (simp add: card_block_def)

text \<open>The send buffer has a block ready.\<close>

definition t1_holds :: "ccid_handle \<Rightarrow> u8 \<Rightarrow> bytes \<Rightarrow> t1_ctx \<Rightarrow> bool" where
  "t1_holds ch pcb info c \<longleftrightarrow> length (tx_send c) = 269 \<and> length info \<le> 254 \<and>
     tx_tpdulen c = 4 + length info \<and> take (4 + length info) (drop 10 (tx_send c)) = t1_block ch pcb info"

lemma t1_write_holds:
  assumes "length (tx_send c) = 269" "length info \<le> 254"
  obtains send len where "t1_write ch pcb info c = Some (c\<lparr>tx_send := send, tx_tpdulen := len\<rparr>)"
    "t1_holds ch pcb info (c\<lparr>tx_send := send, tx_tpdulen := len\<rparr>)"
proof -
  obtain send where s: "put_slice (tx_send c) 10 (t1_block ch pcb info) = Some send"
    using assms by (simp add: put_slice_def)
  have "take (4 + length info) (drop 10 send) = t1_block ch pcb info"
    using get_put_slice [OF s] by (auto simp: get_slice_def split: if_splits)
  moreover have "length send = 269" using put_slice_length [OF s] assms(1) by simp
  ultimately show ?thesis
    using that [of "4 + length info" send] s assms(2) by (simp add: t1_write_def t1_holds_def)
qed

lemma t1_message_well_formed:
  assumes "length info \<le> 254"
  shows "t1_well_formed (ccid_header PC_to_RDR_XfrBlock (of_nat (4 + length info)) seqno b @ t1_block ch pcb info)"
  using assms t1_block_edc [of ch pcb info]
  by (simp add: t1_well_formed_def ccid_header_def t1_block_def Let_def nth_append)

lemma bulk_in_reply:
  assumes "usb_bulk_read u (ch_ep_bulk_in ch) (length buffer) d = (int (length m), m, d')"
    and "m = ccid_header reply_type n seqno 0 @ block" "length m \<le> length buffer"
  shows "bulk_in u ch buffer (length buffer) reply_type seqno d =
           Some (0, m @ replicate (length buffer - length m) 0, Some (length m), d')"
proof -
  let ?b = "m @ replicate (length buffer - length m) 0"
  have "put_slice (replicate (length buffer) 0) 0 m = Some ?b" using assms(3) by (simp add: put_slice_def)
  moreover have "bulk_in_check reply_type seqno ?b (length m) = Done 0"
    using assms(2) by (simp add: bulk_in_check_def ccid_header_def u32_le_bytes_def)
  moreover have "10 \<le> length m" using assms(2) by simp
  ultimately show ?thesis
    using assms(1,3) unfolding bulk_in_def by (subst bulk_in_retry.simps) (simp add: memset0_def)
qed

lemma t1_turn_device:
  assumes "t1_device u" "t1_holds ch pcb info c" "\<not> tx_next_chunk c" "length recv = 269"
    and "t1_answer pcb info icc = (r, icc')" "length (snd r) \<le> 254"
  obtains recv' send p where "length recv' = 269" "length send = 269" "drop 10 send = drop 10 (tx_send c)"
    "t1_turn u recv ch c icc = do {
       (ret, ch', c') \<leftarrow> t1_receive (ch\<lparr>ch_seqno := ch_seqno ch + 1\<rparr>) (card_block r) (c\<lparr>tx_send := send\<rparr>);
       Some (ret, recv', ch', c', icc'\<lparr>tc_pending := p\<rparr>) }"
proof -
  let ?ch = "ch\<lparr>ch_seqno := ch_seqno ch + 1\<rparr>" and ?n = "4 + length info"
  let ?head = "ccid_header PC_to_RDR_XfrBlock (of_nat ?n) (ch_seqno ch) 4"
  let ?send = "?head @ drop 10 (tx_send c)" and ?msg = "?head @ t1_block ch pcb info"
  let ?m = "ccid_header RDR_to_PC_DataBlock (of_nat (4 + length (snd r))) (ch_seqno ch) 0 @ card_block r"
  have h: "length (tx_send c) = 269" "length info \<le> 254" "tx_tpdulen c = ?n"
    "take ?n (drop 10 (tx_send c)) = t1_block ch pcb info"
    using assms(2) by (auto simp: t1_holds_def)
  have "get_slice ?send 0 (10 + ?n) = Some ?msg"
    using h by (simp add: get_slice_def)
  moreover have "t1_take ?msg icc = icc'\<lparr>tc_pending := ?m\<rparr>"
  proof -
    have "?msg ! 11 = pcb" "?msg ! 6 = ch_seqno ch" "take (length ?msg - 14) (drop 13 ?msg) = info"
      by (simp_all add: ccid_header_def t1_block_def u32_le_bytes_def)
    then show ?thesis
      using assms(5) t1_message_well_formed [OF h(2)] unfolding t1_take_def by (simp add: Let_def)
  qed
  ultimately have put: "ccid_put u (tx_send c) ch PC_to_RDR_XfrBlock ?n 4 icc = Some (0, ?send, ?ch, icc'\<lparr>tc_pending := ?m\<rparr>)"
    using assms(1) h by (simp add: ccid_put_run bulk_out_def t1_device_def Let_def)
  let ?recv = "?m @ replicate (269 - length ?m) 0"
  have "usb_bulk_read u (ch_ep_bulk_in ?ch) (length recv) (icc'\<lparr>tc_pending := ?m\<rparr>) =
          (int (length ?m), ?m, icc'\<lparr>tc_pending := ?m\<rparr>)"
    using assms(1,4,6) unfolding t1_device_def by simp
  then have inp: "bulk_in u ?ch recv 269 RDR_to_PC_DataBlock (ch_seqno ch) (icc'\<lparr>tc_pending := ?m\<rparr>) =
      Some (0, ?recv, Some (length ?m), icc'\<lparr>tc_pending := ?m\<rparr>)"
    using bulk_in_reply [of u ?ch recv "icc'\<lparr>tc_pending := ?m\<rparr>" ?m] assms(4,6) by simp
  have get: "get_slice ?recv 10 (length ?m - 10) = Some (card_block r)"
    using assms(6) by (simp add: get_slice_def)
  have "t1_turn u recv ch c icc = do {
       (ret, ch', c') \<leftarrow> t1_receive ?ch (card_block r) (c\<lparr>tx_send := ?send\<rparr>);
       Some (ret, ?recv, ch', c', icc'\<lparr>tc_pending := ?m\<rparr>) }"
    using put inp get h(3) assms(3) by (simp add: t1_turn_def t1_chunk_def Let_def)
  then show ?thesis using that [of ?recv ?send ?m] assms(6) h(1) by simp
qed

section \<open>What the driver does with a block of the card\<close>

text \<open>The send sequence number once an answer has arrived.\<close>

definition t1_ns_after :: "ccid_handle \<Rightarrow> t1_ctx \<Rightarrow> u8" where
  "t1_ns_after ch c = (if tx_sending c then ch_t1_ns ch XOR 1 else ch_t1_ns ch)"

lemma t1_ns_after_frame [simp]:
  "t1_ns_after (ch\<lparr>ch_seqno := s\<rparr>) c = t1_ns_after ch c" "t1_ns_after ch (c\<lparr>tx_send := x\<rparr>) = t1_ns_after ch c"
  "t1_ns_after ch (c\<lparr>tx_tpdulen := l\<rparr>) = t1_ns_after ch c" "t1_ns_after ch (c\<lparr>tx_retries := k\<rparr>) = t1_ns_after ch c"
  by (simp_all add: t1_ns_after_def)

lemma card_block_fields [simp]:
  "card_block r ! Suc 0 = fst r" "card_block r ! 2 = of_nat (length (snd r))"
  "snd r = [x] \<Longrightarrow> card_block r ! 3 = x"
  "length (snd r) = n \<Longrightarrow> take n (drop 3 (card_block r)) = snd r"
  by (simp_all add: card_block_def)

lemma t1_holds_resend:
  assumes "t1_holds ch pcb info c" "length send = 269" "drop 10 send = drop 10 (tx_send c)"
    "ch_nonnull_nad ch' = ch_nonnull_nad ch"
  shows "t1_holds ch' pcb info (c\<lparr>tx_send := send, tx_retries := k\<rparr>)"
  using assms by (simp add: t1_holds_def t1_block_def t1_nad_def Let_def)

lemma receive_fault:
  "tx_retries c < 3 \<Longrightarrow> t1_receive ch (card_block (0x81, [])) c =
     Some (None, ch, c\<lparr>tx_retries := Suc (tx_retries c)\<rparr>)"
  by (simp add: t1_receive_def t1_rx_r_def)

lemma receive_wait:
  "t1_receive ch (card_block (0xc3, [w])) c = do {
     c \<leftarrow> t1_write ch 0xe3 [w] (c\<lparr>tx_retries := 0\<rparr>); Some (None, ch, c) }"
  by (simp add: t1_receive_def t1_rx_s_def)

lemma receive_part:
  assumes "ch_t1_nr ch = of_bool b" "tx_resp c = Some buf" "length p \<le> tx_max c"
    "tx_nresp c + tx_max c \<le> length buf"
  shows "t1_receive ch (card_block (push_bit 6 (of_bool b) OR (if fin then 0 else 0x20), p)) c =
    (let ch' = ch\<lparr>ch_t1_ns := t1_ns_after ch c, ch_t1_nr := of_bool (\<not> b)\<rparr>;
         c' = c\<lparr>tx_retries := 0, tx_sending := False,
                tx_resp := Some (take (tx_nresp c) buf @ p @ drop (tx_nresp c + length p) buf),
                tx_nresp := tx_nresp c + length p, tx_max := tx_max c - length p\<rparr>
     in if fin then Some (Some 0, ch', c')
        else do { c' \<leftarrow> t1_write ch' (0x80 OR push_bit 4 (of_bool (\<not> b))) [] c'; Some (None, ch', c') })"
proof -
  have "put_slice buf (tx_nresp c) p = Some (take (tx_nresp c) buf @ p @ drop (tx_nresp c + length p) buf)"
    using assms(3,4) by (simp add: put_slice_def)
  then show ?thesis
    using assms by (cases b; cases fin) (simp_all add: t1_receive_def t1_rx_i_def t1_store_def t1_ns_after_def Let_def)
qed

section \<open>The answer\<close>

definition t1_in_step :: "ccid_handle \<Rightarrow> t1_card \<Rightarrow> bool" where
  "t1_in_step ch icc \<longleftrightarrow> ch_t1_ns ch = of_bool (tc_vr icc) \<and> ch_t1_nr ch = of_bool (tc_vs icc)"

lemma of_bool_xor [simp]: "of_bool b XOR 1 = (of_bool (\<not> b) :: u8)" "of_bool b AND 1 = (of_bool b :: u8)"
  by (cases b; simp)+

lemma t1_loop_continues:
  "t1_turn u recv ch c icc = Some (None, recv', ch', c', icc') \<Longrightarrow> t1_loop u recv ch c icc = t1_loop u recv' ch' c' icc'"
  by (subst t1_loop.simps) simp

lemma t1_accept_frame:
  assumes "t1_accept pcb info icc = Some (icc1, chained)"
  shows "t1_accept pcb info (icc\<lparr>tc_noise := ns\<rparr>) = Some (icc1\<lparr>tc_noise := ns\<rparr>, chained)"
    "t1_accept pcb info (icc\<lparr>tc_noise := ns, tc_pending := p\<rparr>) = Some (icc1\<lparr>tc_noise := ns, tc_pending := p\<rparr>, chained)"
    "tc_noise icc1 = tc_noise icc" "tc_script icc1 = tc_script icc" "tc_vs icc1 = tc_vs icc"
  using assms by (auto simp: t1_accept_def split: if_splits)

lemma few_faults_weaken: "few_faults k ns \<Longrightarrow> j \<le> k \<Longrightarrow> few_faults j ns"
proof (induction ns arbitrary: j k)
  case (Cons n ns)
  then show ?case by (cases n) auto
qed simp

text \<open>
  The block ready to be sent is one that the card takes, and that leaves it in the state \<open>icc1\<close> to answer; there
  is room for the answer behind what is in the buffer already.
\<close>

definition t1_ready ::
    "bytes \<Rightarrow> ccid_handle \<Rightarrow> t1_ctx \<Rightarrow> t1_card \<Rightarrow> u8 \<Rightarrow> bytes \<Rightarrow> t1_card \<Rightarrow> bytes \<Rightarrow> bool" where
  "t1_ready recv ch c icc pcb info icc1 buf \<longleftrightarrow>
     t1_script_ok (tc_script icc) \<and> few_faults (tx_retries c) (tc_noise icc) \<and> t1_holds ch pcb info c \<and>
     \<not> tx_next_chunk c \<and> length recv = 269 \<and> t1_accept pcb info icc = Some (icc1, False) \<and>
     ch_t1_nr ch = of_bool (tc_vs icc) \<and>
     t1_ns_after ch c = of_bool (tc_vr icc1) \<and>
     tx_resp c = Some buf \<and> length (t1_reply_data (tc_script icc)) \<le> tx_max c \<and>
     tx_nresp c + tx_max c \<le> length buf"

lemma accept_wait: "t1_accept 0xe3 info icc = Some (icc, False)"
  by (simp add: t1_accept_def)

definition t1_returns ::
    "(t1_card, 'x) ccid_usb_scheme \<Rightarrow> bytes \<Rightarrow> ccid_handle \<Rightarrow> t1_ctx \<Rightarrow> t1_card \<Rightarrow> bytes \<Rightarrow> nat \<Rightarrow> bytes \<Rightarrow> bool" where
  "t1_returns u recv ch c icc out n rcvd \<longleftrightarrow>
     (\<exists>ch' c' icc'. t1_loop u recv ch c icc = Some (0, ch', c', icc') \<and> tx_resp c' = Some out \<and> tx_nresp c' = n \<and>
        t1_in_step ch' icc' \<and> tc_rcvd icc' = rcvd \<and> tc_script icc' = [] \<and> ch_apdu_level ch' = ch_apdu_level ch)"

lemma t1_returns_turn:
  assumes "t1_turn u recv ch c icc = Some (None, recv', ch', c', icc')" "t1_returns u recv' ch' c' icc' out n rcvd"
    "ch_apdu_level ch' = ch_apdu_level ch"
  shows "t1_returns u recv ch c icc out n rcvd"
  using assms by (simp add: t1_returns_def t1_loop_continues)

lemma t1_answers:
  assumes "t1_device u"
  shows "t1_ready recv ch c icc pcb info icc1 buf \<Longrightarrow>
    t1_returns u recv ch c icc
      (take (tx_nresp c) buf @ t1_reply_data (tc_script icc) @
        drop (tx_nresp c + length (t1_reply_data (tc_script icc))) buf)
      (tx_nresp c + length (t1_reply_data (tc_script icc))) (tc_rcvd icc1)"
proof (induction "length (tc_noise icc) + length (tc_script icc)" arbitrary: icc icc1 c ch pcb info recv buf
    rule: less_induct)
  case less
  let ?ch = "ch\<lparr>ch_seqno := ch_seqno ch + 1\<rparr>"
  have h: "t1_script_ok (tc_script icc)" "few_faults (tx_retries c) (tc_noise icc)" "t1_holds ch pcb info c"
     "\<not> tx_next_chunk c" "length recv = 269" "t1_accept pcb info icc = Some (icc1, False)"
     "ch_t1_nr ch = of_bool (tc_vs icc)"
     "t1_ns_after ch c = of_bool (tc_vr icc1)"
     "tx_resp c = Some buf" "length (t1_reply_data (tc_script icc)) \<le> tx_max c"
     "tx_nresp c + tx_max c \<le> length buf"
    using less.prems unfolding t1_ready_def by blast+
  note turn = t1_turn_device [OF assms h(3,4,5)]
  note acc = t1_accept_frame [OF h(6)]
  show ?case
  proof (cases "tc_noise icc \<noteq> [] \<and> hd (tc_noise icc)")
    case True
    then obtain ns where ns: "tc_noise icc = True # ns" by (cases "tc_noise icc") auto
    then have few: "tx_retries c < 3" "few_faults (Suc (tx_retries c)) ns" using h(2) by auto
    have ans: "t1_answer pcb info icc = ((0x81, []), icc\<lparr>tc_noise := ns\<rparr>)" using ns by (simp add: t1_answer_def)
    obtain recv' send p where s: "length recv' = 269" "length send = 269" "drop 10 send = drop 10 (tx_send c)"
      "t1_turn u recv ch c icc = do {
         (ret, ch', c') \<leftarrow> t1_receive ?ch (card_block (0x81, [])) (c\<lparr>tx_send := send\<rparr>);
         Some (ret, recv', ch', c', icc\<lparr>tc_noise := ns, tc_pending := p\<rparr>) }"
      using turn [OF ans] by auto
    let ?c = "c\<lparr>tx_send := send, tx_retries := Suc (tx_retries c)\<rparr>"
    let ?icc = "icc\<lparr>tc_noise := ns, tc_pending := p\<rparr>" and ?icc1 = "icc1\<lparr>tc_noise := ns, tc_pending := p\<rparr>"
    have t: "t1_turn u recv ch c icc = Some (None, recv', ?ch, ?c, ?icc)"
      using s(4) few(1) by (simp add: receive_fault)
    have "t1_holds ?ch pcb info ?c" using t1_holds_resend [OF h(3) s(2,3)] by simp
    then have "t1_ready recv' ?ch ?c ?icc pcb info ?icc1 buf"
      using h s(1) few acc(2) by (simp add: t1_ready_def)
    from t1_returns_turn [OF t less.hyps [OF _ this]] show ?thesis using ns by simp
  next
    case False
    let ?ns = "tl (tc_noise icc)"
    have ans: "t1_answer pcb info icc = t1_emit (icc1\<lparr>tc_noise := ?ns\<rparr>)"
      using False acc(1) by (auto simp: t1_answer_def Let_def)
    have few: "few_faults 0 ?ns"
    proof (cases "tc_noise icc")
      case (Cons n ns)
      with h(2) False show ?thesis by simp
    qed simp
    note vs = acc(5) and script = acc(4)
    consider (wait) w s where "tc_script icc = T1_Wait w # s" | (part) q s where "tc_script icc = T1_Part q # s"
      using h(1) by (cases "tc_script icc" rule: t1_script_ok.cases) auto
    then show ?thesis
    proof cases
      case wait
      let ?icc' = "icc1\<lparr>tc_noise := ?ns, tc_script := s\<rparr>"
      have a: "t1_answer pcb info icc = ((0xc3, [w]), ?icc')"
        using ans wait script by (simp add: t1_emit_def)
      obtain recv' send p where s: "length recv' = 269" "length send = 269"
        "t1_turn u recv ch c icc = do {
           (ret, ch', c') \<leftarrow> t1_receive ?ch (card_block (0xc3, [w])) (c\<lparr>tx_send := send\<rparr>);
           Some (ret, recv', ch', c', ?icc'\<lparr>tc_pending := p\<rparr>) }"
        by (rule turn [OF a]) simp_all
      let ?c0 = "c\<lparr>tx_send := send, tx_retries := 0\<rparr>"
      obtain send' len where c': "t1_write ?ch 0xe3 [w] ?c0 = Some (?c0\<lparr>tx_send := send', tx_tpdulen := len\<rparr>)"
          "t1_holds ?ch 0xe3 [w] (?c0\<lparr>tx_send := send', tx_tpdulen := len\<rparr>)"
        by (rule t1_write_holds [of ?c0 "[w]" ?ch "0xe3"]) (use s(2) in simp_all)
      let ?c' = "?c0\<lparr>tx_send := send', tx_tpdulen := len\<rparr>"
      have t: "t1_turn u recv ch c icc = Some (None, recv', ?ch, ?c', ?icc'\<lparr>tc_pending := p\<rparr>)"
        using s(3) c'(1) by (simp add: receive_wait)
      have "t1_ready recv' ?ch ?c' (?icc'\<lparr>tc_pending := p\<rparr>) 0xe3 [w] (?icc'\<lparr>tc_pending := p\<rparr>) buf"
        using h s(1) few c'(2) wait vs by (simp add: t1_ready_def accept_wait)
      from t1_returns_turn [OF t less.hyps [OF _ this]] show ?thesis using wait by simp
    next
      case part
      let ?icc' = "icc1\<lparr>tc_noise := ?ns, tc_script := s, tc_vs := \<not> tc_vs icc1\<rparr>"
      let ?r = "(push_bit 6 (of_bool (tc_vs icc)) OR (if s = [] then 0 else 0x20), q)"
      have a: "t1_answer pcb info icc = (?r, ?icc')"
        using ans part script vs by (simp add: t1_emit_def)
      have q: "length q \<le> 254" using h(1) part by simp
      obtain recv' send p where s: "length recv' = 269" "length send = 269"
        "t1_turn u recv ch c icc = do {
           (ret, ch', c') \<leftarrow> t1_receive ?ch (card_block ?r) (c\<lparr>tx_send := send\<rparr>);
           Some (ret, recv', ch', c', ?icc'\<lparr>tc_pending := p\<rparr>) }"
        by (rule turn [OF a]) (simp_all add: q)
      let ?ch' = "?ch\<lparr>ch_t1_ns := t1_ns_after ch c, ch_t1_nr := of_bool (\<not> tc_vs icc)\<rparr>"
      let ?buf = "take (tx_nresp c) buf @ q @ drop (tx_nresp c + length q) buf"
      let ?c0 = "c\<lparr>tx_send := send, tx_retries := 0, tx_sending := False, tx_resp := Some ?buf,
                    tx_nresp := tx_nresp c + length q, tx_max := tx_max c - length q\<rparr>"
      have room: "length q \<le> tx_max c" "tx_nresp c + length q \<le> length buf" using h(10,11) part by simp_all
      have rcv: "t1_receive ?ch (card_block ?r) (c\<lparr>tx_send := send\<rparr>) =
          (if s = [] then Some (Some 0, ?ch', ?c0)
           else do { c' \<leftarrow> t1_write ?ch' (0x80 OR push_bit 4 (of_bool (\<not> tc_vs icc))) [] ?c0; Some (None, ?ch', c') })"
        using receive_part [of ?ch "tc_vs icc" "c\<lparr>tx_send := send\<rparr>" buf q "s = []"] h(7,9,11) room
        by (simp add: Let_def)
      show ?thesis
      proof (cases "s = []")
        case True
        then have "t1_loop u recv ch c icc = Some (0, ?ch', ?c0, ?icc'\<lparr>tc_pending := p\<rparr>)"
          using s(3) rcv by (subst t1_loop.simps) simp
        then show ?thesis
          using True part h(8) vs by (simp add: t1_returns_def t1_in_step_def)
      next
        case False
        let ?R = "0x80 OR push_bit 4 (of_bool (\<not> tc_vs icc)) :: u8"
        obtain send' len where c': "t1_write ?ch' ?R [] ?c0 = Some (?c0\<lparr>tx_send := send', tx_tpdulen := len\<rparr>)"
            "t1_holds ?ch' ?R [] (?c0\<lparr>tx_send := send', tx_tpdulen := len\<rparr>)"
          by (rule t1_write_holds [of ?c0 "[]" ?ch' ?R]) (use s(2) in simp_all)
        let ?c' = "?c0\<lparr>tx_send := send', tx_tpdulen := len\<rparr>"
        have t: "t1_turn u recv ch c icc = Some (None, recv', ?ch', ?c', ?icc'\<lparr>tc_pending := p\<rparr>)"
          using s(3) rcv False c'(1) by simp
        have "t1_accept ?R [] (?icc'\<lparr>tc_pending := p\<rparr>) = Some (?icc'\<lparr>tc_pending := p\<rparr>, False)"
          using vs by (cases "tc_vs icc") (simp_all add: t1_accept_def)
        then have "t1_ready recv' ?ch' ?c' (?icc'\<lparr>tc_pending := p\<rparr>) ?R [] (?icc'\<lparr>tc_pending := p\<rparr>) ?buf"
          unfolding t1_ready_def using h s(1) few c'(2) part False vs room
          by (simp add: t1_ns_after_def)
        from t1_returns_turn [OF t less.hyps [OF _ this]] show ?thesis
          using part room False script by (simp add: ac_simps)
      qed
    qed
  qed
qed

section \<open>The command\<close>

lemma t1_chunk_holds:
  assumes "tx_next_chunk c" "tx_apdu c \<noteq> []" "length (tx_apdu c) \<le> 254" "length (tx_send c) = 269"
  obtains send len where
    "t1_chunk ch c = Some (0, c\<lparr>tx_send := send, tx_tpdulen := len, tx_next_chunk := False,
       tx_apdu := (if length (tx_apdu c) > 128 then drop 128 (tx_apdu c) else tx_apdu c)\<rparr>)"
    "t1_holds ch (push_bit 6 (ch_t1_ns ch AND 1) OR (if length (tx_apdu c) > 128 then 0x20 else 0)) (take 128 (tx_apdu c))
       (c\<lparr>tx_send := send, tx_tpdulen := len, tx_next_chunk := False,
          tx_apdu := (if length (tx_apdu c) > 128 then drop 128 (tx_apdu c) else tx_apdu c)\<rparr>)"
proof -
  let ?pcb = "push_bit 6 (ch_t1_ns ch AND 1) OR (if length (tx_apdu c) > 128 then 0x20 else 0)"
  obtain send len where w: "t1_write ch ?pcb (take 128 (tx_apdu c)) c = Some (c\<lparr>tx_send := send, tx_tpdulen := len\<rparr>)"
    "t1_holds ch ?pcb (take 128 (tx_apdu c)) (c\<lparr>tx_send := send, tx_tpdulen := len\<rparr>)"
    by (rule t1_write_holds [of c "take 128 (tx_apdu c)" ch ?pcb]) (use assms(4) in simp_all)
  show ?thesis
    by (rule that [of len send]) (use assms w in \<open>simp_all add: t1_chunk_def t1_holds_def Let_def\<close>)
qed

lemma t1_returns_chunk:
  assumes "t1_chunk ch c = Some (0, c1)" "\<not> tx_next_chunk c1" "t1_returns u recv ch c1 icc out n rcvd"
  shows "t1_returns u recv ch c icc out n rcvd"
proof -
  have "t1_turn u recv ch c icc = t1_turn u recv ch c1 icc"
    using assms(1,2) by (simp add: t1_turn_def t1_chunk_def [of ch c1])
  then have "t1_loop u recv ch c icc = t1_loop u recv ch c1 icc"
    by (subst (1 2) t1_loop.simps) simp
  then show ?thesis using assms(3) by (simp add: t1_returns_def)
qed

text \<open>The room for the answer, and what the card has to be like.\<close>

definition t1_room :: "bytes \<Rightarrow> t1_ctx \<Rightarrow> t1_card \<Rightarrow> bytes \<Rightarrow> bool" where
  "t1_room recv c icc buf \<longleftrightarrow> t1_script_ok (tc_script icc) \<and> length recv = 269 \<and> tx_resp c = Some buf \<and>
     tx_nresp c = 0 \<and> length (t1_reply_data (tc_script icc)) \<le> tx_max c \<and> tx_max c \<le> length buf"

lemma accept_i:
  "t1_accept (push_bit 6 (of_bool (tc_vr icc)) OR (if chained then 0x20 else 0)) info icc =
     Some (icc\<lparr>tc_rcvd := tc_rcvd icc @ info, tc_vr := \<not> tc_vr icc\<rparr>, chained)"
  by (cases "tc_vr icc"; cases chained) (simp_all add: t1_accept_def)

lemma t1_sends_last:
  assumes "t1_device u" "t1_in_step ch icc" "t1_room recv c icc buf" "few_faults (tx_retries c) (tc_noise icc)"
    "tx_next_chunk c" "tx_sending c" "tx_apdu c \<noteq> []" "length (tx_apdu c) \<le> 128" "length (tx_send c) = 269"
  shows "t1_returns u recv ch c icc (t1_reply_data (tc_script icc) @ drop (length (t1_reply_data (tc_script icc))) buf)
    (length (t1_reply_data (tc_script icc))) (tc_rcvd icc @ tx_apdu c)"
proof -
  obtain send len where w:
    "t1_chunk ch c = Some (0, c\<lparr>tx_send := send, tx_tpdulen := len, tx_next_chunk := False, tx_apdu := tx_apdu c\<rparr>)"
    "t1_holds ch (push_bit 6 (ch_t1_ns ch AND 1)) (tx_apdu c)
       (c\<lparr>tx_send := send, tx_tpdulen := len, tx_next_chunk := False, tx_apdu := tx_apdu c\<rparr>)"
    by (rule t1_chunk_holds [of c ch]) (use assms(5-9) in simp_all)
  let ?c = "c\<lparr>tx_send := send, tx_tpdulen := len, tx_next_chunk := False, tx_apdu := tx_apdu c\<rparr>"
  let ?icc1 = "icc\<lparr>tc_rcvd := tc_rcvd icc @ tx_apdu c, tc_vr := \<not> tc_vr icc\<rparr>"
  have "t1_ready recv ch ?c icc (push_bit 6 (of_bool (tc_vr icc))) (tx_apdu c) ?icc1 buf"
    unfolding t1_ready_def
    using assms(2-4,6) w(2) accept_i [of icc False "tx_apdu c"]
    by (simp add: t1_room_def t1_in_step_def t1_ns_after_def)
  from t1_answers [OF assms(1) this] have "t1_returns u recv ch ?c icc
      (t1_reply_data (tc_script icc) @ drop (length (t1_reply_data (tc_script icc))) buf)
      (length (t1_reply_data (tc_script icc))) (tc_rcvd icc @ tx_apdu c)"
    using assms(3) by (simp add: t1_room_def)
  from t1_returns_chunk [OF w(1) _ this] show ?thesis by simp
qed

text \<open>A block with more to follow is repeated until the card takes it.\<close>

lemma t1_sends_more:
  assumes "t1_device u"
  shows "t1_holds ch (push_bit 6 (of_bool (tc_vr icc)) OR 0x20) info c \<Longrightarrow> \<not> tx_next_chunk c \<Longrightarrow>
    t1_in_step ch icc \<Longrightarrow> t1_room recv c icc buf \<Longrightarrow> few_faults (tx_retries c) (tc_noise icc) \<Longrightarrow>
    tx_sending c \<Longrightarrow> tx_apdu c \<noteq> [] \<Longrightarrow> length (tx_apdu c) \<le> 128 \<Longrightarrow>
    t1_returns u recv ch c icc (t1_reply_data (tc_script icc) @ drop (length (t1_reply_data (tc_script icc))) buf)
      (length (t1_reply_data (tc_script icc))) (tc_rcvd icc @ info @ tx_apdu c)"
proof (induction "length (tc_noise icc)" arbitrary: icc c ch recv rule: less_induct)
  case less
  note h = less.prems
  let ?ch = "ch\<lparr>ch_seqno := ch_seqno ch + 1\<rparr>" and ?pcb = "push_bit 6 (of_bool (tc_vr icc)) OR 0x20 :: u8"
  have room: "length recv = 269" using h(4) by (simp add: t1_room_def)
  note turn = t1_turn_device [OF assms h(1,2) room]
  show ?case
  proof (cases "tc_noise icc \<noteq> [] \<and> hd (tc_noise icc)")
    case True
    then obtain ns where ns: "tc_noise icc = True # ns" by (cases "tc_noise icc") auto
    then have few: "tx_retries c < 3" "few_faults (Suc (tx_retries c)) ns" using h(5) by auto
    have ans: "t1_answer ?pcb info icc = ((0x81, []), icc\<lparr>tc_noise := ns\<rparr>)" using ns by (simp add: t1_answer_def)
    obtain recv' send p where s: "length recv' = 269" "length send = 269" "drop 10 send = drop 10 (tx_send c)"
      "t1_turn u recv ch c icc = do {
         (ret, ch', c') \<leftarrow> t1_receive ?ch (card_block (0x81, [])) (c\<lparr>tx_send := send\<rparr>);
         Some (ret, recv', ch', c', icc\<lparr>tc_noise := ns, tc_pending := p\<rparr>) }"
      by (rule turn [OF ans]) simp_all
    let ?c = "c\<lparr>tx_send := send, tx_retries := Suc (tx_retries c)\<rparr>"
    let ?icc = "icc\<lparr>tc_noise := ns, tc_pending := p\<rparr>"
    have t: "t1_turn u recv ch c icc = Some (None, recv', ?ch, ?c, ?icc)"
      using s(4) few(1) by (simp add: receive_fault)
    have "t1_holds ?ch ?pcb info ?c" using t1_holds_resend [OF h(1) s(2,3)] by simp
    then have "t1_returns u recv' ?ch ?c ?icc
        (t1_reply_data (tc_script icc) @ drop (length (t1_reply_data (tc_script icc))) buf)
        (length (t1_reply_data (tc_script icc))) (tc_rcvd icc @ info @ tx_apdu c)"
      using less.hyps [of ?icc ?ch ?c recv'] ns h s(1) few(2) by (simp add: t1_in_step_def t1_room_def)
    from t1_returns_turn [OF t this] show ?thesis by simp
  next
    case False
    let ?icc = "icc\<lparr>tc_noise := tl (tc_noise icc), tc_rcvd := tc_rcvd icc @ info, tc_vr := \<not> tc_vr icc\<rparr>"
    let ?r = "(0x80 OR push_bit 4 (of_bool (\<not> tc_vr icc)) :: u8, [] :: bytes)"
    have a: "t1_answer ?pcb info icc = (?r, ?icc)"
      using False accept_i [of "icc\<lparr>tc_noise := tl (tc_noise icc)\<rparr>" True info]
      by (auto simp: t1_answer_def Let_def)
    obtain recv' send p where s: "length recv' = 269" "length send = 269"
      "t1_turn u recv ch c icc = do {
         (ret, ch', c') \<leftarrow> t1_receive ?ch (card_block ?r) (c\<lparr>tx_send := send\<rparr>);
         Some (ret, recv', ch', c', ?icc\<lparr>tc_pending := p\<rparr>) }"
      by (rule turn [OF a]) simp_all
    let ?ch' = "?ch\<lparr>ch_t1_ns := of_bool (\<not> tc_vr icc)\<rparr>"
    let ?c = "c\<lparr>tx_send := send, tx_retries := 0, tx_next_chunk := True\<rparr>"
    have "t1_receive ?ch (card_block ?r) (c\<lparr>tx_send := send\<rparr>) = Some (None, ?ch', ?c)"
      using h(3,6) by (cases "tc_vr icc") (simp_all add: t1_receive_def t1_rx_r_def t1_in_step_def)
    then have t: "t1_turn u recv ch c icc = Some (None, recv', ?ch', ?c, ?icc\<lparr>tc_pending := p\<rparr>)"
      using s(3) by simp
    have few: "few_faults 0 (tl (tc_noise icc))"
    proof (cases "tc_noise icc")
      case (Cons n ns)
      with h(5) False show ?thesis by simp
    qed simp
    have "t1_returns u recv' ?ch' ?c (?icc\<lparr>tc_pending := p\<rparr>)
        (t1_reply_data (tc_script icc) @ drop (length (t1_reply_data (tc_script icc))) buf)
        (length (t1_reply_data (tc_script icc))) (tc_rcvd icc @ info @ tx_apdu c)"
      using t1_sends_last [OF assms, of ?ch' "?icc\<lparr>tc_pending := p\<rparr>" recv' ?c buf] h s(1,2) few
      by (simp add: t1_in_step_def t1_room_def)
    from t1_returns_turn [OF t this] show ?thesis by simp
  qed
qed

text \<open>
  C5: over T=1, a command of 1 to 254 bytes reaches a conforming card whole, in order and once, in one block or two,
  and the call returns with exactly the card's answer in front of the rest of the caller's buffer, through
  requests for more time, chained answers and repetitions of blocks that arrived garbled (three in a row at most);
  the sequence numbers of both sides agree afterwards, as they did before.
\<close>

theorem t1_exchange:
  assumes "t1_device u" "\<not> ch_apdu_level ch" "t1_in_step ch icc"
    and "t1_script_ok (tc_script icc)" "few_faults 0 (tc_noise icc)"
    and "apdu \<noteq> []" "length apdu \<le> 254" "length send = 269" "length recv = 269"
    and "length (t1_reply_data (tc_script icc)) \<le> maxresplen" "maxresplen \<le> length resp"
  shows "\<exists>ch' icc'. ccid_transceive u send recv ch apdu (Some resp) maxresplen icc =
      (let ans = t1_reply_data (tc_script icc)
       in Some (0, Some (ans @ drop (length ans) resp), length ans, ch', icc')) \<and>
    tc_rcvd icc' = tc_rcvd icc @ apdu \<and> tc_script icc' = [] \<and> t1_in_step ch' icc' \<and> \<not> ch_apdu_level ch'"
proof -
  let ?c = "\<lparr>tx_send = send, tx_tpdulen = 0, tx_next_chunk = True, tx_sending = True, tx_retries = 0,
             tx_apdu = apdu, tx_resp = Some resp, tx_nresp = 0, tx_max = maxresplen\<rparr>"
  let ?ans = "t1_reply_data (tc_script icc)"
  have "t1_returns u recv ch ?c icc (?ans @ drop (length ?ans) resp) (length ?ans) (tc_rcvd icc @ apdu)"
  proof (cases "length apdu \<le> 128")
    case True
    then show ?thesis
      using t1_sends_last [OF assms(1,3), of recv ?c resp] assms by (simp add: t1_room_def)
  next
    case False
    obtain s len where w: "t1_chunk ch ?c = Some (0, ?c\<lparr>tx_send := s, tx_tpdulen := len, tx_next_chunk := False,
          tx_apdu := drop 128 apdu\<rparr>)"
      "t1_holds ch (push_bit 6 (ch_t1_ns ch AND 1) OR 0x20) (take 128 apdu)
         (?c\<lparr>tx_send := s, tx_tpdulen := len, tx_next_chunk := False, tx_apdu := drop 128 apdu\<rparr>)"
      by (rule t1_chunk_holds [of ?c ch]) (use assms(6-8) False in simp_all)
    let ?c1 = "?c\<lparr>tx_send := s, tx_tpdulen := len, tx_next_chunk := False, tx_apdu := drop 128 apdu\<rparr>"
    have ns: "ch_t1_ns ch AND 1 = of_bool (tc_vr icc)" using assms(3) by (simp add: t1_in_step_def)
    have "t1_returns u recv ch ?c1 icc (?ans @ drop (length ?ans) resp) (length ?ans)
        (tc_rcvd icc @ take 128 apdu @ drop 128 apdu)"
      using t1_sends_more [OF assms(1), of ch icc "take 128 apdu" ?c1 recv resp] w(2) [unfolded ns] assms False
      by (simp add: t1_room_def t1_in_step_def)
    from t1_returns_chunk [OF w(1) _ this] show ?thesis by simp
  qed
  then show ?thesis
    using assms(2) by (auto simp: t1_returns_def ccid_transceive_def Let_def)
qed

text \<open>A device that does what the specification says, and a card with two garbled messages and a long answer.\<close>

definition t1_usb :: "t1_card ccid_usb" where
  "t1_usb =
     \<lparr>usb_bulk_write = (\<lambda>ep msg icc. (int (length msg), t1_take msg icc)),
      usb_bulk_read = (\<lambda>ep n icc. (int (length (take n (tc_pending icc))), take n (tc_pending icc), icc)),
      usb_find_busses = (\<lambda>d. (0, d)), usb_find_devices = (\<lambda>d. (0, d)),
      usb_get_busses = (\<lambda>d. []), usb_open = (\<lambda>dev d. (True, d)),
      usb_set_configuration = (\<lambda>d. (0, d)), usb_claim_interface = (\<lambda>d. (0, d)), usb_close = (\<lambda>d. d),
      cu_busses = (\<lambda>d. []), cu_open = (\<lambda>dev d. (True, d)), cu_string = (\<lambda>idx lang n d. (0, [], d)),
      cu_claim = (\<lambda>n d. (0, d)), cu_release = (\<lambda>n d. d), cu_clear_halt = (\<lambda>ep d. d), cu_errno = (\<lambda>d. 0),
      cu_malloc = (\<lambda>n d. (True, d))\<rparr>"

lemma t1_usb_device: "t1_device t1_usb"
  by (simp add: t1_device_def t1_usb_def)

definition sample_t1_card :: t1_card where
  "sample_t1_card =
     \<lparr>tc_rcvd = [], tc_vr = True, tc_vs = False,
      tc_script = [T1_Wait 2, T1_Part [1, 2, 3], T1_Wait 1, T1_Part [0x90, 0x00]],
      tc_noise = [True, True, False, True], tc_pending = []\<rparr>"

definition sample_t1_handle :: ccid_handle where
  "sample_t1_handle =
     (new_ccid_handle ''076B:5121:X:0'' \<lparr>ud_vendor = 0x076b, ud_product = 0x5121, ud_bcd = 1, ud_serial = 0, ud_config = []\<rparr>
       \<lparr>if_number = 0, if_class = 11, if_subclass = 0, if_protocol = 0, if_endpoints = [], if_extra = None\<rparr>)
     \<lparr>ch_t1_ns := 1\<rparr>"

theorem t1_exchange_witness:
  "\<exists>ch' icc'. ccid_transceive t1_usb (replicate 269 0) (replicate 269 0) sample_t1_handle (replicate 200 7)
      (Some (replicate 6 0xee)) 6 sample_t1_card = Some (0, Some [1, 2, 3, 0x90, 0x00, 0xee], 5, ch', icc') \<and>
    tc_rcvd icc' = replicate 200 7"
  using t1_exchange [OF t1_usb_device, of sample_t1_handle sample_t1_card "replicate 200 7" "replicate 269 0"
      "replicate 269 0" 6 "replicate 6 0xee"]
  by (auto simp: sample_t1_handle_def new_ccid_handle_def sample_t1_card_def t1_in_step_def numeral_eq_Suc)

end
