(* ===== verification/Ccid_Readers.thy ===== *)
theory Ccid_Readers
  imports Ccid_Driver
begin

text \<open>
  The search for CCID readers: the names that are listed, the numbers by which readers are opened, and the search by
  name agree.
\<close>

section \<open>Names\<close>

text \<open>The two passes over a string descriptor agree, so the text fits into the memory allocated for it.\<close>

lemma escaped_length_units: "escaped_length s = length (escape_units s)"
  by (induction s rule: escaped_length.induct) auto

text \<open>
  A bus that stays as it is during a search: which devices are on it, which of them can be opened, and their
  string descriptors.  \<open>at\<close> tells which device is open.  Memory does not run out.
\<close>

definition calm_bus ::
    "('d, 'x) ccid_usb_scheme \<Rightarrow> usb_device list \<Rightarrow> (usb_device \<Rightarrow> bool) \<Rightarrow>
       (usb_device \<Rightarrow> u8 \<Rightarrow> u16 \<Rightarrow> int \<times> bytes) \<Rightarrow> ('d \<Rightarrow> usb_device option) \<Rightarrow> bool" where
  "calm_bus u devs opens strings at \<longleftrightarrow>
     (\<forall>d. concat (cu_busses u d) = devs) \<and>
     (\<forall>dev d. fst (cu_open u dev d) = opens dev \<and> (opens dev \<longrightarrow> at (snd (cu_open u dev d)) = Some dev)) \<and>
     (\<forall>dev idx lang d. at d = Some dev \<longrightarrow>
        fst (cu_string u idx lang 280 d) = fst (strings dev idx lang) \<and>
        fst (snd (cu_string u idx lang 280 d)) = snd (strings dev idx lang) \<and>
        at (snd (snd (cu_string u idx lang 280 d))) = Some dev) \<and>
     (\<forall>dev idx lang. length (snd (strings dev idx lang)) \<le> 280) \<and>
     (\<forall>n d. fst (cu_malloc u n d) \<and> at (snd (cu_malloc u n d)) = at d)"

definition string_name :: "bytes \<Rightarrow> int \<Rightarrow> string option" where
  "string_name buf rc =
     (if rc < 2 \<or> buf ! 1 \<noteq> 3 \<or> int (unat (buf ! 0)) > rc then None
      else Some (escape_units (take (unat (buf ! 0) - 2) (drop 2 buf))))"

lemma calm:
  assumes "calm_bus u devs opens strings at"
  shows "concat (cu_busses u d) = devs" "fst (cu_open u dev d) = opens dev"
    "opens dev \<Longrightarrow> at (snd (cu_open u dev d)) = Some dev"
    "length (snd (strings dev idx lang)) \<le> 280"
    "\<exists>d'. cu_malloc u n d = (True, d') \<and> at d' = at d"
    "at d = Some dev \<Longrightarrow>
       \<exists>d'. cu_string u idx lang 280 d = (fst (strings dev idx lang), snd (strings dev idx lang), d') \<and> at d' = Some dev"
  using assms by (simp_all add: calm_bus_def prod_eq_iff)

lemma escape_string_name:
  assumes "calm_bus u devs opens strings at"
  shows "\<exists>d'. escape_string u buf rc pre suf d = Some (map_option (\<lambda>t. pre @ t @ suf) (string_name buf rc), d') \<and> at d' = at d"
proof -
  define s where "s = take (unat (buf ! 0) - 2) (drop 2 buf)"
  obtain d' where m: "cu_malloc u (length pre + length (escape_units s) + length suf + 1) d = (True, d')" "at d' = at d"
    using calm(5) [OF assms] by blast
  show ?thesis
  proof (cases "rc < 2 \<or> buf ! 1 \<noteq> 3 \<or> int (unat (buf ! 0)) > rc")
    case True
    then have "escape_string u buf rc pre suf d = Some (None, d)" by (auto simp: escape_string_def)
    then show ?thesis using True by (simp add: string_name_def)
  next
    case False
    then have "escape_string u buf rc pre suf d = Some (Some (pre @ escape_units s @ suf), d')"
      using m(1) unfolding escape_string_def escaped_length_units s_def [symmetric] Let_def by simp
    then show ?thesis using False m(2) unfolding string_name_def s_def by simp
  qed
qed

lemma escaped_usb_name:
  assumes "calm_bus u devs opens strings at"
  shows "\<exists>s. \<forall>d. at d = Some dev \<longrightarrow>
    (\<exists>d'. get_escaped_usb_string u idx pre suf d = Some (map_option (\<lambda>t. pre @ t @ suf) s, d'))"
proof (cases "idx = 0")
  case True
  then show ?thesis by (auto simp: get_escaped_usb_string_def intro!: exI [of _ None])
next
  case False
  define rc1 inp1 where s1: "rc1 = fst (strings dev 0 0)" "inp1 = snd (strings dev 0 0)"
  define buf1 where "buf1 = inp1 @ drop (length inp1) (replicate 280 0)"
  define lang where "lang = (if rc1 < 4 then 0x0409 else push_bit 8 (ucast (buf1 ! 3)) OR ucast (buf1 ! 2) :: u16)"
  define rc2 inp2 where s2: "rc2 = fst (strings dev idx lang)" "inp2 = snd (strings dev idx lang)"
  define buf2 where "buf2 = inp2 @ drop (length inp2) buf1"
  have len: "length inp1 \<le> 280" "length inp2 \<le> 280"
    using calm(4) [OF assms] unfolding s1 s2 by blast+
  then have put: "put_slice (replicate 280 0) 0 inp1 = Some buf1" "put_slice buf1 0 inp2 = Some buf2"
    by (simp_all add: put_slice_def buf1_def buf2_def)
  have "\<exists>d'. get_escaped_usb_string u idx pre suf d = Some (map_option (\<lambda>t. pre @ t @ suf) (string_name buf2 rc2), d')"
    if at: "at d = Some dev" for d
  proof -
    obtain d1 where d1: "cu_string u 0 0 280 d = (rc1, inp1, d1)" "at d1 = Some dev"
      using calm(6) [OF assms at, of 0 0] unfolding s1 by blast
    obtain d2 where d2: "cu_string u idx lang 280 d1 = (rc2, inp2, d2)"
      using calm(6) [OF assms d1(2), of idx lang] unfolding s2 by blast
    have "get_escaped_usb_string u idx pre suf d = escape_string u buf2 rc2 pre suf d2"
      using False put d1(1) d2 unfolding get_escaped_usb_string_def Let_def by (simp flip: lang_def)
    then show ?thesis
      using escape_string_name [OF assms, of buf2 rc2 pre suf d2] by auto
  qed
  then show ?thesis by blast
qed

lemma reader_id_name:
  assumes "calm_bus u devs opens strings at"
  shows "\<exists>name. CHR '':'' \<in> set name \<and>
    (\<forall>d. at d = Some dev \<longrightarrow> (\<exists>d'. make_reader_id u v p idx d = Some (Some name, d')))"
proof -
  define pre where "pre = reader_prefix v p"
  obtain s where s: "\<forall>d. at d = Some dev \<longrightarrow>
      (\<exists>d'. get_escaped_usb_string u idx pre '':0'' d = Some (map_option (\<lambda>t. pre @ t @ '':0'') s, d'))"
    using escaped_usb_name [OF assms] by blast
  have m: "\<exists>d'. cu_malloc u n d = (True, d')" for n d
    using calm(5) [OF assms] by blast
  let ?name = "pre @ (case s of None \<Rightarrow> ''X:0'' | Some t \<Rightarrow> t @ '':0'')"
  have "\<exists>d'. make_reader_id u v p idx d = Some (Some ?name, d')" if at: "at d = Some dev" for d
  proof -
    obtain d1 where "get_escaped_usb_string u idx pre '':0'' d = Some (map_option (\<lambda>t. pre @ t @ '':0'') s, d1)"
      using s at by blast
    moreover obtain d2 where "cu_malloc u (length pre + 3 + 1) d1 = (True, d2)" using m by blast
    ultimately show ?thesis
      by (cases s) (simp_all add: make_reader_id_def flip: pre_def)
  qed
  moreover have "CHR '':'' \<in> set ?name" by (simp add: pre_def reader_prefix_def)
  ultimately show ?thesis by blast
qed

section \<open>The search\<close>

text \<open>The devices that the search opens, with the first setting of a CCID interface.\<close>

definition ccid_setting :: "(usb_device \<Rightarrow> bool) \<Rightarrow> usb_device \<Rightarrow> usb_altsetting option" where
  "ccid_setting opens dev = (if opens dev then find (is_ccid dev) (concat (concat (ud_config dev))) else None)"

definition names_devices :: "('d, 'x) ccid_usb_scheme \<Rightarrow> ('d \<Rightarrow> usb_device option) \<Rightarrow> (usb_device \<Rightarrow> string) \<Rightarrow> bool" where
  "names_devices u at name \<longleftrightarrow> (\<forall>dev. CHR '':'' \<in> set (name dev) \<and> (\<forall>d. at d = Some dev \<longrightarrow>
     (\<exists>d'. make_reader_id u (ud_vendor dev) (ud_product dev) (ud_serial dev) d = Some (Some (name dev), d'))))"

lemma devices_have_names: "calm_bus u devs opens strings at \<Longrightarrow> \<exists>name. names_devices u at name"
  unfolding names_devices_def using reader_id_name by (intro choice) blast

lemma scan_settings_calm:
  assumes "calm_bus u devs opens strings at" "names_devices u at name"
  shows "\<exists>d'. scan_settings u m r dev ifcs st d =
    Some (case if opens dev then find (is_ccid dev) ifcs else None of
            None \<Rightarrow> Scan_Next st d' | Some ifc \<Rightarrow> scan_opened u m r dev ifc (Some (name dev)) st d')"
proof (induction ifcs arbitrary: d)
  case Nil
  show ?case by simp
next
  case (Cons ifc ifcs)
  obtain d1 where o: "cu_open u dev d = (opens dev, d1)" "opens dev \<Longrightarrow> at d1 = Some dev"
    using calm(2,3) [OF assms(1), of dev d] by (cases "cu_open u dev d") auto
  show ?case
  proof (cases "is_ccid dev ifc \<and> opens dev")
    case True
    then obtain d2 where "make_reader_id u (ud_vendor dev) (ud_product dev) (ud_serial dev) d1 = Some (Some (name dev), d2)"
      using assms(2) o(2) unfolding names_devices_def by blast
    then show ?thesis using True o(1) by auto
  next
    case False
    then have "\<exists>d0. scan_settings u m r dev (ifc # ifcs) st d = scan_settings u m r dev ifcs st d0"
      using o(1) by (cases "is_ccid dev ifc") auto
    then show ?thesis using Cons.IH False by fastforce
  qed
qed

lemma scan_device_calm:
  assumes "calm_bus u devs opens strings at" "names_devices u at name"
  shows "\<exists>d'. scan_settings u m r dev (concat (concat (ud_config dev))) st d =
    Some (case ccid_setting opens dev of
            None \<Rightarrow> Scan_Next st d' | Some ifc \<Rightarrow> scan_opened u m r dev ifc (Some (name dev)) st d')"
  using scan_settings_calm [OF assms] unfolding ccid_setting_def by blast

text \<open>The three kinds of search.\<close>

lemma opened_calm:
  assumes "calm_bus u devs opens strings at"
  shows "\<exists>d'. scan_opened u True r dev ifc (Some n) st d =
      Scan_Next (st\<lparr>sc_rid_list := Some ((case sc_rid_list st of None \<Rightarrow> [] | Some l \<Rightarrow> l) @ n @ [CHR 0x0A])\<rparr>) d'"
    and "sc_readerno st = 0 \<or> sc_readerno st < 0 \<and> r = Some n \<Longrightarrow>
      \<exists>d'. scan_opened u False r dev ifc (Some n) st d = Scan_Found n dev ifc d'"
    and "\<not> (sc_readerno st = 0 \<or> sc_readerno st < 0 \<and> r = Some n) \<Longrightarrow>
      \<exists>d'. scan_opened u False r dev ifc (Some n) st d =
        Scan_Next (if sc_readerno st \<ge> 0 then st\<lparr>sc_readerno := sc_readerno st - 1\<rparr> else st) d'"
proof -
  show "\<exists>d'. scan_opened u True r dev ifc (Some n) st d =
      Scan_Next (st\<lparr>sc_rid_list := Some ((case sc_rid_list st of None \<Rightarrow> [] | Some l \<Rightarrow> l) @ n @ [CHR 0x0A])\<rparr>) d'"
    using calm(5) [OF assms, of "length (case sc_rid_list st of None \<Rightarrow> [] | Some l \<Rightarrow> l) + 1 + length n + 1" d]
    by (auto simp: scan_opened_def Let_def)
  show "\<exists>d'. scan_opened u False r dev ifc (Some n) st d = Scan_Found n dev ifc d'"
    if "sc_readerno st = 0 \<or> sc_readerno st < 0 \<and> r = Some n"
    using calm(5) [OF assms, of "length (the (if_extra ifc))" d] that by (auto simp: scan_opened_def)
  show "\<exists>d'. scan_opened u False r dev ifc (Some n) st d =
        Scan_Next (if sc_readerno st \<ge> 0 then st\<lparr>sc_readerno := sc_readerno st - 1\<rparr> else st) d'"
    if "\<not> (sc_readerno st = 0 \<or> sc_readerno st < 0 \<and> r = Some n)"
    using that by (auto simp: scan_opened_def)
qed

definition reader_names :: "(usb_device \<Rightarrow> bool) \<Rightarrow> (usb_device \<Rightarrow> string) \<Rightarrow> usb_device list \<Rightarrow> string list" where
  "reader_names opens name devs = map name (filter (\<lambda>dev. ccid_setting opens dev \<noteq> None) devs)"

lemma reader_names_simps:
  "reader_names opens name [] = []"
  "reader_names opens name (dev # devs) =
     (if ccid_setting opens dev = None then reader_names opens name devs else name dev # reader_names opens name devs)"
  by (simp_all add: reader_names_def)

lemma scan_lists_names:
  assumes "calm_bus u devs opens strings at" "names_devices u at name"
  shows "\<exists>d'. scan_devices u True r ds st d = Some (Scan_Next
    (if reader_names opens name ds = [] then st
     else st\<lparr>sc_rid_list := Some ((case sc_rid_list st of None \<Rightarrow> [] | Some l \<Rightarrow> l) @
            concat (map (\<lambda>n. n @ [CHR 0x0A]) (reader_names opens name ds)))\<rparr>) d')"
proof (induction ds arbitrary: st d)
  case Nil
  show ?case by (simp add: reader_names_simps)
next
  case (Cons dev ds)
  obtain d1 where d1: "scan_settings u True r dev (concat (concat (ud_config dev))) st d =
    Some (case ccid_setting opens dev of
            None \<Rightarrow> Scan_Next st d1 | Some ifc \<Rightarrow> scan_opened u True r dev ifc (Some (name dev)) st d1)"
    using scan_device_calm [OF assms] by blast
  show ?case
  proof (cases "ccid_setting opens dev")
    case None
    then show ?thesis using d1 Cons.IH [of st d1] by (auto simp: reader_names_simps split: if_splits)
  next
    case (Some ifc)
    obtain d2 where "scan_opened u True r dev ifc (Some (name dev)) st d1 = Scan_Next
        (st\<lparr>sc_rid_list := Some ((case sc_rid_list st of None \<Rightarrow> [] | Some l \<Rightarrow> l) @ name dev @ [CHR 0x0A])\<rparr>) d2"
      using opened_calm(1) [OF assms(1)] by blast
    then show ?thesis
      using d1 Some
        Cons.IH [of "st\<lparr>sc_rid_list := Some ((case sc_rid_list st of None \<Rightarrow> [] | Some l \<Rightarrow> l) @ name dev @ [CHR 0x0A])\<rparr>" d2]
      by (auto simp: reader_names_simps split: if_splits)
  qed
qed

lemma scan_finds_number:
  assumes "calm_bus u devs opens strings at" "names_devices u at name"
  shows "\<exists>d'. if i < length (reader_names opens name ds)
    then \<exists>dev ifc. scan_devices u False r ds \<lparr>sc_readerno = int i, sc_rid_list = l\<rparr> d =
           Some (Scan_Found (reader_names opens name ds ! i) dev ifc d')
    else \<exists>st. scan_devices u False r ds \<lparr>sc_readerno = int i, sc_rid_list = l\<rparr> d = Some (Scan_Next st d')"
proof (induction ds arbitrary: i d)
  case Nil
  show ?case by (simp add: reader_names_simps)
next
  case (Cons dev ds)
  let ?st = "\<lparr>sc_readerno = int i, sc_rid_list = l\<rparr>"
  obtain d1 where d1: "scan_settings u False r dev (concat (concat (ud_config dev))) ?st d =
    Some (case ccid_setting opens dev of
            None \<Rightarrow> Scan_Next ?st d1 | Some ifc \<Rightarrow> scan_opened u False r dev ifc (Some (name dev)) ?st d1)"
    using scan_device_calm [OF assms] by blast
  show ?case
  proof (cases "ccid_setting opens dev")
    case None
    then show ?thesis using d1 Cons.IH [of i d1] by (auto simp: reader_names_simps split: if_splits)
  next
    case (Some ifc)
    show ?thesis
    proof (cases i)
      case 0
      obtain d2 where "scan_opened u False r dev ifc (Some (name dev)) ?st d1 = Scan_Found (name dev) dev ifc d2"
        using opened_calm(2) [OF assms(1), of ?st r "name dev" dev ifc d1] 0 by auto
      then show ?thesis using d1 Some 0 by (auto simp: reader_names_simps split: if_splits)
    next
      case (Suc j)
      obtain d2 where "scan_opened u False r dev ifc (Some (name dev)) ?st d1 =
          Scan_Next \<lparr>sc_readerno = int j, sc_rid_list = l\<rparr> d2"
        using opened_calm(3) [OF assms(1), of ?st r "name dev" dev ifc d1] Suc by auto
      then show ?thesis using d1 Some Suc Cons.IH [of j d2] by (auto simp: reader_names_simps split: if_splits)
    qed
  qed
qed

lemma scan_finds_name:
  assumes "calm_bus u devs opens strings at" "names_devices u at name"
  shows "\<exists>d'. if n \<in> set (reader_names opens name ds)
    then \<exists>dev ifc. scan_devices u False (Some n) ds \<lparr>sc_readerno = -1, sc_rid_list = l\<rparr> d =
           Some (Scan_Found n dev ifc d')
    else \<exists>st. scan_devices u False (Some n) ds \<lparr>sc_readerno = -1, sc_rid_list = l\<rparr> d = Some (Scan_Next st d')"
proof (induction ds arbitrary: d)
  case Nil
  show ?case by (simp add: reader_names_simps)
next
  case (Cons dev ds)
  let ?st = "\<lparr>sc_readerno = -1, sc_rid_list = l\<rparr>"
  obtain d1 where d1: "scan_settings u False (Some n) dev (concat (concat (ud_config dev))) ?st d =
    Some (case ccid_setting opens dev of
            None \<Rightarrow> Scan_Next ?st d1 | Some ifc \<Rightarrow> scan_opened u False (Some n) dev ifc (Some (name dev)) ?st d1)"
    using scan_device_calm [OF assms] by blast
  show ?case
  proof (cases "ccid_setting opens dev")
    case None
    then show ?thesis using d1 Cons.IH [of d1] by (auto simp: reader_names_simps split: if_splits)
  next
    case (Some ifc)
    show ?thesis
    proof (cases "n = name dev")
      case True
      obtain d2 where "scan_opened u False (Some n) dev ifc (Some (name dev)) ?st d1 = Scan_Found (name dev) dev ifc d2"
        using opened_calm(2) [OF assms(1), of ?st "Some n" "name dev" dev ifc d1] True by auto
      then show ?thesis using d1 Some True by (auto simp: reader_names_simps split: if_splits)
    next
      case False
      obtain d2 where "scan_opened u False (Some n) dev ifc (Some (name dev)) ?st d1 = Scan_Next ?st d2"
        using opened_calm(3) [OF assms(1), of ?st "Some n" "name dev" dev ifc d1] False by auto
      then show ?thesis using d1 Some False Cons.IH [of d2] by (auto simp: reader_names_simps split: if_splits)
    qed
  qed
qed

lemma scan_or_find_calm:
  assumes "calm_bus u devs opens strings at"
  shows "\<exists>d0. scan_or_find_devices u k r d =
    scan_devices u (k = -1 \<and> r = None) r devs \<lparr>sc_readerno = k, sc_rid_list = None\<rparr> d0"
  by (auto simp: scan_or_find_devices_def calm(1) [OF assms] split: prod.splits)

text \<open>
  C18: on a bus that does not change, the names that are listed, one per line, are those of the readers by number,
  counted from 0: number \<open>i\<close> finds the reader with the \<open>i\<close>-th name, and there is none from the length of the list
  on.  A search by name finds a reader of that name if and only if it is listed, and every listed name is taken as a
  name and not as a number when a reader is opened.
\<close>

theorem reader_list_opens:
  assumes "calm_bus u devs opens strings at"
  shows "\<exists>names.
    (\<forall>d. \<exists>d'. ccid_get_reader_list u d =
       Some (if names = [] then None else Some (concat (map (\<lambda>n. n @ [CHR 0x0A]) names)), d')) \<and>
    (\<forall>i d. if i < length names
       then \<exists>dev ifc d'. scan_or_find_devices u (int i) None d = Some (Scan_Found (names ! i) dev ifc d')
       else \<exists>st d'. scan_or_find_devices u (int i) None d = Some (Scan_Next st d')) \<and>
    (\<forall>n d. if n \<in> set names
       then reader_number (Some n) = Some (-1) \<and>
         (\<exists>dev ifc d'. scan_or_find_devices u (-1) (Some n) d = Some (Scan_Found n dev ifc d'))
       else \<exists>st d'. scan_or_find_devices u (-1) (Some n) d = Some (Scan_Next st d'))"
proof -
  obtain name where name: "names_devices u at name" using devices_have_names [OF assms] by blast
  let ?names = "reader_names opens name devs"
  note scans = scan_lists_names [OF assms name] scan_finds_number [OF assms name] scan_finds_name [OF assms name]
  note calm_scan = scan_or_find_calm [OF assms]
  have "\<exists>d'. ccid_get_reader_list u d =
      Some (if ?names = [] then None else Some (concat (map (\<lambda>n. n @ [CHR 0x0A]) ?names)), d')" for d
  proof -
    obtain d0 where "scan_or_find_devices u (-1) None d =
        scan_devices u True None devs \<lparr>sc_readerno = -1, sc_rid_list = None\<rparr> d0"
      using calm_scan [of "-1" None d] by auto
    with scans(1) [of None devs "\<lparr>sc_readerno = -1, sc_rid_list = None\<rparr>" d0] show ?thesis
      by (auto simp: ccid_get_reader_list_def)
  qed
  moreover have "if i < length ?names
       then \<exists>dev ifc d'. scan_or_find_devices u (int i) None d = Some (Scan_Found (?names ! i) dev ifc d')
       else \<exists>st d'. scan_or_find_devices u (int i) None d = Some (Scan_Next st d')" for i d
  proof -
    obtain d0 where "scan_or_find_devices u (int i) None d =
        scan_devices u False None devs \<lparr>sc_readerno = int i, sc_rid_list = None\<rparr> d0"
      using calm_scan [of "int i" None d] by auto
    with scans(2) [of i devs None None d0] show ?thesis by (auto split: if_splits)
  qed
  moreover have "if n \<in> set ?names
       then reader_number (Some n) = Some (-1) \<and>
         (\<exists>dev ifc d'. scan_or_find_devices u (-1) (Some n) d = Some (Scan_Found n dev ifc d'))
       else \<exists>st d'. scan_or_find_devices u (-1) (Some n) d = Some (Scan_Next st d')" for n d
  proof -
    have colon: "CHR '':'' \<in> set n" if "n \<in> set ?names"
      using that name by (auto simp: reader_names_def names_devices_def)
    obtain d0 where "scan_or_find_devices u (-1) (Some n) d =
        scan_devices u False (Some n) devs \<lparr>sc_readerno = -1, sc_rid_list = None\<rparr> d0"
      using calm_scan [of "-1" "Some n" d] by auto
    with scans(3) [of n devs None d0] colon show ?thesis by (auto simp: reader_number_def split: if_splits)
  qed
  ultimately show ?thesis by (intro exI [of _ ?names]) blast
qed

text \<open>Two readers, one with a serial number, and a device that cannot be opened.\<close>

definition sample_reader :: "u16 \<Rightarrow> u8 \<Rightarrow> usb_device" where
  "sample_reader product serial =
     \<lparr>ud_vendor = 0x076b, ud_product = product, ud_bcd = 1, ud_serial = serial,
      ud_config = [[[\<lparr>if_number = 0, if_class = 11, if_subclass = 0, if_protocol = 0, if_endpoints = [],
                      if_extra = Some (replicate 54 54)\<rparr>]]]\<rparr>"

definition sample_strings :: "usb_device \<Rightarrow> u8 \<Rightarrow> u16 \<Rightarrow> int \<times> bytes" where
  "sample_strings dev idx lang = (6, [6, 3, 0x41, 0, 0x42, 0])"

definition sample_bus_usb :: "usb_device option ccid_usb" where
  "sample_bus_usb =
     \<lparr>usb_bulk_write = (\<lambda>ep out d. (-1, d)), usb_bulk_read = (\<lambda>ep n d. (-1, [], d)),
      usb_find_busses = (\<lambda>d. (0, d)), usb_find_devices = (\<lambda>d. (0, d)),
      usb_get_busses = (\<lambda>d. []), usb_open = (\<lambda>dev d. (False, d)),
      usb_set_configuration = (\<lambda>d. (0, d)), usb_claim_interface = (\<lambda>d. (0, d)), usb_close = (\<lambda>d. None),
      cu_busses = (\<lambda>d. [[sample_reader 0x5121 1, sample_reader 0x1234 0], [sample_reader 0x5321 0]]),
      cu_open = (\<lambda>dev d. if ud_product dev = 0x1234 then (False, d) else (True, Some dev)),
      cu_string = (\<lambda>idx lang n d. (6, [6, 3, 0x41, 0, 0x42, 0], d)),
      cu_claim = (\<lambda>n d. (0, d)), cu_release = (\<lambda>n d. d), cu_clear_halt = (\<lambda>ep d. d), cu_errno = (\<lambda>d. 0),
      cu_malloc = (\<lambda>n d. (True, d))\<rparr>"

lemma sample_bus_calm:
  "calm_bus sample_bus_usb [sample_reader 0x5121 1, sample_reader 0x1234 0, sample_reader 0x5321 0]
     (\<lambda>dev. ud_product dev \<noteq> 0x1234) sample_strings (\<lambda>d. d)"
  by (simp add: calm_bus_def sample_bus_usb_def sample_strings_def)

lemma sample_bus_list: "map_option fst (ccid_get_reader_list sample_bus_usb None) =
    Some (Some (''076B:5121:AB:0'' @ [CHR 0x0A] @ ''076B:5321:X:0'' @ [CHR 0x0A]))"
  by code_simp

theorem reader_list_opens_witness:
  "\<exists>names. concat (map (\<lambda>n. n @ [CHR 0x0A]) names) =
       ''076B:5121:AB:0'' @ [CHR 0x0A] @ ''076B:5321:X:0'' @ [CHR 0x0A] \<and>
     (\<forall>i d. if i < length names
       then \<exists>dev ifc d'. scan_or_find_devices sample_bus_usb (int i) None d = Some (Scan_Found (names ! i) dev ifc d')
       else \<exists>st d'. scan_or_find_devices sample_bus_usb (int i) None d = Some (Scan_Next st d'))"
proof -
  obtain names where n: "\<forall>d. \<exists>d'. ccid_get_reader_list sample_bus_usb d =
       Some (if names = [] then None else Some (concat (map (\<lambda>n. n @ [CHR 0x0A]) names)), d')"
    "\<forall>i d. if i < length names
       then \<exists>dev ifc d'. scan_or_find_devices sample_bus_usb (int i) None d = Some (Scan_Found (names ! i) dev ifc d')
       else \<exists>st d'. scan_or_find_devices sample_bus_usb (int i) None d = Some (Scan_Next st d')"
    using reader_list_opens [OF sample_bus_calm] by blast
  obtain d' where "ccid_get_reader_list sample_bus_usb None =
       Some (if names = [] then None else Some (concat (map (\<lambda>n. n @ [CHR 0x0A]) names)), d')"
    using n(1) by blast
  with sample_bus_list have "concat (map (\<lambda>n. n @ [CHR 0x0A]) names) =
       ''076B:5121:AB:0'' @ [CHR 0x0A] @ ''076B:5321:X:0'' @ [CHR 0x0A]"
    by (simp split: if_splits)
  with n(2) show ?thesis by blast
qed

end
