(* ===== verification/Mifare_Api.thy ===== *)
theory Mifare_Api
  imports Reader_Openpcd Scan_Results Iso14443a_Select
begin

text \<open>
  The MIFARE interface on top of the library (\<open>python/openpcd.c\<close>, of which \<open>win32/openpcd.c\<close> is a copy
  with three more functions, which call members that \<open>struct rfid_reader\<close> does not have).  A caller
  opens the OpenPCD reader, sets a key, selects a card, reads and writes, deselects and closes.

  The state behind the opaque handle is a record.  A null handle is \<^const>\<open>None\<close>, and so are the null
  pointers in the state; using one has no result.  A protocol handle points to the layer 2 handle it was
  made for, which stays allocated when the state's own pointer is overwritten, so the two are kept
  together.
\<close>

section \<open>Model\<close>

abbreviation (input) PCDERROR_NONE :: int where "PCDERROR_NONE \<equiv> 0"
abbreviation (input) PCDERROR_INVALID_PARAMETER :: int where "PCDERROR_INVALID_PARAMETER \<equiv> -1"
abbreviation (input) PCDERROR_KEY_FORMAT :: int where "PCDERROR_KEY_FORMAT \<equiv> -2"
abbreviation (input) PCDERROR_KEY_AUTH :: int where "PCDERROR_KEY_AUTH \<equiv> -3"
abbreviation (input) PCDERROR_LAYER2_OPEN :: int where "PCDERROR_LAYER2_OPEN \<equiv> -6"
abbreviation (input) PCDERROR_LAYER3_INIT :: int where "PCDERROR_LAYER3_INIT \<equiv> -7"
abbreviation (input) PCDERROR_LAYER3_OPEN :: int where "PCDERROR_LAYER3_OPEN \<equiv> -8"
abbreviation (input) PCDERROR_READ_FAILED :: int where "PCDERROR_READ_FAILED \<equiv> -10"
abbreviation (input) PCDERROR_WRITE_FAILED :: int where "PCDERROR_WRITE_FAILED \<equiv> -11"
abbreviation (input) PCDERROR_CLOSED :: int where "PCDERROR_CLOSED \<equiv> -12"
abbreviation (input) PCDERROR_NO_READER :: int where "PCDERROR_NO_READER \<equiv> -13"
abbreviation (input) PCDERROR_OUT_OF_MEMORY :: int where "PCDERROR_OUT_OF_MEMORY \<equiv> -14"
abbreviation (input) LIBMIFARE_MAGIC :: u32 where "LIBMIFARE_MAGIC \<equiv> 0xdeadbeef"
abbreviation (input) MIFARE_CL_PAGE_MAX :: int where "MIFARE_CL_PAGE_MAX \<equiv> 0xff"

record 'w api_state =
  api_magic :: u32
  api_cl_auth :: u32
  api_rh :: "'w rfid_reader_handle option"
  api_l2h :: "rfid_layer2_handle option"
  api_ph :: "(rfid_protocol_handle \<times> rfid_layer2_handle) option"
  api_key :: bytes
  api_uid :: u32

text \<open>The command is taken as a byte, and so is the page.\<close>

definition openpcd_cl_auth :: "'w api_state \<Rightarrow> int \<Rightarrow> 'w \<Rightarrow> (int \<times> 'w) option" where
  "openpcd_cl_auth st page w =
     (if page \<le> 0 \<or> page > MIFARE_CL_PAGE_MAX then Some (PCDERROR_INVALID_PARAMETER, w)
      else case api_ph st of
             None \<Rightarrow> Some (PCDERROR_CLOSED, w)
           | Some (ph, l2h) \<Rightarrow> do {
               rh \<leftarrow> api_rh st;
               (rc, w) \<leftarrow> mfcl_set_key rh (api_key st) w;
               if rc < 0 then Some (PCDERROR_KEY_FORMAT, w)
               else do {
                 (rc, w) \<leftarrow> mfcl_auth rh l2h (ucast (api_cl_auth st)) (word_of_int page) w;
                 Some (if rc < 0 then PCDERROR_KEY_AUTH else PCDERROR_NONE, w) } })"

text \<open>\<open>key\<close> are the bytes behind the pointer.\<close>

definition openpcd_set_key ::
    "'w api_state option \<Rightarrow> u32 \<Rightarrow> bytes \<Rightarrow> (int \<times> 'w api_state option) option" where
  "openpcd_set_key handle key_id key =
     (case handle of
        None \<Rightarrow> Some (PCDERROR_INVALID_PARAMETER, None)
      | Some st \<Rightarrow>
          if key_id = 0 then do {
            k \<leftarrow> get_slice key 0 6;
            Some (PCDERROR_NONE, Some (st\<lparr>api_cl_auth := 0x60, api_key := k\<rparr>)) }
          else if key_id = 1 then do {
            k \<leftarrow> get_slice key 0 6;
            Some (PCDERROR_NONE, Some (st\<lparr>api_cl_auth := 0x61, api_key := k\<rparr>)) }
          else Some (PCDERROR_INVALID_PARAMETER, Some st))"

text \<open>
  When the layer 2 cannot be initialised, the null pointer is handed to \<open>rfid_layer2_fini\<close>, which
  dereferences it.  When no card answers, the state's protocol handle stays what it was.
\<close>

definition openpcd_select_card ::
    "scan_locals \<Rightarrow> 'w api_state option \<Rightarrow> randctx \<Rightarrow> 'w
       \<Rightarrow> (int \<times> 'w api_state option \<times> randctx \<times> 'w) option" where
  "openpcd_select_card l handle r w =
     (case handle of
        None \<Rightarrow> Some (PCDERROR_INVALID_PARAMETER, None, r, w)
      | Some st \<Rightarrow> do {
          rh \<leftarrow> api_rh st;
          (l2h, r, w) \<leftarrow> rfid_layer2_init rh RFID_LAYER2_ISO14443A (sl_malloc l) (sl_h0 l) r w;
          l2h \<leftarrow> l2h;
          (rc, l2h, r, w) \<leftarrow> rfid_layer2_open rh (sl_l2 l) l2h r w;
          if rc \<ge> 0 then do {
            ph \<leftarrow> rfid_protocol_init rh (sl_proto l) l2h (sl_malloc l) PROTO_MIFARE_CLASSIC;
            (case ph of
               None \<Rightarrow> do {
                 (_, l2h, w) \<leftarrow> rfid_layer2_close rh (sl_l2 l) l2h w;
                 Some (PCDERROR_LAYER3_INIT, Some (st\<lparr>api_l2h := None, api_ph := None\<rparr>), r, w) }
             | Some ph \<Rightarrow> do {
                 (rc, l2h, ph, w) \<leftarrow> rfid_protocol_open rh (sl_proto l) l2h ph w;
                 if rc \<ge> 0 then
                   Some (PCDERROR_NONE, Some (st\<lparr>api_l2h := Some l2h, api_ph := Some (ph, l2h)\<rparr>), r, w)
                 else do {
                   (_, l2h, w) \<leftarrow> rfid_layer2_close rh (sl_l2 l) l2h w;
                   Some (PCDERROR_LAYER3_OPEN, Some (st\<lparr>api_l2h := None, api_ph := None\<rparr>), r, w) } }) }
          else Some (PCDERROR_LAYER2_OPEN, Some (st\<lparr>api_l2h := None\<rparr>), r, w) })"

definition openpcd_deselect_card ::
    "scan_locals \<Rightarrow> 'w api_state option \<Rightarrow> 'w \<Rightarrow> (int \<times> 'w api_state option \<times> 'w) option" where
  "openpcd_deselect_card l handle w =
     (case handle of
        None \<Rightarrow> Some (PCDERROR_INVALID_PARAMETER, None, w)
      | Some st \<Rightarrow>
          (case api_ph st of
             None \<Rightarrow> Some (PCDERROR_CLOSED, Some st, w)
           | Some (ph, l2h) \<Rightarrow> do {
               rh \<leftarrow> api_rh st;
               (_, ph, w) \<leftarrow> rfid_protocol_close rh (sl_proto l) l2h ph w;
               l2h \<leftarrow> api_l2h st;
               (_, l2h, w) \<leftarrow> rfid_layer2_close rh (sl_l2 l) l2h w;
               Some (PCDERROR_NONE, Some (st\<lparr>api_ph := None, api_l2h := None, api_uid := 0\<rparr>), w) }))"

text \<open>The bytes stored behind \<open>uid\<close>, if any.\<close>

definition openpcd_get_card_id :: "'w api_state option \<Rightarrow> bool \<Rightarrow> (int \<times> bytes option) option" where
  "openpcd_get_card_id handle uid_given =
     (case handle of
        None \<Rightarrow> Some (PCDERROR_INVALID_PARAMETER, None)
      | Some st \<Rightarrow>
          if \<not> uid_given then Some (PCDERROR_INVALID_PARAMETER, None)
          else if api_ph st = None then Some (PCDERROR_CLOSED, None)
          else do {
            l2h \<leftarrow> api_l2h st;
            (ret, uid, uid_len) \<leftarrow> rfid_layer2_getopt l2h RFID_OPT_LAYER2_UID 4;
            Some (if ret \<noteq> 0 then PCDERROR_INVALID_PARAMETER
                  else if uid_len = 4 then PCDERROR_NONE else PCDERROR_READ_FAILED, uid) })"

text \<open>\<open>buf\<close> is the uninitialised local of 16 bytes, \<open>data\<close> the caller's buffer.\<close>

definition openpcd_read ::
    "scan_locals \<Rightarrow> bytes \<Rightarrow> 'w api_state option \<Rightarrow> int \<Rightarrow> bytes \<Rightarrow> int \<Rightarrow> 'w
       \<Rightarrow> (int \<times> bytes \<times> 'w) option" where
  "openpcd_read l buf handle page data len w =
     (case handle of
        None \<Rightarrow> Some (PCDERROR_INVALID_PARAMETER, data, w)
      | Some st \<Rightarrow>
          if page < 0 \<or> page > MIFARE_CL_PAGE_MAX \<or> len \<le> 0 \<or> len > 16
          then Some (PCDERROR_INVALID_PARAMETER, data, w)
          else do {
            (res, w) \<leftarrow> openpcd_cl_auth st page w;
            if res < 0 then Some (res, data, w)
            else do {
              (ph, l2h) \<leftarrow> api_ph st;
              rh \<leftarrow> api_rh st;
              (res, buf, count, w) \<leftarrow> rfid_protocol_read rh (sl_proto l) l2h ph (word_of_int page) buf 16 w;
              if res < 0 then Some (PCDERROR_READ_FAILED, data, w)
              else do {
                d \<leftarrow> get_slice buf 0 (nat len);
                data \<leftarrow> put_slice data 0 d;
                Some (sint count, data, w) } } })"

definition openpcd_write ::
    "scan_locals \<Rightarrow> 'w api_state option \<Rightarrow> int \<Rightarrow> bytes \<Rightarrow> int \<Rightarrow> 'w \<Rightarrow> (int \<times> 'w) option" where
  "openpcd_write l handle page data len w =
     (case handle of
        None \<Rightarrow> Some (PCDERROR_INVALID_PARAMETER, w)
      | Some st \<Rightarrow>
          if page < 0 \<or> page > MIFARE_CL_PAGE_MAX \<or> len \<le> 0 \<or> len > 16
          then Some (PCDERROR_INVALID_PARAMETER, w)
          else do {
            (res, w) \<leftarrow> openpcd_cl_auth st page w;
            if res < 0 then Some (res, w)
            else do {
              d \<leftarrow> get_slice data 0 (nat len);
              let buf = d @ replicate (16 - nat len) 0;
              (ph, l2h) \<leftarrow> api_ph st;
              rh \<leftarrow> api_rh st;
              (res, w) \<leftarrow> rfid_protocol_write rh (sl_proto l) l2h ph (word_of_int page) buf 16 w;
              Some (if res < 0 \<and> res \<noteq> -101 then PCDERROR_WRITE_FAILED else len, w) } })"

text \<open>The functions that touch the reader itself; the caller of \<open>openpcd_open_reader\<close> gives a place for the handle.\<close>

definition openpcd_reset_reader ::
    "'d usb_ops \<Rightarrow> 'd openpcd_state api_state option \<Rightarrow> 'd openpcd_state \<Rightarrow> (int \<times> 'd openpcd_state) option" where
  "openpcd_reset_reader u handle s =
     (case handle of
        None \<Rightarrow> Some (PCDERROR_INVALID_PARAMETER, s)
      | Some st \<Rightarrow> do {
          _ \<leftarrow> api_rh st;
          (rc, s) \<leftarrow> openpcd_reset u s;
          Some (if rc < 0 then PCDERROR_WRITE_FAILED else PCDERROR_NONE, s) })"

definition openpcd_open_reader ::
    "'d usb_ops \<Rightarrow> bool \<Rightarrow> bool \<Rightarrow> bool \<Rightarrow> bool \<Rightarrow> 'd openpcd_state api_state option \<Rightarrow> 'd openpcd_state
       \<Rightarrow> (int \<times> 'd openpcd_state api_state option \<times> 'd openpcd_state) option" where
  "openpcd_open_reader u handle_given malloc_open malloc_state malloc_reopen old s =
     (if \<not> handle_given then Some (PCDERROR_INVALID_PARAMETER, old, s)
      else do {
        (rh, s) \<leftarrow> openpcd_open u malloc_open malloc_open malloc_open s;
        if rh = None then Some (PCDERROR_NO_READER, old, s)
        else if malloc_state then do {
          let st = \<lparr>api_magic = LIBMIFARE_MAGIC, api_cl_auth = 0x60, api_rh = rh, api_l2h = None,
                    api_ph = None, api_key = replicate 6 0xff, api_uid = 0\<rparr>;
          (_, s) \<leftarrow> openpcd_reset_reader u (Some st) s;
          (rh, s) \<leftarrow> openpcd_open u malloc_reopen malloc_reopen malloc_reopen s;
          Some (PCDERROR_NONE, Some (st\<lparr>api_rh := rh\<rparr>), s) }
        else do {
          (_, s) \<leftarrow> openpcd_close u s;
          Some (PCDERROR_OUT_OF_MEMORY, old, s) } })"

text \<open>The state is freed at the end.\<close>

definition openpcd_close_reader ::
    "'d usb_ops \<Rightarrow> scan_locals \<Rightarrow> 'd openpcd_state api_state option \<Rightarrow> 'd openpcd_state
       \<Rightarrow> (int \<times> 'd openpcd_state) option" where
  "openpcd_close_reader u l handle s =
     (case handle of
        None \<Rightarrow> Some (PCDERROR_INVALID_PARAMETER, s)
      | Some st \<Rightarrow> do {
          (_, handle, s) \<leftarrow> openpcd_deselect_card l handle s;
          (_, s) \<leftarrow> openpcd_reset_reader u handle s;
          _ \<leftarrow> api_rh st;
          (_, s) \<leftarrow> openpcd_close u s;
          Some (PCDERROR_NONE, s) })"

definition pcd_error_msg :: "string list" where
  "pcd_error_msg =
     [''PCDERROR_NONE'', ''PCDERROR_INVALID_PARAMETER'', ''PCDERROR_KEY_FORMAT'', ''PCDERROR_KEY_AUTH'',
      ''PCDERROR_NO_CARD_FOUND'', ''PCDERROR_LAYER2_INIT'', ''PCDERROR_LAYER2_OPEN'',
      ''PCDERROR_LAYER3_INIT'', ''PCDERROR_LAYER3_OPEN'', ''PCDERROR_SELECT'', ''PCDERROR_READ_FAILED'',
      ''PCDERROR_WRITE_FAILED'', ''PCDERROR_CLOSED'', ''PCDERROR_NO_READER'', ''PCDERROR_OUT_OF_MEMORY'',
      ''PCDERROR_READER_VERSION'']"

text \<open>Negating the least \<open>int\<close> overflows.\<close>

definition openpcd_get_error_text :: "int \<Rightarrow> string option" where
  "openpcd_get_error_text err =
     (if err < - INT_MAX then None
      else let err = (if err > 0 then 0 else - err)
           in Some (if err \<ge> 16 then ''PCDERROR_UNKNOWN'' else pcd_error_msg ! nat err))"

section \<open>Sessions\<close>

text \<open>
  The life of a handle: it is opened, and then the caller sets keys, selects cards and deselects them,
  in any order and with whatever the reader and the cards do in between.  Reads and writes leave the state
  alone.
\<close>

inductive api_session :: "'d usb_ops \<Rightarrow> 'd openpcd_state api_state \<Rightarrow> bool" for u where
  open_reader: "openpcd_open_reader u True m1 m2 m3 None s = Some (PCDERROR_NONE, Some st, s') \<Longrightarrow>
    api_session u st"
| set_key: "api_session u st \<Longrightarrow> openpcd_set_key (Some st) key_id key = Some (rc, Some st') \<Longrightarrow>
    api_session u st'"
| select_card: "api_session u st \<Longrightarrow>
    openpcd_select_card l (Some st) r s = Some (rc, Some st', r', s') \<Longrightarrow> api_session u st'"
| deselect_card: "api_session u st \<Longrightarrow> openpcd_deselect_card l (Some st) s = Some (rc, Some st', s') \<Longrightarrow>
    api_session u st'"

text \<open>
  What is behind the two pointers.  A protocol handle was made for a selected type A card; the state's own
  layer 2 pointer is the one it was made for, or null after a later selection that found no card.
\<close>

definition api_card :: "'w api_state \<Rightarrow> bool" where
  "api_card st =
     (case api_ph st of
        None \<Rightarrow> api_l2h st = None
      | Some (ph, l2h) \<Rightarrow> api_l2h st \<in> {Some l2h, None} \<and> ph_proto ph = PROTO_MIFARE_CLASSIC \<and>
          l2_id l2h = RFID_LAYER2_ISO14443A \<and> l2_uid_len l2h = 4 \<and> select_done l2h)"

definition api_inv :: "'w api_state \<Rightarrow> bool" where
  "api_inv st \<longleftrightarrow> api_card st \<and> length (api_key st) = 6 \<and> api_cl_auth st \<in> {0x60, 0x61}"

lemma anticol_cascade_ret:
  "anticol_cascade rh acf sak h r w = Some (ret, h', r', w') \<Longrightarrow> ret \<le> 0"
proof (induction rh acf sak h r w "(ret, h', r', w')" rule: anticol_cascade.raw_induct [rotated, consumes 1])
  case (1 f rh acf sak h r w)
  from 1(2) show ?case by (auto simp: run_simps split: if_splits dest!: 1(1))
qed

lemma anticol_a_ret: "iso14443a_anticol rh h r w = Some (ret, h', r', w') \<Longrightarrow> ret \<le> 0"
  by (auto simp: iso14443a_anticol_def run_simps Let_def split: if_splits dest!: anticol_cascade_ret)

lemma open_a_done:
  assumes "rfid_layer2_open rh l h r w = Some (ret, h', r', w')" "l2_id h = RFID_LAYER2_ISO14443A" "0 \<le> ret"
  shows "select_done h' \<and> l2_id h' = RFID_LAYER2_ISO14443A"
proof -
  have run: "iso14443a_anticol rh h r w = Some (ret, h', r', w')"
    using assms(1,2) by (simp add: rfid_layer2_open_def)
  with assms(3) anticol_a_ret [OF run] have "iso14443a_anticol rh h r w = Some (0, h', r', w')" by simp
  then have "select_done h'"
    by (auto simp: iso14443a_anticol_def run_simps Let_def set_a_state_def set_a_level_def
        split: if_splits dest!: anticol_cascade_done)
  with anticol_a_id [OF run] assms(2) show ?thesis by simp
qed

lemma protocol_init_mfcl:
  assumes "rfid_protocol_init rh l l2h m PROTO_MIFARE_CLASSIC = Some (Some ph)"
  shows "ph_proto ph = PROTO_MIFARE_CLASSIC \<and> l2_uid_len l2h = 4"
  using assms by (auto simp: rfid_protocol_init_def mfcl_init_def split: if_splits)

lemma select_card_card:
  assumes "openpcd_select_card l (Some st) r w = Some (rc, Some st', r', w')"
  shows "(rc = PCDERROR_NONE \<and> api_ph st' \<noteq> None \<and> api_card st' \<or>
          rc \<in> {PCDERROR_LAYER3_INIT, PCDERROR_LAYER3_OPEN} \<and> api_ph st' = None \<and> api_l2h st' = None \<or>
          rc = PCDERROR_LAYER2_OPEN \<and> api_ph st' = api_ph st \<and> api_l2h st' = None) \<and>
         api_key st' = api_key st \<and> api_cl_auth st' = api_cl_auth st"
proof -
  obtain rh l2h r1 w1 rc2 l2h2 r2 w2 where run: "api_rh st = Some rh"
      "rfid_layer2_init rh RFID_LAYER2_ISO14443A (sl_malloc l) (sl_h0 l) r w = Some (Some l2h, r1, w1)"
      "rfid_layer2_open rh (sl_l2 l) l2h r1 w1 = Some (rc2, l2h2, r2, w2)"
    using assms by (auto simp: openpcd_select_card_def run_simps)
  note rest = assms [unfolded openpcd_select_card_def, simplified]
  show ?thesis
  proof (cases "0 \<le> rc2")
    case False
    then show ?thesis using rest run by auto
  next
    case True
    note sel = open_a_done [OF run(3) layer2_init_id [OF run(2)] True]
    show ?thesis
      using rest True sel run
      by (auto simp: api_card_def run_simps split: option.splits if_splits
          dest!: protocol_init_mfcl protocol_open_result)
  qed
qed

lemma api_session_inv: "api_session u st \<Longrightarrow> api_inv st"
proof (induction rule: api_session.induct)
  case (open_reader m1 m2 m3 s st s')
  then show ?case
    by (auto simp: openpcd_open_reader_def api_inv_def api_card_def run_simps Let_def split: if_splits)
next
  case (set_key st key_id key rc st')
  then show ?case
    by (auto simp: openpcd_set_key_def api_inv_def api_card_def run_simps
        split: if_splits option.splits dest: mem_length)
next
  case (select_card st l r s rc st' r' s')
  then show ?case
    using select_card_card [OF select_card.hyps(2)]
    by (auto simp: api_inv_def api_card_def split: option.splits)
next
  case (deselect_card st l s rc st' s')
  then show ?case
    by (auto simp: openpcd_deselect_card_def api_inv_def api_card_def run_simps split: option.splits)
qed

text \<open>
  C6: through any sequence of key changes, card selections and deselections on an opened reader, whatever
  the cards do, the key has six bytes and the command is one of the two authentications.  The protocol
  handle is null or belongs to a card that went through the type A anticollision and speaks MIFARE Classic.
  When it is null, asking for the identifier, deselecting, and reading and writing up to sixteen bytes of the
  pages 1 to 255 are all answered with \<open>PCDERROR_CLOSED\<close>, with nothing sent.  When it is not, either the layer 2 pointer is the one it was made
  for, the four bytes of that card's identifier are returned, and deselecting, when it ends, clears both
  pointers; or it is null, and asking for the identifier and deselecting have no defined result.
\<close>

theorem api_session_card:
  assumes "api_session u st"
  shows "length (api_key st) = 6 \<and> api_cl_auth st \<in> {0x60, 0x61} \<and>
    (case api_ph st of
       None \<Rightarrow> openpcd_get_card_id (Some st) True = Some (PCDERROR_CLOSED, None) \<and>
         openpcd_deselect_card l (Some st) s = Some (PCDERROR_CLOSED, Some st, s) \<and>
         (1 \<le> page \<and> page \<le> 255 \<and> 1 \<le> len \<and> len \<le> 16 \<longrightarrow>
            openpcd_read l buf (Some st) page data len s = Some (PCDERROR_CLOSED, data, s) \<and>
            openpcd_write l (Some st) page data len s = Some (PCDERROR_CLOSED, s))
     | Some (ph, l2h) \<Rightarrow> ph_proto ph = PROTO_MIFARE_CLASSIC \<and> l2_id l2h = RFID_LAYER2_ISO14443A \<and>
         select_done l2h \<and>
         (case api_l2h st of
            Some l2h' \<Rightarrow> l2h' = l2h \<and>
              openpcd_get_card_id (Some st) True = Some (PCDERROR_NONE, Some (take 4 (l2_uid l2h))) \<and>
              (\<forall>rc st' s'. openpcd_deselect_card l (Some st) s = Some (rc, st', s') \<longrightarrow>
                 rc = PCDERROR_NONE \<and>
                 st' = Some (st\<lparr>api_ph := None, api_l2h := None, api_uid := 0\<rparr>))
          | None \<Rightarrow> openpcd_get_card_id (Some st) True = None \<and>
              openpcd_deselect_card l (Some st) s = None))"
  using api_session_inv [OF assms]
  by (auto simp: api_inv_def api_card_def openpcd_get_card_id_def openpcd_deselect_card_def openpcd_cl_auth_def
      openpcd_read_def openpcd_write_def rfid_layer2_getopt_def select_done_def get_slice_def run_simps
      split: option.splits)

text \<open>
  An OpenPCD over which a MIFARE Classic card answers: the two bytes of its ATQA, its identifier with the
  check byte, and the SAK.  The device keeps the last command and what was last written to the FIFO, and
  every other register reads as zero.
\<close>

definition card_answer :: "bytes \<Rightarrow> bytes" where
  "card_answer fifo =
     (if fifo = [0x26] then [0x04, 0x00]
      else if fifo = [0x93, 0x20] then [0xde, 0xad, 0xbe, 0xef, 0x22]
      else if take 2 fifo = [0x93, 0x70] then [0x08] else [])"

definition card_usb :: "(bytes \<times> bytes) usb_ops" where
  "card_usb =
     \<lparr>usb_bulk_write = (\<lambda>ep out (cmd, fifo). (int (length out),
        (take 4 out, if out ! 0 = OPENPCD_CMD_WRITE_FIFO then drop 4 out else fifo))),
      usb_bulk_read = (\<lambda>ep n (cmd, fifo).
        let reply = (if cmd ! 0 = OPENPCD_CMD_READ_FIFO
                     then cmd @ take (unat (cmd ! 3)) (card_answer fifo)
                     else if cmd ! 0 = OPENPCD_CMD_READ_REG \<and> cmd ! 2 = RC632_REG_FIFO_LENGTH
                     then cmd[3 := of_nat (length (card_answer fifo))] else cmd)
        in (int (length reply), reply, (cmd, fifo))),
      usb_find_busses = (\<lambda>d. (1, d)), usb_find_devices = (\<lambda>d. (1, d)),
      usb_get_busses = (\<lambda>d. [[(0x16c0, 0x076b)]]), usb_open = (\<lambda>dev d. (True, d)),
      usb_set_configuration = (\<lambda>d. (0, d)), usb_claim_interface = (\<lambda>d. (0, d)),
      usb_close = (\<lambda>d. d)\<rparr>"

definition card_opcd :: "(bytes \<times> bytes) openpcd_state" where
  "card_opcd = \<lparr>snd_buf = replicate 270 0, rcv_buf = replicate 270 0, opcd_dev = ([], [])\<rparr>"

definition card_open :: "int \<times> (bytes \<times> bytes) openpcd_state api_state option \<times> (bytes \<times> bytes) openpcd_state" where
  "card_open = the (openpcd_open_reader card_usb True True True True None card_opcd)"

definition card_state :: "(bytes \<times> bytes) openpcd_state api_state" where
  "card_state = (the (fst (snd card_open)))\<lparr>api_cl_auth := 0x61, api_key := [1, 2, 3, 4, 5, 6]\<rparr>"

definition card_init :: "int \<times> (bytes \<times> bytes) openpcd_state" where
  "card_init = the (rdr_init (rfid_reader_openpcd card_usb) RFID_LAYER2_ISO14443A (snd (snd card_open)))"

definition card_l2h :: rfid_layer2_handle where
  "card_l2h = sample_l2h\<lparr>l2_uid := [0xde, 0xad, 0xbe, 0xef, 0, 0, 0, 0, 0, 0], l2_uid_len := 4,
     l2_proto_supported := 12, l2_a := \<lparr>a_state = ISO14443A_STATE_SELECTED, a_level = ISO14443A_LEVEL_NONE,
       a_tcl_capable = 0, a_atqa = [4, 0], a_sak = 8\<rparr>\<rparr>"

lemma card_open_run:
  "openpcd_open_reader card_usb True True True True None card_opcd =
     Some (PCDERROR_NONE, Some (the (fst (snd card_open))), snd (snd card_open)) \<and>
   api_ph (the (fst (snd card_open))) = None \<and> api_rh (the (fst (snd card_open))) \<noteq> None"
proof -
  have "map_option (\<lambda>(rc, st, s). (rc, map_option (\<lambda>st. (api_ph st = None, api_rh st = None)) st))
     (openpcd_open_reader card_usb True True True True None card_opcd) = Some (0, Some (True, False))"
    by code_simp
  then show ?thesis by (auto simp: card_open_def)
qed

lemma card_init_run:
  "rdr_init (rfid_reader_openpcd card_usb) RFID_LAYER2_ISO14443A (snd (snd card_open)) = Some (0, snd card_init)"
proof -
  have "map_option fst (rdr_init (rfid_reader_openpcd card_usb) RFID_LAYER2_ISO14443A (snd (snd card_open))) = Some 0"
    by code_simp
  then show ?thesis by (auto simp: card_init_def)
qed

lemma card_layer2_open_run:
  fixes r :: randctx
  obtains r' s' where "rfid_layer2_open \<lparr>rh_reader = rfid_reader_openpcd card_usb, rh_ah = ah\<rparr>
      (sl_l2 sample_scan_locals)
      (sample_l2h\<lparr>l2_uid := replicate 10 0, l2_uid_len := 0, l2_proto_supported := 0, l2_flags := 0,
         l2_a := \<lparr>a_state = ISO14443A_STATE_NONE, a_level = ISO14443A_LEVEL_NONE, a_tcl_capable = 0,
           a_atqa = [0, 0], a_sak = 0\<rparr>\<rparr>) r (snd card_init) = Some (0, card_l2h, r', s')"
proof -
  have "map_option (\<lambda>(ret, h, r, s). (ret, h)) (rfid_layer2_open \<lparr>rh_reader = rfid_reader_openpcd card_usb, rh_ah = ah\<rparr>
      (sl_l2 sample_scan_locals)
      (sample_l2h\<lparr>l2_uid := replicate 10 0, l2_uid_len := 0, l2_proto_supported := 0, l2_flags := 0,
         l2_a := \<lparr>a_state = ISO14443A_STATE_NONE, a_level = ISO14443A_LEVEL_NONE, a_tcl_capable = 0,
           a_atqa = [0, 0], a_sak = 0\<rparr>\<rparr>) r (snd card_init)) = Some (0, card_l2h)"
    by code_simp
  then show thesis using that by auto
qed

lemma open_rh:
  "openpcd_open u m1 m2 m3 s = Some (Some rh, s') \<Longrightarrow> rh_reader rh = rfid_reader_openpcd u"
  by (auto simp: openpcd_open_def run_simps Let_def split: if_splits option.splits prod.splits)

lemma open_reader_rh:
  assumes "openpcd_open_reader u g m1 m2 m3 None s = Some (rc, Some st, s')" "api_rh st = Some rh"
  shows "rh_reader rh = rfid_reader_openpcd u"
  using assms by (auto simp: openpcd_open_reader_def run_simps Let_def split: if_splits dest: open_rh)

lemma card_selected_run:
  obtains ph r' s' where "openpcd_select_card sample_scan_locals (Some card_state) randctx_init (snd (snd card_open)) =
      Some (PCDERROR_NONE, Some (card_state\<lparr>api_l2h := Some card_l2h, api_ph := Some (ph, card_l2h)\<rparr>), r', s')"
proof -
  obtain rh where rh: "api_rh (the (fst (snd card_open))) = Some rh" using card_open_run by auto
  have rd: "rh_reader rh = rfid_reader_openpcd card_usb"
    using open_reader_rh [OF conjunct1 [OF card_open_run] rh] .
  then have rh_eq: "rh = \<lparr>rh_reader = rfid_reader_openpcd card_usb, rh_ah = rh_ah rh\<rparr>" by simp
  let ?r = "((\<lambda>r. snd (random_bit r)) ^^ 23) randctx_init"
  let ?h = "sample_l2h\<lparr>l2_uid := replicate 10 0, l2_uid_len := 0, l2_proto_supported := 0, l2_flags := 0,
         l2_a := \<lparr>a_state = ISO14443A_STATE_NONE, a_level = ISO14443A_LEVEL_NONE, a_tcl_capable = 0,
           a_atqa = [0, 0], a_sak = 0\<rparr>\<rparr>"
  have init: "rfid_layer2_init rh RFID_LAYER2_ISO14443A True (sl_h0 sample_scan_locals)
      randctx_init (snd (snd card_open)) = Some (Some ?h, ?r, snd card_init)"
    by (simp add: rfid_layer2_init_def iso14443a_init_def rd card_init_run sample_scan_locals_def sample_l2h_def
        Let_def word_le_def)
  obtain r' s' where open_run: "rfid_layer2_open rh (sl_l2 sample_scan_locals) ?h ?r (snd card_init) =
      Some (0, card_l2h, r', s')"
    using card_layer2_open_run [of "rh_ah rh" ?r] rh_eq by metis
  have "mfcl_init card_l2h True" by (simp add: mfcl_init_def card_l2h_def sample_l2h_def)
  moreover have "sl_malloc sample_scan_locals" by (simp add: sample_scan_locals_def)
  ultimately show thesis
    by (intro that [of "\<lparr>ph_proto = PROTO_MIFARE_CLASSIC, ph_tcl = lp_tcl (sl_proto sample_scan_locals)\<rparr>" r' s'])
      (use rh in \<open>simp add: openpcd_select_card_def init open_run card_state_def rfid_protocol_init_def
        rfid_protocol_open_def word_le_def\<close>)
qed

theorem api_session_card_witness:
  "\<exists>st. api_session card_usb st \<and> api_ph st \<noteq> None \<and>
        openpcd_get_card_id (Some st) True = Some (PCDERROR_NONE, Some [0xde, 0xad, 0xbe, 0xef])"
proof -
  have "openpcd_set_key (Some (the (fst (snd card_open)))) 1 [1, 2, 3, 4, 5, 6] = Some (PCDERROR_NONE, Some card_state)"
    by (simp add: openpcd_set_key_def card_state_def get_slice_def)
  then have keyed: "api_session card_usb card_state"
    by (rule api_session.set_key [OF api_session.open_reader [OF conjunct1 [OF card_open_run]]])
  obtain ph r' s' where "openpcd_select_card sample_scan_locals (Some card_state) randctx_init (snd (snd card_open)) =
      Some (PCDERROR_NONE, Some (card_state\<lparr>api_l2h := Some card_l2h, api_ph := Some (ph, card_l2h)\<rparr>), r', s')"
    by (rule card_selected_run)
  then have run: "api_session card_usb (card_state\<lparr>api_l2h := Some card_l2h, api_ph := Some (ph, card_l2h)\<rparr>)"
    by (rule api_session.select_card [OF keyed])
  from api_session_card [OF this, where l = sample_scan_locals and s = card_opcd]
  have "openpcd_get_card_id (Some (card_state\<lparr>api_l2h := Some card_l2h, api_ph := Some (ph, card_l2h)\<rparr>)) True =
      Some (PCDERROR_NONE, Some [0xde, 0xad, 0xbe, 0xef])"
    by (simp add: card_l2h_def)
  with run show ?thesis by fastforce
qed

lemma reselect_state:
  assumes "openpcd_select_card l (Some st) r s = Some (PCDERROR_LAYER2_OPEN, Some st', r', s')"
  shows "st' = st\<lparr>api_l2h := None\<rparr>"
  using assms by (auto simp: openpcd_select_card_def run_simps split: if_splits option.splits)

text \<open>
  C21: selecting again while a card is selected, with no card answering, leaves a protocol handle without a
  layer 2 handle; from then on asking for the identifier, deselecting and closing the reader have no
  defined result, because they use the null pointer.  Reading and writing do not use it: they go on through
  the old protocol handle and the layer 2 handle it was made for, which nothing has freed, and do what they
  did before.
\<close>

theorem reselect_dangles:
  assumes "api_ph st \<noteq> None"
    and "openpcd_select_card l (Some st) r s = Some (PCDERROR_LAYER2_OPEN, Some st', r', s')"
  shows "openpcd_get_card_id (Some st') True = None \<and> openpcd_deselect_card l' (Some st') s'' = None \<and>
         openpcd_close_reader u l' (Some st') s'' = None \<and>
         openpcd_read l' buf (Some st') page data len s'' = openpcd_read l' buf (Some st) page data len s'' \<and>
         openpcd_write l' (Some st') page data len s'' = openpcd_write l' (Some st) page data len s''"
proof -
  have st': "st' = st\<lparr>api_l2h := None\<rparr>" by (rule reselect_state [OF assms(2)])
  with assms(1) have "openpcd_get_card_id (Some st') True = None" "openpcd_deselect_card l' (Some st') s'' = None"
    by (auto simp: openpcd_get_card_id_def openpcd_deselect_card_def run_simps split: option.splits)
  moreover have "openpcd_read l' buf (Some st') page data len s'' = openpcd_read l' buf (Some st) page data len s''"
    "openpcd_write l' (Some st') page data len s'' = openpcd_write l' (Some st) page data len s''"
    by (simp_all add: st' openpcd_read_def openpcd_write_def openpcd_cl_auth_def cong: if_cong option.case_cong)
  ultimately show ?thesis by (simp add: openpcd_close_reader_def)
qed

text \<open>An OpenPCD whose commands complete at once.\<close>

definition api_usb :: "bytes usb_ops" where
  "api_usb =
     \<lparr>usb_bulk_write = (\<lambda>ep out d. (int (length out), take 4 out)),
      usb_bulk_read = (\<lambda>ep n d. (int (length d), d, d)),
      usb_find_busses = (\<lambda>d. (1, d)), usb_find_devices = (\<lambda>d. (1, d)),
      usb_get_busses = (\<lambda>d. [[(0x16c0, 0x076b)]]), usb_open = (\<lambda>dev d. (True, d)),
      usb_set_configuration = (\<lambda>d. (0, d)), usb_claim_interface = (\<lambda>d. (0, d)),
      usb_close = (\<lambda>d. d)\<rparr>"

definition api_opcd :: "bytes openpcd_state" where
  "api_opcd = \<lparr>snd_buf = replicate 270 0, rcv_buf = replicate 270 0, opcd_dev = []\<rparr>"

text \<open>A selected card, for the example: the field is empty when the caller selects again.\<close>

definition api_selected :: "bytes openpcd_state api_state" where
  "api_selected =
     (let l2h = sample_l2h\<lparr>l2_proto_supported := 8, l2_a := \<lparr>a_state = ISO14443A_STATE_SELECTED,
            a_level = ISO14443A_LEVEL_NONE, a_tcl_capable = 0, a_atqa = [4, 0], a_sak = 8\<rparr>\<rparr> in
      \<lparr>api_magic = LIBMIFARE_MAGIC, api_cl_auth = 0x60,
       api_rh = Some \<lparr>rh_reader = (rfid_reader_openpcd api_usb)\<lparr>rdr_init := (\<lambda>_ w. Some (0, w)),
         rdr_transceive_sf := (\<lambda>_ w. Some (- ETIMEDOUT, [0, 0], w))\<rparr>, rh_ah = sample_ah\<rparr>, api_l2h = Some l2h,
       api_ph = Some (\<lparr>ph_proto = PROTO_MIFARE_CLASSIC, ph_tcl = fresh_tcl\<rparr>, l2h),
       api_key = replicate 6 0xff, api_uid = 0\<rparr>)"

lemma select_no_card:
  assumes "api_rh st = Some rh" "sl_malloc l" "rdr_init (rh_reader rh) RFID_LAYER2_ISO14443A s = Some (0, s1)"
    "rdr_transceive_sf (rh_reader rh) ISO14443A_SF_CMD_REQA s1 = Some (ret, atqa, s2)" "ret < 0"
  shows "\<exists>r'. openpcd_select_card l (Some st) r s =
           Some (PCDERROR_LAYER2_OPEN, Some (st\<lparr>api_l2h := None\<rparr>), r', s2)"
  using assms
  by (simp add: openpcd_select_card_def rfid_layer2_init_def iso14443a_init_def rfid_layer2_open_def
      iso14443a_anticol_def iso14443a_transceive_sf_def set_a_state_def Let_def word_le_def)

theorem reselect_dangles_witness:
  "\<exists>st' r' s'. openpcd_select_card sample_scan_locals (Some api_selected) randctx_init api_opcd =
       Some (PCDERROR_LAYER2_OPEN, Some st', r', s') \<and> openpcd_get_card_id (Some st') True = None"
proof -
  obtain r' where run: "openpcd_select_card sample_scan_locals (Some api_selected) randctx_init api_opcd =
      Some (PCDERROR_LAYER2_OPEN, Some (api_selected\<lparr>api_l2h := None\<rparr>), r', api_opcd)"
    using select_no_card [of api_selected "the (api_rh api_selected)" sample_scan_locals api_opcd api_opcd]
    by (auto simp: api_selected_def sample_scan_locals_def Let_def)
  have "api_ph api_selected \<noteq> None" by (simp add: api_selected_def Let_def)
  from reselect_dangles [OF this run] run show ?thesis by blast
qed

lemma protocol_read_len:
  "rfid_protocol_read rh l l2h ph page rx n w = Some (res, rx', n', w') \<Longrightarrow> n' \<le> n"
  by (auto simp: rfid_protocol_read_def mful_read_def mfcl_read_def run_simps Let_def split: if_splits)

lemma sint_le_16: "(n :: u32) \<le> 16 \<Longrightarrow> 0 \<le> sint n"
  by (simp add: sint_uint signed_take_bit_eq_if_positive bit_iff_odd word_le_def div_pos_pos_trivial)

lemma cl_auth_ret: "openpcd_cl_auth st page w = Some (res, w1) \<Longrightarrow> res \<le> 0"
  by (auto simp: openpcd_cl_auth_def run_simps split: if_splits option.splits)

text \<open>
  C22: a read over this interface changes at most the first \<open>len\<close> bytes of the caller's buffer, and none when
  it fails; it succeeds only after the page was authenticated with the key that was set, and then returns the
  number of bytes the card sent.  Page zero cannot be read: it passes the first test and is refused by the
  authentication.
\<close>

theorem openpcd_read_result:
  assumes "openpcd_read l buf (Some st) page data len w = Some (rc, data', w')"
  shows "length data' = length data \<and> drop (nat len) data' = drop (nat len) data \<and>
    (rc < 0 \<longrightarrow> data' = data) \<and> (page = 0 \<longrightarrow> rc = PCDERROR_INVALID_PARAMETER) \<and>
    (0 \<le> rc \<longrightarrow> 1 \<le> page \<and> 1 \<le> len \<and> len \<le> 16 \<and>
       (\<exists>rh ph l2h w1 res buf' n. api_rh st = Some rh \<and> api_ph st = Some (ph, l2h) \<and>
          openpcd_cl_auth st page w = Some (PCDERROR_NONE, w1) \<and>
          rfid_protocol_read rh (sl_proto l) l2h ph (word_of_int page) buf 16 w1 = Some (res, buf', n, w') \<and>
          rc = sint n \<and> take (nat len) data' = take (nat len) buf'))"
proof (cases "page < 0 \<or> page > 255 \<or> len \<le> 0 \<or> len > 16")
  case True
  then show ?thesis using assms by (auto simp: openpcd_read_def)
next
  case False
  obtain a w1 where auth: "openpcd_cl_auth st page w = Some (a, w1)"
    using assms False by (auto simp: openpcd_read_def run_simps)
  show ?thesis
  proof (cases "a < 0")
    case True
    then show ?thesis
      using assms False auth by (auto simp: openpcd_read_def openpcd_cl_auth_def)
  next
    case a: False
    with cl_auth_ret [OF auth] have "a = 0" by simp
    then have page: "page \<noteq> 0" using auth by (auto simp: openpcd_cl_auth_def)
    obtain ph l2h rh res buf' n w2 where rd: "api_ph st = Some (ph, l2h)" "api_rh st = Some rh"
        "rfid_protocol_read rh (sl_proto l) l2h ph (word_of_int page) buf 16 w1 = Some (res, buf', n, w2)"
      using assms False auth a by (auto simp: openpcd_read_def run_simps)
    note pos = sint_le_16 [OF protocol_read_len [OF rd(3)]]
    show ?thesis
    proof (cases "res < 0")
      case True
      then show ?thesis using assms False auth a rd page by (simp add: openpcd_read_def)
    next
      case r: False
      obtain d where "get_slice buf' 0 (nat len) = Some d" "put_slice data 0 d = Some data'"
          "rc = sint n" "w' = w2"
        using assms False auth a rd r by (auto simp: openpcd_read_def run_simps)
      then show ?thesis
        using pos False auth \<open>a = 0\<close> rd page
        by (auto simp: get_slice_def put_slice_def split: if_splits)
    qed
  qed
qed

definition api_ready :: "bytes openpcd_state api_state" where
  "api_ready = api_selected\<lparr>api_rh := Some \<lparr>rh_reader = (rfid_reader_openpcd api_usb)\<lparr>
     rdr_setkey := Some (\<lambda>_ w. Some (0, w)), rdr_auth := Some (\<lambda>_ _ _ w. Some (0, w)),
     rdr_transceive := (\<lambda>_ _ _ _ _ _ _ w. Some (0, replicate 16 0xab, 16, w))\<rparr>, rh_ah = sample_ah\<rparr>\<rparr>"

theorem openpcd_read_result_witness:
  "\<exists>d w'. openpcd_read sample_scan_locals (replicate 16 0) (Some api_ready) 4 [1, 2, 3] 2 api_opcd =
     Some (16, d, w') \<and> take 2 d = [0xab, 0xab] \<and> drop 2 d = [3]"
proof -
  let ?run = "openpcd_read sample_scan_locals (replicate 16 0) (Some api_ready) 4 [1, 2, 3] 2 api_opcd"
  have run: "?run = Some (16, [0xab, 0xab, 3], api_opcd)"
    by code_simp
  from run openpcd_read_result [OF run] show ?thesis by simp
qed

end
