(* ===== verification/Pegoda.thy ===== *)
theory Pegoda
  imports Reader_Openpcd Rc632_Frames Rfid_Hex
begin

text \<open>
  The stand-alone client for the Philips Pegoda reader (\<open>pegoda/pegoda.c\<close>): its USB protocol with sequence
  numbers, the MIFARE commands and the dump of a card.  libusb is a parameter, as for the OpenPCD, with two
  more calls: the alternate setting, and how many configurations a device has, of which the program prints
  the second.  Of the output, the blocks read are kept.
\<close>

section \<open>Model\<close>

record 'd pegoda_usb = "'d usb_ops" +
  usb_set_altinterface :: "'d \<Rightarrow> int \<times> 'd"
  usb_num_configurations :: "u16 \<times> u16 \<Rightarrow> nat"

record pegoda_handle =
  pg_seq :: u8
  pg_snr :: bytes

abbreviation (input) PEGODA_CMD_PCD_CONFIG :: u8 where "PEGODA_CMD_PCD_CONFIG \<equiv> 0x10"
abbreviation (input) PEGODA_CMD_PICC_AUTH :: u8 where "PEGODA_CMD_PICC_AUTH \<equiv> 0x14"
abbreviation (input) PEGODA_CMD_PICC_AUTH_KEY :: u8 where "PEGODA_CMD_PICC_AUTH_KEY \<equiv> 0x18"
abbreviation (input) PEGODA_CMD_PICC_READ :: u8 where "PEGODA_CMD_PICC_READ \<equiv> 0x19"
abbreviation (input) PEGODA_CMD_PICC_COMMON_REQUEST :: u8 where "PEGODA_CMD_PICC_COMMON_REQUEST \<equiv> 0x40"
abbreviation (input) PEGODA_CMD_PICC_CASC_ANTICOLL :: u8 where "PEGODA_CMD_PICC_CASC_ANTICOLL \<equiv> 0x41"
abbreviation (input) PEGODA_CMD_PICC_CASC_SELECT :: u8 where "PEGODA_CMD_PICC_CASC_SELECT \<equiv> 0x42"
abbreviation (input) PEGODA_CMD_SWITCH_LED :: u8 where "PEGODA_CMD_SWITCH_LED \<equiv> 0x60"

definition find_device :: "u16 \<Rightarrow> u16 \<Rightarrow> (u16 \<times> u16) list list \<Rightarrow> (u16 \<times> u16) option" where
  "find_device vendor device busses = find (\<lambda>dev. dev = (vendor, device)) (concat busses)"

text \<open>Two bytes in network order.\<close>

definition be16 :: "u32 \<Rightarrow> bytes" where
  "be16 n = [ucast (drop_bit 8 n), ucast n]"

text \<open>
  The second half of \<open>pegoda_transceive\<close>, from the length packet on.  The results are the return code, the
  buffer behind \<open>rx\<close> and \<open>*rx_len\<close>.  The limit on the expected length is never reached by a byte.
\<close>

definition pegoda_receive ::
    "('d, 'x) pegoda_usb_scheme \<Rightarrow> u8 \<Rightarrow> bytes \<Rightarrow> bytes \<Rightarrow> u32 \<Rightarrow> 'd
       \<Rightarrow> (int \<times> bytes \<times> u32 \<times> 'd) option" where
  "pegoda_receive u seq rxbuf rx rx_len d = do {
     let (rc, inp, d) = usb_bulk_read u 0x81 256 d;
     rxbuf \<leftarrow> put_slice rxbuf 0 inp;
     if rc \<le> 0 then Some (rc, rx, rx_len, d)
     else if rc \<noteq> 2 then Some (- EIO, rx, rx_len, d)
     else do {
       len_expected \<leftarrow> get_at rxbuf 0;
       let (rc, inp, d) = usb_bulk_read u 0x81 (unat len_expected) d;
       rxbuf \<leftarrow> put_slice rxbuf 0 inp;
       if rc \<le> 0 then Some (rc, rx, rx_len, d)
       else if rc < 4 then Some (- EIO, rx, rx_len, d)
       else do {
         rseq \<leftarrow> get_at rxbuf 0;
         if rseq \<noteq> seq then Some (- EIO, rx, rx_len, d)
         else do {
           cmd \<leftarrow> get_at rxbuf 1;
           hi \<leftarrow> get_at rxbuf 2;
           lo \<leftarrow> get_at rxbuf 3;
           data \<leftarrow> get_slice rxbuf 4 (nat (rc - 4));
           rx \<leftarrow> put_slice rx 0 data;
           Some (uint cmd, rx, push_bit 8 (ucast hi) OR ucast lo, d) } } } }"

definition pegoda_transceive ::
    "('d, 'x) pegoda_usb_scheme \<Rightarrow> bytes \<Rightarrow> bytes \<Rightarrow> pegoda_handle \<Rightarrow> u8 \<Rightarrow> bytes \<Rightarrow> u32 \<Rightarrow> bytes \<Rightarrow> u32 \<Rightarrow> 'd
       \<Rightarrow> (int \<times> bytes \<times> u32 \<times> pegoda_handle \<times> 'd) option" where
  "pegoda_transceive u txbuf rxbuf ph cmd tx tx_len rx rx_len d = do {
     let ph = ph\<lparr>pg_seq := pg_seq ph + 1\<rparr>;
     data \<leftarrow> get_slice tx 0 (unat tx_len);
     txbuf \<leftarrow> put_slice txbuf 0 ([pg_seq ph, cmd] @ be16 tx_len @ data);
     out \<leftarrow> get_slice txbuf 0 (4 + unat tx_len);
     let (rc, d) = usb_bulk_write u 0x02 out d;
     if rc < 0 then Some (rc, rx, rx_len, ph, d)
     else do {
       (rc, rx, rx_len, d) \<leftarrow> pegoda_receive u (pg_seq ph) rxbuf rx rx_len d;
       Some (rc, rx, rx_len, ph, d) } }"

text \<open>Uninitialised locals: the two frame buffers of every transfer, and the reply buffers.\<close>

record pegoda_locals =
  pl_txbuf :: bytes
  pl_rxbuf :: bytes
  pl_rbuf :: bytes
  pl_main :: bytes

text \<open>The USB part of \<open>pegoda_open\<close>: whether the device is ready.  It is not closed when a later step fails.\<close>

definition pegoda_usb_setup :: "('d, 'x) pegoda_usb_scheme \<Rightarrow> u16 \<times> u16 \<Rightarrow> 'd \<Rightarrow> bool \<times> 'd" where
  "pegoda_usb_setup u dev d =
     (let (opened, d) = usb_open u dev d in
      if \<not> opened then (False, d) else
      let (r, d) = usb_set_configuration u d in
      if r \<noteq> 0 then (False, d) else
      let (r, d) = usb_claim_interface u d in
      if r \<noteq> 0 then (False, d) else
      let (r, d) = usb_set_altinterface u d in
      (r = 0, d))"

definition pegoda_open ::
    "('d, 'x) pegoda_usb_scheme \<Rightarrow> pegoda_locals \<Rightarrow> bool \<Rightarrow> 'd \<Rightarrow> (pegoda_handle option \<times> 'd) option" where
  "pegoda_open u l malloc_ok d =
     (let (_, d) = usb_find_busses u d; (_, d) = usb_find_devices u d in
      case find_device 0x0742 0xff01 (usb_get_busses u d) of
        None \<Rightarrow> Some (None, d)
      | Some dev \<Rightarrow>
          if \<not> malloc_ok then Some (None, d)
          else if usb_num_configurations u dev < 2 then None
          else let (ready, d) = pegoda_usb_setup u dev d in
            if \<not> ready then Some (None, d)
            else do {
              (_, _, _, ph, d) \<leftarrow> pegoda_transceive u (pl_txbuf l) (pl_rxbuf l)
                 \<lparr>pg_seq = 0, pg_snr = replicate 4 0\<rparr> PEGODA_CMD_PCD_CONFIG [] 0 (pl_rbuf l) 16 d;
              Some (Some ph, d) })"

fun transform_key_loop :: "bytes \<Rightarrow> nat list \<Rightarrow> bytes \<Rightarrow> bytes option" where
  "transform_key_loop key6 [] key12 = Some key12"
| "transform_key_loop key6 (i # is) key12 = do {
     k \<leftarrow> get_at key6 i;
     let ln = k AND 0x0f;
     let hn = drop_bit 4 k;
     key12 \<leftarrow> put_at key12 (i * 2 + 1) (push_bit 4 (NOT ln) OR ln);
     key12 \<leftarrow> put_at key12 (i * 2) (push_bit 4 (NOT hn) OR hn);
     transform_key_loop key6 is key12 }"

definition mifare_transform_key :: "bytes \<Rightarrow> bytes \<Rightarrow> bytes option" where
  "mifare_transform_key key6 key12 = transform_key_loop key6 [0..<6] key12"

text \<open>The results of the transfers are not looked at.\<close>

definition pegoda_auth_e2 ::
    "('d, 'x) pegoda_usb_scheme \<Rightarrow> pegoda_locals \<Rightarrow> pegoda_handle \<Rightarrow> u8 \<Rightarrow> u8 \<Rightarrow> 'd
       \<Rightarrow> (int \<times> pegoda_handle \<times> 'd) option" where
  "pegoda_auth_e2 u l ph keynr sector d = do {
     (_, _, _, ph, d) \<leftarrow> pegoda_transceive u (pl_txbuf l) (pl_rxbuf l) ph PEGODA_CMD_PICC_AUTH
                           [0x60, keynr, sector] 3 (pl_rbuf l) 16 d;
     Some (0, ph, d) }"

text \<open>\<open>buf\<close> has 18 bytes: the command, the card's number, the coded key and the sector.\<close>

definition pegoda_auth_key ::
    "('d, 'x) pegoda_usb_scheme \<Rightarrow> pegoda_locals \<Rightarrow> bytes \<Rightarrow> pegoda_handle \<Rightarrow> u8 \<Rightarrow> bytes \<Rightarrow> 'd
       \<Rightarrow> (int \<times> pegoda_handle \<times> 'd) option" where
  "pegoda_auth_key u l key12 ph sector key6 d = do {
     snr \<leftarrow> get_slice (pg_snr ph) 0 4;
     coded \<leftarrow> mifare_transform_key key6 key12;
     (_, _, _, ph, d) \<leftarrow> pegoda_transceive u (pl_txbuf l) (pl_rxbuf l) ph PEGODA_CMD_PICC_AUTH_KEY
                           ([0x60] @ snr @ coded @ [sector]) 18 (pl_rbuf l) 16 d;
     Some (0, ph, d) }"

definition pegoda_read16 ::
    "('d, 'x) pegoda_usb_scheme \<Rightarrow> pegoda_locals \<Rightarrow> pegoda_handle \<Rightarrow> u8 \<Rightarrow> bytes \<Rightarrow> 'd
       \<Rightarrow> (int \<times> bytes \<times> pegoda_handle \<times> 'd) option" where
  "pegoda_read16 u l ph page rx d = do {
     (_, rx, rlen, ph, d) \<leftarrow> pegoda_transceive u (pl_txbuf l) (pl_rxbuf l) ph PEGODA_CMD_PICC_READ
                               [page] 1 rx 16 d;
     Some (if rlen \<noteq> 16 then - EIO else 0, rx, ph, d) }"

text \<open>
  The loops of \<open>main\<close>.  What is printed for a block are the first sixteen bytes of the buffer, whatever the
  read returned.
\<close>

type_synonym pegoda_line = "nat \<times> nat \<times> bytes"

fun pegoda_read_blocks ::
    "('d, 'x) pegoda_usb_scheme \<Rightarrow> pegoda_locals \<Rightarrow> nat \<Rightarrow> nat list \<Rightarrow> pegoda_handle \<Rightarrow> bytes \<Rightarrow> 'd
       \<Rightarrow> (pegoda_line list \<times> pegoda_handle \<times> bytes \<times> 'd) option" where
  "pegoda_read_blocks u l i [] ph rbuf d = Some ([], ph, rbuf, d)"
| "pegoda_read_blocks u l i (j # js) ph rbuf d = do {
     (_, rbuf, ph, d) \<leftarrow> pegoda_read16 u l ph (of_nat (i * 4 + j)) rbuf d;
     block \<leftarrow> get_slice rbuf 0 16;
     (ls, ph, rbuf, d) \<leftarrow> pegoda_read_blocks u l i js ph rbuf d;
     Some ((i, j, block) # ls, ph, rbuf, d) }"

fun pegoda_read_sectors ::
    "('d, 'x) pegoda_usb_scheme \<Rightarrow> pegoda_locals \<Rightarrow> bytes \<Rightarrow> nat list \<Rightarrow> pegoda_handle \<Rightarrow> bytes \<Rightarrow> 'd
       \<Rightarrow> (pegoda_line list \<times> pegoda_handle \<times> bytes \<times> 'd) option" where
  "pegoda_read_sectors u l key12 [] ph rbuf d = Some ([], ph, rbuf, d)"
| "pegoda_read_sectors u l key12 (i # is) ph rbuf d = do {
     (_, ph, d) \<leftarrow> pegoda_auth_key u l key12 ph (of_nat i) (replicate 6 0xff) d;
     (ls, ph, rbuf, d) \<leftarrow> pegoda_read_blocks u l i [0..<4] ph rbuf d;
     (ls', ph, rbuf, d) \<leftarrow> pegoda_read_sectors u l key12 is ph rbuf d;
     Some (ls @ ls', ph, rbuf, d) }"

text \<open>The transfers before the loop: LED, request, anticollision and selection.\<close>

definition pegoda_select ::
    "('d, 'x) pegoda_usb_scheme \<Rightarrow> pegoda_locals \<Rightarrow> pegoda_handle \<Rightarrow> bytes \<Rightarrow> 'd
       \<Rightarrow> (pegoda_handle \<times> bytes \<times> 'd) option" where
  "pegoda_select u l ph rbuf d = do {
     let xcv = pegoda_transceive u (pl_txbuf l) (pl_rxbuf l);
     (_, rbuf, _, ph, d) \<leftarrow> xcv ph PEGODA_CMD_SWITCH_LED [0x00] 1 rbuf 256 d;
     (_, rbuf, _, ph, d) \<leftarrow> xcv ph PEGODA_CMD_PICC_COMMON_REQUEST [0x26] 1 rbuf 256 d;
     (_, rbuf, _, ph, d) \<leftarrow> xcv ph PEGODA_CMD_PICC_CASC_ANTICOLL (0x93 # replicate 5 0) 6 rbuf 256 d;
     snr \<leftarrow> get_slice rbuf 0 4;
     let ph = ph\<lparr>pg_snr := snr\<rparr>;
     (_, rbuf, _, ph, d) \<leftarrow> xcv ph PEGODA_CMD_PICC_CASC_SELECT (0x93 # snr) 5 rbuf 256 d;
     Some (ph, rbuf, d) }"

text \<open>The exit status and the printed blocks.\<close>

definition pegoda_main ::
    "('d, 'x) pegoda_usb_scheme \<Rightarrow> pegoda_locals \<Rightarrow> bytes \<Rightarrow> bool \<Rightarrow> 'd
       \<Rightarrow> (int \<times> pegoda_line list \<times> 'd) option" where
  "pegoda_main u l key12 malloc_ok d = do {
     (ph, d) \<leftarrow> pegoda_open u l malloc_ok d;
     (case ph of
        None \<Rightarrow> Some (1, [], d)
      | Some ph \<Rightarrow> do {
          (ph, rbuf, d) \<leftarrow> pegoda_select u l ph (pl_main l) d;
          (ls, ph, rbuf, d) \<leftarrow> pegoda_read_sectors u l key12 [0..<16] ph rbuf d;
          Some (0, ls, d) }) }"

section \<open>The key transformation\<close>

lemma key_loop_rc632:
  assumes "6 \<le> length key6" "length key12 = 12"
  shows "mifare_transform_key key6 key12 = rc632_mifare_transform_key key6"
proof -
  obtain a b c d e f ks where k: "key6 = a # b # c # d # e # f # ks"
    using assms(1) by (auto simp: numeral_eq_Suc Suc_le_length_iff)
  have "length key12 = Suc (Suc (Suc (Suc (Suc (Suc (Suc (Suc (Suc (Suc (Suc (Suc 0)))))))))))"
    using assms(2) by simp
  then obtain m0 m1 m2 m3 m4 m5 m6 m7 m8 m9 m10 m11 where
    m: "key12 = [m0, m1, m2, m3, m4, m5, m6, m7, m8, m9, m10, m11]"
    by (auto simp only: length_Suc_conv length_0_conv)
  show ?thesis
    by (simp add: k m mifare_transform_key_def rc632_mifare_transform_key_def upt_rec put_at_def
        get_slice_def Let_def)
qed

text \<open>
  The Pegoda client codes a key as the RC632 driver does: into the twelve bytes behind the pointer, in
  the same order, whatever they held before.
\<close>

theorem mifare_transform_key_rc632:
  assumes "6 \<le> length key6" "length key12 = 12"
  shows "mifare_transform_key key6 key12 = rc632_mifare_transform_key key6"
  using assms by (rule key_loop_rc632)

theorem mifare_transform_key_rc632_witness:
  "mifare_transform_key [0xa0, 0xa1, 0xa2, 0xa3, 0xa4, 0xa5] (replicate 12 0x77) =
     rc632_mifare_transform_key [0xa0, 0xa1, 0xa2, 0xa3, 0xa4, 0xa5]"
  by (rule mifare_transform_key_rc632) simp_all

section \<open>A reader with a card\<close>

text \<open>
  What the client expects of a Pegoda: every command is answered by a packet with the length of the reply and
  by the reply, which repeats the sequence number.  The card below answers the anticollision with its number,
  accepts a sector's key in coded form and gives the blocks of the sector that was authenticated last.
\<close>

record pegoda_dev =
  pd_uid :: bytes
  pd_key :: "nat \<Rightarrow> bytes"
  pd_mem :: "nat \<Rightarrow> bytes"
  pd_auth :: "nat option"
  pd_out :: "bytes list"

definition pegoda_answer :: "u8 \<Rightarrow> bytes \<Rightarrow> pegoda_dev \<Rightarrow> u8 \<times> bytes \<times> pegoda_dev" where
  "pegoda_answer cmd tx dev =
     (if cmd = PEGODA_CMD_PICC_CASC_ANTICOLL then (0, pd_uid dev, dev)
      else if cmd = PEGODA_CMD_PICC_AUTH_KEY then
        (let sector = unat (tx ! 17);
             ok = (take 4 (drop 1 tx) = pd_uid dev \<and> decode_key (take 12 (drop 5 tx)) = pd_key dev sector)
         in (if ok then 0 else 4, [], dev\<lparr>pd_auth := if ok then Some sector else None\<rparr>))
      else if cmd = PEGODA_CMD_PICC_READ then
        (let page = unat (tx ! 0)
         in if pd_auth dev = Some (page div 4) then (0, pd_mem dev page, dev) else (4, [], dev))
      else (0, [], dev))"

definition pegoda_accept :: "bytes \<Rightarrow> pegoda_dev \<Rightarrow> pegoda_dev" where
  "pegoda_accept out dev =
     (let n = unat (out ! 2) * 256 + unat (out ! 3);
          (status, data, dev) = pegoda_answer (out ! 1) (take n (drop 4 out)) dev;
          reply = [out ! 0, status] @ be16 (of_nat (length data)) @ data
      in dev\<lparr>pd_out := [[of_nat (length reply), 0], reply]\<rparr>)"

definition pegoda_card_usb :: "pegoda_dev pegoda_usb" where
  "pegoda_card_usb =
     \<lparr>usb_bulk_write = (\<lambda>ep out dev. (int (length out), pegoda_accept out dev)),
      usb_bulk_read = (\<lambda>ep n dev. case pd_out dev of
         [] \<Rightarrow> (0, [], dev)
       | p # ps \<Rightarrow> (int (length (take n p)), take n p, dev\<lparr>pd_out := ps\<rparr>)),
      usb_find_busses = (\<lambda>d. (1, d)), usb_find_devices = (\<lambda>d. (1, d)),
      usb_get_busses = (\<lambda>d. [[(0x0742, 0xff01)]]), usb_open = (\<lambda>dev d. (True, d)),
      usb_set_configuration = (\<lambda>d. (0, d)), usb_claim_interface = (\<lambda>d. (0, d)),
      usb_close = (\<lambda>d. d), usb_set_altinterface = (\<lambda>d. (0, d)), usb_num_configurations = (\<lambda>_. 2)\<rparr>"

lemma be16_small:
  assumes "n < 256"
  shows "be16 (of_nat n) = [0, of_nat n]"
proof -
  have "unat (drop_bit 8 (of_nat n :: u32)) = drop_bit 8 n"
    using assms by (simp only: unat_drop_bit_eq) (simp add: unat_of_nat_small)
  then have "drop_bit 8 (of_nat n :: u32) = 0"
    using assms unat_eq_zero [of "drop_bit 8 (of_nat n :: u32)"] by (simp only: drop_bit_eq_div) simp
  then show ?thesis
    unfolding be16_def using assms by (simp only: unsigned_of_nat) (simp add: take_bit_nat_eq_self)
qed

definition pegoda_reply :: "u8 \<Rightarrow> u8 \<Rightarrow> bytes \<Rightarrow> bytes" where
  "pegoda_reply seq status data = [seq, status] @ be16 (of_nat (length data)) @ data"

lemma accept_card:
  assumes "pegoda_answer cmd tx dev = (status, data, dev')" "length tx < 252"
  shows "pegoda_accept ([seq, cmd] @ be16 (of_nat (length tx)) @ tx) dev =
    dev'\<lparr>pd_out := [[of_nat (4 + length data), 0], pegoda_reply seq status data]\<rparr>"
  using assms by (simp add: pegoda_accept_def pegoda_reply_def be16_small unat_of_nat_small be16_def [of "of_nat (length data)"])

lemma receive_card:
  assumes out: "pd_out dev = [[of_nat (4 + length data), 0], pegoda_reply seq status data]"
    and len: "length data < 252" "length data \<le> length rx" "length rxbuf = 256"
  shows "pegoda_receive pegoda_card_usb seq rxbuf rx rx_len dev =
     Some (uint status, data @ drop (length data) rx, of_nat (length data), dev\<lparr>pd_out := []\<rparr>)"
proof -
  have n: "unat (of_nat (4 + length data) :: u8) = 4 + length data"
    using len(1) by (intro unat_of_nat_small) simp
  have r: "pegoda_reply seq status data = seq # status # 0 # of_nat (length data) # data"
    using len(1) by (simp add: pegoda_reply_def be16_small)
  have w: "ucast (of_nat (length data) :: u8) = (of_nat (length data) :: u32)"
    using len(1) by (simp add: unsigned_of_nat take_bit_nat_eq_self)
  have l: "length (pegoda_reply seq status data) = 4 + length data" by (simp add: r)
  define k where "k = (of_nat (4 + length data) :: u8)"
  define d1 where "d1 = dev\<lparr>pd_out := [pegoda_reply seq status data]\<rparr>"
  have r1: "usb_bulk_read pegoda_card_usb 0x81 256 dev = (2, [k, 0], d1)"
    by (simp add: pegoda_card_usb_def out d1_def k_def)
  have r2: "usb_bulk_read pegoda_card_usb 0x81 (4 + length data) d1 =
      (4 + int (length data), pegoda_reply seq status data, dev\<lparr>pd_out := []\<rparr>)"
    by (simp add: pegoda_card_usb_def d1_def l)
  show ?thesis
    unfolding pegoda_receive_def r1
    using len by (simp add: n [folded k_def] r2 [unfolded r] put_slice_def get_slice_def w)
qed

lemma get_slice_prefix: "n = length xs \<Longrightarrow> get_slice (xs @ ys) 0 n = Some xs"
  by (simp add: get_slice_def)

text \<open>
  One command over USB.  The reply is stored at the start of the caller's buffer, and the sequence number
  counts up.
\<close>

lemma transceive_card:
  assumes ans: "pegoda_answer cmd tx dev = (status, data, dev')"
    and len: "length tx < 252" "length data < 252" "length data \<le> length rx"
    and bufs: "length txbuf = 256" "length rxbuf = 256" and tx_len: "tx_len = of_nat (length tx)"
  shows "pegoda_transceive pegoda_card_usb txbuf rxbuf ph cmd tx tx_len rx rx_len dev =
           Some (uint status, data @ drop (length data) rx, of_nat (length data),
                 ph\<lparr>pg_seq := pg_seq ph + 1\<rparr>, dev'\<lparr>pd_out := []\<rparr>)"
proof -
  let ?seq = "pg_seq ph + 1"
  let ?out = "[?seq, cmd] @ be16 (of_nat (length tx)) @ tx"
  have n: "unat (of_nat (length tx) :: u32) = length tx"
    using len(1) by (intro unat_of_nat_small) simp
  have l: "length ?out = 4 + length tx" by (simp add: be16_def)
  have w: "usb_bulk_write pegoda_card_usb 0x02 ?out dev = (int (length ?out),
      dev'\<lparr>pd_out := [[of_nat (4 + length data), 0], pegoda_reply ?seq status data]\<rparr>)"
    using accept_card [OF ans len(1)] by (simp add: pegoda_card_usb_def)
  have rx: "pegoda_receive pegoda_card_usb ?seq rxbuf rx rx_len
      (dev'\<lparr>pd_out := [[of_nat (4 + length data), 0], pegoda_reply ?seq status data]\<rparr>) =
     Some (uint status, data @ drop (length data) rx, of_nat (length data), dev'\<lparr>pd_out := []\<rparr>)"
    using receive_card [of "dev'\<lparr>pd_out := [[of_nat (4 + length data), 0], pegoda_reply ?seq status data]\<rparr>",
        OF _ len(2,3) bufs(2)] by simp
  have put: "put_slice txbuf 0 ?out = Some (?out @ drop (4 + length tx) txbuf)"
    using len(1) bufs(1) by (simp only: put_slice_def l) simp
  have get: "get_slice (?out @ drop (4 + length tx) txbuf) 0 (4 + length tx) = Some ?out"
    by (rule get_slice_prefix) (simp only: l)
  show ?thesis
    using w rx put get by (simp add: pegoda_transceive_def tx_len n Let_def del: append.simps)
qed

definition pegoda_buffers :: "pegoda_locals \<Rightarrow> bool" where
  "pegoda_buffers l \<longleftrightarrow> length (pl_txbuf l) = 256 \<and> length (pl_rxbuf l) = 256 \<and> length (pl_rbuf l) = 16 \<and>
     length (pl_main l) = 256"

text \<open>A card of sixteen sectors with the transport key in all of them.\<close>

definition transport_card :: "pegoda_dev \<Rightarrow> bool" where
  "transport_card dev \<longleftrightarrow> length (pd_uid dev) = 4 \<and> (\<forall>s < 16. pd_key dev s = replicate 6 0xff) \<and>
     (\<forall>p < 64. length (pd_mem dev p) = 16)"

lemma transport_card_update [simp]:
  "transport_card (dev\<lparr>pd_auth := a\<rparr>) = transport_card dev" "transport_card (dev\<lparr>pd_out := ps\<rparr>) = transport_card dev"
  by (simp_all add: transport_card_def)

lemma setup_card [simp]:
  "pegoda_usb_setup pegoda_card_usb dev d = (True, d)" "usb_find_busses pegoda_card_usb d = (1, d)"
  "usb_find_devices pegoda_card_usb d = (1, d)" "usb_get_busses pegoda_card_usb d = [[(0x0742, 0xff01)]]"
  "usb_num_configurations pegoda_card_usb dev = 2"
  by (simp_all add: pegoda_card_usb_def pegoda_usb_setup_def)

lemma open_card:
  assumes "pegoda_buffers l"
  shows "pegoda_open pegoda_card_usb l True dev =
           Some (Some \<lparr>pg_seq = 1, pg_snr = replicate 4 0\<rparr>, dev\<lparr>pd_out := []\<rparr>)"
proof -
  have "pegoda_answer PEGODA_CMD_PCD_CONFIG [] dev = (0, [], dev)" by (simp add: pegoda_answer_def)
  note xcv = transceive_card [OF this, where rx = "pl_rbuf l" and txbuf = "pl_txbuf l" and rxbuf = "pl_rxbuf l"]
  show ?thesis
    using xcv assms
    by (simp add: pegoda_open_def find_device_def pegoda_buffers_def)
qed

lemma select_card:
  assumes "pegoda_buffers l" "length rbuf = 256" "transport_card dev"
  shows "\<exists>rbuf'. length rbuf' = 256 \<and> pegoda_select pegoda_card_usb l ph rbuf dev =
           Some (\<lparr>pg_seq = pg_seq ph + 4, pg_snr = pd_uid dev\<rparr>, rbuf', dev\<lparr>pd_out := []\<rparr>)"
proof -
  have uid: "length (pd_uid dev) = 4" using assms(3) by (simp add: transport_card_def)
  have ans: "pegoda_answer PEGODA_CMD_SWITCH_LED [0x00] dev = (0, [], dev)"
    "pegoda_answer PEGODA_CMD_PICC_COMMON_REQUEST [0x26] (dev\<lparr>pd_out := []\<rparr>) = (0, [], dev\<lparr>pd_out := []\<rparr>)"
    "pegoda_answer PEGODA_CMD_PICC_CASC_ANTICOLL (0x93 # replicate 5 0) (dev\<lparr>pd_out := []\<rparr>) =
       (0, pd_uid dev, dev\<lparr>pd_out := []\<rparr>)"
    "pegoda_answer PEGODA_CMD_PICC_CASC_SELECT (0x93 # pd_uid dev) (dev\<lparr>pd_out := []\<rparr>) =
       (0, [], dev\<lparr>pd_out := []\<rparr>)"
    by (simp_all add: pegoda_answer_def)
  note x = ans [THEN transceive_card]
  show ?thesis
    using assms(1,2) uid by (simp add: pegoda_select_def pegoda_buffers_def x get_slice_def)
qed

lemma read16_card:
  assumes "pegoda_buffers l" "transport_card dev" "page < 64" "pd_auth dev = Some (page div 4)"
    "16 \<le> length rx"
  shows "pegoda_read16 pegoda_card_usb l ph (of_nat page) rx dev =
           Some (0, pd_mem dev page @ drop 16 rx, ph\<lparr>pg_seq := pg_seq ph + 1\<rparr>, dev\<lparr>pd_out := []\<rparr>)"
proof -
  have mem: "length (pd_mem dev page) = 16" using assms(2,3) by (simp add: transport_card_def)
  have "unat (of_nat page :: u8) = page" using assms(3) by (intro unat_of_nat_small) simp
  then have "pegoda_answer PEGODA_CMD_PICC_READ [of_nat page] dev = (0, pd_mem dev page, dev)"
    using assms(4) by (simp add: pegoda_answer_def)
  note x = transceive_card [OF this, where txbuf = "pl_txbuf l" and rxbuf = "pl_rxbuf l" and rx = rx]
  show ?thesis
    using assms(1,5) x mem by (simp add: pegoda_read16_def pegoda_buffers_def)
qed

lemma read_blocks_card:
  assumes "pegoda_buffers l" "transport_card dev" "i < 16" "pd_auth dev = Some i" "pd_out dev = []"
    "\<forall>j \<in> set js. j < 4" "length rbuf = 256"
  shows "\<exists>rbuf' seq. length rbuf' = 256 \<and> pegoda_read_blocks pegoda_card_usb l i js ph rbuf dev =
           Some (map (\<lambda>j. (i, j, pd_mem dev (i * 4 + j))) js, ph\<lparr>pg_seq := seq\<rparr>, rbuf', dev)"
  using assms(6,7)
proof (induction js arbitrary: ph rbuf)
  case Nil
  have "\<exists>seq. ph = ph\<lparr>pg_seq := seq\<rparr>" by (rule exI [of _ "pg_seq ph"]) simp
  with Nil show ?case by auto
next
  case (Cons j js)
  have len: "16 \<le> length rbuf" and pg: "i * 4 + j < 64" using Cons.prems assms(3) by simp_all
  have auth: "pd_auth dev = Some ((i * 4 + j) div 4)" using Cons.prems(1) assms(4) by simp
  have upd: "dev\<lparr>pd_out := []\<rparr> = dev" using assms(5) by (cases dev) simp
  have rd: "pegoda_read16 pegoda_card_usb l ph (of_nat (i * 4 + j)) rbuf dev =
      Some (0, pd_mem dev (i * 4 + j) @ drop 16 rbuf, ph\<lparr>pg_seq := pg_seq ph + 1\<rparr>, dev)"
    by (rule read16_card [OF assms(1,2) pg auth len, unfolded upd])
  have mem: "length (pd_mem dev (i * 4 + j)) = 16"
    using assms(2) pg by (simp add: transport_card_def)
  have "length (pd_mem dev (i * 4 + j) @ drop 16 rbuf) = 256" using Cons.prems(2) mem by simp
  from Cons.IH [OF _ this, of "ph\<lparr>pg_seq := pg_seq ph + 1\<rparr>"] Cons.prems(1) obtain rbuf' seq where
    "length rbuf' = 256" "pegoda_read_blocks pegoda_card_usb l i js (ph\<lparr>pg_seq := pg_seq ph + 1\<rparr>)
       (pd_mem dev (i * 4 + j) @ drop 16 rbuf) dev =
       Some (map (\<lambda>j. (i, j, pd_mem dev (i * 4 + j))) js, ph\<lparr>pg_seq := seq\<rparr>, rbuf', dev)"
    by auto
  then show ?case using rd mem by (auto simp: get_slice_def)
qed

lemma auth_card:
  assumes "pegoda_buffers l" "length key12 = 12" "transport_card dev" "i < 16" "pg_snr ph = pd_uid dev"
  shows "pegoda_auth_key pegoda_card_usb l key12 ph (of_nat i) (replicate 6 0xff) dev =
           Some (0, ph\<lparr>pg_seq := pg_seq ph + 1\<rparr>, dev\<lparr>pd_auth := Some i, pd_out := []\<rparr>)"
proof -
  have uid: "length (pd_uid dev) = 4" and key: "pd_key dev i = replicate 6 0xff"
    using assms(3,4) by (simp_all add: transport_card_def)
  obtain c where c: "rc632_mifare_transform_key (replicate 6 0xff) = Some c" "length c = 12"
      "decode_key c = replicate 6 0xff"
    using transform_key_from_correct [of "replicate 6 0xff"]
    by (auto simp: rc632_mifare_transform_key_def get_slice_def)
  have k: "mifare_transform_key (replicate 6 0xff) key12 = Some c"
    using key_loop_rc632 [OF _ assms(2), of "replicate 6 0xff"] c(1) by simp
  let ?tx = "[0x60] @ pd_uid dev @ c @ [of_nat i]"
  have "?tx ! 17 = of_nat i" using uid c(2) by (simp add: nth_append)
  moreover have "unat (of_nat i :: u8) = i" using assms(4) by (intro unat_of_nat_small) simp
  moreover have "take 4 (drop 1 ?tx) = pd_uid dev" "take 12 (drop 5 ?tx) = c" using uid c(2) by simp_all
  ultimately have "pegoda_answer PEGODA_CMD_PICC_AUTH_KEY ?tx dev = (0, [], dev\<lparr>pd_auth := Some i\<rparr>)"
    using c(3) key by (simp only: pegoda_answer_def) (simp add: Let_def)
  note x = transceive_card [OF this]
  show ?thesis
    using assms(1,5) uid c(2) k
    by (simp add: pegoda_auth_key_def pegoda_buffers_def get_slice_def x [simplified])
qed

lemma read_sectors_card:
  assumes "pegoda_buffers l" "length key12 = 12"
  shows "\<forall>i \<in> set is. i < 16 \<Longrightarrow> length rbuf = 256 \<Longrightarrow> transport_card dev \<Longrightarrow> pg_snr ph = pd_uid dev \<Longrightarrow>
     \<exists>ph' rbuf' dev'. pegoda_read_sectors pegoda_card_usb l key12 is ph rbuf dev =
       Some (concat (map (\<lambda>i. map (\<lambda>j. (i, j, pd_mem dev (i * 4 + j))) [0..<4]) is), ph', rbuf', dev')"
proof (induction "is" arbitrary: ph rbuf dev)
  case (Cons i "is")
  let ?dev = "dev\<lparr>pd_auth := Some i, pd_out := []\<rparr>"
  have i: "i < 16" using Cons.prems(1) by simp
  note auth = auth_card [OF assms Cons.prems(3) i Cons.prems(4)]
  have "transport_card ?dev" "pd_auth ?dev = Some i" "pd_out ?dev = []" using Cons.prems(3) by simp_all
  then obtain rbuf1 seq where rd: "length rbuf1 = 256"
    "pegoda_read_blocks pegoda_card_usb l i [0..<4] (ph\<lparr>pg_seq := pg_seq ph + 1\<rparr>) rbuf ?dev =
       Some (map (\<lambda>j. (i, j, pd_mem ?dev (i * 4 + j))) [0..<4], ph\<lparr>pg_seq := seq\<rparr>, rbuf1, ?dev)"
    using read_blocks_card [OF assms(1) _ i _ _ _ Cons.prems(2), of ?dev "[0..<4]" "ph\<lparr>pg_seq := pg_seq ph + 1\<rparr>"]
    by auto
  obtain ph' rbuf' dev' where "pegoda_read_sectors pegoda_card_usb l key12 is (ph\<lparr>pg_seq := seq\<rparr>) rbuf1 ?dev =
       Some (concat (map (\<lambda>i. map (\<lambda>j. (i, j, pd_mem ?dev (i * 4 + j))) [0..<4]) is), ph', rbuf', dev')"
    using Cons.IH [OF _ rd(1), of ?dev "ph\<lparr>pg_seq := seq\<rparr>"] Cons.prems by auto
  with auth rd(2) show ?case by (simp del: upt.simps upt_rec_numeral)
qed simp

text \<open>
  C14: with a Pegoda in front of which lies a MIFARE card that has the transport key in all sectors, the
  client prints its 64 blocks, each once and in order, and exits with zero: the card's number from the
  anticollision and the coded key reach the authentication of every sector.
\<close>

theorem pegoda_dump_card:
  assumes "transport_card dev" "pegoda_buffers l" "length key12 = 12"
  shows "\<exists>dev'. pegoda_main pegoda_card_usb l key12 True dev =
           Some (0, concat (map (\<lambda>i. map (\<lambda>j. (i, j, pd_mem dev (i * 4 + j))) [0..<4]) [0..<16]), dev')"
proof -
  let ?ph = "\<lparr>pg_seq = 1, pg_snr = replicate 4 0\<rparr>"
  have "transport_card (dev\<lparr>pd_out := []\<rparr>)" "length (pl_main l) = 256"
    using assms(1,2) by (simp_all add: pegoda_buffers_def)
  then obtain rbuf where sel: "length rbuf = 256"
    "pegoda_select pegoda_card_usb l ?ph (pl_main l) (dev\<lparr>pd_out := []\<rparr>) =
       Some (\<lparr>pg_seq = pg_seq ?ph + 4, pg_snr = pd_uid dev\<rparr>, rbuf, dev\<lparr>pd_out := []\<rparr>)"
    using select_card [OF assms(2), of "pl_main l" "dev\<lparr>pd_out := []\<rparr>" ?ph] by auto
  have "\<forall>i \<in> set [0..<16]. i < 16" by simp
  from read_sectors_card [OF assms(2,3) this sel(1), of "dev\<lparr>pd_out := []\<rparr>"
      "\<lparr>pg_seq = pg_seq ?ph + 4, pg_snr = pd_uid dev\<rparr>"] assms(1) sel(2) open_card [OF assms(2)]
  show ?thesis by (auto simp: pegoda_main_def simp del: upt_rec_numeral)
qed

definition sample_pegoda_dev :: pegoda_dev where
  "sample_pegoda_dev = \<lparr>pd_uid = [1, 2, 3, 4], pd_key = (\<lambda>_. replicate 6 0xff),
     pd_mem = (\<lambda>p. replicate 16 (of_nat p)), pd_auth = None, pd_out = []\<rparr>"

definition sample_pegoda_locals :: pegoda_locals where
  "sample_pegoda_locals = \<lparr>pl_txbuf = replicate 256 0, pl_rxbuf = replicate 256 0, pl_rbuf = replicate 16 0,
     pl_main = replicate 256 0\<rparr>"

theorem pegoda_dump_card_witness:
  "\<exists>ls dev'. pegoda_main pegoda_card_usb sample_pegoda_locals (replicate 12 0) True sample_pegoda_dev =
     Some (0, ls, dev') \<and> length ls = 64 \<and> ls ! 7 = (1, 3, replicate 16 7)"
proof -
  have "transport_card sample_pegoda_dev" "pegoda_buffers sample_pegoda_locals"
    by (simp_all add: transport_card_def sample_pegoda_dev_def pegoda_buffers_def sample_pegoda_locals_def)
  from pegoda_dump_card [OF this, of "replicate 12 0"] obtain dev' where
    "pegoda_main pegoda_card_usb sample_pegoda_locals (replicate 12 0) True sample_pegoda_dev =
       Some (0, concat (map (\<lambda>i. map (\<lambda>j. (i, j, pd_mem sample_pegoda_dev (i * 4 + j))) [0..<4]) [0..<16]), dev')"
    by auto
  then show ?thesis by (simp add: upt_rec sample_pegoda_dev_def)
qed

section \<open>Any device\<close>

text \<open>A bulk read that succeeds has stored as many bytes as it returns, and no more than were asked for.\<close>

definition faithful_usb :: "('d, 'x) pegoda_usb_scheme \<Rightarrow> bool" where
  "faithful_usb u \<longleftrightarrow> (\<forall>ep n d rc inp d'. usb_bulk_read u ep n d = (rc, inp, d') \<longrightarrow> 0 \<le> rc \<longrightarrow>
     rc = int (length inp) \<and> length inp \<le> n)"

text \<open>
  The two ways in which a transfer returns a number that is no error: a bulk read came back empty, or a length
  packet and a reply with the expected sequence number were received.
\<close>

definition nothing_received :: "('d, 'x) pegoda_usb_scheme \<Rightarrow> 'd \<Rightarrow> 'd \<Rightarrow> bool" where
  "nothing_received u d d' \<longleftrightarrow> usb_bulk_read u 0x81 256 d = (0, [], d') \<or>
     (\<exists>len x d1. usb_bulk_read u 0x81 256 d = (2, [len, x], d1) \<and>
        usb_bulk_read u 0x81 (unat len) d1 = (0, [], d'))"

definition reply_received :: "('d, 'x) pegoda_usb_scheme \<Rightarrow> u8 \<Rightarrow> 'd \<Rightarrow> bytes \<Rightarrow> 'd \<Rightarrow> bool" where
  "reply_received u seq d reply d' \<longleftrightarrow> (\<exists>len x d1. usb_bulk_read u 0x81 256 d = (2, [len, x], d1) \<and>
     usb_bulk_read u 0x81 (unat len) d1 = (int (length reply), reply, d')) \<and>
     4 \<le> length reply \<and> reply ! 0 = seq"

lemma receive_matches:
  assumes "faithful_usb u" "length rxbuf = 256" "0 \<le> ret"
    and run: "pegoda_receive u seq rxbuf rx rx_len d = Some (ret, rx', n, d')"
  shows "nothing_received u d d' \<and> ret = 0 \<and> rx' = rx \<and> n = rx_len \<or>
    (\<exists>reply. reply_received u seq d reply d' \<and> ret = uint (reply ! 1) \<and> length reply - 4 \<le> length rx \<and>
       n = push_bit 8 (ucast (reply ! 2)) OR ucast (reply ! 3) \<and>
       rx' = drop 4 reply @ drop (length reply - 4) rx)"
proof -
  obtain rc1 inp1 d1 where r1: "usb_bulk_read u 0x81 256 d = (rc1, inp1, d1)" by (metis prod_cases3)
  have rc1: "rc1 = 2 \<or> rc1 = 0 \<and> ret = 0 \<and> rx' = rx \<and> n = rx_len \<and> d' = d1"
    using run assms(3) by (auto simp: pegoda_receive_def r1 run_simps split: if_splits)
  show ?thesis
  proof (cases "rc1 = 2")
    case False
    with rc1 r1 assms(1) have "inp1 = []" unfolding faithful_usb_def by fastforce
    with False rc1 r1 show ?thesis by (auto simp: nothing_received_def)
  next
    case rc1: True
    with r1 assms(1) have "length inp1 = 2" unfolding faithful_usb_def by fastforce
    then obtain len x where inp1: "inp1 = [len, x]" by (auto simp: numeral_2_eq_2 length_Suc_conv)
    obtain rc2 reply d2 where r2: "usb_bulk_read u 0x81 (unat len) d1 = (rc2, reply, d2)" by (metis prod_cases3)
    define rb where "rb = [len, x] @ drop 2 rxbuf"
    have rb: "put_slice rxbuf 0 [len, x] = Some rb" "length rb = 256" "rb ! 0 = len"
      using assms(2) by (simp_all add: put_slice_def rb_def numeral_2_eq_2)
    note run1 = run [unfolded pegoda_receive_def r1 rc1 inp1, simplified, unfolded rb(1), simplified]
    note run2 = run1 [unfolded rb(3), simplified rb(2) r2, simplified]
    have rc2: "4 \<le> rc2 \<or> rc2 = 0 \<and> ret = 0 \<and> rx' = rx \<and> n = rx_len \<and> d' = d2"
      using run2 rb assms(3) r2 by (auto simp: run_simps split: if_splits)
    then have len: "rc2 = int (length reply)" "length reply \<le> unat len"
      using r2 assms(1) unfolding faithful_usb_def by force+
    show ?thesis
    proof (cases "4 \<le> rc2")
      case False
      with rc2 len r1 r2 \<open>rc1 = 2\<close> inp1 show ?thesis by (auto simp: nothing_received_def)
    next
      case rc2: True
      have put: "put_slice rb 0 reply = Some (reply @ drop (length reply) rb)"
        using len(2) rb(2) unat_u8_less [of len] by (simp add: put_slice_def)
      show ?thesis
        using run2 rb r1 r2 rc1 rc2 inp1 len put assms(3)
        by (auto simp: reply_received_def run_simps nth_append get_slice_def put_slice_def split: if_splits)
    qed
  qed
qed

text \<open>
  C23: whatever the device sends, a transfer that returns no error sent the command once, and then either got
  exactly one length packet and one reply with the sequence number of this command, whose code it returns and
  whose length field and data it hands out, the caller's buffer being as before behind them; or a bulk read came
  back empty, and the result is zero with the buffer and the length as they were, which the caller cannot tell
  from a reply with code zero.  The sequence number counts up by one, modulo 256.
\<close>

theorem pegoda_transceive_matches:
  assumes "faithful_usb u" "length rxbuf = 256" "0 \<le> ret"
    and "pegoda_transceive u txbuf rxbuf ph cmd tx tx_len rx rx_len d = Some (ret, rx', n, ph', d')"
  shows "ph' = ph\<lparr>pg_seq := pg_seq ph + 1\<rparr> \<and>
    (\<exists>rc d0. usb_bulk_write u 0x02 ([pg_seq ph + 1, cmd] @ be16 tx_len @ take (unat tx_len) tx) d = (rc, d0) \<and> 0 \<le> rc \<and>
       (nothing_received u d0 d' \<and> ret = 0 \<and> rx' = rx \<and> n = rx_len \<or>
        (\<exists>reply. reply_received u (pg_seq ph + 1) d0 reply d' \<and> ret = uint (reply ! 1) \<and>
           length reply - 4 \<le> length rx \<and> n = push_bit 8 (ucast (reply ! 2)) OR ucast (reply ! 3) \<and>
           rx' = drop 4 reply @ drop (length reply - 4) rx)))"
proof -
  let ?out = "[pg_seq ph + 1, cmd] @ be16 tx_len @ take (unat tx_len) tx"
  have data: "get_slice tx 0 (unat tx_len) = Some (take (unat tx_len) tx)" "unat tx_len \<le> length tx"
    using assms(4) by (auto simp: pegoda_transceive_def Let_def run_simps get_slice_def split: if_splits)
  have l: "length ?out = 4 + unat tx_len" using data(2) by (simp add: be16_def)
  have fit: "length ?out \<le> length txbuf"
    using assms(4) by (auto simp: pegoda_transceive_def Let_def run_simps data put_slice_def split: if_splits)
  have put: "put_slice txbuf 0 ?out = Some (?out @ drop (length ?out) txbuf)"
    using fit by (simp add: put_slice_def)
  have get: "get_slice (?out @ drop (length ?out) txbuf) 0 (4 + unat tx_len) = Some ?out"
    by (rule get_slice_prefix) (simp only: l)
  obtain rc d0 where w: "usb_bulk_write u 0x02 ?out d = (rc, d0)" by fastforce
  have "0 \<le> rc" "pegoda_receive u (pg_seq ph + 1) rxbuf rx rx_len d0 = Some (ret, rx', n, d')"
      "ph' = ph\<lparr>pg_seq := pg_seq ph + 1\<rparr>"
    using assms(3,4) put get w data(1)
    by (auto simp: pegoda_transceive_def Let_def run_simps simp del: append.simps split: if_splits)
  then show ?thesis
    using receive_matches [OF assms(1-3)] w by blast
qed

text \<open>The device of the examples has given the card's key to the sector: the block is read with code zero.\<close>

theorem pegoda_transceive_matches_witness:
  "\<exists>ph' d' d0 reply. pegoda_transceive pegoda_card_usb (replicate 256 0) (replicate 256 0)
       \<lparr>pg_seq = 255, pg_snr = [1, 2, 3, 4]\<rparr> PEGODA_CMD_PICC_READ [7] 1 (replicate 16 0) 16
       (sample_pegoda_dev\<lparr>pd_auth := Some 1\<rparr>) =
       Some (0, replicate 16 7, 16, ph', d') \<and> pg_seq ph' = 0 \<and> reply_received pegoda_card_usb 0 d0 reply d'"
proof -
  let ?ph = "\<lparr>pg_seq = 255, pg_snr = [1, 2, 3, 4]\<rparr> :: pegoda_handle"
  let ?dev = "sample_pegoda_dev\<lparr>pd_auth := Some 1\<rparr>"
  have "pegoda_answer PEGODA_CMD_PICC_READ [7] ?dev = (0, replicate 16 7, ?dev)"
    by (simp add: pegoda_answer_def sample_pegoda_dev_def)
  from transceive_card [OF this, of "replicate 16 0" "replicate 256 0" "replicate 256 0" 1 ?ph 16]
  have run: "pegoda_transceive pegoda_card_usb (replicate 256 0) (replicate 256 0) ?ph PEGODA_CMD_PICC_READ [7] 1
      (replicate 16 0) 16 ?dev = Some (0, replicate 16 7, 16, ?ph\<lparr>pg_seq := 0\<rparr>, ?dev\<lparr>pd_out := []\<rparr>)"
    by simp
  have "faithful_usb pegoda_card_usb"
    by (auto simp: faithful_usb_def pegoda_card_usb_def split: list.splits)
  moreover have wrap: "(256 :: u8) = 0" "replicate 16 7 \<noteq> (replicate 16 0 :: bytes)" by simp_all
  ultimately have "\<exists>d0 reply. reply_received pegoda_card_usb 0 d0 reply (?dev\<lparr>pd_out := []\<rparr>)"
    using pegoda_transceive_matches [OF _ _ _ run] by (auto simp: wrap(1))
  with run show ?thesis by fastforce
qed

text \<open>
  A read whose command could not even be sent returns zero, with the buffer as it was: the result of the
  transfer is not looked at, and the length keeps its initial value.
\<close>

lemma read16_ignores_errors:
  assumes "\<And>out. \<exists>d'. usb_bulk_write u 0x02 out d = (- 5, d')" "length (pl_txbuf l) = 256"
  shows "\<exists>ph' d'. pegoda_read16 u l ph page rx d = Some (0, rx, ph', d')"
proof -
  obtain d' where "usb_bulk_write u 0x02 ([pg_seq ph + 1, PEGODA_CMD_PICC_READ] @ be16 1 @ [page]) d = (- 5, d')"
    using assms(1) by blast
  with assms(2) show ?thesis
    by (simp add: pegoda_read16_def pegoda_transceive_def Let_def get_slice_def put_slice_def be16_def)
qed

end
