(* ===== verification/Send_Script.thy ===== *)
theory Send_Script
  imports Tool_Session Reader_Cm5121
begin

text \<open>
  The script player (\<open>utils/send_script.c\<close>): it sends the commands of a script file over T=CL, asks before each
  of them and after an answer that does not end in \<open>90 00\<close>.

  The script and the standard input are the bytes that are left in them.  Characters are signed, so codes from
  128 on are negative.  What is written to the standard output for each command is kept: the text of the dump
  and the number of bytes.
\<close>

section \<open>Model\<close>

fun send_hexdump_from :: "bytes \<Rightarrow> nat \<Rightarrow> bytes \<Rightarrow> nat \<Rightarrow> bytes option" where
  "send_hexdump_from string i d 0 = Some string"
| "send_hexdump_from string i d (Suc llen) =
     (if i \<ge> 2048 - 4 then Some string
      else do {
        b \<leftarrow> get_at d 0;
        string \<leftarrow> put_slice string i ([0x20] @ hex2 b @ [0]);
        send_hexdump_from string (i + 3) (tl d) llen })"

text \<open>The loop is followed by a return, so the characters that the rest of the function adds never appear.\<close>

definition send_hexdump :: "bytes \<Rightarrow> bytes \<Rightarrow> u32 \<Rightarrow> bytes option" where
  "send_hexdump string data len = do {
     string \<leftarrow> put_at string 0 0;
     send_hexdump_from string 0 data (unat len) }"

datatype script_line =
  Sent bytes int
| Received bytes int

text \<open>
  The static variables \<open>doit\<close> and \<open>string\<close>, the protocol handle, the input that is left, and the commands that
  went to the card so far with the lines printed.
\<close>

record send_state =
  ss_doit :: bool
  ss_string :: bytes
  ss_stdin :: bytes
  ss_ph :: rfid_protocol_handle
  ss_lines :: "script_line list"
  ss_sent :: "bytes list"

text \<open>\<open>getc\<close>, and the loop that drops the rest of a line; the end of the file is \<open>-1\<close>.\<close>

definition getc :: "bytes \<Rightarrow> int \<times> bytes" where
  "getc inp = (case inp of [] \<Rightarrow> (-1, []) | c # cs \<Rightarrow> (uint c, cs))"

fun skip_line :: "bytes \<Rightarrow> bytes" where
  "skip_line [] = []"
| "skip_line (c # cs) = (if c = 0x0a then cs else skip_line cs)"

definition read_answer :: "bytes \<Rightarrow> int \<times> bytes" where
  "read_answer inp =
     (let (answer, inp) = getc inp in (answer, if answer \<noteq> 0x0a then skip_line inp else inp))"

datatype confirm = Execute | Execute_All | Skip | Quit

definition confirm_command :: "int \<Rightarrow> confirm" where
  "confirm_command answer =
     (if answer \<in> {0x79, 0x59, 0x0a} then Execute
      else if answer \<in> {0x6e, 0x4e} then Skip
      else if answer \<in> {0x61, 0x41} then Execute_All
      else if answer \<in> {0x65, 0x45} then Quit else Skip)"

definition ignore_status :: "int \<Rightarrow> bool" where
  "ignore_status answer \<longleftrightarrow> answer \<in> {0x69, 0x49, 0x0a}"

text \<open>The question before a command, if it is asked.\<close>

definition ask_command :: "bytes \<Rightarrow> u32 \<Rightarrow> send_state \<Rightarrow> (confirm \<times> send_state) option" where
  "ask_command sbuf slen st =
     (if ss_doit st then Some (Execute, st)
      else do {
        string \<leftarrow> send_hexdump (ss_string st) sbuf slen;
        let (answer, inp) = read_answer (ss_stdin st);
        Some (confirm_command answer,
              st\<lparr>ss_string := string, ss_stdin := inp, ss_doit := confirm_command answer = Execute_All\<rparr>) })"

text \<open>The status word: the last two bytes of the answer.\<close>

definition status_ok :: "bytes \<Rightarrow> u32 \<Rightarrow> bool option" where
  "status_ok rbuf rlen =
     (if sint rlen < 2 then Some False
      else do {
        sw1 \<leftarrow> get_at rbuf (unat rlen - 2);
        if sw1 \<noteq> 0x90 then Some False
        else do { sw2 \<leftarrow> get_at rbuf (unat rlen - 1); Some (sw2 = 0) } })"

definition check_status :: "bytes \<Rightarrow> u32 \<Rightarrow> send_state \<Rightarrow> (int \<times> send_state) option" where
  "check_status rbuf rlen st = do {
     ok \<leftarrow> status_ok rbuf rlen;
     if ok then Some (sint rlen, st)
     else do {
       let (answer, inp) = read_answer (ss_stdin st);
       Some (if ignore_status answer then sint rlen else -1, st\<lparr>ss_stdin := inp\<rparr>) } }"

definition send_command ::
    "'w rfid_reader_handle \<Rightarrow> proto_locals \<Rightarrow> rfid_layer2_handle \<Rightarrow> bytes \<Rightarrow> u32 \<Rightarrow> bytes \<Rightarrow> u32
       \<Rightarrow> send_state \<Rightarrow> 'w \<Rightarrow> (int \<times> send_state \<times> 'w) option" where
  "send_command rh l l2h sbuf slen rbuf rlen st w = do {
     (c, st) \<leftarrow> ask_command sbuf slen st;
     if c = Skip then Some (0, st, w)
     else if c = Quit then Some (-1, st, w)
     else do {
       string \<leftarrow> send_hexdump (ss_string st) sbuf slen;
       cmd \<leftarrow> get_slice sbuf 0 (unat slen);
       (rv, rbuf, rlen, ph, w) \<leftarrow> rfid_protocol_transceive rh l l2h (ss_ph st) sbuf slen rbuf rlen w;
       let st = st\<lparr>ss_ph := ph, ss_string := string, ss_sent := ss_sent st @ [cmd],
                    ss_lines := ss_lines st @ [Sent (c_string string) (sint slen)]\<rparr>;
       if rv < 0 then Some (rv, st, w)
       else do {
         string \<leftarrow> send_hexdump string rbuf rlen;
         let st = st\<lparr>ss_string := string, ss_lines := ss_lines st @ [Received (c_string string) (sint rlen)]\<rparr>;
         (ret, st) \<leftarrow> check_status rbuf rlen st;
         Some (ret, st, w) } } }"

text \<open>
  \<open>fgets\<close> with a buffer of 1024 bytes: up to the end of the line, or 1023 bytes of it.  Nothing is left of
  a file at its end.
\<close>

fun fgets_from :: "nat \<Rightarrow> bytes \<Rightarrow> bytes \<times> bytes" where
  "fgets_from 0 fh = ([], fh)"
| "fgets_from (Suc n) [] = ([], [])"
| "fgets_from (Suc n) (c # cs) =
     (if c = 0x0a then ([c], cs) else let (line, rest) = fgets_from n cs in (c # line, rest))"

definition nextline :: "bool \<Rightarrow> bytes \<Rightarrow> bytes option \<times> bytes" where
  "nextline malloc_ok fh =
     (if \<not> malloc_ok \<or> fh = [] then (None, fh)
      else let (line, rest) = fgets_from 1023 fh in (Some line, rest))"

definition unhexchar :: "u8 \<Rightarrow> int" where
  "unhexchar c =
     (if sint c - 0x30 \<ge> 0 \<and> sint c - 0x30 < 10 then sint c - 0x30
      else if sint c - 0x61 \<ge> 0 \<and> sint c - 0x61 < 6 then 10 + sint c - 0x61
      else if sint c - 0x41 \<ge> 0 \<and> sint c - 0x41 < 6 then 10 + sint c - 0x41
      else -1)"

definition isxdigit :: "u8 \<Rightarrow> bool" where
  "isxdigit c \<longleftrightarrow> (0x30 \<le> c \<and> c \<le> 0x39) \<or> (0x61 \<le> c \<and> c \<le> 0x66) \<or> (0x41 \<le> c \<and> c \<le> 0x46)"

text \<open>
  The second character of a pair is not tested: when it is no digit, it counts as \<open>-1\<close>.  \<open>line\<close> are the
  characters from \<open>pos\<close> on.
\<close>

fun make_command_from :: "bytes \<Rightarrow> bytes \<Rightarrow> nat \<Rightarrow> (bytes \<times> nat) option" where
  "make_command_from [] buffer blen = Some (buffer, blen)"
| "make_command_from [c] buffer blen = Some (buffer, blen)"
| "make_command_from (c # c' # line) buffer blen =
     (if \<not> isxdigit c then make_command_from (c' # line) buffer blen
      else do {
        buffer \<leftarrow> put_at buffer blen (word_of_int (unhexchar c * 16 + unhexchar c'));
        make_command_from line buffer (blen + 1) })"

text \<open>\<open>line\<close> is the text up to its terminating zero; \<open>buffer\<close> is what \<open>malloc\<close> returned, if anything.\<close>

definition make_command :: "bytes \<Rightarrow> bytes option \<Rightarrow> (bool \<times> bytes \<times> nat) option" where
  "make_command line buffer =
     (case buffer of
        None \<Rightarrow> Some (False, [], 0)
      | Some buffer \<Rightarrow> do {
          (buffer, blen) \<leftarrow> make_command_from line (take (length line) buffer) 0;
          Some (True, buffer, blen) })"

definition is_comment :: "bytes \<Rightarrow> bool" where
  "is_comment line \<longleftrightarrow> take 2 line = [0x2f, 0x2f]"

text \<open>
  The loop over the lines.  \<open>heap\<close> is the content of fresh memory, absent when there is none left; \<open>retval\<close>
  keeps its value over comments.
\<close>

definition script_line_step ::
    "'w rfid_reader_handle \<Rightarrow> proto_locals \<Rightarrow> bytes option \<Rightarrow> rfid_layer2_handle \<Rightarrow> bytes \<Rightarrow> int
       \<Rightarrow> send_state \<Rightarrow> 'w \<Rightarrow> (int \<times> send_state \<times> 'w) option" where
  "script_line_step rh l heap l2h line retval st w =
     (if is_comment line then Some (retval, st, w)
      else do {
        (made, sbuf, slen) \<leftarrow> make_command line heap;
        if made then send_command rh l l2h sbuf (of_nat slen) (replicate 1024 0) 1024 st w
        else Some (retval, st, w) })"

function script_loop ::
    "'w rfid_reader_handle \<Rightarrow> proto_locals \<Rightarrow> bool \<Rightarrow> bytes option \<Rightarrow> rfid_layer2_handle \<Rightarrow> bytes \<Rightarrow> int
       \<Rightarrow> send_state \<Rightarrow> 'w \<Rightarrow> (send_state \<times> 'w) option" where
  "script_loop rh l malloc_ok heap l2h fh retval st w =
     (case nextline malloc_ok fh of
        (None, _) \<Rightarrow> Some (st, w)
      | (Some line, fh') \<Rightarrow> do {
          (retval, st, w) \<leftarrow> script_line_step rh l heap l2h (c_string line) retval st w;
          if retval < 0 then Some (st, w)
          else script_loop rh l malloc_ok heap l2h fh' retval st w })"
  by pat_completeness auto

lemma fgets_from_append: "fgets_from n fh = (line, rest) \<Longrightarrow> fh = line @ rest"
  by (induction n fh arbitrary: line rest rule: fgets_from.induct) (auto split: if_splits prod.splits)

lemma nextline_rest:
  assumes "nextline m fh = (Some line, rest)"
  shows "fh = line @ rest \<and> line \<noteq> []"
proof -
  have "fh \<noteq> []" and f: "fgets_from 1023 fh = (line, rest)"
    using assms by (auto simp: nextline_def split: if_splits prod.splits)
  moreover have "fst (fgets_from (Suc n) fh) \<noteq> []" for n
    using \<open>fh \<noteq> []\<close> by (cases fh) (auto split: prod.splits)
  ultimately show ?thesis
    using fgets_from_append [OF f] by (metis fst_conv numeral_eq_Suc)
qed

termination script_loop
  by (relation "measure (\<lambda>(rh, l, m, heap, l2h, fh, retval, st, w). length fh)")
    (auto dest: nextline_rest [OF sym])

text \<open>
  \<open>init\<close> and \<open>l3\<close>, and \<open>main\<close>: the exit status, the final state if the script was played, and the world.
  \<open>script\<close> is the content of the file, absent when it cannot be opened; \<open>close\<close> is the reader's function.
\<close>

definition script_init ::
    "('w \<Rightarrow> ('w rfid_reader_handle option \<times> 'w) option) option list \<Rightarrow> scan_locals \<Rightarrow> randctx \<Rightarrow> 'w
       \<Rightarrow> (int \<times> 'w rfid_reader_handle option \<times> rfid_layer2_handle option \<times> randctx \<times> 'w) option" where
  "script_init rfid_readers l r w = do {
     (rh, w) \<leftarrow> rfid_reader_open rfid_readers RFID_READER_CM5121 w;
     (case rh of
        None \<Rightarrow> Some (-1, None, None, r, w)
      | Some rh \<Rightarrow> do {
          (l2h, r, w) \<leftarrow> rfid_layer2_init rh RFID_LAYER2_ISO14443A (sl_malloc l) (sl_h0 l) r w;
          (case l2h of
             None \<Rightarrow> Some (-1, Some rh, None, r, w)
           | Some l2h \<Rightarrow> do {
               (rc, l2h, r, w) \<leftarrow> rfid_layer2_open rh (sl_l2 l) l2h r w;
               Some (if rc < 0 then rc else 0, Some rh, Some l2h, r, w) }) }) }"

definition script_l3 ::
    "'w rfid_reader_handle \<Rightarrow> scan_locals \<Rightarrow> rfid_layer2_handle \<Rightarrow> u32 \<Rightarrow> 'w
       \<Rightarrow> (int \<times> rfid_layer2_handle \<times> rfid_protocol_handle option \<times> 'w) option" where
  "script_l3 rh l l2h protocol w = do {
     ph \<leftarrow> rfid_protocol_init rh (sl_proto l) l2h (sl_malloc l) protocol;
     (case ph of
        None \<Rightarrow> Some (-1, l2h, None, w)
      | Some ph \<Rightarrow> do {
          (rc, l2h, ph, w) \<leftarrow> rfid_protocol_open rh (sl_proto l) l2h ph w;
          Some (if rc < 0 then -1 else 0, l2h, Some ph, w) }) }"

definition script_main ::
    "('w \<Rightarrow> ('w rfid_reader_handle option \<times> 'w) option) option list
       \<Rightarrow> ('w rfid_reader_handle \<Rightarrow> 'w \<Rightarrow> (unit \<times> 'w) option) \<Rightarrow> scan_locals \<Rightarrow> bytes option \<Rightarrow> nat
       \<Rightarrow> bytes option \<Rightarrow> bytes \<Rightarrow> randctx \<Rightarrow> 'w \<Rightarrow> (int \<times> send_state option \<times> randctx \<times> 'w) option" where
  "script_main rfid_readers close l heap argc script stdin r w =
     (if argc \<noteq> 2 then Some (1, None, r, w)
      else case script of
        None \<Rightarrow> Some (1, None, r, w)
      | Some fh \<Rightarrow> do {
          (rc, rh, l2h, r, w) \<leftarrow> script_init rfid_readers l r w;
          if rc < 0 then Some (1, None, r, w)
          else do {
            rh \<leftarrow> rh;
            l2h \<leftarrow> l2h;
            (rc, l2h, ph, w) \<leftarrow> script_l3 rh l l2h PROTO_TCL w;
            if rc < 0 then Some (1, None, r, w)
            else do {
              ph \<leftarrow> ph;
              let st = \<lparr>ss_doit = False, ss_string = replicate 2048 0, ss_stdin = stdin, ss_ph = ph,
                        ss_lines = [], ss_sent = []\<rparr>;
              (st, w) \<leftarrow> script_loop rh (sl_proto l) (sl_malloc l) heap l2h fh 0 st w;
              (_, w) \<leftarrow> close rh w;
              Some (0, Some st, r, w) } } })"

section \<open>Lines into commands\<close>

text \<open>The bytes that the pairs of a line stand for, the wrong ones included.\<close>

fun line_bytes :: "bytes \<Rightarrow> bytes" where
  "line_bytes [] = []"
| "line_bytes [c] = []"
| "line_bytes (c # c' # line) =
     (if \<not> isxdigit c then line_bytes (c' # line)
      else word_of_int (unhexchar c * 16 + unhexchar c') # line_bytes line)"

lemma line_bytes_length: "2 * length (line_bytes line) \<le> length line"
  by (induction line rule: line_bytes.induct) auto

lemma make_command_from_run:
  "blen + length (line_bytes line) \<le> length buffer \<Longrightarrow>
     make_command_from line buffer blen =
       Some (take blen buffer @ line_bytes line @ drop (blen + length (line_bytes line)) buffer,
             blen + length (line_bytes line))"
proof (induction line buffer blen rule: make_command_from.induct)
  case (3 c c' line buffer blen)
  let ?b = "word_of_int (unhexchar c * 16 + unhexchar c')"
  show ?case
  proof (cases "isxdigit c")
    case True
    then have fit: "blen < length buffer" using 3(3) by simp
    have "take (Suc blen) (buffer[blen := ?b]) = take blen buffer @ [?b]"
      using fit by (simp add: take_Suc_conv_app_nth)
    with True fit 3(2) 3(3) show ?thesis by (simp add: put_at_def)
  qed (use 3 in simp)
qed simp_all

lemma make_command_run:
  assumes "length line \<le> length heap"
  shows "\<exists>buffer. make_command line (Some heap) = Some (True, buffer, length (line_bytes line)) \<and>
     length buffer = length line \<and> take (length (line_bytes line)) buffer = line_bytes line"
proof -
  have "length (line_bytes line) \<le> length (take (length line) heap)"
    using line_bytes_length [of line] assms by simp
  then show ?thesis
    using assms line_bytes_length [of line] by (simp add: make_command_def make_command_from_run [of 0, simplified])
qed

lemma hex_digit_char:
  assumes "n < 16"
  shows "isxdigit (hex_digit n) \<and> unhexchar (hex_digit n) = uint n"
proof -
  have "\<forall>n \<in> set (map of_nat [0..<16]). isxdigit (hex_digit n) \<and> unhexchar (hex_digit n) = uint (n :: u8)"
    by code_simp
  moreover have "n \<in> set (map of_nat [0..<16])"
    using assms by (auto simp: word_less_nat_alt image_iff intro!: bexI [of _ "unat n"])
  ultimately show ?thesis by blast
qed

lemma unhex_byte: "word_of_int (uint (drop_bit 4 b) * 16 + uint (b AND 0x0f)) = (b :: u8)"
proof -
  have "word_of_int (uint (drop_bit 4 b) * 16 + uint (b AND 0x0f)) = push_bit 4 (drop_bit 4 b) + (b AND 0x0f)"
    by (simp add: push_bit_eq_mult)
  also have "\<dots> = push_bit 4 (drop_bit 4 b) OR (b AND 0x0f)"
    by (rule disjunctive_add) (auto simp: bit_simps bit_nibble)
  finally show ?thesis by (simp only: nibbles_join)
qed

lemma line_bytes_hex2: "line_bytes (hex2 b @ line) = b # line_bytes line"
proof -
  have d: "isxdigit (hex_digit (drop_bit 4 b))" "unhexchar (hex_digit (drop_bit 4 b)) = uint (drop_bit 4 b)"
      "unhexchar (hex_digit (b AND 0x0f)) = uint (b AND 0x0f)"
    using hex_digit_char nibbles [of b] by (simp_all add: word_less_nat_alt)
  show ?thesis by (simp only: hex2_def append.simps line_bytes.simps d unhex_byte simp_thms if_False)
qed

lemma line_bytes_dump: "line_bytes (hex_dump_text bs @ [0x0a]) = bs"
proof (induction bs)
  case Nil
  then show ?case by (simp add: hex_dump_text_def)
next
  case (Cons b bs)
  have "line_bytes (0x20 # hex2 b @ line) = line_bytes (hex2 b @ line)" for line
    by (simp add: hex2_def isxdigit_def)
  then show ?case using Cons by (simp add: hex_dump_text_def line_bytes_hex2)
qed

text \<open>
  The text of a hexadecimal dump, read as a line of a script, is turned back into the bytes it was made
  from, without leaving the buffer, which is as long as the line.
\<close>

theorem make_command_dump:
  assumes "3 * length bs + 1 \<le> length heap"
  shows "\<exists>buffer. make_command (hex_dump_text bs @ [0x0a]) (Some heap) = Some (True, buffer, length bs) \<and>
           length buffer = 3 * length bs + 1 \<and> take (length bs) buffer = bs"
  using make_command_run [of "hex_dump_text bs @ [0x0a]" heap] assms by (simp add: line_bytes_dump)

theorem make_command_dump_witness:
  "\<exists>buffer. make_command (hex_dump_text [0x00, 0xa4, 0x04] @ [0x0a]) (Some (replicate 10 7)) =
     Some (True, buffer, 3) \<and> take 3 buffer = [0x00, 0xa4, 0x04]"
  using make_command_dump [of "[0x00, 0xa4, 0x04]" "replicate 10 7"] by (auto simp: numeral_3_eq_3)

text \<open>A digit without a second one is not left out: with the end of the line it makes a byte of its own.\<close>

lemma odd_digit: "line_bytes [0x61, 0x62, 0x63, 0x0a] = [0xab, 0xbf]"
  by code_simp

section \<open>What reaches the card\<close>

text \<open>The commands of a script: its lines that are no comments, in order, and the bytes they stand for.\<close>

function script_lines :: "bytes \<Rightarrow> bytes list" where
  "script_lines fh =
     (case nextline True fh of
        (None, _) \<Rightarrow> []
      | (Some line, fh') \<Rightarrow>
          (if is_comment (c_string line) then [] else [c_string line]) @ script_lines fh')"
  by pat_completeness auto

termination script_lines
  by (relation "measure length") (auto dest: nextline_rest [OF sym])

definition script_commands :: "bytes \<Rightarrow> bytes list" where
  "script_commands fh = map line_bytes (script_lines fh)"

lemma script_commands_line:
  "nextline True fh = (Some line, rest) \<Longrightarrow> script_commands fh =
     (if is_comment (c_string line) then [] else [line_bytes (c_string line)]) @ script_commands rest"
  by (simp add: script_commands_def script_lines.simps [of fh])

declare script_lines.simps [simp del] script_loop.simps [simp del]

lemma ask_command_sent: "ask_command sbuf slen st = Some (c, st') \<Longrightarrow> ss_sent st' = ss_sent st"
  by (cases "read_answer (ss_stdin st)") (auto simp: ask_command_def run_simps split: if_splits)

lemma check_status_sent: "check_status rbuf rlen st = Some (ret, st') \<Longrightarrow> ss_sent st' = ss_sent st"
  by (cases "read_answer (ss_stdin st)") (auto simp: check_status_def run_simps split: if_splits)

lemma send_command_sent:
  assumes "send_command rh l l2h sbuf slen rbuf rlen st w = Some (ret, st', w')"
  shows "ss_sent st' = ss_sent st \<or> ss_sent st' = ss_sent st @ [take (unat slen) sbuf]"
  using assms
  by (auto simp: send_command_def run_simps Let_def get_slice_def split: if_splits
      dest!: ask_command_sent check_status_sent)

lemma line_step_sent:
  assumes "script_line_step rh l heap l2h line retval st w = Some (ret, st', w')"
    "\<forall>h. heap = Some h \<longrightarrow> length line \<le> length h" "length line \<le> 1023"
  shows "ss_sent st' = ss_sent st \<or> \<not> is_comment line \<and> ss_sent st' = ss_sent st @ [line_bytes line]"
proof (cases "is_comment line \<or> heap = None")
  case True
  then show ?thesis using assms(1) by (auto simp: script_line_step_def make_command_def split: if_splits)
next
  case False
  then obtain h where h: "heap = Some h" by auto
  obtain buffer where mk: "make_command line (Some h) = Some (True, buffer, length (line_bytes line))"
      "take (length (line_bytes line)) buffer = line_bytes line"
    using make_command_run assms(2) h by blast
  have "unat (of_nat (length (line_bytes line)) :: u32) = length (line_bytes line)"
    using line_bytes_length [of line] assms(3) by (intro unat_of_nat_small) simp
  with assms(1) False h mk show ?thesis
    by (auto simp: script_line_step_def dest!: send_command_sent)
qed

lemma fgets_length: "length (fst (fgets_from n fh)) \<le> n"
  by (induction n fh rule: fgets_from.induct) (auto split: prod.splits)

lemma nextline_length: "nextline m fh = (Some line, rest) \<Longrightarrow> length (c_string line) \<le> 1023"
  using fgets_length [of 1023 fh] length_takeWhile_le [of "\<lambda>c. c \<noteq> 0" line]
  by (auto simp: nextline_def c_string_def split: if_splits prod.splits)

lemma script_loop_sent:
  assumes "\<forall>h. heap = Some h \<longrightarrow> 1023 \<le> length h"
  shows "script_loop rh l m heap l2h fh retval st w = Some (st', w') \<Longrightarrow>
     \<exists>cs. ss_sent st' = ss_sent st @ cs \<and> subseq cs (script_commands fh)"
proof (induction fh arbitrary: retval st w rule: script_lines.induct)
  case (1 fh)
  show ?case
  proof (cases "nextline m fh")
    case (Pair line rest)
    show ?thesis
    proof (cases line)
      case None
      then show ?thesis using 1(2) Pair by (auto simp: script_loop.simps)
    next
      case (Some line')
      then have n: "nextline m fh = (Some line', rest)" "nextline True fh = (Some line', rest)"
        using Pair by (auto simp: nextline_def split: if_splits)
      obtain ret st1 w1 where step: "script_line_step rh l heap l2h (c_string line') retval st w = Some (ret, st1, w1)"
        using 1(2) n(1) by (auto simp: script_loop.simps run_simps)
      note sent = line_step_sent [OF step _ nextline_length [OF n(1)]]
      have rest: "\<exists>cs. ss_sent st' = ss_sent st1 @ cs \<and> subseq cs (script_commands rest)"
        using 1(2) n step 1(1) [OF n(2) [symmetric] refl] by (auto simp: script_loop.simps split: if_splits)
      show ?thesis
        using sent rest assms nextline_length [OF n(1)] unfolding script_commands_line [OF n(2)]
        by (force intro: subseq_Cons')
    qed
  qed
qed

lemma send_hexdump_from_ok:
  "n \<le> length d \<Longrightarrow> length s = 2048 \<Longrightarrow> \<exists>s'. send_hexdump_from s i d n = Some s' \<and> length s' = 2048"
proof (induction s i d n rule: send_hexdump_from.induct)
  case (2 s i d n)
  then show ?case by (cases d) (auto simp: put_slice_def)
qed simp

lemma send_hexdump_ok:
  "unat n \<le> length d \<Longrightarrow> length s = 2048 \<Longrightarrow> \<exists>s'. send_hexdump s d n = Some s' \<and> length s' = 2048"
  using send_hexdump_from_ok [of "unat n" d "s[0 := 0]" 0] by (auto simp: send_hexdump_def put_at_def)

section \<open>Every run ends\<close>

text \<open>
  Whichever of the commands the user lets through, the exchange with the card comes back, with no more bytes
  than the buffer holds when it succeeds.  A card that asks for more time for ever is left out here.
\<close>

fun script_returns ::
    "'w rfid_reader_handle \<Rightarrow> proto_locals \<Rightarrow> rfid_layer2_handle \<Rightarrow> bytes \<Rightarrow> bytes list
       \<Rightarrow> rfid_protocol_handle \<Rightarrow> 'w \<Rightarrow> bool" where
  "script_returns rh l l2h heap [] ph w = True"
| "script_returns rh l l2h heap (line # lines) ph w =
     (script_returns rh l l2h heap lines ph w \<and>
      (case make_command line (Some heap) of
         Some (True, sbuf, slen) \<Rightarrow>
           (case rfid_protocol_transceive rh l l2h ph sbuf (of_nat slen) (replicate 1024 0) 1024 w of
              Some (rv, rbuf, rlen, ph, w) \<Rightarrow> (0 \<le> rv \<longrightarrow> unat rlen \<le> length rbuf) \<and>
                script_returns rh l l2h heap lines ph w
            | None \<Rightarrow> False)
       | _ \<Rightarrow> False))"

lemma ask_command_ends:
  assumes "length (ss_string st) = 2048" "unat slen \<le> length sbuf"
  shows "\<exists>c st'. ask_command sbuf slen st = Some (c, st') \<and> length (ss_string st') = 2048 \<and> ss_ph st' = ss_ph st"
proof -
  obtain s1 where "send_hexdump (ss_string st) sbuf slen = Some s1" "length s1 = 2048"
    using send_hexdump_ok assms by blast
  then show ?thesis using assms(1) by (auto simp: ask_command_def Let_def case_prod_beta)
qed

lemma status_ok_ends:
  assumes "unat n \<le> length rbuf"
  shows "\<exists>b. status_ok rbuf n = Some b"
proof (cases "sint n < 2")
  case False
  have "2 \<le> unat n"
  proof (rule ccontr)
    assume "\<not> 2 \<le> unat n"
    then have "n = 0 \<or> n = 1" by (auto simp: word_unat_eq_iff)
    with False show False by auto
  qed
  with assms have "unat n - 2 < length rbuf" "unat n - 1 < length rbuf" by auto
  with False show ?thesis by (auto simp: status_ok_def get_at_def)
qed (auto simp: status_ok_def)

lemma check_status_ends:
  assumes "unat n \<le> length rbuf"
  shows "\<exists>ret st'. check_status rbuf n st = Some (ret, st') \<and> ss_string st' = ss_string st \<and> ss_ph st' = ss_ph st"
  using status_ok_ends [OF assms] by (auto simp: check_status_def Let_def case_prod_beta)

lemma send_command_ends:
  assumes "length (ss_string st) = 2048" "unat slen \<le> length sbuf"
    and "rfid_protocol_transceive rh l l2h (ss_ph st) sbuf slen rbuf rlen w = Some (rv, rbuf', n, ph, w')"
    and "0 \<le> rv \<Longrightarrow> unat n \<le> length rbuf'"
  shows "\<exists>ret st1 w1. send_command rh l l2h sbuf slen rbuf rlen st w = Some (ret, st1, w1) \<and>
    length (ss_string st1) = 2048 \<and> ((ss_ph st1, w1) = (ss_ph st, w) \<or> (ss_ph st1, w1) = (ph, w'))"
proof -
  obtain c st0 where ask: "ask_command sbuf slen st = Some (c, st0)" "length (ss_string st0) = 2048"
      "ss_ph st0 = ss_ph st"
    using ask_command_ends [OF assms(1,2)] by blast
  obtain s1 where s1: "send_hexdump (ss_string st0) sbuf slen = Some s1" "length s1 = 2048"
    using send_hexdump_ok ask(2) assms(2) by blast
  show ?thesis
  proof (cases "c = Skip \<or> c = Quit \<or> rv < 0")
    case True
    then show ?thesis using ask s1 assms(2,3) by (auto simp: send_command_def get_slice_def)
  next
    case False
    then have fits: "unat n \<le> length rbuf'" using assms(4) by simp
    obtain s2 where s2: "send_hexdump s1 rbuf' n = Some s2" "length s2 = 2048"
      using send_hexdump_ok fits s1(2) by blast
    let ?st = "st0\<lparr>ss_ph := ph, ss_sent := ss_sent st0 @ [take (unat slen) sbuf], ss_string := s2,
      ss_lines := ss_lines st0 @ [Sent (c_string s1) (sint slen)] @ [Received (c_string s2) (sint n)]\<rparr>"
    obtain ret st1 where "check_status rbuf' n ?st = Some (ret, st1)" "ss_string st1 = s2" "ss_ph st1 = ph"
      using check_status_ends [OF fits, of ?st] by auto
    then show ?thesis
      using False ask s1 s2 assms(2,3) by (simp add: send_command_def get_slice_def)
  qed
qed

lemma script_loop_ends:
  assumes "1023 \<le> length heap"
  shows "length (ss_string st) = 2048 \<Longrightarrow> script_returns rh l l2h heap (script_lines fh) (ss_ph st) w \<Longrightarrow>
     \<exists>st' w'. script_loop rh l m (Some heap) l2h fh retval st w = Some (st', w')"
proof (induction fh arbitrary: retval st w rule: script_lines.induct)
  case (1 fh)
  show ?case
  proof (cases "nextline m fh")
    case (Pair line rest)
    show ?thesis
    proof (cases line)
      case None
      then show ?thesis using Pair by (auto simp: script_loop.simps)
    next
      case (Some line')
      then have n: "nextline m fh = (Some line', rest)" "nextline True fh = (Some line', rest)"
        using Pair by (auto simp: nextline_def split: if_splits)
      let ?line = "c_string line'"
      note IH = 1(1) [OF n(2) [symmetric] refl]
      have lines: "script_lines fh = (if is_comment ?line then [] else [?line]) @ script_lines rest"
        using n(2) by (simp add: script_lines.simps [of fh])
      show ?thesis
      proof (cases "is_comment ?line")
        case True
        then show ?thesis
          using IH [OF 1(2), of w retval] 1(3) n(1) lines
          by (simp add: script_loop.simps [of _ _ _ _ _ fh] script_line_step_def)
      next
        case False
        obtain sbuf where mk: "make_command ?line (Some heap) = Some (True, sbuf, length (line_bytes ?line))"
            "length sbuf = length ?line"
          using make_command_run [of ?line heap] nextline_length [OF n(1)] assms by auto
        have "unat (of_nat (length (line_bytes ?line)) :: u32) \<le> length sbuf"
          using line_bytes_length [of ?line] mk(2) nextline_length [OF n(1)]
          by (subst unat_of_nat_small) simp_all
        moreover obtain rv rbuf k ph w1 where x: "rfid_protocol_transceive rh l l2h (ss_ph st) sbuf
              (of_nat (length (line_bytes ?line))) (replicate 1024 0) 1024 w = Some (rv, rbuf, k, ph, w1)"
            "0 \<le> rv \<longrightarrow> unat k \<le> length rbuf"
          and ret: "script_returns rh l l2h heap (script_lines rest) (ss_ph st) w"
            "script_returns rh l l2h heap (script_lines rest) ph w1"
          using 1(3) False mk(1) by (auto simp: lines split: option.splits)
        ultimately obtain r st2 w2 where "send_command rh l l2h sbuf (of_nat (length (line_bytes ?line)))
              (replicate 1024 0) 1024 st w = Some (r, st2, w2)" "length (ss_string st2) = 2048"
            "(ss_ph st2, w2) = (ss_ph st, w) \<or> (ss_ph st2, w2) = (ph, w1)"
          using send_command_ends [OF 1(2) _ x(1)] by blast
        with IH [of st2 w2 r] ret False mk(1) n(1) show ?thesis
          by (auto simp: script_loop.simps [of _ _ _ _ _ fh] script_line_step_def)
      qed
    qed
  qed
qed

text \<open>
  C19: the commands that reach the card are commands of the script, in the order of the script and each at
  most once, whatever the user answers and the card does; and when the card was set up, the exchanges come back
  and the reader can be closed, the program ends, with status zero.
\<close>

theorem script_main_sent:
  fixes w :: 'w
  assumes "1023 \<le> length heap"
  shows "(\<forall>rc st r' w'. script_main readers close l (Some heap) argc (Some fh) stdin r w = Some (rc, Some st, r', w') \<longrightarrow>
            rc = 0 \<and> subseq (ss_sent st) (script_commands fh)) \<and>
         (script_init readers l r w = Some (0, Some rh, Some l2h, r1, w1) \<and>
          script_l3 rh l l2h PROTO_TCL w1 = Some (0, l2h', Some ph, w2) \<and>
          script_returns rh (sl_proto l) l2h' heap (script_lines fh) ph w2 \<and>
          (\<forall>w. \<exists>w'. close rh w = Some ((), w')) \<longrightarrow>
            (\<exists>st w'. script_main readers close l (Some heap) 2 (Some fh) stdin r w = Some (0, Some st, r1, w')))"
proof (intro conjI allI impI, goal_cases)
  case (3)
  let ?st = "\<lparr>ss_doit = False, ss_string = replicate 2048 0, ss_stdin = stdin, ss_ph = ph, ss_lines = [], ss_sent = []\<rparr>"
  have "\<exists>st' w'. script_loop rh (sl_proto l) (sl_malloc l) (Some heap) l2h' fh 0 ?st w2 = Some (st', w')"
    using 3 by (intro script_loop_ends [OF assms]) simp_all
  then obtain st' w' where "script_loop rh (sl_proto l) (sl_malloc l) (Some heap) l2h' fh 0 ?st w2 = Some (st', w')"
    by blast
  moreover obtain w3 where "close rh w' = Some ((), w3)" using 3 by blast
  ultimately show ?case using 3 by (simp add: script_main_def)
next
  case (1 rc st r' w')
  then show ?case by (auto simp: script_main_def run_simps Let_def split: if_splits)
next
  case (2 rc st r' w')
  then obtain rh l2h ph w0 w1 where "script_loop (rh :: 'w rfid_reader_handle) (sl_proto l) (sl_malloc l) (Some heap) l2h fh 0
      \<lparr>ss_doit = False, ss_string = replicate 2048 0, ss_stdin = stdin, ss_ph = ph, ss_lines = [], ss_sent = []\<rparr> w0 =
      Some (st, w1)"
    using that by (auto simp: script_main_def run_simps Let_def split: if_splits)
  with script_loop_sent [of "Some heap"] assms show ?case by fastforce
qed

section \<open>Every command is sent\<close>

text \<open>The card answers every command, the last two bytes being \<open>90 00\<close>.\<close>

fun script_answered ::
    "'w rfid_reader_handle \<Rightarrow> proto_locals \<Rightarrow> rfid_layer2_handle \<Rightarrow> bytes \<Rightarrow> bytes list
       \<Rightarrow> rfid_protocol_handle \<Rightarrow> 'w \<Rightarrow> bool" where
  "script_answered rh l l2h heap [] ph w = True"
| "script_answered rh l l2h heap (line # lines) ph w =
     (case make_command line (Some heap) of
        Some (True, sbuf, slen) \<Rightarrow>
          (case rfid_protocol_transceive rh l l2h ph sbuf (of_nat slen) (replicate 1024 0) 1024 w of
             Some (rv, rbuf, rlen, ph, w) \<Rightarrow> 0 \<le> rv \<and> unat rlen \<le> length rbuf \<and>
               status_ok rbuf rlen = Some True \<and> script_answered rh l l2h heap lines ph w
           | None \<Rightarrow> False)
      | _ \<Rightarrow> False)"

lemma send_command_answered:
  assumes "ss_doit st" "length (ss_string st) = 2048" "unat slen \<le> length sbuf"
    "rfid_protocol_transceive rh l l2h (ss_ph st) sbuf slen rbuf rlen w = Some (rv, rbuf', n, ph, w')"
    "0 \<le> rv" "unat n \<le> length rbuf'" "status_ok rbuf' n = Some True"
  shows "\<exists>ret st'. send_command rh l l2h sbuf slen rbuf rlen st w = Some (ret, st', w') \<and> 0 \<le> ret \<and>
    ss_doit st' \<and> length (ss_string st') = 2048 \<and> ss_ph st' = ph \<and> ss_stdin st' = ss_stdin st \<and>
    ss_sent st' = ss_sent st @ [take (unat slen) sbuf]"
proof -
  obtain s1 where s1: "send_hexdump (ss_string st) sbuf slen = Some s1" "length s1 = 2048"
    using send_hexdump_ok assms(2,3) by blast
  obtain s2 where s2: "send_hexdump s1 rbuf' n = Some s2" "length s2 = 2048"
    using send_hexdump_ok assms(6) s1(2) by blast
  have "0 \<le> sint n" using assms(7) by (auto simp: status_ok_def split: if_splits)
  then show ?thesis
    using assms s1 s2 by (simp add: send_command_def ask_command_def check_status_def get_slice_def)
qed

lemma script_loop_answered:
  assumes "1023 \<le> length heap"
  shows "ss_doit st \<Longrightarrow> length (ss_string st) = 2048 \<Longrightarrow> 0 \<le> retval \<Longrightarrow>
     script_answered rh l l2h heap (script_lines fh) (ss_ph st) w \<Longrightarrow>
     \<exists>st' w'. script_loop rh l True (Some heap) l2h fh retval st w = Some (st', w') \<and>
       ss_sent st' = ss_sent st @ script_commands fh \<and> ss_stdin st' = ss_stdin st"
proof (induction fh arbitrary: retval st w rule: script_lines.induct)
  case (1 fh)
  show ?case
  proof (cases "nextline True fh")
    case (Pair line rest)
    show ?thesis
    proof (cases line)
      case None
      then show ?thesis using Pair by (simp add: script_loop.simps script_commands_def script_lines.simps)
    next
      case (Some line')
      then have n: "nextline True fh = (Some line', rest)" using Pair by simp
      let ?line = "c_string line'"
      note IH = 1(1) [OF n [symmetric] refl]
      have lines: "script_lines fh = (if is_comment ?line then [] else [?line]) @ script_lines rest"
        using n by (simp add: script_lines.simps [of fh])
      show ?thesis
      proof (cases "is_comment ?line")
        case True
        then show ?thesis
          using IH [OF 1(2-4)] 1(4,5) n lines
          by (simp add: script_loop.simps [of _ _ _ _ _ fh] script_line_step_def script_commands_line)
      next
        case False
        obtain sbuf where mk: "make_command ?line (Some heap) = Some (True, sbuf, length (line_bytes ?line))"
            "length sbuf = length ?line" "take (length (line_bytes ?line)) sbuf = line_bytes ?line"
          using make_command_run [of ?line heap] nextline_length [OF n] assms by auto
        have len: "unat (of_nat (length (line_bytes ?line)) :: u32) = length (line_bytes ?line)"
          using line_bytes_length [of ?line] nextline_length [OF n] by (intro unat_of_nat_small) simp
        obtain rv rbuf m ph w1 where x: "rfid_protocol_transceive rh l l2h (ss_ph st) sbuf
              (of_nat (length (line_bytes ?line))) (replicate 1024 0) 1024 w = Some (rv, rbuf, m, ph, w1)"
            "0 \<le> rv" "unat m \<le> length rbuf" "status_ok rbuf m = Some True"
          and ans: "script_answered rh l l2h heap (script_lines rest) ph w1"
          using 1(5) False mk(1) by (auto simp: lines split: option.splits)
        have "unat (of_nat (length (line_bytes ?line)) :: u32) \<le> length sbuf"
          using line_bytes_length [of ?line] mk(2) len by simp
        from send_command_answered [OF 1(2,3) this x] obtain ret st1 where
          "send_command rh l l2h sbuf (of_nat (length (line_bytes ?line))) (replicate 1024 0) 1024 st w =
             Some (ret, st1, w1)" "0 \<le> ret" "ss_doit st1" "length (ss_string st1) = 2048" "ss_ph st1 = ph"
          "ss_stdin st1 = ss_stdin st" "ss_sent st1 = ss_sent st @ [line_bytes ?line]"
          using mk(3) len by auto
        with IH [of st1 ret w1] ans False mk(1) n show ?thesis
          by (auto simp: script_loop.simps [of _ _ _ _ _ fh] script_line_step_def script_commands_line)
      qed
    qed
  qed
qed

text \<open>
  C8: once the user has asked for all commands to be executed, and when the card answers each of them with
  success, every command of the script is sent, in order, without another question, and the loop ends.
\<close>

theorem script_sends_all:
  assumes "1023 \<le> length heap" "ss_doit st" "length (ss_string st) = 2048"
    "script_answered rh l l2h heap (script_lines fh) (ss_ph st) w"
  shows "\<exists>st' w'. script_loop rh l True (Some heap) l2h fh 0 st w = Some (st', w') \<and>
    ss_sent st' = ss_sent st @ script_commands fh \<and> ss_stdin st' = ss_stdin st"
  using assms by (intro script_loop_answered) auto

text \<open>A reader whose card answers every block with \<open>90 00\<close>, for the examples.\<close>

definition ok_reader_rh :: "unit rfid_reader_handle" where
  "ok_reader_rh = \<lparr>rh_reader = (rfid_reader_cm5121 (\<lambda>_ _ w. (0, [0, 0], w)))\<lparr>
     rdr_transceive := (\<lambda>ft tx n rx m timeout flags w.
       Some (0, [tx ! 0, 0x90, 0x00] @ drop 3 rx, 3, w))\<rparr>,
     rh_ah = \<lparr>ah_fc = 13560000, ah_mtu = 64, ah_mru = 64\<rparr>\<rparr>"

definition ok_script :: bytes where
  "ok_script = [0x30, 0x30, 0x61, 0x34, 0x0a, 0x2f, 0x2f, 0x0a, 0x38, 0x34, 0x0a]"

lemma ok_script_lines: "script_lines ok_script = [[0x30, 0x30, 0x61, 0x34, 0x0a], [0x38, 0x34, 0x0a]]"
  by code_simp

definition ok_state :: send_state where
  "ok_state = \<lparr>ss_doit = True, ss_string = replicate 2048 0, ss_stdin = [], ss_ph = sample_ph, ss_lines = [],
     ss_sent = []\<rparr>"

theorem script_sends_all_witness:
  "\<exists>st' w'. script_loop ok_reader_rh sample_locals True (Some (replicate 1023 0)) sample_l2h ok_script 0 ok_state ()
     = Some (st', w') \<and> ss_sent st' = [[0x00, 0xa4], [0x84]]"
proof -
  have "script_answered ok_reader_rh sample_locals sample_l2h (replicate 1023 0)
      [[0x30, 0x30, 0x61, 0x34, 0x0a], [0x38, 0x34, 0x0a]] sample_ph ()"
    by code_simp
  then have "script_answered ok_reader_rh sample_locals sample_l2h (replicate 1023 0) (script_lines ok_script)
      (ss_ph ok_state) ()"
    by (simp add: ok_script_lines ok_state_def)
  moreover have "map line_bytes [[0x30, 0x30, 0x61, 0x34, 0x0a], [0x38, 0x34, 0x0a]] = [[0x00, 0xa4], [0x84]]"
    by code_simp
  moreover have "ss_doit ok_state" "length (ss_string ok_state) = 2048" "ss_sent ok_state = []"
    by (simp_all add: ok_state_def)
  ultimately show ?thesis
    using script_sends_all [of "replicate 1023 0" ok_state ok_reader_rh sample_locals sample_l2h ok_script "()"]
    by (auto simp: script_commands_def ok_script_lines)
qed

definition tcl_reader_rh :: "unit rfid_reader_handle" where
  "tcl_reader_rh = \<lparr>rh_reader = (rh_reader ok_reader_rh)\<lparr>
     rdr_init := (\<lambda>_ w. Some (0, w)), rdr_transceive_sf := (\<lambda>_ w. Some (0, [4, 0], w)),
     rdr_transceive_acf := (\<lambda>acf w. Some (0, acf, ISO14443A_BITOFCOL_NONE, w)),
     rdr_transceive := (\<lambda>ft tx n rx m timeout flags w.
       if tx ! 0 = 0x93 then Some (0, 0x20 # drop 1 rx, 1, w)
       else if tx ! 0 = 0xe0 then Some (0, [5, 0x72, 0x80, 0x40, 0x02] @ drop 5 rx, 5, w)
       else Some (0, [tx ! 0, 0x90, 0x00] @ drop 3 rx, 3, w))\<rparr>,
     rh_ah = \<lparr>ah_fc = 13560000, ah_mtu = 64, ah_mru = 64\<rparr>\<rparr>"

definition tcl_scan_locals :: scan_locals where
  "tcl_scan_locals = \<lparr>sl_malloc = True, sl_h0 = sample_l2h, sl_l2 = \<lparr>lo_b = \<lparr>lb_atqb = [], lb_rx_buf = [],
     lb_buf = [], lb_buf_len_addr = 0\<rparr>, lo_acf = [], lo_rx = []\<rparr>, sl_proto = sample_locals\<rparr>"

definition tcl_l2h0 :: rfid_layer2_handle where
  "tcl_l2h0 = \<lparr>l2_id = RFID_LAYER2_ISO14443A, l2_uid = replicate 10 0, l2_uid_len = 0, l2_proto_supported = 0,
     l2_flags = 0, l2_a = \<lparr>a_state = ISO14443A_STATE_NONE, a_level = ISO14443A_LEVEL_NONE, a_tcl_capable = 0,
       a_atqa = [0, 0], a_sak = 0\<rparr>, l2_b = l2_b sample_l2h, l2_i = l2_i sample_l2h\<rparr>"

definition tcl_l2h1 :: rfid_layer2_handle where
  "tcl_l2h1 = (case rfid_layer2_open tcl_reader_rh (sl_l2 tcl_scan_locals) tcl_l2h0 randctx_init () of
     Some (_, h, _) \<Rightarrow> h)"

lemma tcl_open_run:
  "rfid_layer2_open tcl_reader_rh (sl_l2 tcl_scan_locals) tcl_l2h0 r () = Some (0, tcl_l2h1, r, ())"
  by code_simp

definition tcl_ph1 :: rfid_protocol_handle where
  "tcl_ph1 = (case script_l3 tcl_reader_rh tcl_scan_locals tcl_l2h1 PROTO_TCL () of
     Some (_, _, Some ph, _) \<Rightarrow> ph)"

definition tcl_st1 :: send_state where
  "tcl_st1 = \<lparr>ss_doit = False, ss_string = replicate 2048 0, ss_stdin = [0x61, 0x0a], ss_ph = tcl_ph1,
     ss_lines = [], ss_sent = []\<rparr>"

lemma tcl_l3_run:
  "script_l3 tcl_reader_rh tcl_scan_locals tcl_l2h1 PROTO_TCL () = Some (0, tcl_l2h1, Some tcl_ph1, ())"
  by code_simp

lemma tcl_loop_run:
  "map_option (\<lambda>(st, w). ss_sent st)
     (script_loop tcl_reader_rh sample_locals True (Some (replicate 1023 0)) tcl_l2h1 ok_script 0 tcl_st1 ()) =
   Some [[0x00, 0xa4], [0x84]]"
  by code_simp

lemma tcl_init_run:
  "\<exists>r'. script_init [Some (\<lambda>w. Some (Some tcl_reader_rh, w))] tcl_scan_locals r () =
     Some (0, Some tcl_reader_rh, Some tcl_l2h1, r', ())"
proof -
  have "\<exists>r'. rfid_layer2_init tcl_reader_rh RFID_LAYER2_ISO14443A True sample_l2h r () = Some (Some tcl_l2h0, r', ())"
    by (simp add: rfid_layer2_init_def iso14443a_init_def tcl_reader_rh_def tcl_l2h0_def Let_def word_le_def)
  then show ?thesis
    using tcl_open_run
    by (auto simp: script_init_def rfid_reader_open_def tcl_scan_locals_def [THEN arg_cong [where f = sl_malloc]]
        tcl_scan_locals_def [THEN arg_cong [where f = sl_h0]])
qed

lemma tcl_returns:
  "script_returns tcl_reader_rh sample_locals tcl_l2h1 (replicate 1023 0)
     [[0x30, 0x30, 0x61, 0x34, 0x0a], [0x38, 0x34, 0x0a]] tcl_ph1 ()"
  by code_simp

theorem script_main_sent_witness:
  "\<exists>st r' w'. script_main [Some (\<lambda>w. Some (Some tcl_reader_rh, w))] (\<lambda>_ w. Some ((), w)) tcl_scan_locals
      (Some (replicate 1023 0)) 2 (Some ok_script) [0x61, 0x0a] randctx_init () = Some (0, Some st, r', w') \<and>
    ss_sent st = [[0x00, 0xa4], [0x84]] \<and> subseq (ss_sent st) (script_commands ok_script)"
proof -
  let ?run = "script_main [Some (\<lambda>w. Some (Some tcl_reader_rh, w))] (\<lambda>_ w. Some ((), w)) tcl_scan_locals
      (Some (replicate 1023 0)) 2 (Some ok_script) [0x61, 0x0a] randctx_init ()"
  have locals: "sl_proto tcl_scan_locals = sample_locals" "sl_malloc tcl_scan_locals"
    by (simp_all add: tcl_scan_locals_def)
  obtain r1 where card: "script_init [Some (\<lambda>w. Some (Some tcl_reader_rh, w))] tcl_scan_locals randctx_init () =
      Some (0, Some tcl_reader_rh, Some tcl_l2h1, r1, ())"
    using tcl_init_run by blast
  have returns: "script_returns tcl_reader_rh (sl_proto tcl_scan_locals) tcl_l2h1 (replicate 1023 0)
      (script_lines ok_script) tcl_ph1 ()"
    using tcl_returns by (simp add: locals ok_script_lines)
  have heap: "1023 \<le> length (replicate 1023 (0 :: u8))" by simp
  note main = script_main_sent [OF heap, of "[Some (\<lambda>w. Some (Some tcl_reader_rh, w))]" "\<lambda>_ w. Some ((), w)"
      tcl_scan_locals _ ok_script "[0x61, 0x0a]" randctx_init "()"]
  obtain st where run: "?run = Some (0, Some st, r1, ())"
    using main [of 2 tcl_reader_rh tcl_l2h1 r1 "()" tcl_l2h1 tcl_ph1 "()"] card tcl_l3_run returns by auto
  then have "subseq (ss_sent st) (script_commands ok_script)" using main [of 2] by blast
  moreover obtain st' where st': "script_loop tcl_reader_rh sample_locals True (Some (replicate 1023 0)) tcl_l2h1 ok_script 0
      tcl_st1 () = Some (st', ())" "ss_sent st' = [[0x00, 0xa4], [0x84]]"
    using tcl_loop_run by auto
  moreover have "st = st'"
    using run card tcl_l3_run st'(1) by (simp add: script_main_def locals tcl_st1_def)
  ultimately show ?thesis using run by blast
qed

end
