(* ===== verification/Tool_Main.thy ===== *)
theory Tool_Main
  imports Tool_Session Scan_Results Text_Numbers
begin

text \<open>
  The \<open>main\<close> functions of \<open>librfid-tool\<close> and \<open>mifare-tool\<close>: what the options do, in their order on the command
  line, and what happens after them; the endless loops, one round at a time; the register printout; and
  the code for merging option tables, which nothing calls.

  The options are the pairs of letter and argument that \<open>getopt_long\<close> returns one after the other.  What is
  not defined by the program is gathered in a record: the readers it is linked with, their \<open>close\<close>, the transport
  behind the reader's chip, and the content of uninitialised buffers of a given size.  An option that starts an
  endless loop has no result.
\<close>

section \<open>The environment\<close>

record 'w tool_env =
  te_readers :: "('w \<Rightarrow> ('w rfid_reader_handle option \<times> 'w) option) option list"
  te_close :: "'w rfid_reader_handle \<Rightarrow> 'w \<Rightarrow> (unit \<times> 'w) option"
  te_transport :: "'w rc632_transport"
  te_locals :: scan_locals
  te_buf :: "nat \<Rightarrow> bytes"

section \<open>librfid-tool\<close>

subsection \<open>Loops and the register dump\<close>

text \<open>
  One round of \<open>do_endless_scan\<close>: \<open>first\<close> is whether the field is reset before the scan; the handles of the
  round are closed and never freed.  The results are the new \<open>first\<close> and the result of the scan.
\<close>

definition endless_scan_round ::
    "'w rfid_reader_handle \<Rightarrow> scan_locals \<Rightarrow> bool \<Rightarrow> randctx \<Rightarrow> 'w \<Rightarrow> (bool \<times> int \<times> randctx \<times> 'w) option" where
  "endless_scan_round rh l first r w = do {
     (rc, l2h, ph, _, r, w) \<leftarrow> do_scan rh l first r w;
     w \<leftarrow> (if rc \<ge> 3 then do {
             h \<leftarrow> l2h;
             p \<leftarrow> ph;
             (_, _, w) \<leftarrow> rfid_protocol_close rh (sl_proto l) h p w;
             Some w }
           else Some w);
     if rc \<ge> 2 then do {
       h \<leftarrow> l2h;
       (_, _, w) \<leftarrow> rfid_layer2_close rh (sl_l2 l) h w;
       Some (False, rc, r, w) }
     else Some (True, rc, r, w) }"

text \<open>One round of \<open>do_enum_loop\<close>, between two delays.\<close>

definition enum_round ::
    "'w rfid_reader_handle \<Rightarrow> scan_locals \<Rightarrow> u32 \<Rightarrow> randctx \<Rightarrow> 'w \<Rightarrow> (bytes list \<times> randctx \<times> 'w) option" where
  "enum_round rh l layer2 r w = do {
     (out, r, w) \<leftarrow> do_enum rh l layer2 r w;
     w \<leftarrow> rf_reset rh w;
     Some (out, r, w) }"

text \<open>The values are printed twice, as a table with rows of sixteen and as the text of a C array.\<close>

definition do_regdump :: "'w rc632_transport \<Rightarrow> bytes \<Rightarrow> 'w \<Rightarrow> (bytes list \<times> bytes \<times> 'w) option" where
  "do_regdump t buffer w = do {
     (_, buffer, w) \<leftarrow> rc632_register_dump t buffer w;
     regs \<leftarrow> get_slice buffer 0 64;
     Some (map (\<lambda>i. take 16 (drop (16 * i) regs)) [0..<4], regs, w) }"

subsection \<open>Merging option tables\<close>

record tool_option =
  to_name :: "string option"
  to_val :: int

text \<open>
  The static variables: whether \<open>opts\<close> points to an allocated table, and the offset.  A table ends with an
  entry without a name.
\<close>

record merge_state =
  ms_merged :: bool
  ms_offset :: u32

definition free_opts :: "bool \<Rightarrow> merge_state \<Rightarrow> merge_state" where
  "free_opts reset_offset st =
     (if ms_merged st
      then st\<lparr>ms_merged := False, ms_offset := if reset_offset then 0 else ms_offset st\<rparr> else st)"

fun count_options :: "tool_option list \<Rightarrow> nat option" where
  "count_options [] = None"
| "count_options (p # ps) = (if to_name p = None then Some 0 else map_option Suc (count_options ps))"

text \<open>Both counts are taken from the old table.\<close>

definition merge_options ::
    "tool_option list \<Rightarrow> tool_option list \<Rightarrow> bool \<Rightarrow> merge_state
       \<Rightarrow> (tool_option list \<times> u32 \<times> merge_state) option" where
  "merge_options oldopts newopts malloc_ok st = do {
     num_old \<leftarrow> count_options oldopts;
     num_new \<leftarrow> count_options oldopts;
     let st = st\<lparr>ms_offset := ms_offset st + 256\<rparr>;
     let option_offset = ms_offset st;
     if \<not> malloc_ok then None
     else do {
       old \<leftarrow> get_slice oldopts 0 num_old;
       new \<leftarrow> get_slice newopts 0 num_new;
       let st = free_opts False st;
       Some (old @ map (\<lambda>p. p\<lparr>to_val := to_val p + uint option_offset\<rparr>) new @ [\<lparr>to_name = None, to_val = 0\<rparr>],
             option_offset, st) } }"

definition find_module :: "string \<Rightarrow> string option" where
  "find_module name = None"

text \<open>The exit code, if the program ends.\<close>

definition register_module :: "string \<Rightarrow> string \<Rightarrow> int option" where
  "register_module name version =
     (if version \<noteq> ''0.1'' then Some 1 else if find_module name \<noteq> None then Some 1 else None)"

subsection \<open>Options\<close>

datatype tool_output =
  Wrote "(bytes \<times> int) option"
| Dumped "(bytes \<times> (nat \<times> bytes option) list) option"
| Enumerated "bytes list"
| Scanned int bytes "u32 option" "bytes option"
| Registers "bytes list"
| Apdu bytes
| Pages "(nat \<times> bytes) list"

record 'w tool_state =
  ts_protocol :: int
  ts_layer2 :: int
  ts_rand :: randctx
  ts_world :: 'w

text \<open>Open the reader, do something, close the reader and exit; a reader that cannot be opened exits with 1.\<close>

definition with_reader ::
    "'w tool_env \<Rightarrow> ('w rfid_reader_handle \<Rightarrow> randctx \<Rightarrow> 'w \<Rightarrow> (tool_output \<times> randctx \<times> 'w) option)
       \<Rightarrow> 'w tool_state \<Rightarrow> (int \<times> tool_output list \<times> 'w tool_state) option" where
  "with_reader e f ts = do {
     (rc, rh, w) \<leftarrow> reader_init (te_readers e) (ts_world ts);
     if rc < 0 then Some (1, [], ts\<lparr>ts_world := w\<rparr>)
     else do {
       rh \<leftarrow> rh;
       (out, r, w) \<leftarrow> f rh (ts_rand ts) w;
       (_, w) \<leftarrow> te_close e rh w;
       Some (0, [out], ts\<lparr>ts_rand := r, ts_world := w\<rparr>) } }"

definition tool_enum ::
    "'w tool_env \<Rightarrow> int \<Rightarrow> 'w rfid_reader_handle \<Rightarrow> randctx \<Rightarrow> 'w \<Rightarrow> (tool_output \<times> randctx \<times> 'w) option" where
  "tool_enum e layer2 rh r w = do {
     (out, r, w) \<leftarrow> do_enum rh (te_locals e) (word_of_int layer2) r w;
     Some (Enumerated out, r, w) }"

definition tool_scan ::
    "'w tool_env \<Rightarrow> 'w rfid_reader_handle \<Rightarrow> randctx \<Rightarrow> 'w \<Rightarrow> (tool_output \<times> randctx \<times> 'w) option" where
  "tool_scan e rh r w = do {
     (rc, _, _, (uid, sz, ats), r, w) \<leftarrow> do_scan rh (te_locals e) False r w;
     Some (Scanned rc uid sz ats, r, w) }"

definition tool_write15693 ::
    "'w tool_env \<Rightarrow> int \<Rightarrow> 'w rfid_reader_handle \<Rightarrow> randctx \<Rightarrow> 'w \<Rightarrow> (tool_output \<times> randctx \<times> 'w) option" where
  "tool_write15693 e i rh r w = do {
     (res, r, w) \<leftarrow> iso15693_write rh (te_locals e) RFID_LAYER2_ISO15693 (te_buf e 36) (word_of_int i)
                      [1, 2, 3, 4, 0] 4 r w;
     Some (Wrote res, r, w) }"

definition tool_dump15693 ::
    "'w tool_env \<Rightarrow> int \<Rightarrow> 'w rfid_reader_handle \<Rightarrow> randctx \<Rightarrow> 'w \<Rightarrow> (tool_output \<times> randctx \<times> 'w) option" where
  "tool_dump15693 e i rh r w = do {
     (res, r, w) \<leftarrow> iso15693_dump rh (te_locals e) RFID_LAYER2_ISO15693 (te_buf e 4) (te_buf e 36)
                      (te_buf e 1024) i r w;
     Some (Dumped res, r, w) }"

text \<open>
  One option: the exit code if the program ends with it, what it printed, and the state.  The letters \<open>S\<close> and
  \<open>E\<close> start endless loops, whose result is \<^const>\<open>None\<close> when the reader can be opened.
\<close>

definition default_layer2 :: "int \<Rightarrow> int" where
  "default_layer2 layer2 = (if layer2 < 0 then 1 else layer2)"

definition tool_main_option ::
    "'w tool_env \<Rightarrow> char \<Rightarrow> string \<Rightarrow> 'w tool_state
       \<Rightarrow> (int option \<times> tool_output list \<times> 'w tool_state) option" where
  "tool_main_option e c optarg ts =
     (let exits = map_option (\<lambda>(n, out, ts). (Some n, out, ts)) in
      if c = CHR ''w'' then
        exits (with_reader e (tool_write15693 e (long_to_int (strtol10 optarg))) (ts\<lparr>ts_layer2 := 3\<rparr>))
      else if c = CHR ''r'' then
        exits (with_reader e (tool_dump15693 e (long_to_int (strtol10 optarg))) (ts\<lparr>ts_layer2 := 3\<rparr>))
      else if c = CHR ''E'' \<or> c = CHR ''S'' then do {
        (rc, rh, w) \<leftarrow> reader_init (te_readers e) (ts_world ts);
        if rc < 0 then Some (Some 1, [], ts\<lparr>ts_world := w\<rparr>) else None }
      else if c = CHR ''e'' then
        (let ts = ts\<lparr>ts_layer2 := default_layer2 (ts_layer2 ts)\<rparr>
         in exits (with_reader e (tool_enum e (ts_layer2 ts)) ts))
      else if c = CHR ''d'' then do {
        (rc, rh, w) \<leftarrow> reader_init (te_readers e) (ts_world ts);
        if rc < 0 then Some (Some 1, [], ts\<lparr>ts_world := w\<rparr>)
        else do {
          rh \<leftarrow> rh;
          (rows, _, w) \<leftarrow> do_regdump (te_transport e) (te_buf e 255) w;
          (_, w) \<leftarrow> te_close e rh w;
          Some (None, [Registers rows], ts\<lparr>ts_world := w\<rparr>) } }
      else if c = CHR ''s'' then exits (with_reader e (tool_scan e) ts)
      else if c = CHR ''p'' then
        Some (if proto_by_name optarg < 0 then Some 2 else None, [],
              ts\<lparr>ts_protocol := proto_by_name optarg\<rparr>)
      else if c = CHR ''l'' then
        Some (if l2_by_name optarg < 0 then Some 2 else None, [], ts\<lparr>ts_layer2 := l2_by_name optarg\<rparr>)
      else Some (Some 0, [], ts))"

fun tool_options ::
    "'w tool_env \<Rightarrow> (char \<times> string) list \<Rightarrow> 'w tool_state
       \<Rightarrow> (int option \<times> tool_output list \<times> 'w tool_state) option" where
  "tool_options e [] ts = Some (None, [], ts)"
| "tool_options e ((c, optarg) # os) ts = do {
     (ex, out, ts) \<leftarrow> tool_main_option e c optarg ts;
     if ex \<noteq> None then Some (ex, out, ts)
     else do {
       (ex, out', ts) \<leftarrow> tool_options e os ts;
       Some (ex, out @ out', ts) } }"

subsection \<open>After the options\<close>

text \<open>The commands of the T=CL branch; the first that fails ends them.\<close>

fun tool_apdus ::
    "(rfid_protocol_handle \<Rightarrow> 'w \<Rightarrow> (int \<times> bytes \<times> rfid_protocol_handle \<times> 'w) option) list
       \<Rightarrow> rfid_protocol_handle \<Rightarrow> 'w \<Rightarrow> (bool \<times> tool_output list \<times> rfid_protocol_handle \<times> 'w) option" where
  "tool_apdus [] ph w = Some (True, [], ph, w)"
| "tool_apdus (f # fs) ph w = do {
     (rc, txt, ph, w) \<leftarrow> f ph w;
     if rc < 0 then Some (False, [], ph, w)
     else do {
       (ok, out, ph, w) \<leftarrow> tool_apdus fs ph w;
       Some (ok, Apdu txt # out, ph, w) } }"

partial_function (option) read_binary_loop ::
    "(rfid_protocol_handle \<Rightarrow> 'w \<Rightarrow> (int \<times> bytes \<times> rfid_protocol_handle \<times> 'w) option)
       \<Rightarrow> tool_output list \<Rightarrow> rfid_protocol_handle \<Rightarrow> 'w \<Rightarrow> (tool_output list \<times> 'w) option" where
  "read_binary_loop rd out ph w = do {
     (rc, txt, ph, w) \<leftarrow> rd ph w;
     if rc < 0 then Some (out, w) else read_binary_loop rd (out @ [Apdu txt]) ph w }"

declare read_binary_loop.simps [code]

definition tool_tcl ::
    "'w tool_env \<Rightarrow> 'w rfid_reader_handle \<Rightarrow> rfid_layer2_handle \<Rightarrow> rfid_protocol_handle \<Rightarrow> 'w
       \<Rightarrow> (tool_output list \<times> 'w) option" where
  "tool_tcl e rh l2h ph w = do {
     let l = sl_proto (te_locals e);
     (ok, out, ph, w) \<leftarrow> tool_apdus
        [\<lambda>ph. select_mf rh l l2h ph (te_buf e 256),
         \<lambda>ph. iso7816_get_challenge rh l l2h ph (te_buf e 256) 0xff,
         \<lambda>ph. iso7816_select_application rh l l2h ph (te_buf e 7),
         \<lambda>ph. iso7816_select_ef rh l l2h ph (te_buf e 7) 0x011e,
         \<lambda>ph. iso7816_select_ef rh l l2h ph (te_buf e 7) 0x0101] ph w;
     if ok then read_binary_loop (\<lambda>ph. iso7816_read_binary rh l l2h ph (te_buf e 256)) out ph w
     else Some (out, w) }"

text \<open>
  The dispatch on the protocol.  An unknown protocol and a failed authentication exit at once, without closing
  the reader.
\<close>

definition tool_run_protocol ::
    "'w tool_env \<Rightarrow> int \<Rightarrow> 'w rfid_reader_handle \<Rightarrow> rfid_layer2_handle \<Rightarrow> rfid_protocol_handle \<Rightarrow> 'w
       \<Rightarrow> (int option \<times> tool_output list \<times> 'w) option" where
  "tool_run_protocol e protocol rh l2h ph w =
     (let l = sl_proto (te_locals e) in
      if protocol = 1 then do {
        (out, w) \<leftarrow> tool_tcl e rh l2h ph w;
        Some (None, out, w) }
      else if protocol = 2 then do {
        (_, out, w) \<leftarrow> mifare_ulight_read rh l l2h ph (te_buf e 20) w;
        Some (None, [Pages out], w) }
      else if protocol = 3 then do {
        res \<leftarrow> mifare_classic_dump rh l l2h ph (te_buf e 20) w;
        (case res of Inl _ \<Rightarrow> Some (None, [], w) | Inr (ex, out, w) \<Rightarrow> Some (ex, [Pages out], w)) }
      else Some (Some 1, [], w))"

definition tool_session ::
    "'w tool_env \<Rightarrow> 'w tool_state \<Rightarrow> (int \<times> tool_output list \<times> 'w tool_state) option" where
  "tool_session e ts = do {
     (rc, rh, w) \<leftarrow> reader_init (te_readers e) (ts_world ts);
     if rc < 0 then Some (1, [], ts\<lparr>ts_world := w\<rparr>)
     else do {
       rh \<leftarrow> rh;
       (rc, l2h, r, w) \<leftarrow> l2_init rh (te_locals e) (word_of_int (ts_layer2 ts)) (ts_rand ts) w;
       let ts = ts\<lparr>ts_rand := r\<rparr>;
       if rc < 0 then do {
         (_, w) \<leftarrow> te_close e rh w;
         Some (1, [], ts\<lparr>ts_world := w\<rparr>) }
       else do {
         l2h \<leftarrow> l2h;
         (rc, l2h, ph, w) \<leftarrow> l3_init rh (te_locals e) l2h (word_of_int (ts_protocol ts)) w;
         if rc < 0 then do {
           (_, w) \<leftarrow> te_close e rh w;
           Some (1, [], ts\<lparr>ts_world := w\<rparr>) }
         else do {
           ph \<leftarrow> ph;
           (ex, out, w) \<leftarrow> tool_run_protocol e (ts_protocol ts) rh l2h ph w;
           (case ex of
              Some n \<Rightarrow> Some (n, out, ts\<lparr>ts_world := w\<rparr>)
            | None \<Rightarrow> do {
                (_, w) \<leftarrow> te_close e rh w;
                Some (0, out, ts\<lparr>ts_world := w\<rparr>) }) } } } }"

definition tool_main ::
    "'w tool_env \<Rightarrow> (char \<times> string) list \<Rightarrow> randctx \<Rightarrow> 'w \<Rightarrow> (int \<times> tool_output list \<times> 'w tool_state) option" where
  "tool_main e os r w = do {
     (ex, out, ts) \<leftarrow> tool_options e os \<lparr>ts_protocol = -1, ts_layer2 = -1, ts_rand = r, ts_world = w\<rparr>;
     (case ex of
        Some n \<Rightarrow> Some (n, out, ts)
      | None \<Rightarrow>
          if ts_protocol ts = -1 then Some (2, out, ts)
          else
            let ts = (if ts_protocol ts = 2 \<or> ts_protocol ts = 3 then ts\<lparr>ts_layer2 := 1\<rparr> else ts) in
            if ts_layer2 ts < 0 then Some (2, out, ts)
            else do {
              (n, out', ts) \<leftarrow> tool_session e ts;
              Some (n, out @ out', ts) }) }"

section \<open>mifare-tool\<close>

text \<open>One round of the endless loop of option \<open>-l\<close>: the text printed, if the card could be read.\<close>

definition loop_read_round ::
    "'w rfid_reader_handle \<Rightarrow> scan_locals \<Rightarrow> bytes \<Rightarrow> bytes \<Rightarrow> u32 \<Rightarrow> randctx \<Rightarrow> 'w
       \<Rightarrow> (bytes option \<times> bytes \<times> randctx \<times> 'w) option" where
  "loop_read_round rh l key buf page r w = do {
     (l2h, ph, r, w) \<leftarrow> mifare_l3 rh l r w;
     (rc, w) \<leftarrow> mifare_cl_auth rh l2h key page w;
     if rc < 0 then Some (None, buf, r, w)
     else do {
       _ \<leftarrow> rfid_layer2_getopt l2h RFID_OPT_LAYER2_UID 4;
       (rc, buf, len, w) \<leftarrow> rfid_protocol_read rh (sl_proto l) l2h ph page buf 16 w;
       if rc < 0 then Some (None, buf, r, w)
       else do {
         txt \<leftarrow> print_hex buf len;
         Some (Some txt, buf, r, w) } } }"

datatype mifare_output =
  Keys "bytes list"
| Key_Set bytes
| Page bytes "string list"
| Written int

record 'w mifare_state =
  mt_key :: bytes
  mt_rand :: randctx
  mt_world :: 'w

definition string_bytes :: "string \<Rightarrow> bytes" where
  "string_bytes s = map of_char s"

text \<open>
  One option: \<open>buf\<close> is what the program's page buffer holds before it, \<open>next\<close> the argument behind the option's
  own, absent at the end of the command line.
\<close>

definition mifare_main_option ::
    "'w rfid_reader_handle \<Rightarrow> scan_locals \<Rightarrow> bytes \<Rightarrow> char \<Rightarrow> string \<Rightarrow> string option \<Rightarrow> 'w mifare_state
       \<Rightarrow> (int option \<times> mifare_output list \<times> 'w mifare_state) option" where
  "mifare_main_option rh l buf c optarg next ms =
     (if c = CHR ''b'' then do {
        (found, r, w) \<leftarrow> option_brute_force rh l (mt_key ms) (word_of_int (atoi optarg)) (mt_rand ms) (mt_world ms);
        key \<leftarrow> put_at (mt_key ms) 5 0xff;
        Some (None, [Keys found], ms\<lparr>mt_key := key, mt_rand := r, mt_world := w\<rparr>) }
      else if c = CHR ''k'' then do {
        key \<leftarrow> option_key (mt_key ms) (string_bytes optarg);
        Some (None, [Key_Set key], ms\<lparr>mt_key := key\<rparr>) }
      else if c = CHR ''r'' then do {
        (res, r, w) \<leftarrow> option_read rh l (mt_key ms) buf (word_of_int (atoi optarg)) (mt_rand ms) (mt_world ms);
        let ms = ms\<lparr>mt_rand := r, mt_world := w\<rparr>;
        (case res of Inl n \<Rightarrow> Some (Some n, [], ms)
         | Inr (txt, access) \<Rightarrow> Some (None, [Page txt access], ms)) }
      else if c = CHR ''l'' then None
      else if c = CHR ''w'' then do {
        arg \<leftarrow> next;
        (res, r, w) \<leftarrow> option_write rh l (mt_key ms) buf (word_of_int (atoi optarg)) (string_bytes arg)
                        (mt_rand ms) (mt_world ms);
        let ms = ms\<lparr>mt_rand := r, mt_world := w\<rparr>;
        (case res of Inl n \<Rightarrow> Some (Some n, [], ms) | Inr rc \<Rightarrow> Some (None, [Written rc], ms)) }
      else Some (None, [], ms))"

fun mifare_options ::
    "'w rfid_reader_handle \<Rightarrow> scan_locals \<Rightarrow> (bytes \<times> char \<times> string \<times> string option) list \<Rightarrow> 'w mifare_state
       \<Rightarrow> (int option \<times> mifare_output list \<times> 'w mifare_state) option" where
  "mifare_options rh l [] ms = Some (None, [], ms)"
| "mifare_options rh l ((buf, c, optarg, next) # os) ms = do {
     (ex, out, ms) \<leftarrow> mifare_main_option rh l buf c optarg next ms;
     if ex \<noteq> None then Some (ex, out, ms)
     else do {
       (ex, out', ms) \<leftarrow> mifare_options rh l os ms;
       Some (ex, out @ out', ms) } }"

definition mifare_main ::
    "'w tool_env \<Rightarrow> (bytes \<times> char \<times> string \<times> string option) list \<Rightarrow> randctx \<Rightarrow> 'w
       \<Rightarrow> (int \<times> mifare_output list \<times> 'w) option" where
  "mifare_main e os r w = do {
     (rc, rh, w) \<leftarrow> reader_init (te_readers e) w;
     if rc < 0 then Some (1, [], w)
     else do {
       rh \<leftarrow> rh;
       (ex, out, ms) \<leftarrow> mifare_options rh (te_locals e) os
          \<lparr>mt_key = [0xff, 0xff, 0xff, 0xff, 0xff, 0xff], mt_rand = r, mt_world = w\<rparr>;
       (case ex of
          Some n \<Rightarrow> Some (n, out, mt_world ms)
        | None \<Rightarrow> do {
            (_, w) \<leftarrow> te_close e rh (mt_world ms);
            Some (0, out, w) }) } }"

section \<open>The options of librfid-tool\<close>

text \<open>The argument of the last option with a letter.\<close>

fun last_arg :: "char \<Rightarrow> (char \<times> string) list \<Rightarrow> string option" where
  "last_arg c [] = None"
| "last_arg c ((c', a) # os) = (case last_arg c os of None \<Rightarrow> if c = c' then Some a else None | Some b \<Rightarrow> Some b)"

definition name_unknown :: "char \<times> string \<Rightarrow> bool" where
  "name_unknown = (\<lambda>(c, a). if c = CHR ''p'' then proto_by_name a < 0 else l2_by_name a < 0)"

definition named_state :: "(char \<times> string) list \<Rightarrow> 'w tool_state \<Rightarrow> 'w tool_state" where
  "named_state os ts =
     ts\<lparr>ts_protocol := (case last_arg CHR ''p'' os of None \<Rightarrow> ts_protocol ts | Some a \<Rightarrow> proto_by_name a),
        ts_layer2 := (case last_arg CHR ''l'' os of None \<Rightarrow> ts_layer2 ts | Some a \<Rightarrow> l2_by_name a)\<rparr>"

lemma options_named:
  "\<forall>(c, a) \<in> set os. c = CHR ''p'' \<or> c = CHR ''l'' \<Longrightarrow>
     (if \<exists>x \<in> set os. name_unknown x
      then \<exists>ts'. tool_options e os ts = Some (Some 2, [], ts') \<and> ts_world ts' = ts_world ts
      else tool_options e os ts = Some (None, [], named_state os ts))"
proof (induction os arbitrary: ts)
  case (Cons x os)
  obtain c a where x: "x = (c, a)" by fastforce
  from Cons.prems have c: "c = CHR ''p'' \<or> c = CHR ''l''" by (simp add: x)
  let ?ts = "if c = CHR ''p'' then ts\<lparr>ts_protocol := proto_by_name a\<rparr> else ts\<lparr>ts_layer2 := l2_by_name a\<rparr>"
  have step: "tool_main_option e c a ts = Some (if name_unknown x then Some 2 else None, [], ?ts)"
    using c by (auto simp: tool_main_option_def name_unknown_def x)
  have "named_state os ?ts = named_state (x # os) ts"
    using c by (auto simp: named_state_def x split: option.splits)
  with Cons.IH [of ?ts] Cons.prems step c show ?case
    by (cases "name_unknown x") (auto simp: x split: if_splits)
qed (simp add: named_state_def)

lemma last_arg_in: "last_arg c os = Some a \<Longrightarrow> (c, a) \<in> set os"
  by (induction os rule: last_arg.induct) (auto split: option.splits if_splits)

text \<open>The session that \<open>-p\<close> and \<open>-l\<close> ask for, absent when they do not say enough.\<close>

definition asked_session :: "(char \<times> string) list \<Rightarrow> (int \<times> int) option" where
  "asked_session os =
     (if \<exists>x \<in> set os. name_unknown x then None
      else case last_arg CHR ''p'' os of
             None \<Rightarrow> None
           | Some p \<Rightarrow>
               if proto_by_name p \<in> {2, 3} then Some (proto_by_name p, 1)
               else map_option (\<lambda>l2. (proto_by_name p, l2_by_name l2)) (last_arg CHR ''l'' os))"

text \<open>
  C20: given only \<open>-p\<close> and \<open>-l\<close> options, the tool exits with status two, before it touches the reader, when one
  of the names is unknown, when no protocol is given, or when the protocol is not one of the two MIFARE kinds and
  no layer 2 is given; otherwise it goes on with the protocol and layer 2 named last, the MIFARE protocols
  always over ISO 14443 A.
\<close>

theorem tool_main_session:
  assumes "\<forall>(c, a) \<in> set os. c = CHR ''p'' \<or> c = CHR ''l''"
  shows "case asked_session os of
      None \<Rightarrow> \<exists>ts. tool_main e os r w = Some (2, [], ts) \<and> ts_world ts = w
    | Some (p, l2) \<Rightarrow> tool_main e os r w =
        tool_session e \<lparr>ts_protocol = p, ts_layer2 = l2, ts_rand = r, ts_world = w\<rparr>"
proof (cases "\<exists>x \<in> set os. name_unknown x")
  case True
  then show ?thesis
    using options_named [OF assms, of e "\<lparr>ts_protocol = -1, ts_layer2 = -1, ts_rand = r, ts_world = w\<rparr>"]
    by (auto simp: asked_session_def tool_main_def)
next
  case False
  let ?ts = "\<lparr>ts_protocol = -1, ts_layer2 = -1, ts_rand = r, ts_world = w\<rparr>"
  have run: "tool_options e os ?ts = Some (None, [], named_state os ?ts)"
    using options_named [OF assms, of e ?ts] False by simp
  have known: "last_arg CHR ''p'' os = Some p \<Longrightarrow> 0 \<le> proto_by_name p"
      "last_arg CHR ''l'' os = Some l2 \<Longrightarrow> 0 \<le> l2_by_name l2" for p l2
    using last_arg_in [of "CHR ''p''" os p] last_arg_in [of "CHR ''l''" os l2] False
    by (force simp: name_unknown_def)+
  show ?thesis
  proof (cases "last_arg CHR ''p'' os")
    case None
    then show ?thesis
      using run False by (simp add: tool_main_def asked_session_def named_state_def)
  next
    case (Some p)
    have id: "tool_session e ts \<bind> (\<lambda>(n, out', ts). Some (n, out', ts)) = tool_session e ts" for ts
      by (cases "tool_session e ts") auto
    show ?thesis
      using run False Some known(1) [OF Some] known(2)
      by (cases "last_arg CHR ''l'' os")
        (auto simp: tool_main_def asked_session_def named_state_def id Let_def)
  qed
qed

definition no_reader_env :: "unit tool_env" where
  "no_reader_env = \<lparr>te_readers = [None, None, None], te_close = (\<lambda>_ w. Some ((), w)),
     te_transport = busy_transport, te_locals = sample_scan_locals, te_buf = (\<lambda>n. replicate n 0)\<rparr>"

theorem tool_main_session_witness:
  "(\<exists>ts. tool_main no_reader_env [(CHR ''p'', ''tcl'')] randctx_init () = Some (2, [], ts)) \<and>
   tool_main no_reader_env [(CHR ''l'', ''iso14443b''), (CHR ''p'', ''Mifare-Classic'')] randctx_init () =
     tool_session no_reader_env \<lparr>ts_protocol = 3, ts_layer2 = 1, ts_rand = randctx_init, ts_world = ()\<rparr>"
proof -
  have "asked_session [(CHR ''p'', ''tcl'')] = None"
    "asked_session [(CHR ''l'', ''iso14443b''), (CHR ''p'', ''Mifare-Classic'')] = Some (3, 1)"
    by code_simp+
  with tool_main_session [of "[(CHR ''p'', ''tcl'')]" no_reader_env randctx_init "()"]
    tool_main_session [of "[(CHR ''l'', ''iso14443b''), (CHR ''p'', ''Mifare-Classic'')]" no_reader_env randctx_init "()"]
  show ?thesis by auto
qed

section \<open>Merging\<close>

text \<open>
  The number of new options is counted in the old table: the merged table has all new options, and no more,
  exactly when there are as many of them as old ones.
\<close>

definition option_table :: "tool_option list \<Rightarrow> tool_option list" where
  "option_table ps = ps @ [\<lparr>to_name = None, to_val = 0\<rparr>]"

lemma count_option_table:
  "\<forall>p \<in> set ps. to_name p \<noteq> None \<Longrightarrow> count_options (option_table ps) = Some (length ps)"
  by (induction ps) (auto simp: option_table_def)

lemma merge_options_length:
  assumes "\<forall>p \<in> set old. to_name p \<noteq> None"
  shows "merge_options (option_table old) (option_table new) True st =
    (if length old \<le> length new + 1
     then Some (option_table (old @ map (\<lambda>p. p\<lparr>to_val := to_val p + uint (ms_offset st + 256)\<rparr>)
                                 (take (length old) (option_table new))),
                ms_offset st + 256, free_opts False (st\<lparr>ms_offset := ms_offset st + 256\<rparr>))
     else None)"
  by (simp add: merge_options_def count_option_table [OF assms] get_slice_def)
    (auto simp: option_table_def Let_def)

end
