(* ===== verification/Spec2Isabelle.thy ===== *)
theory Spec2Isabelle
  imports Scan_Results Layer2_Contracts Iso14443a_Select Tcl_Exchange Rc632_Frames
    Reader_Openpcd Reader_Cm5121 Reader_Spidev Proto_Icode Tool_Session
    Iso15693_Blocks Mifare_Blocks Layer2_Types Cm5121_Backends Ccid_Exchange Ccid_Readers Mifare_Api Pegoda Send_Script Tool_Main
begin

text \<open>
  A verification of librfid, a C library for RFID readers and cards.

  \<^bold>\<open>The program.\<close>  A reader (\<open>src/rfid_reader_*.c\<close>) gives access to the registers and the FIFO of an RC632
  chip, over USB or SPI.  The chip driver (\<open>src/rfid_asic_rc632.c\<close>) builds timers, transfers and the air
  interfaces from register accesses.  A layer 2 (\<open>src/rfid_layer2_*.c\<close>) finds and selects a card: ISO 14443 A
  and B and ISO 15693.  A protocol (\<open>src/rfid_proto_*.c\<close>) talks to the selected card: T=CL, MIFARE Classic and
  Ultralight, and the stubs for Tag-it and I*Code.  \<open>src/rfid_layer2.c\<close>, \<open>src/rfid_protocol.c\<close> and
  \<open>src/rfid_reader.c\<close> dispatch through function tables, \<open>src/rfid_scan.c\<close> tries layers and protocols in turn,
  and the command line tools (\<open>utils/\<close>) use all of it.

  \<^bold>\<open>How C is modelled.\<close>  A function is a HOL function into \<open>option\<close>.  \<^const>\<open>Some\<close> is a run that returns, with the
  return code as an \<open>int\<close> and everything the function changed: handles, buffers behind pointers, and the
  world \<open>'w\<close> behind the reader.  \<^const>\<open>None\<close> is a run without a defined result: an access outside of an object,
  the use of a variable that was never written, a division by zero, a call through a null pointer, or
  a loop that never ends.  Integers are words of their C width.  Uninitialised locals are arguments, so the
  theorems hold for every content.  Loops that hardware can keep running are \<open>partial_function\<close>s without fuel;
  where such a loop is claimed to end, that is a theorem (\<open>wait_idle_terminates\<close>, \<open>anticol_terminates\<close>), and no
  bound is chosen anywhere in the model.  libusb, the CCID escape call, the Linux spidev device and the table
  of configured readers are parameters.

  \<^bold>\<open>The theories.\<close>
  \<^item> \<open>Rfid_Prelude\<close>: types, error numbers, memory accesses, word lemmas and the rules that decompose runs.
  \<^item> \<open>Rc632_Regs\<close>, \<open>Rc632_Asic\<close>, \<open>Rc632_Proto\<close>, \<open>Rc632_Frames\<close>: the chip.  The record \<open>rc632_transport\<close> is
    \<open>struct rfid_asic_rc632_transport\<close>.  The locale \<open>bounded_transport\<close> is what the driver relies on in a
    transport (reads keep the buffer's length), \<open>register_transport\<close> that registers hold what is written.
    Shown: the timer setting is the best one, polling ends, initialisation leaves the scripts' values in the
    registers, speed and RF switch, the coding of keys, what a transmission puts into the FIFO.
  \<^item> \<open>Rfid_Reader\<close>, \<open>Reader_Openpcd\<close>, \<open>Reader_Cm5121\<close>, \<open>Reader_Spidev\<close>: the function table \<open>rfid_reader\<close> and the
    three readers.  The locale \<open>bounded_reader\<close> is the contract for the layers above; a \<open>sublocale\<close> derives
    it from \<open>bounded_transport\<close>, and each reader interprets both transport locales.
  \<^item> \<open>Iso14443_Common\<close>, \<open>Layer2_Iso14443a\<close>, \<open>Layer2_Iso14443b\<close>, \<open>Layer2_Iso15693\<close>, \<open>Layer2\<close>: the layer 2 handle
    and its operations.  \<open>Iso14443a_Select\<close> proves the anticollision against a specification of a card, and
    \<open>Layer2_Contracts\<close> the type B request, the ISO 15693 inventory and the options.
  \<^item> \<open>Proto_Tcl\<close>: T=CL.  \<open>Tcl_Exchange\<close> proves that an exchange with a conforming card delivers the command and
    the answer; \<open>Tcl_Session\<close> has the step relation of a handle's life and its invariant, the states of a
    connect and the parsing of an ATS.
  \<^item> \<open>Access_Mifare_Classic\<close>, \<open>Proto_Mifare_Classic\<close>, \<open>Proto_Mifare_Ul\<close>, \<open>Proto_Icode\<close>: access conditions with
    their round trips, sectors and blocks, reads, and the stubs.
  \<^item> \<open>Protocol\<close>, \<open>Rfid_Scan\<close>, \<open>Scan_Results\<close>: dispatch, scan, and what a scan returns.
  \<^item> \<open>Iso15693_Blocks\<close>, \<open>Mifare_Blocks\<close>: block transfers against a specification of an ISO 15693 card and of a
    MIFARE Classic card: what is written is what a later read gives back.
  \<^item> \<open>Layer2_Types\<close>: the typing of a layer 2 handle's identifier over its whole life, from its initialisation on.
  \<^item> \<open>Ccid_Driver\<close>, \<open>Ccid_T1\<close>: the CCID driver (\<open>src/ccid/ccid-driver.c\<close>): the search for readers and their
    descriptors, opening, closing and reset, bulk transfers with requests for more time, the escape command, the
    status of the slot; power and ATR, the exchange of APDUs whole or over T=1, and the entry of a PIN.
    \<open>Ccid_Readers\<close> shows that the list of readers, their numbers and their names agree; \<open>Ccid_Exchange\<close> follows a T=1
    exchange with a card that asks for more time, chains its answer and gets garbled messages.
  \<^item> \<open>Cm5121_Backends\<close>: the two ways a CardMan 5121 is reached, over the CCID driver and over OpenCT
    (\<open>src/rfid_reader_cm5121_openct.c\<close>).  Both give what \<open>Reader_Cm5121\<close> takes as its escape parameter.
  \<^item> \<open>Text_Numbers\<close>: decimal numbers in text.
  \<^item> \<open>Rfid_Hex\<close>, \<open>Tool_Common\<close>, \<open>Librfid_Tool\<close>, \<open>Mifare_Tool\<close>, \<open>Tool_Session\<close>: hexadecimal text and the tools,
    with an ISO 7816 command followed from its bytes to the printed answer.  \<open>Tool_Main\<close> has the command lines
    of \<open>librfid-tool\<close> and \<open>mifare-tool\<close>: each option, the session behind them and the exit status.
  \<^item> \<open>Send_Script\<close>: \<open>utils/send_script.c\<close>, which reads commands from a file, asks for a confirmation and sends
    them to a card; what is sent is what the script says, the program ends when the exchanges with the card do,
    and a script that is always confirmed is sent whole.
  \<^item> \<open>Mifare_Api\<close>: the MIFARE interface of \<open>python/openpcd.c\<close> (\<open>win32/openpcd.c\<close> is a copy of it), with the
    handles it keeps between calls and the invariant that ties them to each other.
  \<^item> \<open>Pegoda\<close>: the stand-alone program \<open>pegoda/pegoda.c\<close>, whose dump is proved against a specification of the
    reader and the card.

  This theory has the properties that need a reader below and a protocol above: configuration of the chip
  through a reader, reads of both MIFARE kinds, authentication, and T=CL sessions.

  \<^bold>\<open>Not modelled.\<close>  The test program inside the CCID driver (\<open>#ifdef TEST\<close>), OpenCT itself, the loader of libusb
  for Windows (generated wrappers), the Python wrappers around the MIFARE interface, the three functions that only
  the Windows copy has and that name members \<open>struct rfid_reader\<close> lacks, code under \<open>#if 0\<close>, debug output,
  sleeping and the firmware variants.  The C library's \<open>getopt_long\<close> is modelled by its result, the list of
  options with their arguments.

  \<^bold>\<open>Where the code differs from its intent.\<close>  The model follows the code.  Several properties therefore state a
  limit: the type B anticollision cannot succeed, frame size code nine reads behind a table, a transmission of
  more than 64 bytes refills with 192 bytes, the lock bits of Ultralight pages other than page 8 are shifted wrongly, a
  deselected type A session cannot be connected again, a 4 KByte card has only 36 sectors, and a failed second
  selection through the MIFARE interface leaves a protocol handle without a layer 2 handle, which the next
  deselection dereferences.  A type B or ISO 15693 handle has an identifier of unknown length until a card was
  found, and a Pegoda transfer that got nothing looks like a reply with code zero.

  \<^bold>\<open>Open ends.\<close>  The anticollision with several cards in the field and the wait for the timer of the chip
  are modelled, but proved only to end, not to find every card or to wait long enough.
\<close>

section \<open>A reader with blank registers\<close>

definition blank_opcd :: "unit opcd_device openpcd_state" where
  "blank_opcd = \<lparr>snd_buf = replicate 270 0, rcv_buf = replicate 270 0,
     opcd_dev = \<lparr>dev_regs = (\<lambda>_. 0), dev_reply = [], dev_rest = ()\<rparr>\<rparr>"

abbreviation (input) blank_rat :: "unit opcd_device openpcd_state rc632_transport" where
  "blank_rat \<equiv> openpcd_rat (opcd_device_usb (\<lambda>_ d. d))"

definition run_state :: "(int \<times> 'w) option \<Rightarrow> 'w" where
  "run_state r = snd (the r)"

lemma run_stateI: "map_option fst r = Some n \<Longrightarrow> r = Some (n, run_state r)"
  by (auto simp: run_state_def)

section \<open>Register contents over a reader\<close>

text \<open>
  C16: initialising an RC632 reader for a layer 2 leaves in every register of that air
  interface's script the value the script has for it, for any transport whose registers hold what
  is written to them; no later entry of the script overwrites an earlier one.
\<close>

theorem layer2_init_configures:
  assumes "register_transport t regs plain"
    and "rdr_init (rc632_reader t) l2 w = Some (0, w')"
    and "f \<in> set (layer2_script l2)" "rf_reg f \<in> plain"
  shows "regs w' (rf_reg f) = rf_val f"
proof -
  have "rc632_layer2_init t l2 w = Some (0, w')"
    using assms(2) by (simp add: rc632_reader_def rdr_rc632_l2_init_def)
  then obtain w1 n where "rc632_execute_script t (layer2_script l2) w1 = Some (n, w')" "0 \<le> n"
    by (blast dest: layer2_init_runs_script)
  then show ?thesis
    using assms(3,4) by (rule register_transport.script_holds [OF assms(1) _ _ layer2_script_distinct layer2_script_regs])
qed

theorem layer2_init_configures_witness:
  "dev_regs (opcd_dev (run_state
     (rdr_init (rc632_reader blank_rat) RFID_LAYER2_ISO14443B blank_opcd))) RC632_REG_CRC_PRESET_LSB
     = 0xff"
proof -
  have "map_option fst (rdr_init (rc632_reader blank_rat) RFID_LAYER2_ISO14443B blank_opcd) = Some 0"
    by code_simp
  note run = run_stateI [OF this]
  have "\<lparr>rf_reg = RC632_REG_CRC_PRESET_LSB, rf_val = 0xff\<rparr> \<in> set (layer2_script RFID_LAYER2_ISO14443B)"
    by (simp add: layer2_script_def iso14443b_regs_def reg_file_def)
  from layer2_init_configures [OF opcd_regs.register_transport_axioms run this] show ?thesis
    by simp
qed

text \<open>
  The RF kill option of the RC632 readers switches both antenna drivers off for a value
  other than zero and on for zero, and leaves the other bits of the transmitter control alone.
\<close>

theorem rf_kill_switch:
  assumes "register_transport t regs plain" "RC632_REG_TX_CONTROL \<in> plain"
    and "rdr_setopt (rc632_reader t) RFID_OPT_RDR_RF_KILL (Some v) 4 w = Some (n, w')" "0 \<le> n"
  shows "regs w' RC632_REG_TX_CONTROL AND 0x03 = (if v = 0 then 0x03 else 0) \<and>
         regs w' RC632_REG_TX_CONTROL AND NOT 0x03 = regs w RC632_REG_TX_CONTROL AND NOT 0x03"
proof -
  have "rc632_rf_power t (v = 0) w = Some (n, w')"
    using assms(3) by (simp add: rc632_reader_def rdr_rc632_setopt_def split: if_splits)
  from register_transport.rf_power_regs [OF assms(1) this assms(4,2)] show ?thesis
    by (auto simp: bit_eq_iff bit_simps)
qed

theorem rf_kill_switch_witness:
  "dev_regs (opcd_dev (run_state
     (rdr_setopt (rc632_reader blank_rat) RFID_OPT_RDR_RF_KILL (Some 0) 4 blank_opcd)))
     RC632_REG_TX_CONTROL AND 0x03 = 0x03"
proof -
  have "map_option fst (rdr_setopt (rc632_reader blank_rat) RFID_OPT_RDR_RF_KILL (Some 0) 4 blank_opcd)
          = Some 4"
    by code_simp
  note run = run_stateI [OF this]
  from rf_kill_switch [OF opcd_regs.register_transport_axioms _ run] show ?thesis
    by simp
qed

text \<open>
  A successful change of the transmit speed of an ISO 14443 A reader was for one of the
  four bit rates, and leaves that rate's code in the coder control register and its modulation
  width; the table of rates is never read past its end.
\<close>

theorem set_speed_configures:
  assumes "register_transport t regs plain"
    and "RC632_REG_CODER_CONTROL \<in> plain" "RC632_REG_MOD_WIDTH \<in> plain"
    and "rdr_rc632_14443a_set_speed t tx speed w = Some (0, w')" "tx \<noteq> 0"
  shows "(speed, regs w' RC632_REG_CODER_CONTROL AND RC632_CDRCTRL_RATE_MASK,
            regs w' RC632_REG_MOD_WIDTH) \<in>
           {(RFID_14443A_SPEED_106K, RC632_CDRCTRL_RATE_106K, 0x13),
            (RFID_14443A_SPEED_212K, RC632_CDRCTRL_RATE_212K, 0x07),
            (RFID_14443A_SPEED_424K, RC632_CDRCTRL_RATE_424K, 0x03),
            (RFID_14443A_SPEED_848K, RC632_CDRCTRL_RATE_848K, 0x01)}"
proof -
  obtain rate where r: "speed_to_rate speed = Some rate"
    and run: "rc632_iso14443a_set_speed t tx (ucast rate) w = Some (0, w')"
    using assms(4) by (auto simp: rdr_rc632_14443a_set_speed_def split: option.splits)
  note regs = register_transport.set_tx_speed_regs [OF assms(1) run assms(5,2,3)]
  have msk: "((x AND NOT m) OR (y AND m)) AND m = y AND m" for x y m :: u8
    by (auto simp: bit_eq_iff bit_simps)
  have "regs w' RC632_REG_CODER_CONTROL AND RC632_CDRCTRL_RATE_MASK =
          tx_rate (tx_configs ! unat (ucast rate :: u32)) AND RC632_CDRCTRL_RATE_MASK"
    using regs by (simp only: msk)
  moreover have "regs w' RC632_REG_MOD_WIDTH = mod_width (tx_configs ! unat (ucast rate :: u32))"
    using regs by blast
  ultimately show ?thesis
    using r by (auto simp: speed_to_rate_def tx_configs_def split: if_splits)
qed

theorem set_speed_configures_witness:
  "dev_regs (opcd_dev (run_state (rdr_rc632_14443a_set_speed blank_rat 1 RFID_14443A_SPEED_424K
     blank_opcd))) RC632_REG_MOD_WIDTH = 0x03"
proof -
  have "map_option fst (rdr_rc632_14443a_set_speed blank_rat 1 RFID_14443A_SPEED_424K blank_opcd)
          = Some 0"
    by code_simp
  note run = run_stateI [OF this]
  from set_speed_configures [OF opcd_regs.register_transport_axioms _ _ run] show ?thesis
    by simp
qed

section \<open>Reading a block over a reader\<close>

text \<open>
  Two readers that complete every command at once and whose FIFO always holds sixteen bytes.
\<close>

definition ready_usb :: "bytes usb_ops" where
  "ready_usb =
     \<lparr>usb_bulk_write = (\<lambda>ep out d. (int (length out), take 4 out)),
      usb_bulk_read = (\<lambda>ep n d.
        let reply = (if d ! 0 = OPENPCD_CMD_READ_FIFO then d @ replicate (unat (d ! 3)) 0xab
                     else if d ! 0 = OPENPCD_CMD_READ_REG \<and> d ! 2 = RC632_REG_FIFO_LENGTH
                     then d[3 := 16] else d)
        in (int (length reply), reply, d)),
      usb_find_busses = (\<lambda>d. (0, d)), usb_find_devices = (\<lambda>d. (0, d)),
      usb_get_busses = (\<lambda>d. []), usb_open = (\<lambda>dev d. (True, d)),
      usb_set_configuration = (\<lambda>d. (0, d)), usb_claim_interface = (\<lambda>d. (0, d)),
      usb_close = (\<lambda>d. d)\<rparr>"

definition ready_opcd :: "bytes openpcd_state" where
  "ready_opcd = \<lparr>snd_buf = replicate 270 0, rcv_buf = replicate 270 0, opcd_dev = []\<rparr>"

definition ready_escape :: "unit escape" where
  "ready_escape cmd n w =
     (if length cmd = 7 \<and> cmd ! 6 = RC632_REG_FIFO_DATA then (0, 0 # replicate (unat (cmd ! 4)) 0xab, w)
      else (0, [0, if cmd ! 6 = RC632_REG_FIFO_LENGTH then 16 else 0], w))"

definition ready_opcd_rh :: "bytes openpcd_state rfid_reader_handle" where
  "ready_opcd_rh = \<lparr>rh_reader = rfid_reader_openpcd ready_usb,
     rh_ah = \<lparr>ah_fc = 13560000, ah_mtu = 64, ah_mru = 64\<rparr>\<rparr>"

definition ready_cm5121_rh :: "unit rfid_reader_handle" where
  "ready_cm5121_rh = \<lparr>rh_reader = rfid_reader_cm5121 ready_escape,
     rh_ah = \<lparr>ah_fc = 13560000, ah_mtu = 64, ah_mru = 64\<rparr>\<rparr>"

text \<open>A run whose results but for the final state are known.\<close>

definition run_state4 :: "('a \<times> 'b \<times> 'c \<times> 'w) option \<Rightarrow> 'w" where
  "run_state4 r = (case the r of (_, _, _, w) \<Rightarrow> w)"

lemma run_state4I:
  "map_option (\<lambda>(a, b, c, w). (a, b, c)) r = Some (a, b, c) \<Longrightarrow> r = Some (a, b, c, run_state4 r)"
  by (auto simp: run_state4_def)

text \<open>
  A MIFARE Classic read of a page within a byte over an OpenPCD returns what the card sent, cut to the caller's
  buffer, whose bytes beyond it stay as they were; errors of the transfer and a one-byte refusal of
  the card are reported without touching the buffer.
\<close>

theorem openpcd_mfcl_read:
  assumes "rh_reader rh = rfid_reader_openpcd u"
    and "length rx_buf = 16" "unat rx_len \<le> length rx_data" "page \<le> 0xff"
    and "rfid_layer2_transceive rh l2h RFID_MIFARE_FRAME [0x30, ucast (page AND 0xff)] 2
           rx_buf 16 250 0 w = Some (r, f, n, w')"
  shows "mfcl_read rh rx_buf l2h page rx_data rx_len w =
           Some (if r < 0 then (r, rx_data, rx_len, w')
                 else if n = 1 \<and> f ! 0 = 0x04 then (- EPERM, rx_data, rx_len, w')
                 else let m = min (unat n) (unat rx_len)
                      in (r, take m f @ drop m rx_data, if n < rx_len then n else rx_len, w'))"
  using assms by (intro bounded_reader.mfcl_read_run [OF openpcd.rdr.bounded_reader_axioms]) (simp_all add: rfid_reader_openpcd_def)

theorem openpcd_mfcl_read_witness:
  "\<exists>w'. mfcl_read ready_opcd_rh (replicate 16 0) sample_l2h 4 (replicate 20 1) 20 ready_opcd
           = Some (0, replicate 16 0xab @ replicate 4 1, 16, w')"
proof -
  have "map_option (\<lambda>(a, b, c, w). (a, b, c))
          (rfid_layer2_transceive ready_opcd_rh sample_l2h RFID_MIFARE_FRAME
             [0x30, ucast (4 AND 0xff :: u32)] 2 (replicate 16 0) 16 250 0 ready_opcd)
        = Some (0, replicate 16 0xab, 16)"
    by code_simp
  note run = run_state4I [OF this]
  from openpcd_mfcl_read [OF _ _ _ _ run, of ready_usb 20 "replicate 20 1"] show ?thesis
    by (simp add: ready_opcd_rh_def)
qed

text \<open>
  A MIFARE Ultralight page read over a CardMan 5121 returns what the card sent, cut to the
  caller's buffer, whose bytes beyond it stay as they were; an error of the transfer is reported
  without touching the buffer.
\<close>

theorem cm5121_mful_read:
  assumes "rh_reader rh = rfid_reader_cm5121 esc"
    and "length rx_buf = 16" "unat rx_len \<le> length rx_data" "page \<le> 15"
    and "rfid_layer2_transceive rh l2h RFID_14443A_FRAME_REGULAR [0x30, ucast (page AND 0xff)] 2
           rx_buf 16 100 0 w = Some (r, f, n, w')"
  shows "mful_read rh rx_buf l2h page rx_data rx_len w =
           Some (if r < 0 then (r, rx_data, rx_len, w')
                 else let m = min (unat n) (unat rx_len)
                      in (r, take m f @ drop m rx_data, if n < rx_len then n else rx_len, w'))"
  using assms by (intro bounded_reader.mful_read_run [OF cm5121.rdr.bounded_reader_axioms])
    (simp_all add: rfid_reader_cm5121_def)

theorem cm5121_mful_read_witness:
  "\<exists>w'. mful_read ready_cm5121_rh (replicate 16 0) sample_l2h 4 (replicate 4 1) 4 ()
           = Some (0, replicate 4 0xab, 4, w')"
proof -
  have "map_option (\<lambda>(a, b, c, w). (a, b, c))
          (rfid_layer2_transceive ready_cm5121_rh sample_l2h RFID_14443A_FRAME_REGULAR
             [0x30, ucast (4 AND 0xff :: u32)] 2 (replicate 16 0) 16 100 0 ())
        = Some (0, replicate 16 0xab, 16)"
    by code_simp
  note run = run_state4I [OF this]
  from cm5121_mful_read [OF _ _ _ _ run, of ready_escape 4 "replicate 4 1"] show ?thesis
    by (simp add: ready_cm5121_rh_def)
qed

section \<open>Registers behind an SPI bus\<close>

text \<open>
  C35: over the SPI bus a register write followed by a read of the same register succeeds and gives
  the value back, for every register of the chip and whatever was in the buffers, and no other
  register is touched.\<close>

theorem spidev_reg_roundtrip:
  assumes "r < 0x40" "length (spi_snd_buf s) = 267" "length (spi_rcv_buf s) = 267"
  shows "\<exists>s' s''. rc632_reg_write (spidev_spi (spi_reg_ops other)) r x s = Some (1, s') \<and>
           rc632_reg_read (spidev_spi (spi_reg_ops other)) r old s' = Some (1, Some x, s'') \<and>
           fst (spi_dev s'') = (fst (spi_dev s))(r := x)"
proof -
  obtain a b out where out: "spi_snd_buf s = a # b # out"
    using assms(2) by (cases "spi_snd_buf s" rule: remdups_adj.cases) auto
  obtain c d rcv where rcv: "spi_rcv_buf s = c # d # rcv"
    using assms(3) by (cases "spi_rcv_buf s" rule: remdups_adj.cases) auto
  define s' where "s' = s\<lparr>spi_snd_buf := (push_bit 1 r AND 0x7e) # x # out,
      spi_dev := ((fst (spi_dev s))(r := x), snd (spi_dev s))\<rparr>"
  have "spi_reg_message other [push_bit 1 r AND 0x7e, x] (spi_dev s) = (2, [0, 0], spi_dev s')"
    using spi_addr_write [OF assms(1)] by (simp add: spi_reg_message_def s'_def)
  then have "rc632_reg_write (spidev_spi (spi_reg_ops other)) r x s = Some (1, s')"
    by (simp add: rc632_reg_write_def spidev_spi_def spidev_reg_write_def spidev_write_def
        spi_reg_ops_def out mem_defs s'_def)
  moreover have "spi_reg_message other [push_bit 1 r OR 0x80, 0] (spi_dev s') = (2, [0, x], spi_dev s')"
    using spi_addr_read [OF assms(1)] by (simp add: spi_reg_message_def s'_def)
  then have "\<exists>s''. rc632_reg_read (spidev_spi (spi_reg_ops other)) r old s' = Some (1, Some x, s'') \<and>
      spi_dev s'' = spi_dev s'"
    by (simp add: rc632_reg_read_def spidev_spi_def spidev_reg_read_def spidev_read_def
        spidev_read_reply_def spi_reg_ops_def out rcv mem_defs s'_def)
  ultimately show ?thesis by (auto simp: s'_def)
qed

definition blank_spidev :: "((u8 \<Rightarrow> u8) \<times> unit) spidev_state" where
  "blank_spidev = \<lparr>spi_snd_buf = replicate 267 0, spi_rcv_buf = replicate 267 0, spi_dev = (\<lambda>_. 0, ())\<rparr>"

theorem spidev_reg_roundtrip_witness:
  "\<exists>s' s''. rc632_reg_write (spidev_spi (spi_reg_ops (\<lambda>_ d. (0, [], d)))) RC632_REG_MOD_WIDTH 0x13
              blank_spidev = Some (1, s') \<and>
            rc632_reg_read (spidev_spi (spi_reg_ops (\<lambda>_ d. (0, [], d)))) RC632_REG_MOD_WIDTH None s'
              = Some (1, Some 0x13, s'')"
  using spidev_reg_roundtrip [of RC632_REG_MOD_WIDTH blank_spidev] by (fastforce simp: blank_spidev_def)

section \<open>Sessions\<close>

text \<open>
  C3: whatever sequence of connects, exchanges and deselects a T=CL handle on an OpenPCD has been
  through, and whatever the cards answered: its block number is a bit, its prologue is one byte, and
  reading its ATS stays within the ATS buffer and gives the bytes received, cut to the caller's
  buffer.\<close>

theorem openpcd_tcl_session:
  assumes "rh_reader rh = rfid_reader_openpcd u" "ah_mru (rh_ah rh) \<le> 256" "tcl_reachable rh th"
  shows "t_toggle th \<in> {0, 1} \<and> tcl_prlg_len th = 1 \<and>
         tcl_getopt th RFID_OPT_P_TCL_ATS n =
           Some (0, Some (take (min (unat (t_ats_len th)) (unat n)) (t_ats th)), min (t_ats_len th) n)"
proof -
  have inv: "tcl_inv th"
    using assms unfolding rfid_reader_openpcd_def
    by (rule bounded_reader.reachable_inv [OF openpcd.rdr.bounded_reader_axioms])
  from flags_unused [of "t_flags th"] inv have "tcl_prlg_len th = 1"
    by (simp add: tcl_prlg_len_def tcl_inv_def)
  with inv tcl_inv_getopt [OF inv] show ?thesis by (simp add: tcl_inv_def)
qed

theorem openpcd_tcl_session_witness:
  "\<exists>th. t_state th = TCL_STATE_ESTABLISHED \<and>
     tcl_getopt th RFID_OPT_P_TCL_ATS 16 = Some (0, Some (replicate 4 0), 4)"
proof -
  let ?rh = "\<lparr>rh_reader = rfid_reader_openpcd (opcd_device_usb (\<lambda>_ d. d)), rh_ah = sample_ah\<rparr> ::
      unit opcd_device openpcd_state rfid_reader_handle"
  let ?l2h = "sample_l2h\<lparr>l2_id := 2\<rparr>"
  define th where "th = (the (tcl_connect_b ?l2h fresh_tcl))\<lparr>t_state := TCL_STATE_ESTABLISHED\<rparr>"
  have "tcl_connect ?rh [] ?l2h fresh_tcl blank_opcd = Some (0, ?l2h, th, blank_opcd)"
    by (simp add: th_def tcl_connect_def tcl_connect_b_def fresh_tcl_def tcl_init_def sample_l2h_def
        get_slice_def put_slice_def)
  note step = tcl_step.connect [OF this]
  have "tcl_init (rh_ah ?rh) True = Some fresh_tcl" by (simp add: fresh_tcl_def tcl_init_def)
  then have "tcl_reachable ?rh th"
    using step by (rule tcl_reachable.step [OF tcl_reachable.start])
  have "t_ats_len th = 4" "t_state th = TCL_STATE_ESTABLISHED" "take 4 (t_ats th) = replicate 4 0"
    by (simp_all add: th_def tcl_connect_def tcl_connect_b_def fresh_tcl_def tcl_init_def sample_l2h_def
        get_slice_def put_slice_def)
  with openpcd_tcl_session [OF _ _ \<open>tcl_reachable ?rh th\<close>, of _ 16] show ?thesis
    by (auto simp: sample_ah_def)
qed

section \<open>Authentication\<close>

text \<open>
  C9: authenticating a sector of a MIFARE Classic card through an RC632 reader succeeds only after
  the chip's FIFO got the command, the block and the first four bytes of the card's identifier in
  this order, and with the Crypto1 unit switched on at the end.\<close>

theorem mfcl_auth_frame:
  assumes "rh_reader rh = rc632_reader t" "4 \<le> length (l2_uid l2h)"
    and "mfcl_auth rh l2h cmd block w = Some (0, w')"
  shows "(\<exists>w1 n w2. rc632_fifo_write t 6 ([cmd, block] @ take 4 (l2_uid l2h)) 0x03 w1 = Some (n, w2) \<and> 0 \<le> n) \<and>
         (\<exists>w1 n v. rc632_reg_read t RC632_REG_CONTROL None w1 = Some (n, Some v, w') \<and> 0 \<le> n \<and>
            v AND RC632_CONTROL_CRYPTO1_ON \<noteq> 0)"
proof -
  obtain serno where s: "load_u32 (Some (l2_uid l2h)) = Some serno"
    and run: "rc632_mifare_auth t cmd serno block w = Some (0, w')"
    using assms(1,3) by (auto simp: mfcl_auth_def rc632_reader_def rdr_rc632_mifare_auth_def run_simps)
  have "u32_le_bytes serno = take 4 (l2_uid l2h)"
    using s assms(2) u32_le_roundtrip by (auto simp: load_u32_def get_slice_def take_4_conv)
  then have "mifare_authcmd cmd block serno = [cmd, block] @ take 4 (l2_uid l2h)"
    by (simp add: mifare_authcmd_def)
  with run auth_crypto1 [OF run] show ?thesis
    by (fastforce simp: rc632_mifare_auth_def run_simps not_less split: if_splits)
qed

theorem mfcl_auth_frame_witness:
  "mfcl_auth \<lparr>rh_reader = rc632_reader crypto_transport, rh_ah = sample_ah\<rparr> sample_l2h
     RFID_CMD_MIFARE_AUTH1A 7 () = Some (0, ()) \<and>
   (\<exists>w1 n w2. rc632_fifo_write crypto_transport 6 ([RFID_CMD_MIFARE_AUTH1A, 7] @ replicate 4 0) 0x03 w1 =
      Some (n, w2) \<and> 0 \<le> n)"
proof -
  have "mfcl_auth \<lparr>rh_reader = rc632_reader crypto_transport, rh_ah = sample_ah\<rparr> sample_l2h
     RFID_CMD_MIFARE_AUTH1A 7 () = Some (0, ())"
    by code_simp
  moreover have "4 \<le> length (l2_uid sample_l2h)" "take 4 (l2_uid sample_l2h) = replicate 4 0"
    by (simp_all add: sample_l2h_def)
  ultimately show ?thesis
    using mfcl_auth_frame [where rh = "\<lparr>rh_reader = rc632_reader crypto_transport, rh_ah = sample_ah\<rparr>"
        and t = crypto_transport and l2h = sample_l2h] by fastforce
qed

end
